(* ===== verification/GoPrelude.thy ===== *)
theory GoPrelude
  imports
    Main
    "HOL-Library.Sublist"
    "HOL-Library.Char_ord"
    "HOL-Library.List_Lexorder"
begin

text \<open>
  Shared ground of the development.

  Go strings are modelled as \<open>string\<close>, a list of 8-bit characters, that is the bytes of the
  Go string; \<open>length\<close> is Go's \<open>len\<close>.  The case and white-space functions of package
  \<open>strings\<close> are the ones Go computes on ASCII text: Unicode case folding and the
  non-ASCII white space are outside the model.  Comparison of strings is bytewise
  (\<open>List_Lexorder\<close> over \<open>Char_ord\<close>), which is the order of \<open>sort.Strings\<close>.

  A Go map that the code only reads by key is a partial function, an absent key reading as
  the zero value; a map whose entries the code enumerates is an association list.
  Functions that return an error are sums, the error on the left.

  The collections below carry the component proofs: \<open>go_string\<close> holds the equations on
  strings, \<open>go_result\<close> the elimination facts of the sum type.
\<close>

named_theorems go_string
named_theorems go_result

type_synonym gomap = "string \<rightharpoonup> string"

abbreviation ord :: "char \<Rightarrow> int" where
  "ord c \<equiv> of_char c"

section \<open>Results\<close>

definition bindR :: "'e + 'a \<Rightarrow> ('a \<Rightarrow> 'e + 'b) \<Rightarrow> 'e + 'b" where
  "bindR r f = (case r of Inl e \<Rightarrow> Inl e | Inr x \<Rightarrow> f x)"

lemma bindR_simps [simp, go_result]:
  "bindR (Inl e) f = Inl e"
  "bindR (Inr x) f = f x"
  by (simp_all add: bindR_def)

lemma bindR_eq_Inr [go_result]: "bindR r f = Inr y \<longleftrightarrow> (\<exists>x. r = Inr x \<and> f x = Inr y)"
  by (cases r) auto

lemma bindR_eq_Inl [go_result]:
  "bindR r f = Inl e \<longleftrightarrow> r = Inl e \<or> (\<exists>x. r = Inr x \<and> f x = Inl e)"
  by (cases r) auto

definition isOk :: "'e + 'a \<Rightarrow> bool" where
  "isOk r = (case r of Inl _ \<Rightarrow> False | Inr _ \<Rightarrow> True)"

lemma isOk_simps [simp]: "isOk (Inr x)" "\<not> isOk (Inl e)"
  by (simp_all add: isOk_def)

section \<open>Characters\<close>

definition is_space :: "char \<Rightarrow> bool" where
  "is_space c \<longleftrightarrow> ord c \<in> {9, 10, 11, 12, 13, 32}"

definition is_digit :: "char \<Rightarrow> bool" where
  "is_digit c \<longleftrightarrow> 48 \<le> ord c \<and> ord c \<le> 57"

definition is_lower :: "char \<Rightarrow> bool" where
  "is_lower c \<longleftrightarrow> 97 \<le> ord c \<and> ord c \<le> 122"

definition is_upper :: "char \<Rightarrow> bool" where
  "is_upper c \<longleftrightarrow> 65 \<le> ord c \<and> ord c \<le> 90"

definition lower_char :: "char \<Rightarrow> char" where
  "lower_char c = (if is_upper c then char_of (ord c + 32) else c)"

definition upper_char :: "char \<Rightarrow> char" where
  "upper_char c = (if is_lower c then char_of (ord c - 32) else c)"

lemma ord_char_of_small [simp]: "0 \<le> n \<Longrightarrow> n < 256 \<Longrightarrow> ord (char_of n) = n"
  by (simp add: of_char_of)

lemma ord_range [simp]: "0 \<le> ord c" "ord c < 256"
proof -
  have "ord c mod 256 = ord c"
    by (metis char_of_char of_char_of)
  then show "0 \<le> ord c" "ord c < 256"
    by (metis pos_mod_sign zero_less_numeral, metis pos_mod_bound zero_less_numeral)
qed

lemma ord_eq_iff: "ord a = ord b \<longleftrightarrow> a = b"
  by simp

lemma ord_lower_char: "ord (lower_char c) = (if is_upper c then ord c + 32 else ord c)"
  by (simp add: lower_char_def is_upper_def)

lemma lower_char_not_upper [simp]: "\<not> is_upper (lower_char c)"
  by (simp add: is_upper_def ord_lower_char)

lemma lower_char_idem [simp]: "lower_char (lower_char c) = lower_char c"
  by (simp add: lower_char_def [of "lower_char c"])

lemma is_space_lower_char [simp]: "is_space (lower_char c) = is_space c"
  by (auto simp: is_space_def ord_lower_char is_upper_def)

lemma is_digit_lower_char [simp]: "is_digit (lower_char c) = is_digit c"
  by (auto simp: is_digit_def ord_lower_char is_upper_def)

section \<open>Trimming\<close>

definition trimLeft :: "(char \<Rightarrow> bool) \<Rightarrow> string \<Rightarrow> string" where
  "trimLeft P s = dropWhile P s"

definition trimRight :: "(char \<Rightarrow> bool) \<Rightarrow> string \<Rightarrow> string" where
  "trimRight P s = rev (dropWhile P (rev s))"

definition trimFunc :: "(char \<Rightarrow> bool) \<Rightarrow> string \<Rightarrow> string" where
  "trimFunc P s = trimRight P (trimLeft P s)"

definition TrimSpace :: "string \<Rightarrow> string" where
  "TrimSpace s = trimFunc is_space s"

definition Trim :: "string \<Rightarrow> string \<Rightarrow> string" where
  "Trim s cutset = trimFunc (\<lambda>c. c \<in> set cutset) s"

lemma trimRight_Nil [simp]: "trimRight P [] = []"
  by (simp add: trimRight_def)

lemma set_trimRight: "set (trimRight P s) \<subseteq> set s"
  by (metis set_dropWhileD set_rev subsetI trimRight_def)

lemma set_trimFunc: "set (trimFunc P s) \<subseteq> set s"
  unfolding trimFunc_def trimLeft_def
  by (meson order_trans set_dropWhileD set_trimRight subsetI)

lemma length_trimFunc: "length (trimFunc P s) \<le> length s"
  unfolding trimFunc_def trimLeft_def trimRight_def
  by (metis length_dropWhile_le length_rev order_trans)

lemma trimRight_prefix: "prefix (trimRight P s) s"
  unfolding trimRight_def
  by (metis rev_rev_ident suffix_dropWhile suffix_to_prefix)

lemma trimRight_last: "trimRight P s \<noteq> [] \<Longrightarrow> \<not> P (last (trimRight P s))"
  unfolding trimRight_def by (metis hd_dropWhile last_rev rev.simps(1))

lemma trimLeft_hd: "trimLeft P s \<noteq> [] \<Longrightarrow> \<not> P (hd (trimLeft P s))"
  unfolding trimLeft_def by (rule hd_dropWhile)

lemma trimFunc_last: "trimFunc P s \<noteq> [] \<Longrightarrow> \<not> P (last (trimFunc P s))"
  unfolding trimFunc_def by (rule trimRight_last)

lemma prefix_hd: "prefix xs ys \<Longrightarrow> xs \<noteq> [] \<Longrightarrow> hd xs = hd ys"
  by (auto simp: prefix_def)

lemma trimFunc_hd: "trimFunc P s \<noteq> [] \<Longrightarrow> \<not> P (hd (trimFunc P s))"
  unfolding trimFunc_def
  by (metis prefix_Nil prefix_hd trimLeft_hd trimRight_prefix)

lemma trimFunc_eq_Nil: "trimFunc P s = [] \<longleftrightarrow> (\<forall>c \<in> set s. P c)"
proof
  assume "trimFunc P s = []"
  then have "\<forall>c \<in> set (trimLeft P s). P c"
    by (simp add: trimFunc_def trimRight_def)
  then show "\<forall>c \<in> set s. P c"
    by (metis trimLeft_def hd_dropWhile hd_in_set dropWhile_eq_Nil_conv)
next
  assume "\<forall>c \<in> set s. P c"
  then have "dropWhile P s = []" by simp
  then show "trimFunc P s = []" by (simp only: trimFunc_def trimLeft_def trimRight_Nil)
qed

lemma trimFunc_id:
  assumes "s = [] \<or> (\<not> P (hd s) \<and> \<not> P (last s))"
  shows "trimFunc P s = s"
proof (cases "s = []")
  case False
  with assms have "\<not> P (hd s)" "\<not> P (hd (rev s))" by (auto simp: hd_rev)
  then have "dropWhile P s = s" "dropWhile P (rev s) = rev s"
    using False by (metis dropWhile.simps(2) list.exhaust_sel rev_is_Nil_conv)+
  then show ?thesis by (simp add: trimFunc_def trimLeft_def trimRight_def)
qed (simp add: trimFunc_def trimLeft_def)

lemma trimFunc_idem [simp]: "trimFunc P (trimFunc P s) = trimFunc P s"
  by (rule trimFunc_id) (auto simp: trimFunc_last trimFunc_hd)

lemma TrimSpace_idem [simp]: "TrimSpace (TrimSpace s) = TrimSpace s"
  by (simp add: TrimSpace_def)

lemma TrimSpace_Nil [simp]: "TrimSpace [] = []"
  by (simp add: TrimSpace_def trimFunc_def trimLeft_def)

lemma TrimSpace_eq_Nil: "TrimSpace s = [] \<longleftrightarrow> (\<forall>c \<in> set s. is_space c)"
  by (simp add: TrimSpace_def trimFunc_eq_Nil)

lemma TrimSpace_no_space: "(\<forall>c \<in> set s. \<not> is_space c) \<Longrightarrow> TrimSpace s = s"
  unfolding TrimSpace_def by (rule trimFunc_id) (cases "s = []"; simp)

section \<open>Case, prefixes, splitting and joining\<close>

definition ToLower :: "string \<Rightarrow> string" where
  "ToLower s = map lower_char s"

definition ToUpper :: "string \<Rightarrow> string" where
  "ToUpper s = map upper_char s"

definition EqualFold :: "string \<Rightarrow> string \<Rightarrow> bool" where
  "EqualFold a b \<longleftrightarrow> ToLower a = ToLower b"

definition HasPrefix :: "string \<Rightarrow> string \<Rightarrow> bool" where
  "HasPrefix s p \<longleftrightarrow> take (length p) s = p"

definition HasSuffix :: "string \<Rightarrow> string \<Rightarrow> bool" where
  "HasSuffix s p \<longleftrightarrow> length p \<le> length s \<and> drop (length s - length p) s = p"

definition TrimPrefix :: "string \<Rightarrow> string \<Rightarrow> string" where
  "TrimPrefix s p = (if HasPrefix s p then drop (length p) s else s)"

definition TrimSuffix :: "string \<Rightarrow> string \<Rightarrow> string" where
  "TrimSuffix s p = (if HasSuffix s p then take (length s - length p) s else s)"

fun Contains :: "string \<Rightarrow> string \<Rightarrow> bool" where
  "Contains [] p = (p = [])"
| "Contains (c # s) p = (HasPrefix (c # s) p \<or> Contains s p)"

fun Split :: "string \<Rightarrow> char \<Rightarrow> string list" where
  "Split [] c = [[]]"
| "Split (x # s) c =
    (if x = c then [] # Split s c
     else (case Split s c of [] \<Rightarrow> [[x]] | y # ys \<Rightarrow> (x # y) # ys))"

fun Join :: "string list \<Rightarrow> string \<Rightarrow> string" where
  "Join [] sep = []"
| "Join [x] sep = x"
| "Join (x # y # ys) sep = x @ sep @ Join (y # ys) sep"

definition Strings :: "string list \<Rightarrow> string list" where
  "Strings xs = sort xs"

lemma HasPrefix_prefix [go_string]: "HasPrefix s p \<longleftrightarrow> prefix p s"
  by (auto simp: HasPrefix_def prefix_def) (metis append_take_drop_id)

lemma HasSuffix_suffix [go_string]: "HasSuffix s p \<longleftrightarrow> suffix p s"
  unfolding HasSuffix_def suffix_def
  by (metis append_take_drop_id diff_diff_cancel diff_le_self length_append length_drop
      append_eq_conv_conj le_add2 add_diff_cancel_right')

lemma Contains_sublist [go_string]: "Contains s p \<longleftrightarrow> sublist p s"
  by (induction s) (auto simp: HasPrefix_prefix sublist_Cons_right)

lemma TrimPrefix_append [simp]: "TrimPrefix (p @ s) p = s"
  by (simp add: TrimPrefix_def HasPrefix_def)

lemma TrimSuffix_append [simp]: "TrimSuffix (s @ p) p = s"
  by (simp add: TrimSuffix_def HasSuffix_def)

lemma ToLower_idem [simp]: "ToLower (ToLower s) = ToLower s"
  by (simp add: ToLower_def)

lemma ToLower_Nil [simp]: "ToLower [] = []" "ToLower s = [] \<longleftrightarrow> s = []"
  by (simp_all add: ToLower_def)

lemma ToLower_append: "ToLower (a @ b) = ToLower a @ ToLower b"
  by (simp add: ToLower_def)

lemma dropWhile_ToLower: "dropWhile is_space (map lower_char s) = map lower_char (dropWhile is_space s)"
  by (induction s) simp_all

lemma TrimSpace_ToLower: "TrimSpace (ToLower s) = ToLower (TrimSpace s)"
  unfolding TrimSpace_def ToLower_def trimFunc_def trimLeft_def trimRight_def
  by (simp only: dropWhile_ToLower rev_map)

lemma Split_not_Nil [simp]: "Split s c \<noteq> []"
  by (induction s) (auto split: list.splits)

lemma Join_Cons_not_Nil: "xs \<noteq> [] \<Longrightarrow> Join (x # xs) sep = x @ sep @ Join xs sep"
  by (cases xs) simp_all

lemma Join_Split: "Join (Split s c) [c] = s"
proof (induction s)
  case (Cons x s)
  then show ?case
    by (cases "Split s c"; cases "tl (Split s c)") (auto simp: Join_Cons_not_Nil)
qed simp

lemma Split_no_sep: "p \<in> set (Split s c) \<Longrightarrow> c \<notin> set p"
proof (induction s arbitrary: p)
  case (Cons x s)
  then show ?case by (cases "Split s c") (auto split: if_splits)
qed simp

lemma Split_subset: "p \<in> set (Split s c) \<Longrightarrow> set p \<subseteq> set s"
proof (induction s arbitrary: p)
  case (Cons x s)
  show ?case
  proof
    fix y assume "y \<in> set p"
    with Cons show "y \<in> set (x # s)"
      by (cases "Split s c") (auto split: if_splits, blast)
  qed
qed simp

lemma Split_append_sep: "c \<notin> set x \<Longrightarrow> Split (x @ c # y) c = x # Split y c"
  by (induction x) auto

lemma Split_no_occurrence: "c \<notin> set s \<Longrightarrow> Split s c = [s]"
  by (induction s) auto

lemma Split_Join:
  "xs \<noteq> [] \<Longrightarrow> \<forall>x \<in> set xs. c \<notin> set x \<Longrightarrow> Split (Join xs [c]) c = xs"
proof (induction xs)
  case (Cons x xs)
  then show ?case
    by (cases xs) (simp_all add: Split_no_occurrence Split_append_sep)
qed simp

lemma set_Strings [simp]: "set (Strings xs) = set xs"
  by (simp add: Strings_def)

lemma sorted_Strings: "sorted (Strings xs)"
  by (simp add: Strings_def)

section \<open>Domain names as label lists\<close>

text \<open>
  The allowlists of the program match a host against \<open>*.suffix\<close> by comparing text.  On label
  lists this is the suffix relation, so the text comparison never matches inside a label.
\<close>

lemma Split_dot_suffix:
  "(h = s \<or> suffix (c # s) h) \<longleftrightarrow> suffix (Split s c) (Split h c)"
proof
  assume "h = s \<or> suffix (c # s) h"
  then show "suffix (Split s c) (Split h c)"
  proof
    assume "suffix (c # s) h"
    then obtain a where h: "h = a @ c # s" by (auto simp: suffix_def)
    have "suffix (Split s c) (Split (a @ c # s) c)"
    proof (induction a)
      case Nil
      show ?case by (simp add: suffix_ConsI)
    next
      case (Cons x a)
      obtain y ys where y: "Split (a @ c # s) c = y # ys"
        by (cases "Split (a @ c # s) c") auto
      have "\<exists>w. Split (a @ c # s) c = w @ Split s c \<and> w \<noteq> []"
      proof (induction a)
        case (Cons z a)
        then obtain w where "Split (a @ c # s) c = w @ Split s c" "w \<noteq> []" by blast
        then show ?case by (cases w) auto
      qed (rule exI [of _ "[[]]"], simp)
      then obtain w where w: "Split (a @ c # s) c = w @ Split s c" "w \<noteq> []" by blast
      then have "suffix (Split s c) ys"
        using y by (cases w) (auto simp: suffix_def)
      then show ?case using Cons y by (auto simp: suffix_ConsI)
    qed
    then show ?thesis by (simp add: h)
  qed simp
next
  assume "suffix (Split s c) (Split h c)"
  then obtain w where w: "Split h c = w @ Split s c" by (auto simp: suffix_def)
  have "h = Join (w @ Split s c) [c]" by (metis Join_Split w)
  moreover have "Join (w @ Split s c) [c] = (if w = [] then s else Join w [c] @ c # s)"
  proof (induction w)
    case (Cons x w)
    then show ?case by (cases w) (auto simp: Join_Cons_not_Nil Join_Split)
  qed (simp add: Join_Split)
  ultimately show "h = s \<or> suffix (c # s) h" by (auto simp: suffix_def split: if_splits)
qed

section \<open>Maps\<close>

definition mget :: "gomap option \<Rightarrow> string \<Rightarrow> string" where
  "mget m k = (case m of None \<Rightarrow> [] | Some f \<Rightarrow> (case f k of None \<Rightarrow> [] | Some v \<Rightarrow> v))"

lemma mget_simps [simp]:
  "mget None k = []"
  "mget (Some f) k = (case f k of None \<Rightarrow> [] | Some v \<Rightarrow> v)"
  by (simp_all add: mget_def)

end
