(* ===== verification/ApiTypes.thy ===== *)
theory ApiTypes
  imports GoPrelude
begin

text \<open>
  The custom resources of the operator as the admission webhooks and the controllers read
  them (\<open>kubeop-operator/apis/paas/v1alpha1\<close>): one record per Go struct.  Status
  subresources are kept only where a controller writes them.  The Kubernetes types
  (\<open>ObjectMeta\<close>, the pod types) carry the fields the program reads.  A Go pointer is an
  option; a nil label or annotation map is \<open>None\<close>.  The quota specification of a Project, a
  pair of Kubernetes types no handler reads, is left out.
\<close>

section \<open>Kubernetes types\<close>

record ObjectMeta =
  Name :: string
  Namespace :: string
  Labels :: "gomap option"
  Annotations :: "gomap option"

abbreviation lbl :: "ObjectMeta \<Rightarrow> string \<Rightarrow> string" where
  "lbl m k \<equiv> mget (Labels m) k"

record Capabilities =
  CapAdd :: "string list"
  CapDrop :: "string list"

record SecurityContext =
  Privileged :: "bool option"
  SC_Capabilities :: "Capabilities option"
  SC_RunAsNonRoot :: "bool option"
  SC_RunAsUser :: "int option"

record PodSecurityContext =
  Pod_RunAsNonRoot :: "bool option"
  Pod_RunAsUser :: "int option"

record Container =
  ContainerName :: string
  ContainerImage :: string
  ContainerSC :: "SecurityContext option"

record Volume =
  VolumeName :: string
  HostPath :: "string option"

record PodSpec =
  HostNetwork :: bool
  HostPID :: bool
  HostIPC :: bool
  Volumes :: "Volume list"
  InitContainers :: "Container list"
  Containers :: "Container list"
  PodSC :: "PodSecurityContext option"

section \<open>Custom resources\<close>

record AppSource =
  SourceURL :: string
  SourceChart :: string
  SourceRef :: string

record AppServiceProfile =
  ProfileType :: string
  ProfilePorts :: "int list"
  ProfileInternal :: bool
  ProfileExternalIPs :: "string list"

record AppHealthCheck =
  CheckType :: string
  CheckEndpoint :: string

record AppRolloutSpec =
  Strategy :: string
  MaxUnavailable :: "int option"
  HealthChecks :: "AppHealthCheck list"

record AppSpec =
  AppType :: string
  Source :: "AppSource option"
  AppVersion :: string
  VersionRange :: string
  Image :: string
  ValuesRefs :: "string list"
  SecretsRefs :: "string list"
  Replicas :: "int option"
  Rollout :: "AppRolloutSpec option"
  ServiceProfile :: "AppServiceProfile option"
  IngressRefs :: "string list"
  Hosts :: "string list"

record App =
  AppMeta :: ObjectMeta
  AppSpecOf :: AppSpec

record ProjectSpec =
  TenantRef :: string
  Purpose :: string
  Environment :: string
  NamespaceName :: string
  PSAPreset :: string
  NetworkPolicyProfileRef :: string

record Project =
  ProjectMeta :: ObjectMeta
  ProjectSpecOf :: ProjectSpec

record AppReleaseSpec =
  AppRef :: string
  ReleaseVersion :: string
  ResolvedSource :: string
  Digest :: string
  RenderedConfigHash :: string

record AppRelease =
  ReleaseMeta :: ObjectMeta
  ReleaseSpec :: AppReleaseSpec

record ServiceBindingSpec =
  ConsumerType :: string
  ConsumerName :: string
  ProviderType :: string
  ProviderName :: string
  InjectAs :: string

record ServiceBinding =
  BindingMeta :: ObjectMeta
  BindingSpec :: ServiceBindingSpec

record ServiceExposurePolicy =
  AllowedTypes :: "string list"
  AllowedExternalIPs :: "string list"

record NetworkPolicyEgressRule =
  EgressCIDR :: string
  EgressPorts :: "int list"

record NetworkPolicyProfile =
  ProfileMeta :: ObjectMeta
  Presets :: "string list"
  EgressRules :: "NetworkPolicyEgressRule list"
  ServicePolicy :: "ServiceExposurePolicy option"

record BucketLifecycleRule =
  RuleID :: string
  RulePrefix :: string
  ExpireDays :: int

text \<open>A bucket and a job hold the fields of their specification next to the metadata.\<close>

record Bucket =
  BucketMeta :: ObjectMeta
  BucketProvider :: string
  Versioning :: bool
  Lifecycle :: "BucketLifecycleRule list"
  PolicyRefs :: "string list"

record Job =
  JobMeta :: ObjectMeta
  JobPodSpec :: PodSpec
  BackoffLimit :: "int option"
  TTLSecondsAfterFinished :: "int option"
  Schedule :: string

text \<open>Resources the webhooks read by their metadata only.\<close>

datatype PlainKind =
    ConfigRef | SecretRef | IngressRoute | CacheInstance | DatabaseInstance | QueueInstance
  | BucketPolicy | ServiceAccount

text \<open>
  The \<open>runtime.Object\<close> a webhook receives.  \<open>ObjOpaque\<close> is an object with no metadata
  accessor.
\<close>

datatype runtime_object =
    ObjApp App
  | ObjProject Project
  | ObjAppRelease AppRelease
  | ObjServiceBinding ServiceBinding
  | ObjBucket Bucket
  | ObjJob Job
  | ObjPlain PlainKind ObjectMeta
  | ObjOpaque

fun Accessor :: "runtime_object \<Rightarrow> ObjectMeta option" where
  "Accessor (ObjApp a) = Some (AppMeta a)"
| "Accessor (ObjProject p) = Some (ProjectMeta p)"
| "Accessor (ObjAppRelease r) = Some (ReleaseMeta r)"
| "Accessor (ObjServiceBinding b) = Some (BindingMeta b)"
| "Accessor (ObjBucket b) = Some (BucketMeta b)"
| "Accessor (ObjJob j) = Some (JobMeta j)"
| "Accessor (ObjPlain k m) = Some m"
| "Accessor ObjOpaque = None"

section \<open>Validation errors and the API reader\<close>

text \<open>
  The errors of \<open>k8s.io/apimachinery/pkg/util/validation/field\<close>, without their messages: the
  class, the path, and for \<open>Invalid\<close> the rejected value.
\<close>

datatype path_elem = Child string | Key string | Index nat

type_synonym field_path = "path_elem list"

datatype field_error =
    Required field_path
  | Invalid field_path string
  | Forbidden field_path
  | InternalError field_path

text \<open>
  The three outcomes of a \<open>client.Get\<close> the program distinguishes, and the reads the webhooks
  make.  The reader is a parameter of the validators.
\<close>

datatype 'a lookup = Found 'a | NotFound | LookupErr

type_synonym key = "string \<times> string"

record reader =
  getPlain :: "PlainKind \<Rightarrow> key \<Rightarrow> ObjectMeta lookup"
  getApp :: "key \<Rightarrow> App lookup"
  getProject :: "key \<Rightarrow> Project lookup"
  getNetworkPolicyProfile :: "string \<Rightarrow> NetworkPolicyProfile lookup"
  getConfigMap :: "key \<Rightarrow> gomap lookup"

end
