(* ===== verification/HostRules.thy ===== *)
theory HostRules
  imports GoPrelude
begin

text \<open>
  The host allowlists of the program share one rule format: \<open>*.suffix\<close> matches the domain
  \<open>suffix\<close> and everything below it, any other rule matches itself.  The locale states the
  format for a rule matcher and derives that a match never crosses a label boundary.  It is
  interpreted for the registry policy of the operator and for the host allowlist of the
  control plane.
\<close>

definition domainLabels :: "string \<Rightarrow> string list" where
  "domainLabels h = Split h (CHR ''.'')"

lemma wildcard_text:
  "(h = s \<or> HasSuffix h (CHR ''.'' # s)) = suffix (domainLabels s) (domainLabels h)"
  using Split_dot_suffix [of h s "CHR ''.''"] by (simp add: HasSuffix_suffix domainLabels_def)

lemma wildcard_prefix [simp]:
  "HasPrefix (CHR ''*'' # CHR ''.'' # s) ''*.''" "TrimPrefix (CHR ''*'' # CHR ''.'' # s) ''*.'' = s"
  by (simp_all add: HasPrefix_def TrimPrefix_def)

lemma HasPrefix_append [simp]: "HasPrefix (p @ s) p"
  by (simp add: HasPrefix_def)

lemma HasPrefix_obtain: "HasPrefix r p \<Longrightarrow> \<exists>s. r = p @ s"
  by (simp add: HasPrefix_prefix prefix_def)

locale host_rules =
  fixes norm_rule :: "string \<Rightarrow> string"
    and matches :: "string \<Rightarrow> string \<Rightarrow> bool"
  assumes wildcard: "\<And>r s h. norm_rule r = ''*.'' @ s \<Longrightarrow> matches r h = suffix (domainLabels s) (domainLabels h)"
    and exact: "\<And>r h. \<not> HasPrefix (norm_rule r) ''*.'' \<Longrightarrow> norm_rule r \<noteq> ''*'' \<Longrightarrow>
      matches r h = (norm_rule r \<noteq> [] \<and> h = norm_rule r)"
begin

lemma match_cases:
  assumes "matches r h" "norm_rule r \<noteq> ''*''"
  shows "h = norm_rule r \<or> (\<exists>s. norm_rule r = ''*.'' @ s \<and> suffix (domainLabels s) (domainLabels h))"
proof (cases "HasPrefix (norm_rule r) ''*.''")
  case True
  then obtain s where "norm_rule r = ''*.'' @ s" using HasPrefix_obtain by blast
  then show ?thesis using assms wildcard by blast
qed (use assms exact in blast)

lemma allowlist_cases:
  assumes "list_ex (\<lambda>r. matches r h) rules" "\<forall>r \<in> set rules. norm_rule r \<noteq> ''*''"
  shows "\<exists>r \<in> set rules. h = norm_rule r
    \<or> (\<exists>s. norm_rule r = ''*.'' @ s \<and> suffix (domainLabels s) (domainLabels h))"
  using assms match_cases unfolding list_ex_iff by blast

lemma match_deeper:
  assumes "norm_rule r = ''*.'' @ s" "matches r h"
  shows "matches r (l @ ''.'' @ h)"
proof -
  have "suffix (domainLabels h) (domainLabels (l @ ''.'' @ h))"
    using Split_dot_suffix [of "l @ ''.'' @ h" h "CHR ''.''"] by (simp add: domainLabels_def suffix_def)
  then show ?thesis using assms wildcard suffix_order.trans by blast
qed

end

end
