(* ===== verification/RegistryPolicy.thy ===== *)
theory RegistryPolicy
  imports HostRules
begin

text \<open>
  The registry policy of the operator (\<open>kubeop-operator/internal/policy/registry.go\<close>): the
  parsing of the \<open>registry-policy\<close> ConfigMap, the normalisation of its allowlists, and the
  two decisions, \<open>AllowsRegistry\<close> and \<open>AllowsRepository\<close>.  A policy pointer is an option,
  \<open>None\<close> being the nil policy.
\<close>

section \<open>The policy and its allowlists\<close>

record RegistryPolicy =
  AllowedRegistries :: "string list"
  AllowedRepositories :: "string list"
  RequireCosign :: bool

definition normaliseList :: "string list \<Rightarrow> string list" where
  "normaliseList values =
    (if length values = 0 then values
     else Strings (filter (\<lambda>v. v \<noteq> []) (map (\<lambda>v. ToLower (TrimSpace v)) values)))"

definition parseList :: "string \<Rightarrow> string list" where
  "parseList raw =
    concat (map (\<lambda>line. filter (\<lambda>v. v \<noteq> []) (map TrimSpace (Split line (CHR '',''))))
                (Split raw (CHR 0x0A)))"

definition normalise :: "RegistryPolicy \<Rightarrow> RegistryPolicy" where
  "normalise p = p\<lparr> AllowedRegistries := normaliseList (AllowedRegistries p),
                    AllowedRepositories := normaliseList (AllowedRepositories p) \<rparr>"

definition IsEmpty :: "RegistryPolicy option \<Rightarrow> bool" where
  "IsEmpty po =
    (case po of None \<Rightarrow> True
     | Some p \<Rightarrow> length (AllowedRegistries p) = 0 \<and> length (AllowedRepositories p) = 0)"

definition parseCosign :: "string \<Rightarrow> bool option" where
  "parseCosign raw =
    (let v = TrimSpace (ToLower raw) in
     if v \<in> {''true'', ''1'', ''yes'', ''y''} then Some True
     else if v \<in> {''false'', ''0'', ''no'', ''n'', []} then Some False
     else None)"

text \<open>
  \<open>ParseConfigMap\<close> takes the \<open>Data\<close> of the ConfigMap (\<open>None\<close> for a nil ConfigMap) and fails
  with the offending value of \<open>requireCosign\<close>.
\<close>

definition ParseConfigMap :: "gomap option \<Rightarrow> string + RegistryPolicy option" where
  "ParseConfigMap cm =
    (case cm of
       None \<Rightarrow> Inr None
     | Some data \<Rightarrow>
         let regs = (case data ''allowedRegistries'' of None \<Rightarrow> [] | Some raw \<Rightarrow> parseList raw);
             repos = (case data ''allowedRepositories'' of None \<Rightarrow> [] | Some raw \<Rightarrow> parseList raw)
         in case (case data ''requireCosign'' of None \<Rightarrow> Inr False
                  | Some raw \<Rightarrow> (case parseCosign raw of None \<Rightarrow> Inl raw | Some b \<Rightarrow> Inr b)) of
              Inl raw \<Rightarrow> Inl raw
            | Inr cosign \<Rightarrow>
                let p = \<lparr> AllowedRegistries = regs, AllowedRepositories = repos, RequireCosign = cosign \<rparr>
                in if IsEmpty (Some p) \<and> \<not> RequireCosign p then Inr None
                   else Inr (Some (normalise p)))"

section \<open>Decisions\<close>

definition matchesHostPattern :: "string \<Rightarrow> string \<Rightarrow> bool" where
  "matchesHostPattern pattern host =
    (let pattern = ToLower pattern in
     if pattern = [] then False
     else if HasPrefix pattern ''*.'' then
       (let sfx = TrimPrefix pattern ''*.'' in host = sfx \<or> HasSuffix host (''.'' @ sfx))
     else host = pattern)"

definition matchesRepoPattern :: "string \<Rightarrow> string \<Rightarrow> bool" where
  "matchesRepoPattern pattern repo =
    (let pattern = ToLower pattern in
     if pattern = [] then False
     else if HasSuffix pattern ''*'' then HasPrefix repo (TrimSuffix pattern ''*'')
     else repo = pattern)"

definition AllowsRegistry :: "RegistryPolicy option \<Rightarrow> string \<Rightarrow> bool" where
  "AllowsRegistry po host =
    (case po of None \<Rightarrow> True
     | Some p \<Rightarrow>
         if length (AllowedRegistries p) = 0 then True
         else let host = ToLower (TrimSpace host) in
              if host = [] then False
              else list_ex (\<lambda>allowed. matchesHostPattern allowed host) (AllowedRegistries p))"

definition AllowsRepository :: "RegistryPolicy option \<Rightarrow> string \<Rightarrow> bool" where
  "AllowsRepository po repository =
    (case po of None \<Rightarrow> True
     | Some p \<Rightarrow>
         if length (AllowedRepositories p) = 0 then True
         else let repository = ToLower (TrimSpace repository) in
              if repository = [] then False
              else list_ex (\<lambda>allowed. matchesRepoPattern allowed repository) (AllowedRepositories p))"

section \<open>Parsing and normalisation\<close>

definition trimmedEntry :: "string \<Rightarrow> bool" where
  "trimmedEntry e \<longleftrightarrow> e \<noteq> [] \<and> TrimSpace e = e"

definition normalEntry :: "string \<Rightarrow> bool" where
  "normalEntry e \<longleftrightarrow> trimmedEntry e \<and> ToLower e = e"

lemma parseList_trimmed: "e \<in> set (parseList raw) \<Longrightarrow> trimmedEntry e"
  by (auto simp: parseList_def trimmedEntry_def)

lemma normaliseList_normal:
  "xs \<noteq> [] \<Longrightarrow> e \<in> set (normaliseList xs) \<Longrightarrow> normalEntry e"
  by (auto simp: normaliseList_def normalEntry_def trimmedEntry_def TrimSpace_ToLower)

lemma normaliseList_Nil [simp]: "normaliseList [] = []"
  by (simp add: normaliseList_def)

lemma normaliseList_sorted: "xs \<noteq> [] \<Longrightarrow> sorted (normaliseList xs)"
  by (simp add: normaliseList_def sorted_Strings)

lemma set_normaliseList_trimmed:
  "\<forall>e \<in> set xs. trimmedEntry e \<Longrightarrow> set (normaliseList xs) = ToLower ` set xs"
  by (auto simp: normaliseList_def trimmedEntry_def)

lemma normaliseList_eq_Nil_trimmed:
  "\<forall>e \<in> set xs. trimmedEntry e \<Longrightarrow> normaliseList xs = [] \<longleftrightarrow> xs = []"
  using set_normaliseList_trimmed by (metis image_is_empty set_empty)

lemma normaliseList_idem: "normaliseList (normaliseList xs) = normaliseList xs"
proof (cases "xs = []")
  case False
  have n: "\<forall>e \<in> set (normaliseList xs). e \<noteq> [] \<and> ToLower (TrimSpace e) = e"
    using normaliseList_normal [OF False] by (auto simp: normalEntry_def trimmedEntry_def)
  have "map (\<lambda>v. ToLower (TrimSpace v)) (normaliseList xs) = normaliseList xs"
    using n by (simp add: map_idI)
  moreover have "filter (\<lambda>v. v \<noteq> []) (normaliseList xs) = normaliseList xs"
    using n by (simp add: filter_id_conv)
  moreover have "Strings (normaliseList xs) = normaliseList xs"
    using normaliseList_sorted [OF False] by (simp add: Strings_def sorted_sort_id)
  ultimately show ?thesis
    by (simp add: normaliseList_def [of "normaliseList xs"])
qed simp

lemma matchesHostPattern_ToLower [simp]:
  "matchesHostPattern (ToLower p) h = matchesHostPattern p h"
  by (simp add: matchesHostPattern_def)

lemma matchesRepoPattern_ToLower [simp]:
  "matchesRepoPattern (ToLower p) h = matchesRepoPattern p h"
  by (simp add: matchesRepoPattern_def)

lemma list_ex_normalise:
  assumes "\<forall>e \<in> set xs. trimmedEntry e" and "\<And>e. P (ToLower e) = P e"
  shows "list_ex P (normaliseList xs) = list_ex P xs"
  using set_normaliseList_trimmed [OF assms(1)] assms(2) by (auto simp: list_ex_iff)

section \<open>Domain matching\<close>

interpretation registry_rules: host_rules ToLower matchesHostPattern
  by unfold_locales (auto simp: matchesHostPattern_def Let_def wildcard_text)

section \<open>Properties\<close>

definition rawPolicy :: "gomap \<Rightarrow> bool \<Rightarrow> RegistryPolicy" where
  "rawPolicy data cosign =
    \<lparr> AllowedRegistries = (case data ''allowedRegistries'' of None \<Rightarrow> [] | Some raw \<Rightarrow> parseList raw),
      AllowedRepositories = (case data ''allowedRepositories'' of None \<Rightarrow> [] | Some raw \<Rightarrow> parseList raw),
      RequireCosign = cosign \<rparr>"

lemma ParseConfigMap_cases:
  assumes "ParseConfigMap (Some data) = Inr po"
  obtains cosign where
    "(data ''requireCosign'' = None \<and> \<not> cosign) \<or> (\<exists>raw. data ''requireCosign'' = Some raw \<and> parseCosign raw = Some cosign)"
    "po = (if IsEmpty (Some (rawPolicy data cosign)) \<and> \<not> cosign then None else Some (normalise (rawPolicy data cosign)))"
proof (cases "data ''requireCosign''")
  case None
  then show ?thesis
    using assms that [of False] unfolding ParseConfigMap_def rawPolicy_def Let_def
    by (simp split: if_splits)
next
  case (Some raw)
  then show ?thesis
    using assms that unfolding ParseConfigMap_def rawPolicy_def Let_def
    by (cases "parseCosign raw") (simp_all split: if_splits)
qed

lemma rawPolicy_trimmed:
  "e \<in> set (AllowedRegistries (rawPolicy data c)) \<union> set (AllowedRepositories (rawPolicy data c)) \<Longrightarrow> trimmedEntry e"
  by (auto simp: rawPolicy_def parseList_trimmed split: option.splits)

lemma normalise_decides:
  assumes "\<forall>e \<in> set (AllowedRegistries p) \<union> set (AllowedRepositories p). trimmedEntry e"
  shows "AllowsRegistry (Some (normalise p)) h = AllowsRegistry (Some p) h"
    and "AllowsRepository (Some (normalise p)) r = AllowsRepository (Some p) r"
proof -
  have t: "\<forall>e \<in> set (AllowedRegistries p). trimmedEntry e" "\<forall>e \<in> set (AllowedRepositories p). trimmedEntry e"
    using assms by auto
  show "AllowsRegistry (Some (normalise p)) h = AllowsRegistry (Some p) h"
    using list_ex_normalise [OF t(1), of "\<lambda>e. matchesHostPattern e (ToLower (TrimSpace h))"]
      normaliseList_eq_Nil_trimmed [OF t(1)]
    by (simp add: AllowsRegistry_def normalise_def Let_def)
  show "AllowsRepository (Some (normalise p)) r = AllowsRepository (Some p) r"
    using list_ex_normalise [OF t(2), of "\<lambda>e. matchesRepoPattern e (ToLower (TrimSpace r))"]
      normaliseList_eq_Nil_trimmed [OF t(2)]
    by (simp add: AllowsRepository_def normalise_def Let_def)
qed

text \<open>
  (C18) A parsed registry policy is in normal form and decides as written: both allowlists
  are sorted and hold only trimmed, non-empty, lower-case entries, and every registry and
  repository gets the verdict the lists of the ConfigMap give it before normalisation.
\<close>

theorem parsed_policy_normal_and_faithful:
  assumes "ParseConfigMap (Some data) = Inr (Some p)"
  shows "sorted (AllowedRegistries p) \<and> sorted (AllowedRepositories p)
    \<and> list_all normalEntry (AllowedRegistries p @ AllowedRepositories p)
    \<and> AllowsRegistry (Some p) h = AllowsRegistry (Some (rawPolicy data (RequireCosign p))) h
    \<and> AllowsRepository (Some p) r = AllowsRepository (Some (rawPolicy data (RequireCosign p))) r"
proof -
  obtain cosign where p: "p = normalise (rawPolicy data cosign)"
    using ParseConfigMap_cases [OF assms] by (metis option.distinct(1) option.inject)
  then have c: "RequireCosign p = cosign" by (simp add: normalise_def rawPolicy_def)
  have n: "sorted (normaliseList xs)" "list_all normalEntry (normaliseList xs)" for xs
    using normaliseList_sorted [of xs] normaliseList_normal [of xs]
    by (cases "xs = []"; simp add: list_all_iff)+
  show ?thesis
    using normalise_decides [of "rawPolicy data cosign"] rawPolicy_trimmed [of _ data cosign] n
    by (simp add: p c [unfolded p]) (simp add: normalise_def)
qed

theorem parsed_policy_normal_and_faithful_witness:
  "AllowsRegistry (Some \<lparr> AllowedRegistries = [''*.acme.io'', ''ghcr.io''], AllowedRepositories = [], RequireCosign = True \<rparr>)
     '' GHCR.io ''
   = AllowsRegistry (Some (rawPolicy [''allowedRegistries'' \<mapsto> ''GHCR.io , *.Acme.io'', ''requireCosign'' \<mapsto> ''Yes''] True)) '' GHCR.io ''"
proof -
  have "ParseConfigMap (Some [''allowedRegistries'' \<mapsto> ''GHCR.io , *.Acme.io'', ''requireCosign'' \<mapsto> ''Yes''])
      = Inr (Some \<lparr> AllowedRegistries = [''*.acme.io'', ''ghcr.io''], AllowedRepositories = [], RequireCosign = True \<rparr>)"
    by code_simp
  from parsed_policy_normal_and_faithful [OF this] show ?thesis by simp
qed

text \<open>
  A registry is allowed only by name or below an allowed domain: when the allowlist
  is not empty, an allowed host is, in lower case and without surrounding space, one of its
  entries, or its labels end with all the labels of the suffix of a wildcard entry, so that
  \<open>*.acme.io\<close> never allows a host such as \<open>evilacme.io\<close>.
\<close>

theorem allowed_registry_by_labels:
  assumes "AllowsRegistry (Some p) host" and "AllowedRegistries p \<noteq> []"
  shows "\<exists>rule \<in> set (AllowedRegistries p). ToLower (TrimSpace host) = ToLower rule
    \<or> (\<exists>s. ToLower rule = ''*.'' @ s \<and> suffix (domainLabels s) (domainLabels (ToLower (TrimSpace host))))"
proof -
  obtain rule where rule: "rule \<in> set (AllowedRegistries p)"
      "matchesHostPattern rule (ToLower (TrimSpace host))"
    using assms by (auto simp: AllowsRegistry_def Let_def list_ex_iff split: if_splits)
  then show ?thesis
  proof (cases "ToLower rule = ''*''")
    case True
    then have "ToLower (TrimSpace host) = ToLower rule"
      using rule(2) by (simp add: matchesHostPattern_def HasPrefix_def)
    then show ?thesis using rule(1) by blast
  qed (use rule registry_rules.match_cases in blast)
qed

theorem allowed_registry_by_labels_witness:
  "AllowsRegistry (Some \<lparr> AllowedRegistries = [''*.acme.io''], AllowedRepositories = [], RequireCosign = False \<rparr>) ''ghcr.Acme.io''
   \<and> suffix (domainLabels ''acme.io'') (domainLabels ''ghcr.acme.io'')
   \<and> \<not> AllowsRegistry (Some \<lparr> AllowedRegistries = [''*.acme.io''], AllowedRepositories = [], RequireCosign = False \<rparr>) ''evilacme.io''"
proof -
  let ?p = "\<lparr> AllowedRegistries = [''*.acme.io''], AllowedRepositories = [], RequireCosign = False \<rparr>"
  have ok: "AllowsRegistry (Some ?p) ''ghcr.Acme.io''" by code_simp
  have "ToLower (TrimSpace ''ghcr.Acme.io'') = ''ghcr.acme.io''" "ToLower ''*.acme.io'' = ''*.acme.io''"
    by code_simp+
  then have "suffix (domainLabels ''acme.io'') (domainLabels ''ghcr.acme.io'')"
    using allowed_registry_by_labels [OF ok] by auto
  moreover have "\<not> AllowsRegistry (Some ?p) ''evilacme.io''" by code_simp
  ultimately show ?thesis using ok by blast
qed

end
