(* ===== verification/GoNet.thy ===== *)
theory GoNet
  imports GoPrelude "HOL-Library.Word"
begin

text \<open>
  The parts of Go's standard library the network and path code of the program rests on:
  \<open>net/url\<close> (\<open>Parse\<close>, \<open>PathUnescape\<close>, \<open>Hostname\<close>, \<open>Port\<close>, \<open>Query().Encode()\<close>),
  \<open>path.Clean\<close>, which is \<open>filepath.Clean\<close> on Unix, \<open>net.SplitHostPort\<close>,
  \<open>net.JoinHostPort\<close>, \<open>net.ParseIP\<close> and the addresses and prefixes of \<open>net/netip\<close>.
  An error of a library function carries no information the program inspects, so those
  functions return an option.
\<close>

section \<open>Cutting strings\<close>

definition Cut :: "string \<Rightarrow> char \<Rightarrow> string \<times> string" where
  "Cut s c = (takeWhile (\<lambda>x. x \<noteq> c) s, drop 1 (dropWhile (\<lambda>x. x \<noteq> c) s))"

text \<open>The text before and after the last occurrence of a character, if there is one.\<close>

definition CutLast :: "string \<Rightarrow> char \<Rightarrow> (string \<times> string) option" where
  "CutLast s c =
    (if c \<in> set s
     then Some (rev (drop 1 (dropWhile (\<lambda>x. x \<noteq> c) (rev s))), rev (takeWhile (\<lambda>x. x \<noteq> c) (rev s)))
     else None)"

text \<open>The text before and from the first occurrence of a string, if there is one.\<close>

fun cutAt :: "string \<Rightarrow> string \<Rightarrow> (string \<times> string) option" where
  "cutAt p [] = (if p = [] then Some ([], []) else None)"
| "cutAt p (c # s) =
    (if HasPrefix (c # s) p then Some ([], c # s)
     else map_option (\<lambda>(a, b). (c # a, b)) (cutAt p s))"

lemma takeWhile_neq_append: "c \<notin> set a \<Longrightarrow> takeWhile (\<lambda>x. x \<noteq> c) (a @ c # b) = a"
  by (induction a) auto

lemma dropWhile_neq_append: "c \<notin> set a \<Longrightarrow> dropWhile (\<lambda>x. x \<noteq> c) (a @ c # b) = c # b"
  by (induction a) auto

lemma Cut_append: "c \<notin> set a \<Longrightarrow> Cut (a @ c # b) c = (a, b)"
  by (simp add: Cut_def takeWhile_neq_append dropWhile_neq_append)

lemma Cut_absent: "c \<notin> set a \<Longrightarrow> Cut a c = (a, [])"
  unfolding Cut_def
  by (metis (mono_tags, lifting) drop_Nil dropWhile_eq_Nil_conv takeWhile_eq_all_conv)

lemma CutLast_append: "c \<notin> set b \<Longrightarrow> CutLast (a @ c # b) c = Some (a, b)"
  by (simp add: CutLast_def takeWhile_neq_append dropWhile_neq_append)

section \<open>Escaping in URLs\<close>

datatype encoding =
    EncPath | EncPathSegment | EncHost | EncZone | EncUserPassword | EncQuery | EncFragment

definition ishex :: "char \<Rightarrow> bool" where
  "ishex c \<longleftrightarrow> is_digit c \<or> (97 \<le> ord c \<and> ord c \<le> 102) \<or> (65 \<le> ord c \<and> ord c \<le> 70)"

definition unhex :: "char \<Rightarrow> int" where
  "unhex c = (if is_digit c then ord c - 48
    else if 97 \<le> ord c then ord c - 87 else ord c - 55)"

definition shouldEscape :: "char \<Rightarrow> encoding \<Rightarrow> bool" where
  "shouldEscape c m =
    (if is_lower c \<or> is_upper c \<or> is_digit c then False
     else if (m = EncHost \<or> m = EncZone) \<and> (c \<in> set ''!$&()*+,;=:[]<>'' \<or> ord c = 34 \<or> ord c = 39)
     then False
     else if c \<in> set ''-_.~'' then False
     else if c \<in> set ''$&+,/:;=?@'' then
       (case m of
          EncPath \<Rightarrow> c = CHR ''?''
        | EncPathSegment \<Rightarrow> c \<in> set ''/;,?''
        | EncUserPassword \<Rightarrow> c \<in> set ''@/?:''
        | EncQuery \<Rightarrow> True
        | EncFragment \<Rightarrow> False
        | _ \<Rightarrow> True)
     else if m = EncFragment \<and> c \<in> set ''!()*'' then False
     else True)"

definition escOk :: "encoding \<Rightarrow> char \<Rightarrow> char \<Rightarrow> bool" where
  "escOk m a b =
    (let v = char_of (16 * unhex a + unhex b) in
     case m of
       EncHost \<Rightarrow> 8 \<le> unhex a \<or> (a = CHR ''2'' \<and> b = CHR ''5'')
     | EncZone \<Rightarrow> (a = CHR ''2'' \<and> b = CHR ''5'') \<or> v = CHR '' '' \<or> \<not> shouldEscape v EncHost
     | _ \<Rightarrow> True)"

fun unescape :: "encoding \<Rightarrow> string \<Rightarrow> string option" where
  "unescape m [] = Some []"
| "unescape m (c # s) =
    (if c = CHR ''%'' then
       (case s of
          a # b # t \<Rightarrow>
            if ishex a \<and> ishex b \<and> escOk m a b
            then map_option ((#) (char_of (16 * unhex a + unhex b))) (unescape m t)
            else None
        | _ \<Rightarrow> None)
     else if c = CHR ''+'' \<and> m = EncQuery then map_option ((#) (CHR '' '')) (unescape m s)
     else if (m = EncHost \<or> m = EncZone) \<and> ord c < 128 \<and> shouldEscape c m then None
     else map_option ((#) c) (unescape m s))"

definition upperhex :: "int \<Rightarrow> char" where
  "upperhex n = ''0123456789ABCDEF'' ! nat n"

definition escape_char :: "encoding \<Rightarrow> char \<Rightarrow> string" where
  "escape_char m c =
    (if \<not> shouldEscape c m then [c]
     else if c = CHR '' '' \<and> m = EncQuery then ''+''
     else [CHR ''%'', upperhex (ord c div 16), upperhex (ord c mod 16)])"

definition escape :: "string \<Rightarrow> encoding \<Rightarrow> string" where
  "escape s m = concat (map (escape_char m) s)"

definition PathUnescape :: "string \<Rightarrow> string option" where
  "PathUnescape s = unescape EncPathSegment s"

section \<open>URLs\<close>

record URL =
  Scheme :: string
  Opaque :: string
  User :: "(string \<times> string option) option"
  Host :: string
  Path :: string
  RawPath :: string
  RawQuery :: string
  Fragment :: string

definition emptyURL :: URL where
  "emptyURL = \<lparr> Scheme = [], Opaque = [], User = None, Host = [], Path = [], RawPath = [],
    RawQuery = [], Fragment = [] \<rparr>"

definition schemeChar :: "char \<Rightarrow> bool" where
  "schemeChar c \<longleftrightarrow> is_lower c \<or> is_upper c \<or> is_digit c \<or> c \<in> set ''+-.''"

definition getScheme :: "string \<Rightarrow> (string \<times> string) option" where
  "getScheme raw =
    (case dropWhile schemeChar raw of
       [] \<Rightarrow> Some ([], raw)
     | c # rest \<Rightarrow>
         if raw \<noteq> [] \<and> schemeChar (hd raw) \<and> \<not> (is_lower (hd raw) \<or> is_upper (hd raw)) then Some ([], raw)
         else if c = CHR '':'' then
           (if takeWhile schemeChar raw = [] then None
            else Some (takeWhile schemeChar raw, rest))
         else Some ([], raw))"

definition validOptionalPort :: "string \<Rightarrow> bool" where
  "validOptionalPort port =
    (case port of [] \<Rightarrow> True | c # s \<Rightarrow> c = CHR '':'' \<and> list_all is_digit s)"

definition parseHost :: "string \<Rightarrow> string option" where
  "parseHost host =
    (if HasPrefix host ''['' then
       (case CutLast host (CHR '']'') of
          None \<Rightarrow> None
        | Some (inside, colonPort) \<Rightarrow>
            if \<not> validOptionalPort colonPort then None
            else (case cutAt ''%25'' inside of
                    Some (pre, zone) \<Rightarrow>
                      (case (unescape EncHost pre, unescape EncZone zone,
                             unescape EncHost (CHR '']'' # colonPort)) of
                         (Some h1, Some h2, Some h3) \<Rightarrow> Some (h1 @ h2 @ h3)
                       | _ \<Rightarrow> None)
                  | None \<Rightarrow> unescape EncHost host))
     else
       (case CutLast host (CHR '':'') of
          None \<Rightarrow> unescape EncHost host
        | Some (_, port) \<Rightarrow>
            if validOptionalPort (CHR '':'' # port) then unescape EncHost host else None))"

definition validUserinfo :: "string \<Rightarrow> bool" where
  "validUserinfo s =
    list_all (\<lambda>c. is_lower c \<or> is_upper c \<or> is_digit c \<or> c \<in> set ''-._:~!$&()*+,;=%@''
                  \<or> ord c = 39) s"

definition parseAuthority :: "string \<Rightarrow> ((string \<times> string option) option \<times> string) option" where
  "parseAuthority authority =
    (case CutLast authority (CHR ''@'') of
       None \<Rightarrow> map_option (\<lambda>h. (None, h)) (parseHost authority)
     | Some (userinfo, h) \<Rightarrow>
         (case parseHost h of
            None \<Rightarrow> None
          | Some host \<Rightarrow>
              if \<not> validUserinfo userinfo then None
              else if CHR '':'' \<notin> set userinfo then
                map_option (\<lambda>u. (Some (u, None), host)) (unescape EncUserPassword userinfo)
              else
                (case (unescape EncUserPassword (fst (Cut userinfo (CHR '':''))),
                       unescape EncUserPassword (snd (Cut userinfo (CHR '':'')))) of
                   (Some u, Some p) \<Rightarrow> Some (Some (u, Some p), host)
                 | _ \<Rightarrow> None)))"

definition setPath :: "string \<Rightarrow> URL \<Rightarrow> URL option" where
  "setPath p u =
    (case unescape EncPath p of
       None \<Rightarrow> None
     | Some path \<Rightarrow> Some (u\<lparr> Path := path, RawPath := (if escape path EncPath = p then [] else p) \<rparr>))"

definition isCTL :: "char \<Rightarrow> bool" where
  "isCTL c \<longleftrightarrow> ord c < 32 \<or> ord c = 127"

definition parseURL :: "string \<Rightarrow> URL option" where
  "parseURL raw =
    (if list_ex isCTL raw then None
     else if raw = ''*'' then Some (emptyURL\<lparr> Path := ''*'' \<rparr>)
     else case getScheme raw of
       None \<Rightarrow> None
     | Some (sch, rest0) \<Rightarrow>
         let sch = ToLower sch;
             rest = fst (Cut rest0 (CHR ''?''));
             u = emptyURL\<lparr> Scheme := sch, RawQuery := snd (Cut rest0 (CHR ''?'')) \<rparr>
         in
         if \<not> HasPrefix rest ''/'' \<and> sch \<noteq> [] then Some (u\<lparr> Opaque := rest \<rparr>)
         else if \<not> HasPrefix rest ''/'' \<and> CHR '':'' \<in> set (fst (Cut rest (CHR ''/''))) then None
         else if (sch \<noteq> [] \<or> \<not> HasPrefix rest ''///'') \<and> HasPrefix rest ''//'' then
           (let a = drop 2 rest;
                authority = takeWhile (\<lambda>c. c \<noteq> CHR ''/'') a;
                path = dropWhile (\<lambda>c. c \<noteq> CHR ''/'') a
            in case parseAuthority authority of
                 None \<Rightarrow> None
               | Some (usr, h) \<Rightarrow> setPath path (u\<lparr> User := usr, Host := h \<rparr>))
         else setPath rest u)"

definition ParseURL :: "string \<Rightarrow> URL option" where
  "ParseURL raw =
    (case Cut raw (CHR ''#'') of
       (u, frag) \<Rightarrow>
         (case parseURL u of
            None \<Rightarrow> None
          | Some url \<Rightarrow>
              if frag = [] then Some url
              else map_option (\<lambda>f. url\<lparr> Fragment := f \<rparr>) (unescape EncFragment frag)))"

definition splitHostPort :: "string \<Rightarrow> string \<times> string" where
  "splitHostPort hp =
    (let (h, p) = (case CutLast hp (CHR '':'') of
                     None \<Rightarrow> (hp, [])
                   | Some (h, p) \<Rightarrow> if list_all is_digit p then (h, p) else (hp, []))
     in (if HasPrefix h ''['' \<and> HasSuffix h '']'' then butlast (tl h) else h, p))"

definition Hostname :: "URL \<Rightarrow> string" where
  "Hostname u = fst (splitHostPort (Host u))"

definition Port :: "URL \<Rightarrow> string" where
  "Port u = snd (splitHostPort (Host u))"

definition queryPair :: "string \<Rightarrow> (string \<times> string) option" where
  "queryPair part =
    (if CHR '';'' \<in> set part \<or> part = [] then None
     else case (unescape EncQuery (fst (Cut part (CHR ''=''))),
                unescape EncQuery (snd (Cut part (CHR ''='')))) of
       (Some k, Some v) \<Rightarrow> Some (k, v)
     | _ \<Rightarrow> None)"

definition ParseQuery :: "string \<Rightarrow> (string \<times> string) list" where
  "ParseQuery q = List.map_filter queryPair (Split q (CHR ''&''))"

definition EncodeQuery :: "(string \<times> string) list \<Rightarrow> string" where
  "EncodeQuery kvs =
    Join (concat (map (\<lambda>k. map (\<lambda>kv. escape k EncQuery @ ''='' @ escape (snd kv) EncQuery)
                             (filter (\<lambda>kv. fst kv = k) kvs))
                      (remdups (Strings (map fst kvs))))) ''&''"

section \<open>Paths\<close>

fun cleanSegs :: "bool \<Rightarrow> string list \<Rightarrow> string list \<Rightarrow> string list" where
  "cleanSegs rooted acc [] = rev acc"
| "cleanSegs rooted acc (s # ss) =
    (if s = [] \<or> s = ''.'' then cleanSegs rooted acc ss
     else if s = ''..'' then
       (case acc of
          [] \<Rightarrow> cleanSegs rooted (if rooted then [] else [''..'']) ss
        | a # as \<Rightarrow> cleanSegs rooted (if a = ''..'' then ''..'' # acc else as) ss)
     else cleanSegs rooted (s # acc) ss)"

definition Clean :: "string \<Rightarrow> string" where
  "Clean p =
    (let rooted = HasPrefix p ''/'';
         segs = cleanSegs rooted [] (Split p (CHR ''/''))
     in if rooted then CHR ''/'' # Join segs ''/''
        else if segs = [] then ''.'' else Join segs ''/'')"

definition IsAbs :: "string \<Rightarrow> bool" where
  "IsAbs p = HasPrefix p ''/''"

section \<open>Addresses\<close>

text \<open>
  A \<open>netip.Addr\<close>: the invalid zero value, an IPv4 address, or an IPv6 address with its
  zone (empty for none).
\<close>

datatype addr = NoAddr | V4 "32 word" | V6 "128 word" string

definition digitVal :: "char \<Rightarrow> int" where
  "digitVal c = ord c - 48"

definition decVal :: "string \<Rightarrow> int" where
  "decVal s = foldl (\<lambda>n c. 10 * n + digitVal c) 0 s"

definition hexVal :: "string \<Rightarrow> int" where
  "hexVal s = foldl (\<lambda>n c. 16 * n + unhex c) 0 s"

definition v4Field :: "string \<Rightarrow> int option" where
  "v4Field f =
    (if f \<noteq> [] \<and> list_all is_digit f \<and> (hd f \<noteq> CHR ''0'' \<or> length f = 1) \<and> length f \<le> 3 \<and> decVal f \<le> 255
     then Some (decVal f) else None)"

definition parseIPv4Fields :: "string \<Rightarrow> (int \<times> int \<times> int \<times> int) option" where
  "parseIPv4Fields s =
    (case map v4Field (Split s (CHR ''.'')) of
       [Some a, Some b, Some c, Some d] \<Rightarrow> Some (a, b, c, d)
     | _ \<Rightarrow> None)"

definition addr4 :: "int \<Rightarrow> int \<Rightarrow> int \<Rightarrow> int \<Rightarrow> 32 word" where
  "addr4 a b c d = word_of_int (16777216 * a + 65536 * b + 256 * c + d)"

definition addr16 :: "int list \<Rightarrow> 128 word" where
  "addr16 gs = word_of_int (foldl (\<lambda>n g. 65536 * n + g) 0 gs)"

text \<open>
  The loop of \<open>parseIPv6\<close>: the 16-bit groups read so far, the position of the ellipsis
  among them, and the text left.  The first argument is the number of groups there is still
  room for, so the recursion is the loop guard \<open>i < 16\<close>.
\<close>

fun v6loop :: "nat \<Rightarrow> int list \<Rightarrow> nat option \<Rightarrow> string \<Rightarrow> (int list \<times> nat option \<times> string) option" where
  "v6loop 0 gs ell s = Some (gs, ell, s)"
| "v6loop (Suc n) gs ell s =
    (let digits = takeWhile ishex s; rest = dropWhile ishex s in
     if digits = [] \<or> 4 < length digits then None
     else if HasPrefix rest ''.'' then
       (if (ell = None \<and> n \<noteq> 1) \<or> n = 0 then None
        else case parseIPv4Fields s of
          None \<Rightarrow> None
        | Some (a, b, c, d) \<Rightarrow> Some (gs @ [256 * a + b, 256 * c + d], ell, []))
     else
       (let gs' = gs @ [hexVal digits] in
        case rest of
          [] \<Rightarrow> Some (gs', ell, [])
        | c # tail \<Rightarrow>
            if c \<noteq> CHR '':'' \<or> tail = [] then None
            else if hd tail = CHR '':'' then
              (if ell \<noteq> None then None
               else if tl tail = [] then Some (gs', Some (length gs'), [])
               else v6loop n gs' (Some (length gs')) (tl tail))
            else v6loop n gs' ell tail))"

definition parseIPv6 :: "string \<Rightarrow> addr option" where
  "parseIPv6 inp =
    (let (s, zone) = Cut inp (CHR ''%'') in
     if CHR ''%'' \<in> set inp \<and> zone = [] then None
     else if s = ''::'' then Some (V6 0 zone)
     else
       (let (ell, s') = (if HasPrefix s ''::'' then (Some 0, drop 2 s) else (None, s)) in
        case v6loop 8 [] ell s' of
          None \<Rightarrow> None
        | Some (gs, e, left) \<Rightarrow>
            if left \<noteq> [] then None
            else (case e of
                    None \<Rightarrow> if length gs < 8 then None else Some (V6 (addr16 gs) zone)
                  | Some k \<Rightarrow>
                      if length gs < 8
                      then Some (V6 (addr16 (take k gs @ replicate (8 - length gs) 0 @ drop k gs)) zone)
                      else None)))"

definition ParseAddr :: "string \<Rightarrow> addr option" where
  "ParseAddr s =
    (case dropWhile (\<lambda>c. c \<notin> set ''.:%'') s of
       [] \<Rightarrow> None
     | c # _ \<Rightarrow>
         if c = CHR ''.'' then
           map_option (\<lambda>(a, b, c, d). V4 (addr4 a b c d)) (parseIPv4Fields s)
         else if c = CHR '':'' then parseIPv6 s
         else None)"

definition v4mapped :: "128 word" where
  "v4mapped = 0xFFFF00000000"

text \<open>
  \<open>net.ParseIP\<close> refuses zones and returns the 16-byte form; \<open>netip.AddrFromSlice\<close> of 16 bytes
  is always an IPv6 address, an IPv4 one being mapped into \<open>::ffff:0:0/96\<close>.
\<close>

definition ParseIP :: "string \<Rightarrow> addr option" where
  "ParseIP s =
    (case ParseAddr s of
       Some (V4 w) \<Rightarrow> Some (V6 (v4mapped + ucast w) [])
     | Some (V6 w z) \<Rightarrow> if z = [] then Some (V6 w []) else None
     | _ \<Rightarrow> None)"

definition Is4In6 :: "128 word \<Rightarrow> bool" where
  "Is4In6 w \<longleftrightarrow> drop_bit 32 w = 0xFFFF"

fun Unmap :: "addr \<Rightarrow> addr" where
  "Unmap (V6 w z) = (if Is4In6 w then V4 (ucast w) else V6 w z)"
| "Unmap a = a"

definition IsLoopback :: "addr \<Rightarrow> bool" where
  "IsLoopback a =
    (case Unmap a of V4 w \<Rightarrow> drop_bit 24 w = 127 | V6 w z \<Rightarrow> w = 1 | NoAddr \<Rightarrow> False)"

definition IsMulticast :: "addr \<Rightarrow> bool" where
  "IsMulticast a =
    (case Unmap a of V4 w \<Rightarrow> drop_bit 28 w = 0xE | V6 w z \<Rightarrow> drop_bit 120 w = 0xFF | NoAddr \<Rightarrow> False)"

definition IsLinkLocalUnicast :: "addr \<Rightarrow> bool" where
  "IsLinkLocalUnicast a =
    (case Unmap a of V4 w \<Rightarrow> drop_bit 16 w = 0xA9FE | V6 w z \<Rightarrow> drop_bit 118 w = 0x3FA | NoAddr \<Rightarrow> False)"

definition IsGlobalUnicast :: "addr \<Rightarrow> bool" where
  "IsGlobalUnicast a =
    (case Unmap a of
       NoAddr \<Rightarrow> False
     | V4 w \<Rightarrow> w \<noteq> 0 \<and> w \<noteq> 0xFFFFFFFF \<and> \<not> IsLoopback (V4 w) \<and> \<not> IsMulticast (V4 w)
               \<and> \<not> IsLinkLocalUnicast (V4 w)
     | V6 w z \<Rightarrow> \<not> (w = 0 \<and> z = []) \<and> \<not> IsLoopback (V6 w z) \<and> \<not> IsMulticast (V6 w z)
                 \<and> \<not> IsLinkLocalUnicast (V6 w z))"

datatype net_prefix = Prefix4 "32 word" nat | Prefix6 "128 word" nat

text \<open>
  \<open>Prefix.Contains\<close>: never across address families, and never for an address with a zone.
\<close>

fun prefixContains :: "net_prefix \<Rightarrow> addr \<Rightarrow> bool" where
  "prefixContains (Prefix4 p n) (V4 w) = (drop_bit (32 - n) w = drop_bit (32 - n) p)"
| "prefixContains (Prefix6 p n) (V6 w z) = (z = [] \<and> drop_bit (128 - n) w = drop_bit (128 - n) p)"
| "prefixContains _ _ = False"

section \<open>Host and port\<close>

text \<open>\<open>net.SplitHostPort\<close> and \<open>net.JoinHostPort\<close>.\<close>

definition SplitHostPort :: "string \<Rightarrow> (string \<times> string) option" where
  "SplitHostPort hp =
    (case CutLast hp (CHR '':'') of
       None \<Rightarrow> None
     | Some (h, port) \<Rightarrow>
         if HasPrefix hp ''['' then
           (if CHR '']'' \<in> set hp \<and> CHR '']'' \<notin> set port \<and> HasSuffix h '']'' \<and> count_list h (CHR '']'') = 1
               \<and> CHR ''['' \<notin> set (tl hp) \<and> 2 \<le> length h
            then Some (butlast (tl h), port) else None)
         else if CHR '':'' \<in> set h \<or> CHR ''['' \<in> set hp \<or> CHR '']'' \<in> set hp then None
         else Some (h, port))"

definition JoinHostPort :: "string \<Rightarrow> string \<Rightarrow> string" where
  "JoinHostPort h p =
    (if CHR '':'' \<in> set h then ''['' @ h @ '']:'' @ p else h @ '':'' @ p)"

end
