(* ===== verification/Webhooks.thy ===== *)
theory Webhooks
  imports ApiTypes RegistryPolicy GoNet
begin

text \<open>
  The admission webhooks of the operator
  (\<open>kubeop-operator/internal/webhooks/webhooks.go\<close>).  Every validator returns the list of
  field errors in the order the code appends them; the handlers \<open>Default\<close>,
  \<open>ValidateCreate\<close>, \<open>ValidateUpdate\<close> and \<open>ValidateDelete\<close> of each webhook wrap them
  with the type assertion on the object.  Logging has no counterpart.

  The semantic-version parser and the image-reference parser are packages outside the
  repository: they are the fields of \<open>parsers\<close>.  The API reader is the record \<open>reader\<close>.
\<close>

named_theorems webhook_defs

record parsers =
  semverVersionOK :: "string \<Rightarrow> bool"
  semverConstraintOK :: "string \<Rightarrow> bool"
  parseReference :: "string \<Rightarrow> (string \<times> string) option"

record webhook_env =
  client :: reader
  lib :: parsers

type_synonym policy_loader = "string \<Rightarrow> string + RegistryPolicy option"

definition labelTenant :: string where "labelTenant = ''paas.kubeop.io/tenant''"
definition labelProject :: string where "labelProject = ''paas.kubeop.io/project''"
definition labelApp :: string where "labelApp = ''paas.kubeop.io/app''"
definition annotationRunAsRootJustification :: string where
  "annotationRunAsRootJustification = ''paas.kubeop.io/run-as-root-justification''"

definition requiredLabelKeys :: "string list" where
  "requiredLabelKeys = [labelTenant, labelProject, labelApp]"

section \<open>Shared checks\<close>

definition defaultMetadata :: "ObjectMeta \<Rightarrow> ObjectMeta" where
  "defaultMetadata m =
    m\<lparr> Labels := (case Labels m of None \<Rightarrow> Some Map.empty | Some l \<Rightarrow> Some l),
       Annotations := (case Annotations m of None \<Rightarrow> Some Map.empty | Some a \<Rightarrow> Some a) \<rparr>"

definition labelPath :: "string \<Rightarrow> field_path" where
  "labelPath k = [Child ''metadata'', Child ''labels'', Key k]"

definition validateRequiredLabels :: "ObjectMeta \<Rightarrow> field_error list" where
  "validateRequiredLabels m =
    map (\<lambda>k. Required (labelPath k)) (filter (\<lambda>k. TrimSpace (lbl m k) = []) requiredLabelKeys)"

definition validateTenantImmutability :: "ObjectMeta option \<Rightarrow> ObjectMeta option \<Rightarrow> field_error list" where
  "validateTenantImmutability oldObj newObj =
    (case (oldObj, newObj) of
       (Some old, Some new) \<Rightarrow>
         (let oldTenant = TrimSpace (lbl old labelTenant); newTenant = TrimSpace (lbl new labelTenant)
          in if oldTenant \<noteq> [] \<and> newTenant \<noteq> oldTenant then [Forbidden (labelPath labelTenant)] else [])
     | _ \<Rightarrow> [])"

definition PolicyFor :: "reader \<Rightarrow> policy_loader" where
  "PolicyFor cl ns =
    (case getConfigMap cl (ns, ''registry-policy'') of
       NotFound \<Rightarrow> Inr None
     | LookupErr \<Rightarrow> Inl ''get''
     | Found data \<Rightarrow> ParseConfigMap (Some data))"

section \<open>App\<close>

definition stripSemverPrefixes :: "string \<Rightarrow> string" where
  "stripSemverPrefixes v = foldl TrimPrefix (TrimSpace v) [''v'']"

definition validateAppVersion :: "parsers \<Rightarrow> App option \<Rightarrow> field_error list" where
  "validateAppVersion ps appo =
    (case appo of None \<Rightarrow> []
     | Some app \<Rightarrow>
         let spec = AppSpecOf app;
             version = TrimSpace (AppVersion spec);
             versionRange = TrimSpace (VersionRange spec)
         in (if version \<noteq> [] \<and> versionRange \<noteq> [] then [Forbidden [Child ''spec'', Child ''semverRange'']] else [])
          @ (if version \<noteq> [] \<and> \<not> semverVersionOK ps (stripSemverPrefixes version)
             then [Invalid [Child ''spec'', Child ''version''] (AppVersion spec)] else [])
          @ (if versionRange \<noteq> [] \<and> \<not> semverConstraintOK ps versionRange
             then [Invalid [Child ''spec'', Child ''semverRange''] (VersionRange spec)] else []))"

definition registryInfoFromSource ::
  "string \<Rightarrow> AppSource option \<Rightarrow> field_path \<Rightarrow> string \<times> string \<times> field_error list" where
  "registryInfoFromSource appType source path =
    (case source of None \<Rightarrow> ([], [], [])
     | Some src \<Rightarrow>
         let raw = TrimSpace (SourceURL src) in
         if raw = [] then ([], [], [])
         else if appType = ''helmRepo'' then
           (case ParseURL raw of
              None \<Rightarrow> ([], [], [Invalid path raw])
            | Some u \<Rightarrow>
                if Host u = [] then ([], [], [Invalid path raw])
                else let host = ToLower (Host u); repoPath = Trim (Path u) ''/'' in
                     if repoPath = [] then (host, host, [])
                     else (host, ToLower (host @ ''/'' @ repoPath), []))
         else if appType = ''helmOCI'' then
           (let trimmed = TrimPrefix (TrimPrefix raw ''oci://'') ''//'';
                parts = Split trimmed (CHR ''/'')
            in if length parts < 2 \<or> TrimSpace (hd parts) = [] then ([], [], [Invalid path raw])
               else let host = ToLower (TrimSpace (hd parts)); repoPath = Join (tl parts) ''/'' in
                    (host, ToLower (host @ ''/'' @ repoPath), []))
         else ([], [], []))"

definition imageErrors :: "parsers \<Rightarrow> RegistryPolicy \<Rightarrow> AppSpec \<Rightarrow> field_error list" where
  "imageErrors ps pol spec =
    (let image = TrimSpace (Image spec); path = [Child ''spec'', Child ''image''] in
     if image = [] then []
     else case parseReference ps image of
       None \<Rightarrow> [Invalid path (Image spec)]
     | Some (repo0, host0) \<Rightarrow>
         let repo = ToLower repo0; host = ToLower host0 in
         (if AllowsRegistry (Some pol) host then [] else [Forbidden path])
       @ (if AllowsRepository (Some pol) repo then [] else [Forbidden path]))"

definition sourceErrors :: "RegistryPolicy \<Rightarrow> AppSpec \<Rightarrow> field_error list" where
  "sourceErrors pol spec =
    (let path = [Child ''spec'', Child ''source'', Child ''url''] in
     case Source spec of None \<Rightarrow> []
     | Some src \<Rightarrow>
         if TrimSpace (SourceURL src) = [] then []
         else case registryInfoFromSource (AppType spec) (Some src) path of
           (host, repo, errs) \<Rightarrow>
             errs @
             (if errs = [] then
                (if host \<noteq> [] \<and> \<not> AllowsRegistry (Some pol) host then [Forbidden path] else [])
              @ (if repo \<noteq> [] \<and> \<not> AllowsRepository (Some pol) repo then [Forbidden path] else [])
              else []))"

definition cosignWarning :: string where
  "cosignWarning = ''registry policy requires cosign verification; ensure signatures are validated before deployment''"

definition validateRegistryPolicy ::
  "parsers \<Rightarrow> policy_loader option \<Rightarrow> App \<Rightarrow> string list \<times> field_error list" where
  "validateRegistryPolicy ps loader app =
    (case loader of None \<Rightarrow> ([], [])
     | Some policyFor \<Rightarrow>
         (case policyFor (Namespace (AppMeta app)) of
            Inl _ \<Rightarrow> ([], [InternalError [Child ''spec'']])
          | Inr None \<Rightarrow> ([], [])
          | Inr (Some pol) \<Rightarrow>
              (if RequireCosign pol then [cosignWarning] else [],
               imageErrors ps pol (AppSpecOf app) @ sourceErrors pol (AppSpecOf app))))"

text \<open>
  The check of one reference of a list: the referenced object exists in the namespace, and
  its tenant label is the tenant given.
\<close>

definition refErrors ::
  "reader \<Rightarrow> PlainKind \<Rightarrow> field_path \<Rightarrow> string \<Rightarrow> string \<Rightarrow> nat \<times> string \<Rightarrow> field_error list" where
  "refErrors cl kind path ns tenant idxName =
    (case idxName of (idx, name) \<Rightarrow>
      case getPlain cl kind (ns, name) of
        NotFound \<Rightarrow> [Invalid (path @ [Index idx]) name]
      | LookupErr \<Rightarrow> [InternalError (path @ [Index idx])]
      | Found m \<Rightarrow> if lbl m labelTenant \<noteq> tenant then [Forbidden (path @ [Index idx])] else [])"

definition validateConfigRefs :: "reader \<Rightarrow> App \<Rightarrow> string \<Rightarrow> field_error list" where
  "validateConfigRefs cl app tenant =
    concat (map (refErrors cl ConfigRef [Child ''spec'', Child ''valuesRefs''] (Namespace (AppMeta app)) tenant)
                (List.enumerate 0 (ValuesRefs (AppSpecOf app))))"

definition validateSecretRefs :: "reader \<Rightarrow> App \<Rightarrow> string \<Rightarrow> field_error list" where
  "validateSecretRefs cl app tenant =
    concat (map (refErrors cl SecretRef [Child ''spec'', Child ''secretsRefs''] (Namespace (AppMeta app)) tenant)
                (List.enumerate 0 (SecretsRefs (AppSpecOf app))))"

definition validateIngressRefs :: "reader \<Rightarrow> App \<Rightarrow> string \<Rightarrow> field_error list" where
  "validateIngressRefs cl app tenant =
    concat (map (refErrors cl IngressRoute [Child ''spec'', Child ''ingressRefs''] (Namespace (AppMeta app)) tenant)
                (List.enumerate 0 (IngressRefs (AppSpecOf app))))"

definition projectForApp :: "reader \<Rightarrow> App \<Rightarrow> string \<Rightarrow> Project option \<times> field_error list" where
  "projectForApp cl app tenant =
    (let projectName = TrimSpace (lbl (AppMeta app) labelProject) in
     if projectName = [] then (None, [])
     else case getProject cl (Namespace (AppMeta app), projectName) of
       NotFound \<Rightarrow> (None, [Invalid (labelPath labelProject) projectName])
     | LookupErr \<Rightarrow> (None, [InternalError (labelPath labelProject)])
     | Found project \<Rightarrow>
         let ref = TenantRef (ProjectSpecOf project);
             projectTenant = TrimSpace (lbl (ProjectMeta project) labelTenant)
         in (Some project,
             (if tenant \<noteq> [] \<and> ref \<noteq> [] \<and> ref \<noteq> tenant then [Forbidden (labelPath labelTenant)] else [])
           @ (if tenant \<noteq> [] \<and> projectTenant \<noteq> [] \<and> projectTenant \<noteq> tenant
              then [Forbidden (labelPath labelTenant)] else [])))"

definition typeAllowed :: "ServiceExposurePolicy option \<Rightarrow> string \<Rightarrow> bool" where
  "typeAllowed pol requestedType =
    (if requestedType \<noteq> ''ClusterIP'' then
       (case pol of None \<Rightarrow> False
        | Some p \<Rightarrow> if AllowedTypes p = [] then False else requestedType \<in> set (AllowedTypes p))
     else True)"

definition externalIPErrors :: "ServiceExposurePolicy option \<Rightarrow> string list \<Rightarrow> field_error list" where
  "externalIPErrors pol ips =
    (let path = [Child ''spec'', Child ''serviceProfile'', Child ''externalIPs''] in
     if ips = [] then []
     else case pol of
       None \<Rightarrow> [Forbidden path]
     | Some p \<Rightarrow>
         if AllowedExternalIPs p = [] then [Forbidden path]
         else map (\<lambda>(idx, ip). Forbidden (path @ [Index idx]))
                (filter (\<lambda>(idx, ip). ip \<notin> set (AllowedExternalIPs p)) (List.enumerate 0 ips)))"

definition requestedServiceType :: "AppServiceProfile \<Rightarrow> string" where
  "requestedServiceType profile = (if ProfileType profile \<noteq> [] then ProfileType profile else ''ClusterIP'')"

definition validateServicePolicy :: "reader \<Rightarrow> App \<Rightarrow> Project option \<Rightarrow> field_error list" where
  "validateServicePolicy cl app projecto =
    (case ServiceProfile (AppSpecOf app) of None \<Rightarrow> []
     | Some profile \<Rightarrow>
         let path = [Child ''spec'', Child ''serviceProfile''];
             requestedType = requestedServiceType profile;
             profileRef = (case projecto of None \<Rightarrow> [] | Some pr \<Rightarrow> NetworkPolicyProfileRef (ProjectSpecOf pr))
         in
         if TrimSpace profileRef = [] then
           (if requestedType = ''LoadBalancer'' then [Forbidden (path @ [Child ''type''])] else [])
         @ (if ProfileExternalIPs profile \<noteq> [] then [Forbidden (path @ [Child ''externalIPs''])] else [])
         else case getNetworkPolicyProfile cl profileRef of
           NotFound \<Rightarrow> [Invalid path profileRef]
         | LookupErr \<Rightarrow> [InternalError path]
         | Found np \<Rightarrow>
             (if typeAllowed (ServicePolicy np) requestedType then [] else [Forbidden (path @ [Child ''type''])])
           @ externalIPErrors (ServicePolicy np) (ProfileExternalIPs profile))"

definition validateApp ::
  "webhook_env \<Rightarrow> policy_loader option \<Rightarrow> App option \<Rightarrow> App \<Rightarrow> string list \<times> field_error list" where
  "validateApp env loader oldApp newApp =
    (let cl = client env;
         errs = validateRequiredLabels (AppMeta newApp)
              @ (case oldApp of None \<Rightarrow> []
                 | Some old \<Rightarrow> validateTenantImmutability (Some (AppMeta old)) (Some (AppMeta newApp)))
              @ validateAppVersion (lib env) (Some newApp);
         tenant = lbl (AppMeta newApp) labelTenant;
         (policyWarnings, policyErrs) = validateRegistryPolicy (lib env) loader newApp
     in if tenant = [] then (policyWarnings, errs @ policyErrs)
        else let (project, projectErrs) = projectForApp cl newApp tenant in
             (policyWarnings,
              errs @ validateConfigRefs cl newApp tenant @ validateSecretRefs cl newApp tenant
              @ validateIngressRefs cl newApp tenant @ projectErrs
              @ validateServicePolicy cl newApp project @ policyErrs))"

section \<open>Project\<close>

definition validateProject :: "Project option \<Rightarrow> Project \<Rightarrow> field_error list" where
  "validateProject oldProject newProject =
    (let m = ProjectMeta newProject;
         ref = TenantRef (ProjectSpecOf newProject);
         tenant = TrimSpace (lbl m labelTenant);
         projectLabel = TrimSpace (lbl m labelProject)
     in validateRequiredLabels m
      @ (case oldProject of None \<Rightarrow> []
         | Some old \<Rightarrow> validateTenantImmutability (Some (ProjectMeta old)) (Some m))
      @ (if tenant \<noteq> [] \<and> ref \<noteq> [] \<and> tenant \<noteq> ref
         then [Invalid [Child ''spec'', Child ''tenantRef''] ref] else [])
      @ (if projectLabel \<noteq> [] \<and> projectLabel \<noteq> Name m
         then [Invalid (labelPath labelProject) projectLabel] else [])
      @ (case oldProject of None \<Rightarrow> []
         | Some old \<Rightarrow> if TenantRef (ProjectSpecOf old) \<noteq> ref
                        then [Forbidden [Child ''spec'', Child ''tenantRef'']] else []))"

section \<open>AppRelease\<close>

definition validateAppReleaseImmutability :: "AppRelease option \<Rightarrow> AppRelease option \<Rightarrow> field_error list" where
  "validateAppReleaseImmutability oldo newo =
    (case (oldo, newo) of
       (Some old, Some new) \<Rightarrow> if ReleaseSpec old \<noteq> ReleaseSpec new then [Forbidden [Child ''spec'']] else []
     | _ \<Rightarrow> [])"

definition configHashMatch :: "string \<Rightarrow> bool" where
  "configHashMatch s \<longleftrightarrow> list_all ishex s \<and> 32 \<le> length s \<and> length s \<le> 128"

definition digestMatch :: "string \<Rightarrow> bool" where
  "digestMatch s =
    (case CutLast s (CHR '':'') of None \<Rightarrow> False
     | Some (alg, hx) \<Rightarrow>
         alg \<noteq> [] \<and> list_all (\<lambda>c. is_lower c \<or> is_upper c \<or> is_digit c \<or> c \<in> set ''+_.-'') alg
         \<and> configHashMatch hx)"

definition validateAppReleaseSpecFields :: "parsers \<Rightarrow> AppRelease option \<Rightarrow> field_error list" where
  "validateAppReleaseSpecFields ps relo =
    (case relo of None \<Rightarrow> []
     | Some rel \<Rightarrow>
         let spec = ReleaseSpec rel;
             version = TrimSpace (ReleaseVersion spec);
             digest = TrimSpace (Digest spec);
             hash = TrimSpace (RenderedConfigHash spec)
         in (if version \<noteq> [] \<and> \<not> semverVersionOK ps (stripSemverPrefixes version)
             then [Invalid [Child ''spec'', Child ''version''] (ReleaseVersion spec)] else [])
          @ (if digest \<noteq> [] \<and> \<not> digestMatch digest
             then [Invalid [Child ''spec'', Child ''digest''] (Digest spec)] else [])
          @ (if hash \<noteq> [] \<and> \<not> configHashMatch hash
             then [Invalid [Child ''spec'', Child ''renderedConfigHash''] (RenderedConfigHash spec)] else []))"

definition validateRelease :: "webhook_env \<Rightarrow> AppRelease option \<Rightarrow> AppRelease \<Rightarrow> field_error list" where
  "validateRelease env oldRelease newRelease =
    (let m = ReleaseMeta newRelease;
         ref = AppRef (ReleaseSpec newRelease);
         path = [Child ''spec'', Child ''appRef''];
         errs = validateRequiredLabels m
              @ (case oldRelease of None \<Rightarrow> []
                 | Some old \<Rightarrow> validateTenantImmutability (Some (ReleaseMeta old)) (Some m)
                             @ validateAppReleaseImmutability (Some old) (Some newRelease))
              @ validateAppReleaseSpecFields (lib env) (Some newRelease)
     in if TrimSpace ref = [] then errs @ [Required path]
        else case getApp (client env) (Namespace m, ref) of
          NotFound \<Rightarrow> errs @ [Invalid path ref]
        | LookupErr \<Rightarrow> errs @ [InternalError path]
        | Found app \<Rightarrow>
            let am = AppMeta app in
            errs
            @ (if lbl m labelTenant \<noteq> [] \<and> lbl am labelTenant \<noteq> lbl m labelTenant then [Forbidden path] else [])
            @ (if lbl m labelProject \<noteq> [] \<and> lbl am labelProject \<noteq> lbl m labelProject
               then [Forbidden path] else []))"

section \<open>ServiceBinding\<close>

definition validateBindingConsumer :: "reader \<Rightarrow> ServiceBinding \<Rightarrow> string \<Rightarrow> field_error list" where
  "validateBindingConsumer cl binding tenant =
    (let ns = Namespace (BindingMeta binding);
         spec = BindingSpec binding;
         namePath = [Child ''spec'', Child ''consumerRef'', Child ''name'']
     in if ConsumerType spec = ''app'' then
          (case getApp cl (ns, ConsumerName spec) of
             NotFound \<Rightarrow> [Invalid namePath (ConsumerName spec)]
           | LookupErr \<Rightarrow> [InternalError namePath]
           | Found app \<Rightarrow> if lbl (AppMeta app) labelTenant \<noteq> tenant then [Forbidden namePath] else [])
        else if ConsumerType spec = ''serviceAccount'' then
          (case getPlain cl ServiceAccount (ns, ConsumerName spec) of
             NotFound \<Rightarrow> [Invalid namePath (ConsumerName spec)]
           | LookupErr \<Rightarrow> [InternalError namePath]
           | Found sa \<Rightarrow> if Namespace sa \<noteq> ns then [Forbidden namePath] else [])
        else [Invalid [Child ''spec'', Child ''consumerRef'', Child ''type''] (ConsumerType spec)])"

definition providerLookupError :: "ServiceBinding \<Rightarrow> 'a lookup \<Rightarrow> field_error" where
  "providerLookupError binding r =
    (let namePath = [Child ''spec'', Child ''providerRef'', Child ''name''] in
     case r of NotFound \<Rightarrow> Invalid namePath (ProviderName (BindingSpec binding))
     | _ \<Rightarrow> InternalError namePath)"

definition providerErrors :: "reader \<Rightarrow> PlainKind \<Rightarrow> ServiceBinding \<Rightarrow> string \<Rightarrow> field_error list" where
  "providerErrors cl kind binding tenant =
    (case getPlain cl kind (Namespace (BindingMeta binding), ProviderName (BindingSpec binding)) of
       Found m \<Rightarrow> if lbl m labelTenant \<noteq> tenant
                  then [Forbidden [Child ''spec'', Child ''providerRef'', Child ''name'']] else []
     | r \<Rightarrow> [providerLookupError binding r])"

definition validateBindingProvider :: "reader \<Rightarrow> ServiceBinding \<Rightarrow> string \<Rightarrow> field_error list" where
  "validateBindingProvider cl binding tenant =
    (let spec = BindingSpec binding in
     if TrimSpace (ProviderName spec) = []
     then [Required [Child ''spec'', Child ''providerRef'', Child ''name'']]
     else if ProviderType spec = ''database'' then providerErrors cl DatabaseInstance binding tenant
     else if ProviderType spec = ''cache'' then providerErrors cl CacheInstance binding tenant
     else if ProviderType spec = ''queue'' then providerErrors cl QueueInstance binding tenant
     else [Invalid [Child ''spec'', Child ''providerRef'', Child ''type''] (ProviderType spec)])"

definition validateBinding :: "webhook_env \<Rightarrow> ServiceBinding option \<Rightarrow> ServiceBinding \<Rightarrow> field_error list" where
  "validateBinding env oldBinding newBinding =
    (let m = BindingMeta newBinding;
         errs = validateRequiredLabels m
              @ (case oldBinding of None \<Rightarrow> []
                 | Some old \<Rightarrow> validateTenantImmutability (Some (BindingMeta old)) (Some m));
         tenant = TrimSpace (lbl m labelTenant)
     in if tenant = [] then errs
        else errs @ validateBindingConsumer (client env) newBinding tenant
                  @ validateBindingProvider (client env) newBinding tenant)"

section \<open>Bucket\<close>

definition bucketRefErrors :: "reader \<Rightarrow> Bucket \<Rightarrow> nat \<times> string \<Rightarrow> field_error list" where
  "bucketRefErrors cl bucket idxName =
    (case idxName of (i, name) \<Rightarrow>
      let m = BucketMeta bucket;
          tenant = TrimSpace (lbl m labelTenant);
          project = TrimSpace (lbl m labelProject);
          app = TrimSpace (lbl m labelApp);
          path = [Child ''spec'', Child ''policyRefs'', Index i]
      in case getPlain cl BucketPolicy (Namespace m, name) of
           NotFound \<Rightarrow> [Invalid path name]
         | LookupErr \<Rightarrow> [InternalError path]
         | Found pm \<Rightarrow>
             (if tenant \<noteq> [] \<and> lbl pm labelTenant \<noteq> tenant then [Forbidden path] else [])
           @ (if project \<noteq> [] \<and> lbl pm labelProject \<noteq> project then [Forbidden path] else [])
           @ (if app \<noteq> [] \<and> lbl pm labelApp \<noteq> app then [Forbidden path] else []))"

definition validateBucket :: "webhook_env \<Rightarrow> Bucket option \<Rightarrow> Bucket \<Rightarrow> field_error list" where
  "validateBucket env oldBucket newBucket =
    validateRequiredLabels (BucketMeta newBucket)
    @ (case oldBucket of None \<Rightarrow> []
       | Some old \<Rightarrow> validateTenantImmutability (Some (BucketMeta old)) (Some (BucketMeta newBucket)))
    @ concat (map (bucketRefErrors (client env) newBucket) (List.enumerate 0 (PolicyRefs newBucket)))"

section \<open>Job\<close>

definition containsSysAdmin :: "SecurityContext option \<Rightarrow> bool" where
  "containsSysAdmin sco =
    (case sco of None \<Rightarrow> False
     | Some sc \<Rightarrow> (case SC_Capabilities sc of None \<Rightarrow> False
                  | Some caps \<Rightarrow> list_ex (\<lambda>cap. EqualFold cap ''SYS_ADMIN'') (CapAdd caps)))"

definition allowsRoot :: "PodSecurityContext option \<Rightarrow> bool" where
  "allowsRoot sco =
    (case sco of None \<Rightarrow> False
     | Some sc \<Rightarrow> Pod_RunAsNonRoot sc = Some False \<or> Pod_RunAsUser sc = Some 0)"

definition allowsRootWithFallback :: "SecurityContext option \<Rightarrow> PodSecurityContext option \<Rightarrow> bool" where
  "allowsRootWithFallback csc psc =
    (case csc of
       None \<Rightarrow> allowsRoot psc
     | Some sc \<Rightarrow>
         if SC_RunAsNonRoot sc = Some False then True
         else if SC_RunAsUser sc = Some 0 then True
         else allowsRoot psc)"

definition requiresRootJustification :: "PodSpec \<Rightarrow> bool" where
  "requiresRootJustification ps =
    (if allowsRoot (PodSC ps) then True
     else if list_ex (\<lambda>c. allowsRootWithFallback (ContainerSC c) (PodSC ps)) (InitContainers ps) then True
     else list_ex (\<lambda>c. allowsRootWithFallback (ContainerSC c) (PodSC ps)) (Containers ps))"

definition containerCapabilitiesPath :: "field_path \<Rightarrow> string \<Rightarrow> nat \<Rightarrow> field_path" where
  "containerCapabilitiesPath base lst idx =
    base @ [Child lst, Index idx, Child ''securityContext'', Child ''capabilities'']"

definition podPath :: field_path where
  "podPath = [Child ''spec'', Child ''template'', Child ''spec'']"

definition volumeErrors :: "Volume list \<Rightarrow> field_error list" where
  "volumeErrors vols =
    concat (map (\<lambda>(idx, v). if HostPath v \<noteq> None then [Forbidden (podPath @ [Child ''volumes'', Index idx])] else [])
                (List.enumerate 0 vols))"

definition sysAdminErrors :: "string \<Rightarrow> Container list \<Rightarrow> field_error list" where
  "sysAdminErrors lst cs =
    concat (map (\<lambda>(idx, c). if containsSysAdmin (ContainerSC c)
                            then [Forbidden (containerCapabilitiesPath podPath lst idx)] else [])
                (List.enumerate 0 cs))"

definition validateJob :: "Job option \<Rightarrow> Job \<Rightarrow> field_error list" where
  "validateJob oldJob job =
    (let ps = JobPodSpec job in
     validateRequiredLabels (JobMeta job)
   @ (case oldJob of None \<Rightarrow> []
      | Some old \<Rightarrow> validateTenantImmutability (Some (JobMeta old)) (Some (JobMeta job)))
   @ (if HostNetwork ps then [Forbidden (podPath @ [Child ''hostNetwork''])] else [])
   @ (if HostPID ps then [Forbidden (podPath @ [Child ''hostPID''])] else [])
   @ (if HostIPC ps then [Forbidden (podPath @ [Child ''hostIPC''])] else [])
   @ volumeErrors (Volumes ps)
   @ sysAdminErrors ''initContainers'' (InitContainers ps)
   @ sysAdminErrors ''containers'' (Containers ps)
   @ (if requiresRootJustification ps
         \<and> TrimSpace (mget (Annotations (JobMeta job)) annotationRunAsRootJustification) = []
      then [Required [Child ''metadata'', Child ''annotations'', Key annotationRunAsRootJustification]]
      else []))"

section \<open>The handlers\<close>

text \<open>
  What a handler returns: an API error (a bad request, or an \<open>Invalid\<close> status with the
  field errors) or the admission warnings.
\<close>

datatype api_error = BadRequest | InvalidObject string "field_error list"

type_synonym admission = "api_error + string list"

definition admit :: "string \<Rightarrow> string list \<times> field_error list \<Rightarrow> admission" where
  "admit name r = (case r of (warnings, errs) \<Rightarrow>
     if length errs > 0 then Inl (InvalidObject name errs) else Inr warnings)"

definition validateLabelGuard :: "ObjectMeta option \<Rightarrow> ObjectMeta \<Rightarrow> field_error list" where
  "validateLabelGuard oldObj newObj =
    validateRequiredLabels newObj
    @ (case oldObj of None \<Rightarrow> [] | Some old \<Rightarrow> validateTenantImmutability (Some old) (Some newObj))"

definition LabelGuard_ValidateCreate :: "runtime_object \<Rightarrow> admission" where
  "LabelGuard_ValidateCreate obj =
    (case Accessor obj of None \<Rightarrow> Inl BadRequest
     | Some m \<Rightarrow> admit (Name m) ([], validateLabelGuard None m))"

definition LabelGuard_ValidateUpdate :: "runtime_object \<Rightarrow> runtime_object \<Rightarrow> admission" where
  "LabelGuard_ValidateUpdate oldObj newObj =
    (case Accessor newObj of None \<Rightarrow> Inl BadRequest
     | Some new \<Rightarrow> (case Accessor oldObj of None \<Rightarrow> Inl BadRequest
        | Some old \<Rightarrow> admit (Name new) ([], validateLabelGuard (Some old) new)))"

definition App_ValidateCreate :: "webhook_env \<Rightarrow> policy_loader option \<Rightarrow> runtime_object \<Rightarrow> admission" where
  "App_ValidateCreate env loader obj =
    (case obj of ObjApp app \<Rightarrow> admit (Name (AppMeta app)) (validateApp env loader None app)
     | _ \<Rightarrow> Inl BadRequest)"

definition App_ValidateUpdate ::
  "webhook_env \<Rightarrow> policy_loader option \<Rightarrow> runtime_object \<Rightarrow> runtime_object \<Rightarrow> admission" where
  "App_ValidateUpdate env loader oldObj newObj =
    (case newObj of
       ObjApp newApp \<Rightarrow>
         (case oldObj of ObjApp oldApp \<Rightarrow> admit (Name (AppMeta newApp)) (validateApp env loader (Some oldApp) newApp)
          | _ \<Rightarrow> Inl BadRequest)
     | _ \<Rightarrow> Inl BadRequest)"

definition Project_ValidateCreate :: "runtime_object \<Rightarrow> admission" where
  "Project_ValidateCreate obj =
    (case obj of ObjProject p \<Rightarrow> admit (Name (ProjectMeta p)) ([], validateProject None p)
     | _ \<Rightarrow> Inl BadRequest)"

definition Project_ValidateUpdate :: "runtime_object \<Rightarrow> runtime_object \<Rightarrow> admission" where
  "Project_ValidateUpdate oldObj newObj =
    (case newObj of
       ObjProject new \<Rightarrow>
         (case oldObj of ObjProject old \<Rightarrow> admit (Name (ProjectMeta new)) ([], validateProject (Some old) new)
          | _ \<Rightarrow> Inl BadRequest)
     | _ \<Rightarrow> Inl BadRequest)"

definition AppRelease_ValidateCreate :: "webhook_env \<Rightarrow> runtime_object \<Rightarrow> admission" where
  "AppRelease_ValidateCreate env obj =
    (case obj of ObjAppRelease r \<Rightarrow> admit (Name (ReleaseMeta r)) ([], validateRelease env None r)
     | _ \<Rightarrow> Inl BadRequest)"

definition AppRelease_ValidateUpdate :: "webhook_env \<Rightarrow> runtime_object \<Rightarrow> runtime_object \<Rightarrow> admission" where
  "AppRelease_ValidateUpdate env oldObj newObj =
    (case newObj of
       ObjAppRelease new \<Rightarrow>
         (case oldObj of ObjAppRelease old \<Rightarrow> admit (Name (ReleaseMeta new)) ([], validateRelease env (Some old) new)
          | _ \<Rightarrow> Inl BadRequest)
     | _ \<Rightarrow> Inl BadRequest)"

definition ServiceBinding_ValidateCreate :: "webhook_env \<Rightarrow> runtime_object \<Rightarrow> admission" where
  "ServiceBinding_ValidateCreate env obj =
    (case obj of ObjServiceBinding b \<Rightarrow> admit (Name (BindingMeta b)) ([], validateBinding env None b)
     | _ \<Rightarrow> Inl BadRequest)"

definition ServiceBinding_ValidateUpdate :: "webhook_env \<Rightarrow> runtime_object \<Rightarrow> runtime_object \<Rightarrow> admission" where
  "ServiceBinding_ValidateUpdate env oldObj newObj =
    (case newObj of
       ObjServiceBinding new \<Rightarrow>
         (case oldObj of ObjServiceBinding old \<Rightarrow> admit (Name (BindingMeta new)) ([], validateBinding env (Some old) new)
          | _ \<Rightarrow> Inl BadRequest)
     | _ \<Rightarrow> Inl BadRequest)"

definition Bucket_ValidateCreate :: "webhook_env \<Rightarrow> runtime_object \<Rightarrow> admission" where
  "Bucket_ValidateCreate env obj =
    (case obj of ObjBucket b \<Rightarrow> admit (Name (BucketMeta b)) ([], validateBucket env None b)
     | _ \<Rightarrow> Inl BadRequest)"

definition Bucket_ValidateUpdate :: "webhook_env \<Rightarrow> runtime_object \<Rightarrow> runtime_object \<Rightarrow> admission" where
  "Bucket_ValidateUpdate env oldObj newObj =
    (case newObj of
       ObjBucket new \<Rightarrow>
         (case oldObj of ObjBucket old \<Rightarrow> admit (Name (BucketMeta new)) ([], validateBucket env (Some old) new)
          | _ \<Rightarrow> Inl BadRequest)
     | _ \<Rightarrow> Inl BadRequest)"

definition Job_ValidateCreate :: "runtime_object \<Rightarrow> admission" where
  "Job_ValidateCreate obj =
    (case obj of ObjJob j \<Rightarrow> admit (Name (JobMeta j)) ([], validateJob None j)
     | _ \<Rightarrow> Inl BadRequest)"

definition Job_ValidateUpdate :: "runtime_object option \<Rightarrow> runtime_object \<Rightarrow> admission" where
  "Job_ValidateUpdate oldObj newObj =
    (case newObj of
       ObjJob new \<Rightarrow>
         (case oldObj of
            None \<Rightarrow> admit (Name (JobMeta new)) ([], validateJob None new)
          | Some (ObjJob old) \<Rightarrow> admit (Name (JobMeta new)) ([], validateJob (Some old) new)
          | Some _ \<Rightarrow> Inl BadRequest)
     | _ \<Rightarrow> Inl BadRequest)"

definition ValidateDelete :: "runtime_object \<Rightarrow> admission" where
  "ValidateDelete obj = Inr []"

section \<open>The defaulting handlers\<close>

fun withMeta :: "(ObjectMeta \<Rightarrow> ObjectMeta) \<Rightarrow> runtime_object \<Rightarrow> runtime_object" where
  "withMeta f (ObjApp a) = ObjApp (a\<lparr> AppMeta := f (AppMeta a) \<rparr>)"
| "withMeta f (ObjProject p) = ObjProject (p\<lparr> ProjectMeta := f (ProjectMeta p) \<rparr>)"
| "withMeta f (ObjAppRelease r) = ObjAppRelease (r\<lparr> ReleaseMeta := f (ReleaseMeta r) \<rparr>)"
| "withMeta f (ObjServiceBinding b) = ObjServiceBinding (b\<lparr> BindingMeta := f (BindingMeta b) \<rparr>)"
| "withMeta f (ObjBucket b) = ObjBucket (b\<lparr> BucketMeta := f (BucketMeta b) \<rparr>)"
| "withMeta f (ObjJob j) = ObjJob (j\<lparr> JobMeta := f (JobMeta j) \<rparr>)"
| "withMeta f (ObjPlain k m) = ObjPlain k (f m)"
| "withMeta f ObjOpaque = ObjOpaque"

definition LabelGuard_Default :: "runtime_object \<Rightarrow> runtime_object option" where
  "LabelGuard_Default obj =
    (case Accessor obj of None \<Rightarrow> None | Some _ \<Rightarrow> Some (withMeta defaultMetadata obj))"

definition App_Default :: "runtime_object \<Rightarrow> runtime_object option" where
  "App_Default obj = (case obj of ObjApp _ \<Rightarrow> Some (withMeta defaultMetadata obj) | _ \<Rightarrow> None)"

definition Project_Default :: "runtime_object \<Rightarrow> runtime_object option" where
  "Project_Default obj = (case obj of ObjProject _ \<Rightarrow> Some (withMeta defaultMetadata obj) | _ \<Rightarrow> None)"

definition AppRelease_Default :: "runtime_object \<Rightarrow> runtime_object option" where
  "AppRelease_Default obj = (case obj of ObjAppRelease _ \<Rightarrow> Some (withMeta defaultMetadata obj) | _ \<Rightarrow> None)"

definition ServiceBinding_Default :: "runtime_object \<Rightarrow> runtime_object option" where
  "ServiceBinding_Default obj =
    (case obj of ObjServiceBinding _ \<Rightarrow> Some (withMeta defaultMetadata obj) | _ \<Rightarrow> None)"

definition Bucket_Default :: "runtime_object \<Rightarrow> runtime_object option" where
  "Bucket_Default obj = (case obj of ObjBucket _ \<Rightarrow> Some (withMeta defaultMetadata obj) | _ \<Rightarrow> None)"

definition Job_Default :: "runtime_object \<Rightarrow> runtime_object option" where
  "Job_Default obj = (case obj of ObjJob _ \<Rightarrow> Some (withMeta defaultMetadata obj) | _ \<Rightarrow> None)"

end
