(* ===== verification/TenantGuard.thy ===== *)
theory TenantGuard
  imports Webhooks
begin

text \<open>
  The contract every webhook of the operator shares: an object it accepts carries the three
  required labels, and an accepted update keeps the tenant.  The locale \<open>tenant_guard\<close>
  states it for a validator that may consult an environment, derives what it means for a
  whole history of admitted versions of an object, and is interpreted for each of the seven
  validators of \<open>Webhooks\<close>.
\<close>

abbreviation tenantOf :: "ObjectMeta \<Rightarrow> string" where
  "tenantOf m \<equiv> TrimSpace (lbl m labelTenant)"

definition labelled :: "ObjectMeta \<Rightarrow> bool" where
  "labelled m \<longleftrightarrow> list_all (\<lambda>k. TrimSpace (lbl m k) \<noteq> []) requiredLabelKeys"

lemma labelled_tenant: "labelled m \<Longrightarrow> tenantOf m \<noteq> []"
  and labelled_project: "labelled m \<Longrightarrow> TrimSpace (lbl m labelProject) \<noteq> []"
  and labelled_app: "labelled m \<Longrightarrow> TrimSpace (lbl m labelApp) \<noteq> []"
  by (simp_all add: labelled_def requiredLabelKeys_def)

lemma validateRequiredLabels_Nil [simp]: "validateRequiredLabels m = [] \<longleftrightarrow> labelled m"
  by (auto simp: validateRequiredLabels_def labelled_def filter_empty_conv list_all_iff)

lemma validateTenantImmutability_Nil [simp]:
  "validateTenantImmutability (Some old) (Some new) = [] \<longleftrightarrow>
    tenantOf old = [] \<or> tenantOf new = tenantOf old"
  by (simp add: validateTenantImmutability_def Let_def)

lemma validateTenantImmutability_create [simp]: "validateTenantImmutability None new = []"
  by (simp add: validateTenantImmutability_def)

section \<open>The contract\<close>

fun admitted :: "('e \<Rightarrow> 'o option \<Rightarrow> 'o \<Rightarrow> field_error list) \<Rightarrow> 'o option \<Rightarrow> ('e \<times> 'o) list \<Rightarrow> bool" where
  "admitted v old [] = True"
| "admitted v old ((e, x) # h) = (v e old x = [] \<and> admitted v (Some x) h)"

locale tenant_guard =
  fixes validate :: "'e \<Rightarrow> 'o option \<Rightarrow> 'o \<Rightarrow> field_error list"
    and metaOf :: "'o \<Rightarrow> ObjectMeta"
  assumes accept_labelled: "\<And>e prev new. validate e prev new = [] \<Longrightarrow> labelled (metaOf new)"
    and accept_tenant: "\<And>e old new. validate e (Some old) new = [] \<Longrightarrow>
      tenantOf (metaOf old) = [] \<or> tenantOf (metaOf new) = tenantOf (metaOf old)"
begin

lemma update_keeps_tenant:
  "validate e (Some old) new = [] \<Longrightarrow> labelled (metaOf old) \<Longrightarrow>
    tenantOf (metaOf new) = tenantOf (metaOf old)"
  using accept_tenant labelled_tenant by blast

lemma history_after:
  "admitted validate (Some x) h \<Longrightarrow> labelled (metaOf x) \<Longrightarrow> (e, y) \<in> set h \<Longrightarrow>
    labelled (metaOf y) \<and> tenantOf (metaOf y) = tenantOf (metaOf x)"
proof (induction h arbitrary: x)
  case (Cons ez h)
  obtain e' z where ez: "ez = (e', z)" by (cases ez)
  then have z: "labelled (metaOf z)" "tenantOf (metaOf z) = tenantOf (metaOf x)"
    using Cons.prems accept_labelled update_keeps_tenant by auto
  then show ?case using Cons ez by auto
qed simp

lemma history_constant:
  assumes "admitted validate None h" "(e, x) \<in> set h" "(e', y) \<in> set h"
  shows "labelled (metaOf x) \<and> tenantOf (metaOf x) = tenantOf (metaOf y)"
proof (cases h)
  case (Cons a t)
  obtain e0 z where a: "a = (e0, z)" by (cases a)
  then have z: "labelled (metaOf z)" and t: "admitted validate (Some z) t"
    using assms(1) Cons accept_labelled by auto
  have "labelled (metaOf w) \<and> tenantOf (metaOf w) = tenantOf (metaOf z)"
    if "(d, w) \<in> set h" for d w
    using that Cons a z history_after [OF t z] by auto
  then show ?thesis using assms(2,3) by metis
qed (use assms in simp)

end

section \<open>The seven validators\<close>

lemmas guard_defs =
  validateApp_def validateProject_def validateRelease_def validateBinding_def validateBucket_def
  validateJob_def validateLabelGuard_def Let_def

interpretation label_guard: tenant_guard "\<lambda>_::unit. validateLabelGuard" "\<lambda>m. m"
  by unfold_locales (auto simp: guard_defs)

interpretation app_guard: tenant_guard
  "\<lambda>(env, loader) old new. snd (validateApp env loader old new)" AppMeta
  by unfold_locales (auto simp: guard_defs split: prod.splits if_splits option.splits)

interpretation project_guard: tenant_guard "\<lambda>_::unit. validateProject" ProjectMeta
  by unfold_locales (auto simp: guard_defs)

interpretation release_guard: tenant_guard validateRelease ReleaseMeta
  by unfold_locales (auto simp: guard_defs split: if_splits lookup.splits)

interpretation binding_guard: tenant_guard validateBinding BindingMeta
  by unfold_locales (auto simp: guard_defs split: if_splits)

interpretation bucket_guard: tenant_guard validateBucket BucketMeta
  by unfold_locales (auto simp: guard_defs)

interpretation job_guard: tenant_guard "\<lambda>_::unit. validateJob" JobMeta
  by unfold_locales (auto simp: guard_defs)

section \<open>Reference checks\<close>

lemma concat_enumerate_Nil:
  assumes "\<And>i x. f (i, x) = [] \<longleftrightarrow> P x"
  shows "concat (map f (List.enumerate n xs)) = [] \<longleftrightarrow> (\<forall>x \<in> set xs. P x)"
proof -
  have "set xs = snd ` set (List.enumerate n xs)"
    by (metis list.set_map map_snd_enumerate)
  then show ?thesis using assms by force
qed

lemma refErrors_Nil:
  "refErrors cl kind path ns tenant (i, n) = [] \<longleftrightarrow>
    (\<exists>m. getPlain cl kind (ns, n) = Found m \<and> lbl m labelTenant = tenant)"
  by (auto simp: refErrors_def split: lookup.splits)

lemma refList_Nil:
  "concat (map (refErrors cl kind path ns tenant) (List.enumerate 0 names)) = [] \<longleftrightarrow>
    (\<forall>n \<in> set names. \<exists>m. getPlain cl kind (ns, n) = Found m \<and> lbl m labelTenant = tenant)"
  by (rule concat_enumerate_Nil) (rule refErrors_Nil)

lemma bucketRefs_Nil:
  assumes "labelled (BucketMeta b)"
  shows "concat (map (bucketRefErrors cl b) (List.enumerate 0 names)) = [] \<longleftrightarrow>
    (\<forall>n \<in> set names. \<exists>m. getPlain cl BucketPolicy (Namespace (BucketMeta b), n) = Found m
        \<and> (\<forall>k \<in> set requiredLabelKeys. lbl m k = TrimSpace (lbl (BucketMeta b) k)))"
proof (rule concat_enumerate_Nil)
  fix i n
  show "bucketRefErrors cl b (i, n) = [] \<longleftrightarrow>
    (\<exists>m. getPlain cl BucketPolicy (Namespace (BucketMeta b), n) = Found m
       \<and> (\<forall>k \<in> set requiredLabelKeys. lbl m k = TrimSpace (lbl (BucketMeta b) k)))"
    using labelled_tenant [OF assms] labelled_project [OF assms] labelled_app [OF assms]
    by (auto simp: bucketRefErrors_def requiredLabelKeys_def Let_def split: lookup.splits)
qed

lemma app_accept_labelled: "snd (validateApp env loader old app) = [] \<Longrightarrow> labelled (AppMeta app)"
  using app_guard.accept_labelled [of "(env, loader)"] by simp

lemma app_label_nonempty: "labelled m \<Longrightarrow> lbl m labelTenant \<noteq> []"
  using labelled_tenant by fastforce

lemma app_accept_parts:
  assumes "snd (validateApp env loader old app) = []"
  shows "validateConfigRefs (client env) app (lbl (AppMeta app) labelTenant) = []"
    and "validateSecretRefs (client env) app (lbl (AppMeta app) labelTenant) = []"
    and "validateIngressRefs (client env) app (lbl (AppMeta app) labelTenant) = []"
    and "snd (projectForApp (client env) app (lbl (AppMeta app) labelTenant)) = []"
    and "validateServicePolicy (client env) app
           (fst (projectForApp (client env) app (lbl (AppMeta app) labelTenant))) = []"
    and "snd (validateRegistryPolicy (lib env) loader app) = []"
    and "validateAppVersion (lib env) (Some app) = []"
  using assms app_label_nonempty [OF app_accept_labelled [OF assms]]
  by (auto simp: validateApp_def Let_def split: prod.splits)

lemma projectForApp_Nil:
  assumes "snd (projectForApp cl app tenant) = []" "labelled (AppMeta app)" "tenant \<noteq> []"
  shows "\<exists>p. fst (projectForApp cl app tenant) = Some p
    \<and> getProject cl (Namespace (AppMeta app), TrimSpace (lbl (AppMeta app) labelProject)) = Found p
    \<and> TenantRef (ProjectSpecOf p) \<in> {[], tenant} \<and> tenantOf (ProjectMeta p) \<in> {[], tenant}"
  using assms labelled_project [OF assms(2)]
  by (auto simp: projectForApp_def Let_def split: lookup.splits if_splits)

end
