(* ===== verification/Admission.thy ===== *)
theory Admission
  imports TenantGuard
begin

text \<open>
  The cluster as the webhooks leave it.  \<open>admitCreate\<close> and \<open>admitUpdate\<close> dispatch a request
  to the webhook \<open>Setup\<close> registered for its kind; \<open>astep\<close> is one API request on the stored
  objects: a creation, an update or a deletion, the first two guarded by the webhooks, which
  read the current state.  Objects the webhooks do not guard (service accounts, network
  policy profiles, ConfigMaps) change freely.
\<close>

section \<open>Requests\<close>

fun admitCreate :: "webhook_env \<Rightarrow> runtime_object \<Rightarrow> admission" where
  "admitCreate env (ObjApp a) = App_ValidateCreate env (Some (PolicyFor (client env))) (ObjApp a)"
| "admitCreate env (ObjProject p) = Project_ValidateCreate (ObjProject p)"
| "admitCreate env (ObjAppRelease r) = AppRelease_ValidateCreate env (ObjAppRelease r)"
| "admitCreate env (ObjServiceBinding b) = ServiceBinding_ValidateCreate env (ObjServiceBinding b)"
| "admitCreate env (ObjBucket b) = Bucket_ValidateCreate env (ObjBucket b)"
| "admitCreate env (ObjJob j) = Job_ValidateCreate (ObjJob j)"
| "admitCreate env (ObjPlain k m) =
    (if k = ServiceAccount then Inr [] else LabelGuard_ValidateCreate (ObjPlain k m))"
| "admitCreate env ObjOpaque = Inr []"

fun admitUpdate :: "webhook_env \<Rightarrow> runtime_object \<Rightarrow> runtime_object \<Rightarrow> admission" where
  "admitUpdate env old (ObjApp a) = App_ValidateUpdate env (Some (PolicyFor (client env))) old (ObjApp a)"
| "admitUpdate env old (ObjProject p) = Project_ValidateUpdate old (ObjProject p)"
| "admitUpdate env old (ObjAppRelease r) = AppRelease_ValidateUpdate env old (ObjAppRelease r)"
| "admitUpdate env old (ObjServiceBinding b) = ServiceBinding_ValidateUpdate env old (ObjServiceBinding b)"
| "admitUpdate env old (ObjBucket b) = Bucket_ValidateUpdate env old (ObjBucket b)"
| "admitUpdate env old (ObjJob j) = Job_ValidateUpdate (Some old) (ObjJob j)"
| "admitUpdate env old (ObjPlain k m) =
    (if k = ServiceAccount then Inr [] else LabelGuard_ValidateUpdate old (ObjPlain k m))"
| "admitUpdate env old ObjOpaque = Inr []"

section \<open>The stored objects\<close>

datatype obj_kind = KApp | KProject | KAppRelease | KServiceBinding | KBucket | KJob | KPlain PlainKind | KOpaque

type_synonym obj_key = "obj_kind \<times> string \<times> string"

fun kindOf :: "runtime_object \<Rightarrow> obj_kind" where
  "kindOf (ObjApp _) = KApp"
| "kindOf (ObjProject _) = KProject"
| "kindOf (ObjAppRelease _) = KAppRelease"
| "kindOf (ObjServiceBinding _) = KServiceBinding"
| "kindOf (ObjBucket _) = KBucket"
| "kindOf (ObjJob _) = KJob"
| "kindOf (ObjPlain k _) = KPlain k"
| "kindOf ObjOpaque = KOpaque"

definition objMeta :: "runtime_object \<Rightarrow> ObjectMeta" where
  "objMeta obj = (case Accessor obj of Some m \<Rightarrow> m
     | None \<Rightarrow> \<lparr> Name = [], Namespace = [], Labels = None, Annotations = None \<rparr>)"

definition objKey :: "runtime_object \<Rightarrow> obj_key" where
  "objKey obj = (kindOf obj, Namespace (objMeta obj), Name (objMeta obj))"

definition guarded :: "obj_kind \<Rightarrow> bool" where
  "guarded k \<longleftrightarrow> k \<notin> {KPlain ServiceAccount, KOpaque}"

record cluster =
  objs :: "obj_key \<Rightarrow> runtime_object option"
  profiles :: "string \<Rightarrow> NetworkPolicyProfile option"
  configMaps :: "key \<Rightarrow> gomap option"

definition found :: "'a option \<Rightarrow> 'a lookup" where
  "found x = (case x of None \<Rightarrow> NotFound | Some y \<Rightarrow> Found y)"

definition clusterReader :: "cluster \<Rightarrow> reader" where
  "clusterReader \<sigma> =
    \<lparr> getPlain = (\<lambda>k (ns, n). case objs \<sigma> (KPlain k, ns, n) of Some (ObjPlain _ m) \<Rightarrow> Found m | _ \<Rightarrow> NotFound),
      getApp = (\<lambda>(ns, n). case objs \<sigma> (KApp, ns, n) of Some (ObjApp a) \<Rightarrow> Found a | _ \<Rightarrow> NotFound),
      getProject = (\<lambda>(ns, n). case objs \<sigma> (KProject, ns, n) of Some (ObjProject p) \<Rightarrow> Found p | _ \<Rightarrow> NotFound),
      getNetworkPolicyProfile = (\<lambda>n. found (profiles \<sigma> n)),
      getConfigMap = (\<lambda>k. found (configMaps \<sigma> k)) \<rparr>"

definition clusterEnv :: "parsers \<Rightarrow> cluster \<Rightarrow> webhook_env" where
  "clusterEnv ps \<sigma> = \<lparr> client = clusterReader \<sigma>, lib = ps \<rparr>"

definition store :: "cluster \<Rightarrow> runtime_object \<Rightarrow> cluster" where
  "store \<sigma> obj = \<sigma>\<lparr> objs := (objs \<sigma>)(objKey obj \<mapsto> withMeta defaultMetadata obj) \<rparr>"

datatype verb = Create | Update | Delete | Other

inductive astep :: "parsers \<Rightarrow> verb \<Rightarrow> cluster \<Rightarrow> cluster \<Rightarrow> bool" for ps where
  create: "objs \<sigma> (objKey obj) = None \<Longrightarrow>
    admitCreate (clusterEnv ps \<sigma>) obj = Inr w \<Longrightarrow> astep ps Create \<sigma> (store \<sigma> obj)"
| update: "objs \<sigma> (objKey obj) = Some old \<Longrightarrow>
    admitUpdate (clusterEnv ps \<sigma>) old obj = Inr w \<Longrightarrow> astep ps Update \<sigma> (store \<sigma> obj)"
| delete: "objs \<sigma> k = Some old \<Longrightarrow> ValidateDelete old = Inr w \<Longrightarrow>
    astep ps Delete \<sigma> (\<sigma>\<lparr> objs := (objs \<sigma>)(k := None) \<rparr>)"
| other: "astep ps Other \<sigma> (\<sigma>\<lparr> profiles := p', configMaps := c' \<rparr>)"

definition emptyCluster :: cluster where
  "emptyCluster = \<lparr> objs = (\<lambda>_. None), profiles = (\<lambda>_. None), configMaps = (\<lambda>_. None) \<rparr>"

text \<open>The states reached from the empty cluster by requests whose verbs are in a set.\<close>

inductive reachable :: "parsers \<Rightarrow> verb set \<Rightarrow> cluster \<Rightarrow> bool" for ps vs where
  init: "reachable ps vs emptyCluster"
| step: "reachable ps vs \<sigma> \<Longrightarrow> v \<in> vs \<Longrightarrow> astep ps v \<sigma> \<sigma>' \<Longrightarrow> reachable ps vs \<sigma>'"

inductive_cases astepE: "astep ps v \<sigma> \<sigma>'"

section \<open>References\<close>

text \<open>
  The tenant-scoped objects an object refers to: the configuration, secret and ingress
  references and the project of an App, the App of a release, the consumer App and the
  provider of a binding, and the policies of a bucket.
\<close>

definition providerKind :: "string \<Rightarrow> PlainKind option" where
  "providerKind t =
    (if t = ''database'' then Some DatabaseInstance
     else if t = ''cache'' then Some CacheInstance
     else if t = ''queue'' then Some QueueInstance else None)"

fun refsOf :: "runtime_object \<Rightarrow> obj_key set" where
  "refsOf (ObjApp a) =
    (let ns = Namespace (AppMeta a) in
     (\<lambda>n. (KPlain ConfigRef, ns, n)) ` set (ValuesRefs (AppSpecOf a))
   \<union> (\<lambda>n. (KPlain SecretRef, ns, n)) ` set (SecretsRefs (AppSpecOf a))
   \<union> (\<lambda>n. (KPlain IngressRoute, ns, n)) ` set (IngressRefs (AppSpecOf a))
   \<union> {(KProject, ns, TrimSpace (lbl (AppMeta a) labelProject))})"
| "refsOf (ObjAppRelease r) = {(KApp, Namespace (ReleaseMeta r), AppRef (ReleaseSpec r))}"
| "refsOf (ObjServiceBinding b) =
    (let ns = Namespace (BindingMeta b); spec = BindingSpec b in
     (if ConsumerType spec = ''app'' then {(KApp, ns, ConsumerName spec)} else {})
   \<union> (case providerKind (ProviderType spec) of None \<Rightarrow> {}
      | Some k \<Rightarrow> {(KPlain k, ns, ProviderName spec)}))"
| "refsOf (ObjBucket b) = (\<lambda>n. (KPlain BucketPolicy, Namespace (BucketMeta b), n)) ` set (PolicyRefs b)"
| "refsOf _ = {}"

abbreviation tenant :: "runtime_object \<Rightarrow> string" where
  "tenant obj \<equiv> tenantOf (objMeta obj)"

definition sameTenantAt :: "cluster \<Rightarrow> runtime_object \<Rightarrow> obj_key \<Rightarrow> bool" where
  "sameTenantAt \<sigma> obj r = (\<exists>o'. objs \<sigma> r = Some o' \<and> tenant o' = tenant obj)"

definition wellKeyed :: "cluster \<Rightarrow> bool" where
  "wellKeyed \<sigma> \<longleftrightarrow> (\<forall>k obj. objs \<sigma> k = Some obj \<longrightarrow> objKey obj = k)"

definition wellLabelled :: "cluster \<Rightarrow> bool" where
  "wellLabelled \<sigma> \<longleftrightarrow>
    (\<forall>k obj. objs \<sigma> k = Some obj \<longrightarrow> guarded (kindOf obj) \<longrightarrow> labelled (objMeta obj))"

definition isolated :: "cluster \<Rightarrow> bool" where
  "isolated \<sigma> \<longleftrightarrow> (\<forall>k obj. objs \<sigma> k = Some obj \<longrightarrow> (\<forall>r \<in> refsOf obj. sameTenantAt \<sigma> obj r))"

section \<open>Defaulting changes no label\<close>

lemma lbl_defaultMetadata [simp]: "lbl (defaultMetadata m) k = lbl m k"
  by (cases "Labels m") (simp_all add: defaultMetadata_def)

lemma defaultMetadata_keeps [simp]:
  "Name (defaultMetadata m) = Name m" "Namespace (defaultMetadata m) = Namespace m"
  by (simp_all add: defaultMetadata_def)

lemma labelled_defaultMetadata [simp]: "labelled (defaultMetadata m) = labelled m"
  by (simp add: labelled_def)

lemma objMeta_simps [simp]:
  "objMeta (ObjApp a) = AppMeta a" "objMeta (ObjProject p) = ProjectMeta p"
  "objMeta (ObjAppRelease r) = ReleaseMeta r" "objMeta (ObjServiceBinding b) = BindingMeta b"
  "objMeta (ObjBucket bu) = BucketMeta bu" "objMeta (ObjJob j) = JobMeta j"
  "objMeta (ObjPlain k m) = m"
  by (simp_all add: objMeta_def)

lemma defaulted_kind [simp]: "kindOf (withMeta defaultMetadata obj) = kindOf obj"
  by (cases obj) simp_all

lemma defaulted_tenant [simp]: "tenant (withMeta defaultMetadata obj) = tenant obj"
  by (cases obj) simp_all

lemma defaulted_labelled [simp]: "labelled (objMeta (withMeta defaultMetadata obj)) = labelled (objMeta obj)"
  by (cases obj) simp_all

lemma defaulted_key [simp]: "objKey (withMeta defaultMetadata obj) = objKey obj"
  by (cases obj) (simp_all add: objKey_def)

lemma defaulted_refs [simp]: "refsOf (withMeta defaultMetadata obj) = refsOf obj"
  by (cases obj) (simp_all add: Let_def)

section \<open>What the webhooks accept\<close>

lemma admit_Inr [simp]: "admit n (ws, errs) = Inr w \<longleftrightarrow> errs = [] \<and> w = ws"
  by (auto simp: admit_def)

lemma admit_Inr_snd: "admit n r = Inr w \<Longrightarrow> snd r = []"
  by (cases r) simp

lemmas handler_defs =
  App_ValidateCreate_def App_ValidateUpdate_def Project_ValidateCreate_def Project_ValidateUpdate_def
  AppRelease_ValidateCreate_def AppRelease_ValidateUpdate_def ServiceBinding_ValidateCreate_def
  ServiceBinding_ValidateUpdate_def Bucket_ValidateCreate_def Bucket_ValidateUpdate_def
  Job_ValidateCreate_def Job_ValidateUpdate_def LabelGuard_ValidateCreate_def LabelGuard_ValidateUpdate_def

lemmas guards_labelled =
  app_accept_labelled project_guard.accept_labelled release_guard.accept_labelled
  binding_guard.accept_labelled bucket_guard.accept_labelled job_guard.accept_labelled
  label_guard.accept_labelled

lemma create_labelled:
  "admitCreate env obj = Inr w \<Longrightarrow> guarded (kindOf obj) \<Longrightarrow> labelled (objMeta obj)"
  by (cases obj) (auto simp: handler_defs guarded_def dest!: admit_Inr_snd intro: guards_labelled
      split: if_splits)

lemma update_labelled:
  "admitUpdate env old obj = Inr w \<Longrightarrow> guarded (kindOf obj) \<Longrightarrow> labelled (objMeta obj)"
  by (cases obj) (auto simp: handler_defs guarded_def dest!: admit_Inr_snd intro: guards_labelled
      split: if_splits runtime_object.splits option.splits)

lemma app_update_keeps_tenant:
  "snd (validateApp env loader (Some old) new) = [] \<Longrightarrow> labelled (AppMeta old) \<Longrightarrow>
    tenantOf (AppMeta new) = tenantOf (AppMeta old)"
  using app_guard.update_keeps_tenant [of "(env, loader)"] by simp

lemmas guards_keep_tenant =
  app_update_keeps_tenant project_guard.update_keeps_tenant release_guard.update_keeps_tenant
  binding_guard.update_keeps_tenant bucket_guard.update_keeps_tenant job_guard.update_keeps_tenant
  label_guard.update_keeps_tenant

lemma admitUpdate_keeps_tenant:
  "admitUpdate env old obj = Inr w \<Longrightarrow> guarded (kindOf obj) \<Longrightarrow> kindOf old = kindOf obj \<Longrightarrow>
    labelled (objMeta old) \<Longrightarrow> tenant obj = tenant old"
  by (cases obj; cases old)
    (auto simp: handler_defs guarded_def dest!: admit_Inr_snd intro: guards_keep_tenant split: if_splits)

section \<open>Accepted references\<close>

lemma clusterReader_plain:
  "getPlain (clusterReader \<sigma>) k (ns, n) = Found m \<Longrightarrow> \<exists>k'. objs \<sigma> (KPlain k, ns, n) = Some (ObjPlain k' m)"
  by (auto simp: clusterReader_def split: option.splits runtime_object.splits)

lemma clusterReader_app:
  "getApp (clusterReader \<sigma>) (ns, n) = Found a \<Longrightarrow> objs \<sigma> (KApp, ns, n) = Some (ObjApp a)"
  by (auto simp: clusterReader_def split: option.splits runtime_object.splits)

lemma clusterReader_project:
  "getProject (clusterReader \<sigma>) (ns, n) = Found p \<Longrightarrow> objs \<sigma> (KProject, ns, n) = Some (ObjProject p)"
  by (auto simp: clusterReader_def split: option.splits runtime_object.splits)

lemma clusterEnv_sel [simp]: "client (clusterEnv ps \<sigma>) = clusterReader \<sigma>" "lib (clusterEnv ps \<sigma>) = ps"
  by (simp_all add: clusterEnv_def)

lemma app_refs_same_tenant:
  assumes acc: "snd (validateApp (clusterEnv ps \<sigma>) loader old a) = []"
    and wl: "wellLabelled \<sigma>" and r: "r \<in> refsOf (ObjApp a)"
  shows "sameTenantAt \<sigma> (ObjApp a) r"
proof -
  let ?ns = "Namespace (AppMeta a)" and ?t = "lbl (AppMeta a) labelTenant"
  note parts = app_accept_parts [OF acc, simplified]
  note lab = app_accept_labelled [OF acc]
  note refs = parts(1-3) [unfolded validateConfigRefs_def validateSecretRefs_def validateIngressRefs_def
    refList_Nil]
  obtain p where p: "getProject (clusterReader \<sigma>) (?ns, TrimSpace (lbl (AppMeta a) labelProject)) = Found p"
      "tenantOf (ProjectMeta p) \<in> {[], ?t}"
    using projectForApp_Nil [OF parts(4) lab app_label_nonempty [OF lab]] by auto
  have "tenantOf (ProjectMeta p) \<noteq> []"
    using clusterReader_project [OF p(1)] wl labelled_tenant
    by (force simp: wellLabelled_def guarded_def)
  then have "tenantOf (ProjectMeta p) = ?t" using p(2) by simp
  then have "tenantOf (ProjectMeta p) = TrimSpace ?t" by (metis TrimSpace_idem)
  then have "sameTenantAt \<sigma> (ObjApp a) (KProject, ?ns, TrimSpace (lbl (AppMeta a) labelProject))"
    using clusterReader_project [OF p(1)] by (auto simp: sameTenantAt_def)
  moreover have "sameTenantAt \<sigma> (ObjApp a) (KPlain k, ?ns, n)"
    if "getPlain (clusterReader \<sigma>) k (?ns, n) = Found m" "lbl m labelTenant = ?t" for k n m
    using clusterReader_plain [OF that(1)] that(2) by (auto simp: sameTenantAt_def)
  ultimately show ?thesis using r refs by (auto simp: Let_def)
qed

lemma release_refs_same_tenant:
  assumes acc: "validateRelease (clusterEnv ps \<sigma>) old rel = []" and r: "r \<in> refsOf (ObjAppRelease rel)"
  shows "sameTenantAt \<sigma> (ObjAppRelease rel) r"
proof -
  have "lbl (ReleaseMeta rel) labelTenant \<noteq> []"
    using release_guard.accept_labelled [OF acc] by (rule app_label_nonempty)
  then obtain app where "getApp (clusterReader \<sigma>) (Namespace (ReleaseMeta rel), AppRef (ReleaseSpec rel)) = Found app"
      "lbl (AppMeta app) labelTenant = lbl (ReleaseMeta rel) labelTenant"
    using acc by (auto simp: validateRelease_def Let_def split: if_splits lookup.splits)
  then show ?thesis using r clusterReader_app by (auto simp: sameTenantAt_def)
qed

lemma providerErrors_Nil:
  "providerErrors cl k b t = [] \<longleftrightarrow>
    (\<exists>m. getPlain cl k (Namespace (BindingMeta b), ProviderName (BindingSpec b)) = Found m \<and> lbl m labelTenant = t)"
  by (auto simp: providerErrors_def split: lookup.splits)

lemma binding_accept_parts:
  assumes "validateBinding env old b = []"
  shows "validateBindingConsumer (client env) b (tenantOf (BindingMeta b)) = []"
    and "validateBindingProvider (client env) b (tenantOf (BindingMeta b)) = []"
  using assms labelled_tenant [OF binding_guard.accept_labelled [OF assms]]
  by (auto simp: validateBinding_def Let_def)

lemma binding_refs_same_tenant:
  assumes acc: "validateBinding (clusterEnv ps \<sigma>) old b = []" and r: "r \<in> refsOf (ObjServiceBinding b)"
  shows "sameTenantAt \<sigma> (ObjServiceBinding b) r"
proof -
  let ?ns = "Namespace (BindingMeta b)" and ?s = "BindingSpec b"
  note parts = binding_accept_parts [OF acc, simplified]
  from r consider
      (consumer) "ConsumerType ?s = ''app''" "r = (KApp, ?ns, ConsumerName ?s)"
    | (provider) k where "providerKind (ProviderType ?s) = Some k" "r = (KPlain k, ?ns, ProviderName ?s)"
    by (auto simp: Let_def split: if_splits option.splits)
  then show ?thesis
  proof cases
    case consumer
    then obtain app where "getApp (clusterReader \<sigma>) (?ns, ConsumerName ?s) = Found app"
        "lbl (AppMeta app) labelTenant = tenantOf (BindingMeta b)"
      using parts(1) by (auto simp: validateBindingConsumer_def Let_def split: lookup.splits if_splits)
    then show ?thesis using consumer(2) clusterReader_app by (auto simp: sameTenantAt_def)
  next
    case provider
    then have "providerErrors (clusterReader \<sigma>) k b (tenantOf (BindingMeta b)) = []"
      using parts(2) by (auto simp: validateBindingProvider_def providerKind_def Let_def split: if_splits)
    then obtain m where "getPlain (clusterReader \<sigma>) k (?ns, ProviderName ?s) = Found m"
        "lbl m labelTenant = tenantOf (BindingMeta b)"
      unfolding providerErrors_Nil by blast
    then show ?thesis using provider(2) clusterReader_plain by (fastforce simp: sameTenantAt_def)
  qed
qed

lemma bucket_refs_same_tenant:
  assumes acc: "validateBucket (clusterEnv ps \<sigma>) old b = []" and r: "r \<in> refsOf (ObjBucket b)"
  shows "sameTenantAt \<sigma> (ObjBucket b) r"
proof -
  note lab = bucket_guard.accept_labelled [OF acc]
  have "concat (map (bucketRefErrors (clusterReader \<sigma>) b) (List.enumerate 0 (PolicyRefs b))) = []"
    using acc unfolding validateBucket_def by (simp del: concat_eq_Nil_conv)
  then have "\<forall>n \<in> set (PolicyRefs b). \<exists>m. getPlain (clusterReader \<sigma>) BucketPolicy (Namespace (BucketMeta b), n) = Found m
        \<and> lbl m labelTenant = tenantOf (BucketMeta b)"
    unfolding bucketRefs_Nil [OF lab] by (force simp: requiredLabelKeys_def)
  then show ?thesis using r clusterReader_plain by (fastforce simp: sameTenantAt_def)
qed

lemmas refs_same_tenant =
  app_refs_same_tenant release_refs_same_tenant binding_refs_same_tenant bucket_refs_same_tenant

lemma create_refs:
  "admitCreate (clusterEnv ps \<sigma>) obj = Inr w \<Longrightarrow> wellLabelled \<sigma> \<Longrightarrow> r \<in> refsOf obj \<Longrightarrow> sameTenantAt \<sigma> obj r"
  by (cases obj) (auto simp: handler_defs simp del: refsOf.simps(1-4) dest!: admit_Inr_snd intro: refs_same_tenant)

lemma update_refs:
  "admitUpdate (clusterEnv ps \<sigma>) old obj = Inr w \<Longrightarrow> wellLabelled \<sigma> \<Longrightarrow> r \<in> refsOf obj \<Longrightarrow> sameTenantAt \<sigma> obj r"
  by (cases obj) (auto simp: handler_defs simp del: refsOf.simps(1-4) dest!: admit_Inr_snd intro: refs_same_tenant
      split: runtime_object.splits)

section \<open>Invariants of the cluster\<close>

lemma refs_guarded: "r \<in> refsOf obj \<Longrightarrow> guarded (fst r)"
  by (cases obj) (auto simp: guarded_def Let_def providerKind_def split: option.splits if_splits)

lemma store_objs: "objs (store \<sigma> obj) k = (if k = objKey obj then Some (withMeta defaultMetadata obj) else objs \<sigma> k)"
  by (simp add: store_def)

lemma wellKeyedD: "wellKeyed \<sigma> \<Longrightarrow> objs \<sigma> k = Some obj \<Longrightarrow> objKey obj = k"
  unfolding wellKeyed_def by blast

lemma wellLabelledD:
  "wellLabelled \<sigma> \<Longrightarrow> objs \<sigma> k = Some obj \<Longrightarrow> guarded (kindOf obj) \<Longrightarrow> labelled (objMeta obj)"
  unfolding wellLabelled_def by blast

lemma isolatedD: "isolated \<sigma> \<Longrightarrow> objs \<sigma> k = Some obj \<Longrightarrow> r \<in> refsOf obj \<Longrightarrow> sameTenantAt \<sigma> obj r"
  unfolding isolated_def by blast

lemma wellKeyed_step: "astep ps v \<sigma> \<sigma>' \<Longrightarrow> wellKeyed \<sigma> \<Longrightarrow> wellKeyed \<sigma>'"
  by (erule astepE) (auto simp: wellKeyed_def store_objs)

lemma wellKeyed_kind: "wellKeyed \<sigma> \<Longrightarrow> objs \<sigma> k = Some obj \<Longrightarrow> kindOf obj = fst k"
  using wellKeyedD [of \<sigma> k obj] by (auto simp: objKey_def)

lemma wellLabelled_step: "astep ps v \<sigma> \<sigma>' \<Longrightarrow> wellLabelled \<sigma> \<Longrightarrow> wellLabelled \<sigma>'"
  by (erule astepE)
    (auto simp: wellLabelled_def store_objs create_labelled update_labelled split: if_splits)

lemma step_keeps_tenant:
  assumes st: "astep ps v \<sigma> \<sigma>'" and inv: "wellKeyed \<sigma>" "wellLabelled \<sigma>"
    and k: "objs \<sigma> k = Some old" "guarded (fst k)" "objs \<sigma>' k = Some new"
  shows "tenant new = tenant old"
  using st
proof cases
  case (update obj old' w)
  show ?thesis
  proof (cases "k = objKey obj")
    case True
    then have old: "old' = old" and new: "new = withMeta defaultMetadata obj"
      using update k by (auto simp: store_objs)
    have kind: "kindOf old = kindOf obj" "guarded (kindOf obj)"
      using wellKeyed_kind [OF inv(1) k(1)] True k(2) by (auto simp: objKey_def)
    moreover have "labelled (objMeta old)"
      using wellLabelledD [OF inv(2) k(1)] kind by simp
    ultimately show ?thesis using admitUpdate_keeps_tenant update(4) old new by simp
  qed (use update k in \<open>auto simp: store_objs\<close>)
qed (use k in \<open>auto simp: store_objs split: if_splits\<close>)

lemma sameTenantAt_step:
  assumes st: "astep ps v \<sigma> \<sigma>'" and v: "v \<noteq> Delete" and inv: "wellKeyed \<sigma>" "wellLabelled \<sigma>"
    and r: "sameTenantAt \<sigma> obj r" "guarded (fst r)"
  shows "sameTenantAt \<sigma>' obj r"
proof -
  from r obtain o' where o': "objs \<sigma> r = Some o'" "tenant o' = tenant obj"
    by (auto simp: sameTenantAt_def)
  have "\<exists>n. objs \<sigma>' r = Some n"
    using st v o'(1) by cases (auto simp: store_objs)
  then show ?thesis
    using step_keeps_tenant [OF st inv o'(1) r(2)] o'(2) by (auto simp: sameTenantAt_def)
qed

lemma sameTenantAt_defaulted [simp]:
  "sameTenantAt \<sigma> (withMeta defaultMetadata obj) r = sameTenantAt \<sigma> obj r"
  by (simp add: sameTenantAt_def)

lemma step_new_object_refs:
  assumes "astep ps v \<sigma> \<sigma>'" "wellLabelled \<sigma>" "objs \<sigma>' k = Some obj" "r \<in> refsOf obj"
  shows "objs \<sigma> k = Some obj \<or> sameTenantAt \<sigma> obj r"
  using assms by cases (auto simp: store_objs create_refs update_refs split: if_splits)

lemma isolated_step:
  assumes st: "astep ps v \<sigma> \<sigma>'" and v: "v \<noteq> Delete"
    and inv: "wellKeyed \<sigma>" "wellLabelled \<sigma>" "isolated \<sigma>"
  shows "isolated \<sigma>'"
  unfolding isolated_def
proof (intro allI impI ballI)
  fix k obj r assume k: "objs \<sigma>' k = Some obj" and r: "r \<in> refsOf obj"
  have "sameTenantAt \<sigma> obj r"
    using step_new_object_refs [OF st inv(2) k r] isolatedD [OF inv(3) _ r] by blast
  then show "sameTenantAt \<sigma>' obj r"
    by (rule sameTenantAt_step [OF st v inv(1,2) _ refs_guarded [OF r]])
qed

lemma init_invariants [simp]:
  "wellKeyed emptyCluster" "wellLabelled emptyCluster" "isolated emptyCluster"
  by (simp_all add: wellKeyed_def wellLabelled_def isolated_def emptyCluster_def)

lemma reachable_invariants: "reachable ps vs \<sigma> \<Longrightarrow> wellKeyed \<sigma> \<and> wellLabelled \<sigma>"
  by (induction rule: reachable.induct) (auto intro: wellKeyed_step wellLabelled_step)

lemma reachable_isolated: "reachable ps vs \<sigma> \<Longrightarrow> Delete \<notin> vs \<Longrightarrow> isolated \<sigma>"
proof (induction rule: reachable.induct)
  case (step \<sigma> v \<sigma>')
  then show ?case using reachable_invariants isolated_step by blast
qed simp

section \<open>A small cluster\<close>

text \<open>Objects of a tenant \<open>acme\<close>, used to exhibit reachable states.\<close>

definition labels3 :: "string \<Rightarrow> gomap option" where
  "labels3 t = Some [labelTenant \<mapsto> t, labelProject \<mapsto> ''web'', labelApp \<mapsto> ''shop'']"

definition meta3 :: "string \<Rightarrow> string \<Rightarrow> ObjectMeta" where
  "meta3 n t = \<lparr> Name = n, Namespace = ''ns'', Labels = labels3 t, Annotations = None \<rparr>"

definition exProject :: runtime_object where
  "exProject = ObjProject \<lparr> ProjectMeta = meta3 ''web'' ''acme'',
     ProjectSpecOf = \<lparr> TenantRef = ''acme'', Purpose = ''shop'', Environment = ''prod'',
       NamespaceName = ''ns'', PSAPreset = [], NetworkPolicyProfileRef = [] \<rparr> \<rparr>"

definition exConfig :: "string \<Rightarrow> runtime_object" where
  "exConfig t = ObjPlain ConfigRef (meta3 ''cfg'' t)"

definition exAppSpec :: AppSpec where
  "exAppSpec = \<lparr> AppType = ''raw'', Source = None, AppVersion = [], VersionRange = [], Image = [],
     ValuesRefs = [''cfg''], SecretsRefs = [], Replicas = None, Rollout = None, ServiceProfile = None,
     IngressRefs = [], Hosts = [] \<rparr>"

definition exApp :: runtime_object where
  "exApp = ObjApp \<lparr> AppMeta = meta3 ''shop'' ''acme'', AppSpecOf = exAppSpec \<rparr>"

definition exParsers :: parsers where
  "exParsers = \<lparr> semverVersionOK = (\<lambda>v. v \<noteq> []), semverConstraintOK = (\<lambda>v. v \<noteq> []),
     parseReference = (\<lambda>i. Some (i, fst (Cut i (CHR ''/'')))) \<rparr>"

lemmas example_defs =
  labels3_def meta3_def exProject_def exConfig_def exAppSpec_def exApp_def

definition exCluster :: cluster where
  "exCluster = store (store (store emptyCluster exProject) (exConfig ''acme'')) exApp"

lemma exProject_admitted: "admitCreate env exProject = Inr []"
  unfolding exProject_def by code_simp

lemma TrimSpace_examples [simp]: "TrimSpace ''web'' = ''web''" "TrimSpace ''shop'' = ''shop''"
  by code_simp+

lemma exConfig_admitted: "admitCreate env (exConfig t) = Inr [] \<longleftrightarrow> TrimSpace t \<noteq> []"
  by (auto simp: exConfig_def LabelGuard_ValidateCreate_def validateLabelGuard_def meta3_def labels3_def
      labelled_def requiredLabelKeys_def labelTenant_def labelProject_def labelApp_def)

lemma exApp_admitted:
  "admitCreate (clusterEnv ps (store (store emptyCluster exProject) (exConfig ''acme''))) exApp = Inr []"
  by code_simp

lemma exKeys:
  "objKey exProject = (KProject, ''ns'', ''web'')"
  "objKey (exConfig t) = (KPlain ConfigRef, ''ns'', ''cfg'')"
  "objKey exApp = (KApp, ''ns'', ''shop'')"
  by (simp_all add: objKey_def example_defs)

lemma emptyCluster_objs [simp]: "objs emptyCluster k = None"
  by (simp add: emptyCluster_def)

lemma exCluster_reachable: "Create \<in> vs \<Longrightarrow> reachable ps vs exCluster"
  unfolding exCluster_def
  by (intro reachable.step [OF _ _ astep.create [OF _ exApp_admitted]]
      reachable.step [OF _ _ astep.create [OF _ iffD2 [OF exConfig_admitted]]]
      reachable.step [OF _ _ astep.create [OF _ exProject_admitted]] reachable.init)
    (simp_all add: store_objs exKeys, code_simp)

section \<open>Properties\<close>

text \<open>
  (C1) Tenant isolation of the stored objects.  In every cluster state that creations and
  updates through the webhooks reach from the empty cluster (with arbitrary changes to the
  objects the webhooks do not guard), every object that a stored App, AppRelease,
  ServiceBinding or Bucket refers to is stored as well and belongs to the same tenant: the
  values, secrets, routes and project of an App, the App of a release, the provider and an App
  as the consumer of a binding, the policies of a bucket.
\<close>

theorem references_stay_within_tenant:
  assumes "reachable ps {Create, Update, Other} \<sigma>"
    and "objs \<sigma> k = Some obj" and "r \<in> refsOf obj"
  shows "\<exists>o'. objs \<sigma> r = Some o' \<and> tenant o' = tenant obj"
  using isolatedD [OF reachable_isolated [OF assms(1)] assms(2,3)] by (simp add: sameTenantAt_def)

theorem references_stay_within_tenant_witness:
  "\<exists>o'. objs exCluster (KPlain ConfigRef, ''ns'', ''cfg'') = Some o' \<and> tenant o' = tenant exApp"
proof -
  have "objs exCluster (KApp, ''ns'', ''shop'') = Some (withMeta defaultMetadata exApp)"
    by (simp add: exCluster_def store_objs exKeys)
  moreover have "(KPlain ConfigRef, ''ns'', ''cfg'') \<in> refsOf (withMeta defaultMetadata exApp)"
    by (simp add: exApp_def exAppSpec_def meta3_def Let_def)
  ultimately show ?thesis
    using references_stay_within_tenant [OF exCluster_reachable] by fastforce
qed

text \<open>
  (C2) Required labels and constant tenants, under every kind of request including
  deletions: in a reachable state every stored object of a guarded kind has non-blank
  tenant, project and app labels, and a request that leaves the object stored leaves its
  tenant unchanged.
\<close>

theorem guarded_objects_keep_their_tenant:
  assumes "reachable ps UNIV \<sigma>" and "objs \<sigma> k = Some old" and "guarded (fst k)"
  shows "labelled (objMeta old) \<and>
    (\<forall>v \<sigma>' new. astep ps v \<sigma> \<sigma>' \<longrightarrow> objs \<sigma>' k = Some new \<longrightarrow> tenant new = tenant old)"
proof -
  have inv: "wellKeyed \<sigma>" "wellLabelled \<sigma>" using reachable_invariants [OF assms(1)] by auto
  then have "labelled (objMeta old)"
    using wellLabelledD [OF inv(2) assms(2)] wellKeyed_kind [OF inv(1) assms(2)] assms(3) by simp
  then show ?thesis using step_keeps_tenant [OF _ inv assms(2,3)] by blast
qed

theorem guarded_objects_keep_their_tenant_witness:
  "labelled (objMeta exApp) \<and> astep exParsers Update exCluster (store exCluster exApp)
   \<and> tenant (the (objs (store exCluster exApp) (KApp, ''ns'', ''shop'')))
     = tenant (the (objs exCluster (KApp, ''ns'', ''shop'')))"
proof -
  have app: "objs exCluster (KApp, ''ns'', ''shop'') = Some (withMeta defaultMetadata exApp)"
    by (simp add: exCluster_def store_objs exKeys)
  have "admitUpdate (clusterEnv exParsers exCluster) (withMeta defaultMetadata exApp) exApp = Inr []"
    by code_simp
  then have st: "astep exParsers Update exCluster (store exCluster exApp)"
    using app by (intro astep.update) (simp_all add: exKeys)
  then show ?thesis
    using guarded_objects_keep_their_tenant [OF exCluster_reachable app, of exParsers]
    by (simp add: guarded_def app store_objs exKeys)
qed

text \<open>
  (C10) Isolation does not survive deletions.  The webhooks validate no deletion and do not
  look for referrers, so with deletions there are reachable states in which an App refers
  to a ConfigRef of another tenant: the referenced object is deleted and created again, by
  the same name, for another tenant.
\<close>

theorem recreated_reference_crosses_tenants:
  "\<exists>\<sigma> k obj r o'. reachable ps UNIV \<sigma> \<and> objs \<sigma> k = Some obj \<and> r \<in> refsOf obj
     \<and> objs \<sigma> r = Some o' \<and> tenant o' \<noteq> tenant obj"
proof -
  let ?r = "(KPlain ConfigRef, ''ns'', ''cfg'')"
  let ?d = "exCluster\<lparr> objs := (objs exCluster)(?r := None) \<rparr>"
  let ?\<sigma> = "store ?d (exConfig ''evil'')"
  have "objs exCluster ?r = Some (withMeta defaultMetadata (exConfig ''acme''))"
    by (simp add: exCluster_def store_objs exKeys)
  then have "reachable ps UNIV ?d"
    by (intro reachable.step [OF exCluster_reachable _ astep.delete]) (auto simp: ValidateDelete_def)
  moreover have "admitCreate (clusterEnv ps ?d) (exConfig ''evil'') = Inr []"
    by (rule iffD2 [OF exConfig_admitted]) code_simp
  ultimately have "reachable ps UNIV ?\<sigma>"
    by (intro reachable.step [OF _ _ astep.create]) (auto simp: exKeys)
  moreover have "objs ?\<sigma> (KApp, ''ns'', ''shop'') = Some (withMeta defaultMetadata exApp)"
    by (simp add: exCluster_def store_objs exKeys)
  moreover have "?r \<in> refsOf (withMeta defaultMetadata exApp)"
    by (simp add: exApp_def exAppSpec_def meta3_def Let_def)
  moreover have "objs ?\<sigma> ?r = Some (withMeta defaultMetadata (exConfig ''evil''))"
    by (simp add: store_objs exKeys)
  moreover have "tenant (withMeta defaultMetadata (exConfig ''evil'')) \<noteq> tenant (withMeta defaultMetadata exApp)"
    by code_simp
  ultimately show ?thesis by blast
qed

end
