(* ===== verification/WebhookProperties.thy ===== *)
theory WebhookProperties
  imports Admission
begin

text \<open>
  What an accepted object of each kind satisfies: the exposure policy and the registry
  policy of an App, the immutability of an AppRelease, the pod restrictions of a Job, and
  the tenancy of an admission history of each kind.
\<close>

section \<open>Service exposure\<close>

definition exposurePermitted :: "ServiceExposurePolicy option \<Rightarrow> AppServiceProfile \<Rightarrow> bool" where
  "exposurePermitted pol prof \<longleftrightarrow>
    (requestedServiceType prof = ''ClusterIP'' \<or> (\<exists>p. pol = Some p \<and> requestedServiceType prof \<in> set (AllowedTypes p)))
    \<and> (\<forall>ip \<in> set (ProfileExternalIPs prof). \<exists>p. pol = Some p \<and> ip \<in> set (AllowedExternalIPs p))"

lemma typeAllowed_iff:
  "typeAllowed pol t \<longleftrightarrow> t = ''ClusterIP'' \<or> (\<exists>p. pol = Some p \<and> t \<in> set (AllowedTypes p))"
  by (auto simp: typeAllowed_def split: option.splits)

lemma externalIPErrors_Nil:
  "externalIPErrors pol ips = [] \<longleftrightarrow> (\<forall>ip \<in> set ips. \<exists>p. pol = Some p \<and> ip \<in> set (AllowedExternalIPs p))"
proof -
  have "set ips = snd ` set (List.enumerate 0 ips)"
    by (metis list.set_map map_snd_enumerate)
  then show ?thesis
    by (cases ips) (auto simp: externalIPErrors_def Let_def filter_empty_conv split: option.splits)
qed

lemma validateServicePolicy_Nil:
  assumes "ServiceProfile (AppSpecOf app) = Some prof"
    and "profileRef = (case projecto of None \<Rightarrow> [] | Some pr \<Rightarrow> NetworkPolicyProfileRef (ProjectSpecOf pr))"
  shows "validateServicePolicy cl app projecto = [] \<longleftrightarrow>
    (if TrimSpace profileRef = []
     then requestedServiceType prof \<noteq> ''LoadBalancer'' \<and> ProfileExternalIPs prof = []
     else \<exists>np. getNetworkPolicyProfile cl profileRef = Found np \<and> exposurePermitted (ServicePolicy np) prof)"
  unfolding validateServicePolicy_def exposurePermitted_def assms(1)
  by (cases "getNetworkPolicyProfile cl profileRef")
    (simp_all add: Let_def typeAllowed_iff externalIPErrors_Nil flip: assms(2))


definition exReader :: reader where
  "exReader = clusterReader exCluster"

definition exEnv :: webhook_env where
  "exEnv = \<lparr> client = exReader, lib = exParsers \<rparr>"

definition exExposed :: App where
  "exExposed = \<lparr> AppMeta = meta3 ''shop'' ''acme'',
     AppSpecOf = exAppSpec\<lparr> ServiceProfile := Some \<lparr> ProfileType = ''NodePort'', ProfilePorts = [80],
       ProfileInternal = False, ProfileExternalIPs = [] \<rparr> \<rparr> \<rparr>"

lemma exExposed_accepted: "snd (validateApp exEnv None None exExposed) = []"
  by code_simp


section \<open>Registry policy\<close>

lemma imageErrors_Nil:
  "imageErrors ps pol spec = [] \<longleftrightarrow>
    TrimSpace (Image spec) = [] \<or>
    (\<exists>repo host. parseReference ps (TrimSpace (Image spec)) = Some (repo, host)
       \<and> AllowsRegistry (Some pol) (ToLower host) \<and> AllowsRepository (Some pol) (ToLower repo))"
  by (auto simp: imageErrors_def Let_def split: option.splits)

lemma sourceErrors_Nil:
  "sourceErrors pol spec = [] \<Longrightarrow> Source spec = Some src \<Longrightarrow> TrimSpace (SourceURL src) \<noteq> [] \<Longrightarrow>
   registryInfoFromSource (AppType spec) (Some src) [Child ''spec'', Child ''source'', Child ''url''] = (host, repo, errs) \<Longrightarrow>
   errs = [] \<and> (host \<noteq> [] \<longrightarrow> AllowsRegistry (Some pol) host) \<and> (repo \<noteq> [] \<longrightarrow> AllowsRepository (Some pol) repo)"
  by (auto simp: sourceErrors_def Let_def split: if_splits)


definition exPolicyCluster :: cluster where
  "exPolicyCluster = exCluster\<lparr> configMaps := [(''ns'', ''registry-policy'') \<mapsto>
     [''allowedRegistries'' \<mapsto> ''*.acme.io'', ''allowedRepositories'' \<mapsto> ''ghcr.acme.io/*'']] \<rparr>"

definition exPolicyEnv :: webhook_env where
  "exPolicyEnv = clusterEnv exParsers exPolicyCluster"

definition exImageApp :: App where
  "exImageApp = \<lparr> AppMeta = meta3 ''shop'' ''acme'', AppSpecOf = exAppSpec\<lparr> Image := ''ghcr.acme.io/web'' \<rparr> \<rparr>"

definition exPolicy :: RegistryPolicy where
  "exPolicy = \<lparr> AllowedRegistries = [''*.acme.io''], AllowedRepositories = [''ghcr.acme.io/*''], RequireCosign = False \<rparr>"


text \<open>
  The registry policy fails closed: when the ConfigMap cannot be read, or its
  \<open>requireCosign\<close> is not a boolean, no App of the namespace is accepted.
\<close>

theorem unreadable_policy_rejects:
  assumes "getConfigMap (client env) (Namespace (AppMeta app), ''registry-policy'') = LookupErr
    \<or> (\<exists>data raw. getConfigMap (client env) (Namespace (AppMeta app), ''registry-policy'') = Found data
        \<and> data ''requireCosign'' = Some raw \<and> parseCosign raw = None)"
  shows "\<exists>errs. App_ValidateCreate env (Some (PolicyFor (client env))) (ObjApp app)
           = Inl (InvalidObject (Name (AppMeta app)) errs) \<and> InternalError [Child ''spec''] \<in> set errs"
proof -
  have "\<exists>e. PolicyFor (client env) (Namespace (AppMeta app)) = Inl e"
    using assms by (auto simp: PolicyFor_def ParseConfigMap_def Let_def)
  then have "InternalError [Child ''spec''] \<in> set (snd (validateApp env (Some (PolicyFor (client env))) None app))"
    by (auto simp: validateApp_def validateRegistryPolicy_def Let_def split: prod.splits)
  then show ?thesis
    by (cases "validateApp env (Some (PolicyFor (client env))) None app")
      (auto simp: App_ValidateCreate_def admit_def)
qed

theorem unreadable_policy_rejects_witness:
  "\<exists>errs. App_ValidateCreate \<lparr> client = exReader\<lparr> getConfigMap := \<lambda>_. LookupErr \<rparr>, lib = exParsers \<rparr>
      (Some (PolicyFor (exReader\<lparr> getConfigMap := \<lambda>_. LookupErr \<rparr>))) (ObjApp exImageApp)
    = Inl (InvalidObject ''shop'' errs) \<and> InternalError [Child ''spec''] \<in> set errs"
  using unreadable_policy_rejects [of "\<lparr> client = exReader\<lparr> getConfigMap := \<lambda>_. LookupErr \<rparr>, lib = exParsers \<rparr>" exImageApp]
  by (simp add: exImageApp_def meta3_def)

section \<open>Releases\<close>

lemma release_spec_fixed: "validateRelease env (Some old) new = [] \<Longrightarrow> ReleaseSpec new = ReleaseSpec old"
  by (auto simp: validateRelease_def validateAppReleaseImmutability_def Let_def split: if_splits lookup.splits)

lemma release_history_spec:
  "admitted validateRelease (Some x) h \<Longrightarrow> (e, y) \<in> set h \<Longrightarrow> ReleaseSpec y = ReleaseSpec x"
proof (induction h arbitrary: x)
  case (Cons ez h)
  obtain e' z where "ez = (e', z)" by (cases ez)
  with Cons release_spec_fixed show ?case by fastforce
qed simp

lemma release_history_first:
  assumes "admitted validateRelease None ((e0, z) # t)" "(e, x) \<in> set ((e0, z) # t)"
  shows "ReleaseSpec x = ReleaseSpec z"
  using assms release_history_spec by auto

text \<open>
  (C5) A release is a fixed record.  All versions of an AppRelease that a sequence of
  admitted requests creates and updates have the same specification (App, version, source,
  digest and configuration hash), the same tenant and non-blank required labels, whatever
  the cluster the webhook reads at each of them.
\<close>

theorem release_is_immutable:
  assumes "admitted validateRelease None h" "(e, x) \<in> set h" "(e', y) \<in> set h"
  shows "ReleaseSpec x = ReleaseSpec y \<and> tenantOf (ReleaseMeta x) = tenantOf (ReleaseMeta y)
    \<and> labelled (ReleaseMeta x)"
proof -
  obtain z t where "h = z # t" using assms(2) by (cases h) auto
  then have "ReleaseSpec x = ReleaseSpec y"
    using release_history_first assms by (metis surj_pair)
  then show ?thesis using release_guard.history_constant [OF assms] by blast
qed

definition exRelease :: "string \<Rightarrow> AppRelease" where
  "exRelease note = \<lparr> ReleaseMeta = (meta3 ''r1'' ''acme'')\<lparr> Annotations := Some [''note'' \<mapsto> note] \<rparr>,
     ReleaseSpec = \<lparr> AppRef = ''shop'', ReleaseVersion = ''v1.2.3'', ResolvedSource = [],
       Digest = ''sha256:0123456789abcdef0123456789abcdef'',
       RenderedConfigHash = ''0123456789abcdef0123456789abcdef'' \<rparr> \<rparr>"

theorem release_is_immutable_witness:
  "admitted validateRelease None [(exEnv, exRelease ''a''), (exEnv, exRelease ''b'')]
   \<and> ReleaseSpec (exRelease ''a'') = ReleaseSpec (exRelease ''b'')"
proof -
  have "admitted validateRelease None [(exEnv, exRelease ''a''), (exEnv, exRelease ''b'')]"
    by code_simp
  then show ?thesis
    using release_is_immutable [of "[(exEnv, exRelease ''a''), (exEnv, exRelease ''b'')]"
        exEnv "exRelease ''a''" exEnv "exRelease ''b''"] by simp
qed

section \<open>Jobs\<close>

definition effectiveRoot :: "PodSpec \<Rightarrow> bool" where
  "effectiveRoot ps \<longleftrightarrow> allowsRoot (PodSC ps) \<or>
    (\<exists>c \<in> set (InitContainers ps @ Containers ps). \<exists>sc. ContainerSC c = Some sc
       \<and> (SC_RunAsNonRoot sc = Some False \<or> SC_RunAsUser sc = Some 0))"

lemma allowsRootWithFallback_iff:
  "allowsRootWithFallback csc psc \<longleftrightarrow> allowsRoot psc \<or>
    (\<exists>sc. csc = Some sc \<and> (SC_RunAsNonRoot sc = Some False \<or> SC_RunAsUser sc = Some 0))"
  by (auto simp: allowsRootWithFallback_def split: option.splits)

lemma requiresRootJustification_iff: "requiresRootJustification ps \<longleftrightarrow> effectiveRoot ps"
  by (auto simp: requiresRootJustification_def effectiveRoot_def allowsRootWithFallback_iff list_ex_iff)

lemma volumeErrors_Nil: "volumeErrors vols = [] \<longleftrightarrow> (\<forall>v \<in> set vols. HostPath v = None)"
  unfolding volumeErrors_def by (rule concat_enumerate_Nil) simp

lemma sysAdminErrors_Nil: "sysAdminErrors lst cs = [] \<longleftrightarrow> (\<forall>c \<in> set cs. \<not> containsSysAdmin (ContainerSC c))"
  unfolding sysAdminErrors_def by (rule concat_enumerate_Nil) simp

lemma containsSysAdmin_iff:
  "containsSysAdmin sco \<longleftrightarrow> (\<exists>sc caps cap. sco = Some sc \<and> SC_Capabilities sc = Some caps \<and>
     cap \<in> set (CapAdd caps) \<and> ToLower cap = ''sys_admin'')"
proof -
  have "ToLower ''SYS_ADMIN'' = ''sys_admin''" by code_simp
  then show ?thesis
    by (auto simp: containsSysAdmin_def EqualFold_def list_ex_iff split: option.splits)
qed

text \<open>
  (C9) Exactly which Jobs are accepted: the required labels are set and the tenant of an
  update is the old one; the pod shares no host namespace and mounts no host path; no
  container adds \<open>SYS_ADMIN\<close>, whatever its spelling; and a pod that may run as root, through
  its own security context or that of a container, carries a non-blank justification.
\<close>

theorem job_accepted_iff:
  "validateJob old job = [] \<longleftrightarrow>
    labelled (JobMeta job)
    \<and> (\<forall>o'. old = Some o' \<longrightarrow> tenantOf (JobMeta o') \<in> {[], tenantOf (JobMeta job)})
    \<and> \<not> HostNetwork (JobPodSpec job) \<and> \<not> HostPID (JobPodSpec job) \<and> \<not> HostIPC (JobPodSpec job)
    \<and> (\<forall>v \<in> set (Volumes (JobPodSpec job)). HostPath v = None)
    \<and> (\<forall>c \<in> set (InitContainers (JobPodSpec job) @ Containers (JobPodSpec job)).
         \<not> (\<exists>sc caps cap. ContainerSC c = Some sc \<and> SC_Capabilities sc = Some caps
              \<and> cap \<in> set (CapAdd caps) \<and> ToLower cap = ''sys_admin''))
    \<and> (effectiveRoot (JobPodSpec job) \<longrightarrow>
         TrimSpace (mget (Annotations (JobMeta job)) annotationRunAsRootJustification) \<noteq> [])"
  unfolding validateJob_def Let_def containsSysAdmin_iff [symmetric]
  by (cases old) (auto simp: volumeErrors_Nil sysAdminErrors_Nil requiresRootJustification_iff)

definition exJob :: "SecurityContext option \<Rightarrow> Job" where
  "exJob sc = \<lparr> JobMeta = meta3 ''nightly'' ''acme'',
     JobPodSpec = \<lparr> HostNetwork = False, HostPID = False, HostIPC = False, Volumes = [],
       InitContainers = [], Containers = [\<lparr> ContainerName = ''c'', ContainerImage = ''i'', ContainerSC = sc \<rparr>],
       PodSC = None \<rparr>,
     BackoffLimit = None, TTLSecondsAfterFinished = None, Schedule = [] \<rparr>"

definition exSC :: SecurityContext where
  "exSC = \<lparr> Privileged = None, SC_Capabilities = Some \<lparr> CapAdd = [''NET_BIND_SERVICE''], CapDrop = [] \<rparr>,
     SC_RunAsNonRoot = Some True, SC_RunAsUser = Some 1000 \<rparr>"

theorem job_accepted_iff_witness:
  "validateJob None (exJob (Some exSC)) = [] \<and> \<not> effectiveRoot (JobPodSpec (exJob (Some exSC)))
   \<and> validateJob None (exJob (Some (exSC\<lparr> SC_RunAsUser := Some 0 \<rparr>))) \<noteq> []"
proof -
  have ok: "validateJob None (exJob (Some exSC)) = []" by code_simp
  have "labelled (JobMeta (exJob sc))" for sc
    using job_accepted_iff [of None "exJob (Some exSC)"] ok by (simp add: exJob_def)
  moreover have "TrimSpace (mget (Annotations (JobMeta (exJob sc))) annotationRunAsRootJustification) = []" for sc
    by (simp add: exJob_def meta3_def)
  moreover have "effectiveRoot (JobPodSpec (exJob (Some (exSC\<lparr> SC_RunAsUser := Some 0 \<rparr>))))"
    by (simp add: effectiveRoot_def exJob_def)
  ultimately show ?thesis
    using ok job_accepted_iff [of None "exJob (Some exSC)"]
      job_accepted_iff [of None "exJob (Some (exSC\<lparr> SC_RunAsUser := Some 0 \<rparr>))"] by blast
qed

definition setPrivileged :: "bool option \<Rightarrow> Container \<Rightarrow> Container" where
  "setPrivileged b c = c\<lparr> ContainerSC := map_option (\<lambda>sc. sc\<lparr> Privileged := b \<rparr>) (ContainerSC c) \<rparr>"

lemma setPrivileged_invisible [simp]:
  "containsSysAdmin (ContainerSC (setPrivileged b c)) = containsSysAdmin (ContainerSC c)"
  "allowsRootWithFallback (ContainerSC (setPrivileged b c)) psc = allowsRootWithFallback (ContainerSC c) psc"
  by (cases "ContainerSC c"; simp add: setPrivileged_def containsSysAdmin_def allowsRootWithFallback_def)+

lemma sysAdminErrors_setPrivileged [simp]:
  "sysAdminErrors lst (map (setPrivileged b) cs) = sysAdminErrors lst cs"
  by (simp add: sysAdminErrors_def enumerate_map_upt enumerate_eq_zip zip_map2 case_prod_unfold o_def cong: if_cong)

text \<open>
  (C11) The verdict on a Job does not depend on \<open>securityContext.privileged\<close>: making every
  container of an accepted Job privileged leaves it accepted, although a privileged
  container has every capability the check on \<open>SYS_ADMIN\<close> is there to refuse.
\<close>

theorem job_verdict_ignores_privileged:
  "validateJob old (job\<lparr> JobPodSpec := (JobPodSpec job)\<lparr>
      InitContainers := map (setPrivileged b) (InitContainers (JobPodSpec job)),
      Containers := map (setPrivileged b) (Containers (JobPodSpec job)) \<rparr> \<rparr>)
   = validateJob old job"
proof -
  have "list_ex (\<lambda>c. allowsRootWithFallback (ContainerSC c) psc) (map (setPrivileged b) cs)
      = list_ex (\<lambda>c. allowsRootWithFallback (ContainerSC c) psc) cs" for psc cs
    by (induction cs) simp_all
  then show ?thesis
    by (cases old) (simp_all add: validateJob_def requiresRootJustification_def Let_def)
qed

section \<open>Histories of the other kinds\<close>

text \<open>
  Over any sequence of admitted requests an App keeps its tenant and its required
  labels, whatever the cluster and the registry policy the webhook reads at each of them.
\<close>

theorem app_history_keeps_tenant:
  assumes "admitted (\<lambda>(env, loader) old new. snd (validateApp env loader old new)) None h"
    and "(e, x) \<in> set h" "(e', y) \<in> set h"
  shows "labelled (AppMeta x) \<and> tenantOf (AppMeta x) = tenantOf (AppMeta y)"
  by (rule app_guard.history_constant [OF assms])

theorem app_history_keeps_tenant_witness:
  "admitted (\<lambda>(env, loader) old new. snd (validateApp env loader old new)) None
     [((exEnv, None), exExposed), ((exPolicyEnv, None), exImageApp)]
   \<and> tenantOf (AppMeta exExposed) = tenantOf (AppMeta exImageApp)"
proof -
  have "admitted (\<lambda>(env, loader) old new. snd (validateApp env loader old new)) None
     [((exEnv, None), exExposed), ((exPolicyEnv, None), exImageApp)]"
    by code_simp
  then show ?thesis
    using app_history_keeps_tenant [of "[((exEnv, None), exExposed), ((exPolicyEnv, None), exImageApp)]"
        "(exEnv, None)" exExposed "(exPolicyEnv, None)" exImageApp] by simp
qed

end
