(* ===== verification/NetSecurity.thy ===== *)
theory NetSecurity
  imports GoNet HostRules
begin

text \<open>
  Package \<open>pkg/security\<close>: host allowlists, HTTPS URL validation, the public-address test, the
  dialer that refuses private networks, redirect validation (\<open>net.go\<close>), and the repository
  path checks (\<open>path.go\<close>).  The resolution of symbolic links and the network are outside the
  program: they are the arguments \<open>eval\<close> and \<open>base\<close> of the functions that use them.
\<close>

section \<open>Hosts\<close>

definition hostRuleMatches :: "string \<Rightarrow> string \<Rightarrow> bool" where
  "hostRuleMatches rule0 host =
    (let rule = ToLower (TrimSpace rule0) in
     if rule = [] then False
     else if rule = ''*'' then True
     else if HasPrefix rule ''*.'' then
       (let sfx = TrimPrefix rule ''*.'' in host = sfx \<or> HasSuffix host (''.'' @ sfx))
     else host = rule)"

definition AllowedHost :: "string \<Rightarrow> string list \<Rightarrow> bool" where
  "AllowedHost host0 allowlist =
    (let host = ToLower (TrimSpace host0) in
     if host = [] then False
     else if length allowlist = 0 then False
     else list_ex (\<lambda>rule. hostRuleMatches rule host) allowlist)"

definition HasDotDot :: "string \<Rightarrow> bool" where
  "HasDotDot path = (if Contains path ''..'' then True else Contains (ToLower path) ''%2e'')"

definition hostWithPort :: "string \<Rightarrow> string \<Rightarrow> string" where
  "hostWithPort host port = (if port = [] \<or> port = ''443'' then host else JoinHostPort host port)"

definition isIPLiteral :: "string \<Rightarrow> bool" where
  "isIPLiteral host0 =
    (if host0 = [] then False
     else let host = (if HasPrefix host0 ''['' \<and> HasSuffix host0 '']'' then Trim host0 ''[]'' else host0)
          in ParseAddr host \<noteq> None)"

section \<open>URLs\<close>

datatype net_error =
    ErrInvalidURL | ErrForbiddenHost | ErrDisallowedIP | ErrRedirectLimited | ErrDial

definition pathOK :: "string \<Rightarrow> bool" where
  "pathOK path =
    (case PathUnescape path of None \<Rightarrow> False
     | Some decoded \<Rightarrow>
         decoded \<noteq> [] \<and> hd decoded = CHR ''/'' \<and> \<not> HasDotDot decoded
         \<and> \<not> list_ex (\<lambda>seg. seg = ''.'') (Split decoded (CHR ''/'')))"

definition ValidateHTTPSURL :: "URL option \<Rightarrow> (string \<Rightarrow> bool) option \<Rightarrow> net_error + URL" where
  "ValidateHTTPSURL uo allow =
    (case uo of None \<Rightarrow> Inl ErrInvalidURL
     | Some u \<Rightarrow>
         let host = ToLower (Hostname u) in
         if Opaque u \<noteq> [] then Inl ErrInvalidURL
         else if \<not> EqualFold (Scheme u) ''https'' then Inl ErrInvalidURL
         else if host = [] then Inl ErrInvalidURL
         else if User u \<noteq> None then Inl ErrInvalidURL
         else if HasDotDot (RawPath u) \<or> HasDotDot (Path u) then Inl ErrInvalidURL
         else if Contains (Path u) [CHR 0x5C] then Inl ErrInvalidURL
         else if \<not> pathOK (Path u) then Inl ErrInvalidURL
         else if Port u \<noteq> [] \<and> Port u \<noteq> ''443'' then Inl ErrInvalidURL
         else if isIPLiteral host then Inl ErrForbiddenHost
         else if EqualFold host ''localhost'' then Inl ErrForbiddenHost
         else if (case allow of None \<Rightarrow> False | Some f \<Rightarrow> \<not> f host) then Inl ErrForbiddenHost
         else
           let cleaned = Clean (map (\<lambda>c. if c = CHR 0x5C then CHR ''/'' else c) (Path u));
               sanitizedPath = (if cleaned = ''.'' then ''/'' else cleaned)
           in Inr (emptyURL\<lparr> Scheme := ''https'', Host := hostWithPort host (Port u), Path := sanitizedPath,
                             RawQuery := EncodeQuery (ParseQuery (RawQuery u)) \<rparr>))"

definition ParseAndValidateHTTPSURL :: "string \<Rightarrow> (string \<Rightarrow> bool) option \<Rightarrow> net_error + URL" where
  "ParseAndValidateHTTPSURL raw allow =
    (case ParseURL raw of None \<Rightarrow> Inl ErrInvalidURL | Some u \<Rightarrow> ValidateHTTPSURL (Some u) allow)"

text \<open>The request of a redirect: its URL and its Host header.\<close>

record http_request =
  ReqURL :: "URL option"
  ReqHost :: string

definition ValidateRedirect ::
  "http_request option \<Rightarrow> http_request list \<Rightarrow> (string \<Rightarrow> bool) option \<Rightarrow> net_error + http_request" where
  "ValidateRedirect reqo via allow =
    (if 3 \<le> length via then Inl ErrRedirectLimited
     else case reqo of None \<Rightarrow> Inl ErrInvalidURL
     | Some req \<Rightarrow>
         (case ReqURL req of None \<Rightarrow> Inl ErrInvalidURL
          | Some u \<Rightarrow>
              (case ValidateHTTPSURL (Some u) allow of
                 Inl e \<Rightarrow> Inl e
               | Inr s \<Rightarrow> Inr (req\<lparr> ReqURL := Some s, ReqHost := Host s \<rparr>))))"

definition pathClean :: "string \<Rightarrow> string" where
  "pathClean p =
    (if p = [] then ''/''
     else let segs = filter (\<lambda>s. s \<noteq> []) (Split (map (\<lambda>c. if c = CHR 0x5C then CHR ''/'' else c) p) (CHR ''/''))
          in if segs = [] then ''/'' else concat (map (\<lambda>s. CHR ''/'' # s) segs))"

section \<open>Addresses\<close>

definition privateCIDRs :: "net_prefix list" where
  "privateCIDRs =
    [Prefix4 (addr4 10 0 0 0) 8, Prefix4 (addr4 172 16 0 0) 12, Prefix4 (addr4 192 168 0 0) 16,
     Prefix4 (addr4 169 254 0 0) 16, Prefix4 (addr4 127 0 0 0) 8, Prefix6 1 128,
     Prefix6 (addr16 [0xFC00, 0, 0, 0, 0, 0, 0, 0]) 7, Prefix6 (addr16 [0xFE80, 0, 0, 0, 0, 0, 0, 0]) 10]"

definition IsPublicAddr :: "addr \<Rightarrow> bool" where
  "IsPublicAddr a0 =
    (if a0 = NoAddr then False
     else let a = Unmap a0 in
          if \<not> IsGlobalUnicast a then False
          else \<not> list_ex (\<lambda>p. prefixContains p a) privateCIDRs)"

text \<open>
  A dial: the connection is known by the text of its remote address.  The wrapped dialer
  returns, next to its result, what it did to the network: the addresses it dialled and the
  connections it closed.
\<close>

datatype net_event = Dialled string | Closed string

type_synonym dialer = "string \<Rightarrow> string \<Rightarrow> net_error + string"

definition DenyPrivateNetworks :: "dialer \<Rightarrow> string \<Rightarrow> string \<Rightarrow> net_event list \<times> (net_error + string)" where
  "DenyPrivateNetworks base network address =
    (case SplitHostPort address of None \<Rightarrow> ([], Inl ErrDial)
     | Some (host, _) \<Rightarrow>
         if host = [] then ([], Inl ErrDisallowedIP)
         else case ParseIP host of
           Some a \<Rightarrow>
             if \<not> IsPublicAddr a then ([], Inl ErrDisallowedIP)
             else ([Dialled address], base network address)
         | None \<Rightarrow>
             (case base network address of
                Inl e \<Rightarrow> ([Dialled address], Inl e)
              | Inr conn \<Rightarrow>
                  (case SplitHostPort conn of
                     None \<Rightarrow> ([Dialled address, Closed conn], Inl ErrDial)
                   | Some (remoteHost, _) \<Rightarrow>
                       (case ParseIP remoteHost of
                          None \<Rightarrow> ([Dialled address, Closed conn], Inl ErrDisallowedIP)
                        | Some a \<Rightarrow>
                            if \<not> IsPublicAddr a then ([Dialled address, Closed conn], Inl ErrDisallowedIP)
                            else ([Dialled address], Inr conn)))))"

section \<open>Repository paths\<close>

datatype path_error = ErrPathEscape | ErrPathDisallowed | ErrRootRequired | ErrRootRelative | ErrResolve | ErrInfoRequired

definition CleanRoot :: "(string \<Rightarrow> string option) \<Rightarrow> string \<Rightarrow> path_error + string" where
  "CleanRoot eval root =
    (let trimmed = TrimSpace root in
     if trimmed = [] then Inl ErrRootRequired
     else case eval (Clean trimmed) of None \<Rightarrow> Inl ErrResolve
     | Some resolved \<Rightarrow> if \<not> IsAbs resolved then Inl ErrRootRelative else Inr resolved)"

definition NormalizeRepoPath :: "string \<Rightarrow> path_error + string" where
  "NormalizeRepoPath input =
    (let trimmed = TrimSpace input in
     if trimmed = [] then Inr []
     else if Contains trimmed [CHR 0x5C] then Inl ErrPathDisallowed
     else if Contains (ToLower trimmed) ''%2e'' then Inl ErrPathDisallowed
     else if list_ex (\<lambda>r. ord r < 32 \<or> ord r = 127) trimmed then Inl ErrPathDisallowed
     else if Contains trimmed '':'' then Inl ErrPathDisallowed
     else let cleaned = Clean trimmed in
          if cleaned = ''.'' then Inr []
          else if IsAbs cleaned then Inl ErrPathDisallowed
          else if HasPrefix cleaned ''../'' \<or> cleaned = ''..'' then Inl ErrPathDisallowed
          else Inr cleaned)"

definition pathSegs :: "string \<Rightarrow> string list" where
  "pathSegs p = filter (\<lambda>s. s \<noteq> [] \<and> s \<noteq> ''.'') (Split p (CHR ''/''))"

fun stripCommon :: "string list \<Rightarrow> string list \<Rightarrow> string list \<times> string list" where
  "stripCommon (x # xs) (y # ys) = (if x = y then stripCommon xs ys else (x # xs, y # ys))"
| "stripCommon xs ys = (xs, ys)"

text \<open>\<open>filepath.Rel\<close> on Unix.\<close>

definition Rel :: "string \<Rightarrow> string \<Rightarrow> string option" where
  "Rel basepath targpath =
    (let b = Clean basepath; t = Clean targpath in
     if b = t then Some ''.''
     else if IsAbs b \<noteq> IsAbs t then None
     else case stripCommon (pathSegs b) (pathSegs t) of
       (bs, ts) \<Rightarrow>
         if bs \<noteq> [] \<and> hd bs = ''..'' then None
         else Some (Join (replicate (length bs) ''..'' @ ts) ''/''))"

definition filepathJoin :: "string \<Rightarrow> string \<Rightarrow> string" where
  "filepathJoin a b = (if a = [] \<and> b = [] then [] else Clean (if a = [] then b else if b = [] then a else a @ ''/'' @ b))"

definition WithinRepo :: "(string \<Rightarrow> string option) \<Rightarrow> string \<Rightarrow> string \<Rightarrow> path_error + string" where
  "WithinRepo eval root input =
    (if root = [] then Inl ErrRootRequired
     else let candidate = TrimSpace input in
          if candidate = [] then Inr root
          else
            let joined = (if IsAbs candidate then Clean candidate else filepathJoin root (Clean candidate)) in
            case eval joined of None \<Rightarrow> Inl ErrResolve
            | Some resolved \<Rightarrow>
                (case Rel root resolved of None \<Rightarrow> Inl ErrResolve
                 | Some rel \<Rightarrow>
                     if rel = ''..'' \<or> HasPrefix rel ''../'' then Inl ErrPathEscape else Inr resolved))"

text \<open>The mode bits \<open>EnsureRegularFile\<close> tests.\<close>

record file_mode =
  ModeRegular :: bool
  ModeDir :: bool
  ModeSymlink :: bool
  ModeDevice :: bool
  ModeNamedPipe :: bool
  ModeSocket :: bool

definition EnsureRegularFile :: "file_mode option \<Rightarrow> path_error option" where
  "EnsureRegularFile info =
    (case info of None \<Rightarrow> Some ErrInfoRequired
     | Some m \<Rightarrow>
         if ModeRegular m then None
         else if ModeDir m then Some ErrPathDisallowed
         else if ModeSymlink m then None
         else if ModeDevice m \<or> ModeNamedPipe m \<or> ModeSocket m then Some ErrPathDisallowed
         else None)"

definition RejectWindowsDrive :: "string \<Rightarrow> path_error option" where
  "RejectWindowsDrive path =
    (case path of c # d # _ \<Rightarrow> if d = CHR '':'' \<and> (is_upper c \<or> is_lower c) then Some ErrPathDisallowed else None
     | _ \<Rightarrow> None)"

definition DecodePathSegment :: "string \<Rightarrow> path_error + string" where
  "DecodePathSegment seg =
    (case PathUnescape seg of None \<Rightarrow> Inl ErrResolve
     | Some decoded \<Rightarrow> if Contains decoded ''..'' then Inl ErrPathDisallowed else Inr decoded)"

section \<open>Cleaned paths\<close>

definition plainSeg :: "string \<Rightarrow> bool" where
  "plainSeg s \<longleftrightarrow> s \<noteq> [] \<and> s \<noteq> ''.'' \<and> s \<noteq> ''..''"

lemma cleanSegs_form:
  "list_all plainSeg ps \<Longrightarrow> (rooted \<longrightarrow> n = 0) \<Longrightarrow>
   \<exists>m ys. cleanSegs rooted (ps @ replicate n ''..'') ss = replicate m ''..'' @ ys
     \<and> list_all plainSeg ys \<and> (rooted \<longrightarrow> m = 0) \<and> set ys \<subseteq> set ps \<union> set ss"
proof (induction ss arbitrary: ps n)
  case Nil
  then show ?case by (intro exI [of _ n] exI [of _ "rev ps"]) (auto simp: list_all_iff)
next
  case (Cons s ss)
  note IH = Cons.IH and pl = Cons.prems(1) and rt = Cons.prems(2)
  consider (skip) "s = [] \<or> s = ''.''" | (up) "s = ''..''" | (plain) "plainSeg s"
    by (auto simp: plainSeg_def)
  then show ?case
  proof cases
    case skip
    then show ?thesis using Cons.IH [OF Cons.prems] by auto
  next
    case plain
    then have "list_all plainSeg (s # ps)" using Cons.prems by simp
    from Cons.IH [OF this Cons.prems(2)] plain show ?thesis by (auto simp: plainSeg_def)
  next
    case up
    show ?thesis
    proof (cases ps)
      case (Cons p qs)
      then have q: "list_all plainSeg qs" "p \<noteq> ''..''"
        using pl by (auto simp: plainSeg_def [of p])
      then show ?thesis using IH [OF q(1) rt] up Cons by auto
    next
      case Nil
      show ?thesis
      proof (cases n)
        case 0
        then show ?thesis
          using Cons.IH [of "[]" "if rooted then 0 else 1"] up Nil by (auto split: if_splits)
      next
        case (Suc k)
        then have "\<not> rooted" using Cons.prems by auto
        then show ?thesis
          using Cons.IH [of "[]" "Suc n"] up Nil Suc by auto
      qed
    qed
  qed
qed

lemma cleanSegs_top:
  "\<exists>m ys. cleanSegs rooted [] ss = replicate m ''..'' @ ys \<and> list_all plainSeg ys \<and> (rooted \<longrightarrow> m = 0) \<and> set ys \<subseteq> set ss"
  using cleanSegs_form [of "[]" rooted 0 ss] by auto

lemma cleanSegs_append:
  "cleanSegs rooted acc (xs @ ys) = cleanSegs rooted (rev (cleanSegs rooted acc xs)) ys"
  by (induction rooted acc xs rule: cleanSegs.induct) (auto split: list.splits)

lemma cleanSegs_plain: "list_all plainSeg xs \<Longrightarrow> cleanSegs rooted acc xs = rev acc @ xs"
  by (induction xs arbitrary: acc) (auto simp: plainSeg_def)

lemma cleanSegs_rooted_plain: "list_all plainSeg (cleanSegs True [] ss)"
  using cleanSegs_top [of True ss] by auto

lemma Split_append: "Split (a @ c # b) c = Split a c @ Split b c"
proof (induction a)
  case (Cons x a)
  then show ?case by (cases "Split a c") auto
qed simp

lemma Split_Join_segs:
  "(\<And>s. s \<in> set segs \<Longrightarrow> CHR ''/'' \<notin> set s) \<Longrightarrow> segs \<noteq> [] \<Longrightarrow> Split (Join segs ''/'') (CHR ''/'') = segs"
  by (rule Split_Join) auto

lemma cleanSegs_no_slash:
  assumes "s \<in> set (cleanSegs rooted [] (Split p (CHR ''/'')))"
  shows "CHR ''/'' \<notin> set s"
proof -
  obtain m ys where "cleanSegs rooted [] (Split p (CHR ''/'')) = replicate m ''..'' @ ys"
      "set ys \<subseteq> set (Split p (CHR ''/''))"
    using cleanSegs_top by blast
  then show ?thesis using assms Split_no_sep by (auto simp: set_replicate_conv_if split: if_splits)
qed

lemma filter_plain: "list_all plainSeg xs \<Longrightarrow> filter (\<lambda>s. s \<noteq> [] \<and> s \<noteq> ''.'') xs = xs"
  by (induction xs) (auto simp: plainSeg_def)

lemma pathSegs_Clean_abs:
  assumes "IsAbs p"
  shows "pathSegs (Clean p) = cleanSegs True [] (Split p (CHR ''/''))"
proof -
  let ?segs = "cleanSegs True [] (Split p (CHR ''/''))"
  have c: "Clean p = CHR ''/'' # Join ?segs ''/''"
    using assms by (simp add: Clean_def IsAbs_def Let_def)
  show ?thesis
  proof (cases "?segs = []")
    case True
    then show ?thesis by (simp add: pathSegs_def c)
  next
    case False
    then have "Split (Join ?segs ''/'') (CHR ''/'') = ?segs"
      using cleanSegs_no_slash by (intro Split_Join_segs) auto
    then show ?thesis
      using filter_plain [OF cleanSegs_rooted_plain] by (simp add: pathSegs_def c)
  qed
qed

lemma IsAbs_Clean [simp]: "IsAbs (Clean p) \<longleftrightarrow> IsAbs p"
proof (cases "IsAbs p")
  case True
  then show ?thesis by (simp add: Clean_def IsAbs_def HasPrefix_def)
next
  case False
  let ?segs = "cleanSegs False [] (Split p (CHR ''/''))"
  show ?thesis
  proof (cases ?segs)
    case Nil
    then show ?thesis using False by (simp add: Clean_def IsAbs_def HasPrefix_def)
  next
    case (Cons s ss)
    obtain m ys where f: "?segs = replicate m ''..'' @ ys" "list_all plainSeg ys"
      using cleanSegs_top [of False] by blast
    have "s \<noteq> []" using f Cons by (cases m) (auto simp: plainSeg_def)
    moreover have "CHR ''/'' \<notin> set s" using cleanSegs_no_slash [of s False p] Cons by simp
    ultimately have "hd (Join (s # ss) ''/'') \<noteq> CHR ''/''" "Join (s # ss) ''/'' \<noteq> []"
      by (cases ss; cases s; auto)+
    then show ?thesis
      using False Cons by (cases "Join (s # ss) ''/''") (auto simp: Clean_def IsAbs_def HasPrefix_def)
  qed
qed

end
