(* ===== verification/NetSecurityProps.thy ===== *)
theory NetSecurityProps
  imports NetSecurity
begin

text \<open>
  What package \<open>pkg/security\<close> guarantees: paths accepted for a repository stay inside it,
  accepted URLs name an allowed public host over HTTPS, the public-address test decides the
  address ranges, and the guarded dialer hands out no connection into a private network.
\<close>

section \<open>Repository paths\<close>

lemma Join_dotdot:
  "segs = replicate (Suc m) ''..'' @ ys \<Longrightarrow> Join segs ''/'' = ''..'' \<or> HasPrefix (Join segs ''/'') ''../''"
  by (cases "replicate m ''..'' @ ys") (auto simp: HasPrefix_def)

lemma NormalizeRepoPath_segs:
  assumes "NormalizeRepoPath input = Inr p" "p \<noteq> []"
  shows "list_all plainSeg (Split p (CHR ''/''))" and "p = Clean (TrimSpace input)"
proof -
  let ?t = "TrimSpace input"
  let ?segs = "cleanSegs False [] (Split ?t (CHR ''/''))"
  have p: "p = Clean ?t" "\<not> IsAbs (Clean ?t)" "Clean ?t \<noteq> ''.''" "Clean ?t \<noteq> ''..''" "\<not> HasPrefix (Clean ?t) ''../''"
    using assms by (auto simp: NormalizeRepoPath_def Let_def split: if_splits)
  have "\<not> HasPrefix ?t ''/''" using p(2) IsAbs_Clean IsAbs_def by blast
  then have c: "Clean ?t = Join ?segs ''/''" "?segs \<noteq> []"
    using p(3) by (auto simp: Clean_def Let_def split: if_splits)
  obtain m ys where f: "?segs = replicate m ''..'' @ ys" "list_all plainSeg ys"
    using cleanSegs_top [of False] by blast
  have "m = 0" using Join_dotdot [of ?segs] f(1) p(4,5) c(1) by (cases m) auto
  then have "list_all plainSeg ?segs" using f by simp
  moreover have "Split p (CHR ''/'') = ?segs"
    unfolding p(1) c(1) using cleanSegs_no_slash c(2) by (intro Split_Join_segs) auto
  ultimately show "list_all plainSeg (Split p (CHR ''/''))" by simp
  show "p = Clean ?t" by (fact p(1))
qed

lemma filepathJoin_abs:
  assumes "IsAbs root" "p \<noteq> []" "list_all plainSeg (Split p (CHR ''/''))"
  shows "pathSegs (filepathJoin root p) = pathSegs (Clean root) @ Split p (CHR ''/'')"
proof -
  have ne: "root \<noteq> []" using assms(1) by (auto simp: IsAbs_def HasPrefix_def)
  have abs: "IsAbs (root @ ''/'' @ p)" using assms(1) by (auto simp: IsAbs_def HasPrefix_prefix)
  have "pathSegs (filepathJoin root p) = cleanSegs True [] (Split (root @ ''/'' @ p) (CHR ''/''))"
    using ne assms(2) pathSegs_Clean_abs [OF abs] by (simp add: filepathJoin_def)
  also have "\<dots> = cleanSegs True [] (Split root (CHR ''/'')) @ Split p (CHR ''/'')"
    using cleanSegs_plain [OF assms(3)] by (simp add: Split_append cleanSegs_append)
  finally show ?thesis using pathSegs_Clean_abs [OF assms(1)] by simp
qed

text \<open>
  A normalised repository path cannot leave the repository: its segments are neither
  empty, \<open>.\<close> nor \<open>..\<close>, and joining it to an absolute root appends exactly these segments to
  those of the root.
\<close>

theorem normalized_path_stays_below_root:
  assumes "NormalizeRepoPath input = Inr p" and "p \<noteq> []" and "IsAbs root"
  shows "list_all plainSeg (Split p (CHR ''/''))
    \<and> pathSegs (filepathJoin root p) = pathSegs (Clean root) @ Split p (CHR ''/'')"
  using NormalizeRepoPath_segs [OF assms(1,2)] filepathJoin_abs [OF assms(3,2)] by blast

theorem normalized_path_stays_below_root_witness:
  "NormalizeRepoPath '' charts/./web/../api '' = Inr ''charts/api''
   \<and> pathSegs (filepathJoin ''/srv/repo'' ''charts/api'') = [''srv'', ''repo'', ''charts'', ''api'']"
proof -
  have n: "NormalizeRepoPath '' charts/./web/../api '' = Inr ''charts/api''" by code_simp
  have "IsAbs ''/srv/repo''" by code_simp
  moreover have "pathSegs (Clean ''/srv/repo'') = [''srv'', ''repo'']"
      "Split ''charts/api'' (CHR ''/'') = [''charts'', ''api'']" by code_simp+
  ultimately show ?thesis using normalized_path_stays_below_root [OF n, of "''/srv/repo''"] n by simp
qed

lemma stripCommon_split:
  "stripCommon xs ys = (bs, ts) \<Longrightarrow> \<exists>cs. xs = cs @ bs \<and> ys = cs @ ts"
proof (induction xs ys rule: stripCommon.induct)
  case (1 x xs y ys)
  then show ?case by (auto split: if_splits intro: exI [of _ "x # _"])
qed auto

lemma Rel_inside:
  assumes "Rel root p = Some rel" "rel \<noteq> ''..''" "\<not> HasPrefix rel ''../''"
  shows "prefix (pathSegs (Clean root)) (pathSegs (Clean p))"
proof (cases "Clean root = Clean p")
  case False
  obtain bs ts where s: "stripCommon (pathSegs (Clean root)) (pathSegs (Clean p)) = (bs, ts)"
    by (cases "stripCommon (pathSegs (Clean root)) (pathSegs (Clean p))")
  then have rel: "rel = Join (replicate (length bs) ''..'' @ ts) ''/''"
    using assms(1) False by (auto simp: Rel_def Let_def split: if_splits)
  have "bs = []"
    using Join_dotdot [of "replicate (length bs) ''..'' @ ts" "length bs - 1" ts] rel assms(2,3)
    by (cases bs) auto
  then show ?thesis using stripCommon_split [OF s] by (auto simp: prefix_def)
qed simp



section \<open>URLs\<close>

lemma Clean_no_dotdot:
  assumes "''..'' \<notin> set (Split p (CHR ''/''))"
  shows "''..'' \<notin> set (Split (Clean p) (CHR ''/''))"
proof -
  let ?segs = "cleanSegs (HasPrefix p ''/'') [] (Split p (CHR ''/''))"
  have gen: "''..'' \<notin> set acc \<Longrightarrow> ''..'' \<notin> set ss \<Longrightarrow> ''..'' \<notin> set (cleanSegs r acc ss)" for r acc ss
    by (induction r acc ss rule: cleanSegs.induct) (auto split: list.splits)
  have n: "''..'' \<notin> set ?segs" using gen assms by simp
  show ?thesis
  proof (cases "?segs = []")
    case False
    then have "Split (Join ?segs ''/'') (CHR ''/'') = ?segs"
      using cleanSegs_no_slash by (intro Split_Join_segs) auto
    then show ?thesis using n by (auto simp: Clean_def Let_def)
  qed (auto simp: Clean_def Let_def)
qed

lemma Contains_segment:
  assumes "x \<in> set (Split s c)"
  shows "Contains s x"
proof -
  obtain a b where "Split s c = a @ x # b" using assms by (meson split_list)
  then have s: "s = Join (a @ x # b) [c]" by (metis Join_Split)
  have "sublist x (Join (a @ x # b) [c])"
  proof (induction a)
    case Nil
    then show ?case by (cases b) auto
  next
    case (Cons y a)
    have "Join ((y # a) @ x # b) [c] = (y @ [c]) @ Join (a @ x # b) [c]"
      by (simp add: Join_Cons_not_Nil)
    then show ?case using Cons by (metis append.assoc sublist_def)
  qed
  then show ?thesis by (simp add: Contains_sublist s)
qed

lemma cleanSegs_no_dotdot: "''..'' \<notin> set ss \<Longrightarrow> cleanSegs rooted acc ss = rev acc @ filter plainSeg ss"
  by (induction ss arbitrary: acc) (auto simp: plainSeg_def)

lemma Clean_abs: "IsAbs p \<Longrightarrow> ''..'' \<notin> set (Split p (CHR ''/'')) \<Longrightarrow>
    Clean p = CHR ''/'' # Join (filter plainSeg (Split p (CHR ''/''))) ''/''"
  by (simp add: Clean_def IsAbs_def Let_def cleanSegs_no_dotdot)

lemma no_dotdot: "\<not> HasDotDot p \<Longrightarrow> ''..'' \<notin> set (Split p (CHR ''/''))"
  using Contains_segment by (fastforce simp: HasDotDot_def)

lemma pathOK_decoded:
  assumes "pathOK p"
  shows "\<exists>d. PathUnescape p = Some d \<and> IsAbs d \<and> ''.'' \<notin> set (Split d (CHR ''/'')) \<and> ''..'' \<notin> set (Split d (CHR ''/''))"
  using assms no_dotdot by (auto simp: pathOK_def IsAbs_def HasPrefix_def list_ex_iff neq_Nil_conv split: option.splits)

text \<open>The path of a parsed URL with a host is empty or absolute.\<close>

lemma setPath_abs:
  assumes "setPath p u = Some v" "p = [] \<or> IsAbs p"
  shows "Path v = [] \<or> IsAbs (Path v)"
proof -
  have "unescape m p = Some q \<Longrightarrow> q = [] \<or> IsAbs q" if "m \<noteq> EncHost" "m \<noteq> EncZone" for m q
    using assms(2) that by (cases p) (auto simp: IsAbs_def HasPrefix_def split: if_splits)
  from this [of EncPath] show ?thesis using assms(1) by (auto simp: setPath_def split: option.splits)
qed

lemma dropWhile_slash: "dropWhile (\<lambda>c. c \<noteq> CHR ''/'') a = [] \<or> IsAbs (dropWhile (\<lambda>c. c \<noteq> CHR ''/'') a)"
  by (induction a) (auto simp: IsAbs_def HasPrefix_def)

lemma setPath_host: "setPath p u = Some v \<Longrightarrow> Host v = Host u"
  by (auto simp: setPath_def split: option.splits)

lemma parseURL_path_abs:
  assumes "parseURL raw = Some v" "Host v \<noteq> []"
  shows "Path v = [] \<or> IsAbs (Path v)"
proof -
  have "\<exists>a w. setPath (dropWhile (\<lambda>c. c \<noteq> CHR ''/'') a) w = Some v"
    using assms by (auto simp: parseURL_def Let_def emptyURL_def split: if_splits option.splits prod.splits dest: setPath_host)
  then show ?thesis using setPath_abs dropWhile_slash by metis
qed

lemma parsed_path_abs:
  assumes "ParseURL raw = Some u" "Host u \<noteq> []"
  shows "Path u = [] \<or> IsAbs (Path u)"
proof -
  obtain v where "parseURL (fst (Cut raw (CHR ''#''))) = Some v" "Path u = Path v" "Host u = Host v"
    using assms(1) by (auto simp: ParseURL_def split: prod.splits option.splits if_splits)
  then show ?thesis using parseURL_path_abs assms(2) by metis
qed

text \<open>
  (C12) An accepted URL is safe to fetch: it is rewritten to \<open>https\<close> with neither
  credentials, opaque part nor port, and its host is the lower-case host of the input, not
  empty, no IP literal, not \<open>localhost\<close> and allowed by the host check. The path of the input,
  decoded once more, is absolute and has neither \<open>.\<close> nor \<open>..\<close> as a segment; the path of a
  parsed input is itself absolute, and an absolute path becomes its segments other than the
  empty ones and \<open>.\<close>, joined under \<open>/\<close>, none of them \<open>..\<close>.
\<close>

theorem validated_url_is_safe:
  assumes "ValidateHTTPSURL (Some u) (Some allow) = Inr s"
  shows "Scheme s = ''https'' \<and> User s = None \<and> Opaque s = [] \<and> Fragment s = []
    \<and> Host s = ToLower (Hostname u) \<and> Host s \<noteq> [] \<and> \<not> isIPLiteral (Host s) \<and> Host s \<noteq> ''localhost''
    \<and> allow (Host s) \<and> Port u \<in> {[], ''443''} \<and> ''..'' \<notin> set (Split (Path s) (CHR ''/''))
    \<and> (\<exists>d. PathUnescape (Path u) = Some d \<and> IsAbs d
        \<and> ''.'' \<notin> set (Split d (CHR ''/'')) \<and> ''..'' \<notin> set (Split d (CHR ''/'')))
    \<and> (ParseURL raw = Some u \<longrightarrow> IsAbs (Path u))
    \<and> (IsAbs (Path u) \<longrightarrow> Path s = CHR ''/'' # Join (filter plainSeg (Split (Path u) (CHR ''/''))) ''/'')"
proof -
  let ?h = "ToLower (Hostname u)"
  let ?p = "map (\<lambda>c. if c = CHR 0x5C then CHR ''/'' else c) (Path u)"
  let ?c = "Clean ?p"
  have usr: "User u = None"
    using assms by (cases "User u") (auto simp: ValidateHTTPSURL_def Let_def split: if_splits)
  then have c: "Opaque u = []" "?h \<noteq> []" "User u = None" "\<not> HasDotDot (Path u)" "\<not> Contains (Path u) [CHR 0x5C]"
    "Port u \<in> {[], ''443''}" "\<not> isIPLiteral ?h" "\<not> EqualFold ?h ''localhost''" "allow ?h" "pathOK (Path u)"
    and s: "s = emptyURL\<lparr> Scheme := ''https'', Host := hostWithPort ?h (Port u),
        Path := (if ?c = ''.'' then ''/'' else ?c), RawQuery := EncodeQuery (ParseQuery (RawQuery u)) \<rparr>"
    using assms by (auto simp: ValidateHTTPSURL_def Let_def split: if_splits)
  have host: "Host s = ?h" using c(6) by (auto simp: s hostWithPort_def)
  have "CHR 0x5C \<notin> set (Path u)"
    using c(5) by (metis Contains_sublist sublist_def append_Cons append_Nil split_list)
  then have p: "?p = Path u" by (intro map_idI) auto
  have dd: "''..'' \<notin> set (Split (Path u) (CHR ''/''))" using no_dotdot c(4) by blast
  then have "''..'' \<notin> set (Split (Path s) (CHR ''/''))"
    using Clean_no_dotdot by (auto simp: s p)
  moreover have "IsAbs (Path u) \<longrightarrow> Path s = CHR ''/'' # Join (filter plainSeg (Split (Path u) (CHR ''/''))) ''/''"
    using Clean_abs [OF _ dd] by (simp add: s p)
  moreover have "Path u \<noteq> []" "Host u \<noteq> []"
    using c(2,10) by (auto simp: pathOK_def PathUnescape_def Hostname_def splitHostPort_def CutLast_def HasPrefix_def)
  then have "ParseURL raw = Some u \<longrightarrow> IsAbs (Path u)" using parsed_path_abs by blast
  moreover have "ToLower ''localhost'' = ''localhost''" by code_simp
  then have "?h \<noteq> ''localhost''"
    using c(8) by (auto simp: EqualFold_def)
  ultimately show ?thesis using c host pathOK_decoded [OF c(10)] by (simp add: s emptyURL_def)
qed

theorem validated_url_is_safe_witness:
  "\<exists>u s. ParseURL ''https://Charts.Example.com:443/repo/index.yaml?b=2&a=1'' = Some u
     \<and> ValidateHTTPSURL (Some u) (Some (\<lambda>h. AllowedHost h [''*.example.com''])) = Inr s
     \<and> Host s = ''charts.example.com'' \<and> IsAbs (Path u)"
proof -
  let ?raw = "''https://Charts.Example.com:443/repo/index.yaml?b=2&a=1''"
  let ?allow = "\<lambda>h. AllowedHost h [''*.example.com'']"
  let ?u = "the (ParseURL ?raw)"
  have u: "ParseURL ?raw \<noteq> None" by code_simp
  have ok: "isOk (ValidateHTTPSURL (Some ?u) (Some ?allow))" by code_simp
  then obtain s where s: "ValidateHTTPSURL (Some ?u) (Some ?allow) = Inr s"
    by (cases "ValidateHTTPSURL (Some ?u) (Some ?allow)") auto
  have "ToLower (Hostname ?u) = ''charts.example.com''" by code_simp
  then have "Host s = ''charts.example.com''" "IsAbs (Path ?u)" using validated_url_is_safe [OF s, of ?raw] u by auto
  then show ?thesis using u s by (intro exI [of _ ?u] exI [of _ s]) auto
qed

section \<open>Addresses\<close>

lemma uint_drop_bit: "uint (drop_bit n w) = uint (w :: 'a::len word) div 2 ^ n"
  by (simp only: unsigned_drop_bit_eq) (simp add: drop_bit_eq_div take_bit_int_eq_self)

lemma int_div_range:
  fixes a b p :: int
  assumes "0 < p"
  shows "a div p = b \<longleftrightarrow> b * p \<le> a \<and> a < (b + 1) * p"
proof
  assume "a div p = b"
  then have "a = p * b + a mod p" by (metis mult_div_mod_eq)
  moreover have "0 \<le> a mod p" "a mod p < p" using assms by simp_all
  ultimately show "b * p \<le> a \<and> a < (b + 1) * p" by (simp add: algebra_simps)
next
  assume "b * p \<le> a \<and> a < (b + 1) * p"
  then show "a div p = b"
    by (intro int_div_pos_eq [of a p b "a - p * b"]) (simp_all add: algebra_simps)
qed

lemma drop_bit_eq_range:
  fixes w v :: "'a::len word"
  shows "drop_bit n w = v \<longleftrightarrow> uint v * 2 ^ n \<le> uint w \<and> uint w < (uint v + 1) * 2 ^ n"
  by (simp only: word_uint_eq_iff uint_drop_bit int_div_range zero_less_power zero_less_numeral)

definition privateV4 :: "int set" where
  "privateV4 = {0x0A000000..0x0AFFFFFF} \<union> {0xAC100000..0xAC1FFFFF} \<union> {0xC0A80000..0xC0A8FFFF}
     \<union> {0xA9FE0000..0xA9FEFFFF} \<union> {0x7F000000..0x7FFFFFFF}"

lemma privateCIDRs_v4:
  "list_ex (\<lambda>p. prefixContains p (V4 w)) privateCIDRs \<longleftrightarrow> uint w \<in> privateV4"
proof -
  have d: "drop_bit 24 (addr4 10 0 0 0) = 10" "drop_bit 20 (addr4 172 16 0 0) = 0xAC1"
    "drop_bit 16 (addr4 192 168 0 0) = 0xC0A8" "drop_bit 16 (addr4 169 254 0 0) = 0xA9FE"
    "drop_bit 24 (addr4 127 0 0 0) = 127"
    by code_simp+
  show ?thesis
    unfolding privateCIDRs_def privateV4_def
    by (simp add: d drop_bit_eq_range) auto
qed

lemma class_v4:
  "IsLoopback (V4 w) \<longleftrightarrow> uint w \<in> {0x7F000000..0x7FFFFFFF}"
  "IsMulticast (V4 w) \<longleftrightarrow> uint w \<in> {0xE0000000..0xEFFFFFFF}"
  "IsLinkLocalUnicast (V4 w) \<longleftrightarrow> uint w \<in> {0xA9FE0000..0xA9FEFFFF}"
  by (auto simp: IsLoopback_def IsMulticast_def IsLinkLocalUnicast_def drop_bit_eq_range)

lemma IsPublicAddr_v4:
  "IsPublicAddr (V4 w) \<longleftrightarrow> w \<noteq> 0 \<and> w \<noteq> 0xFFFFFFFF \<and> uint w \<notin> privateV4 \<and> uint w \<notin> {0xE0000000..0xEFFFFFFF}"
  by (auto simp: IsPublicAddr_def Let_def privateCIDRs_v4 IsGlobalUnicast_def class_v4 privateV4_def)

lemma mapped_uint: "uint (v4mapped + ucast (w :: 32 word)) = 0xFFFF00000000 + uint w"
proof -
  have lt: "uint w < 2 ^ 32" using uint_lt2p [of w] by simp
  then have "uint (ucast w :: 128 word) = uint w"
    by (simp add: unsigned_ucast_eq take_bit_int_eq_self_iff)
  moreover have "uint v4mapped = 0xFFFF00000000" by (simp add: v4mapped_def)
  ultimately show ?thesis using lt by (simp add: uint_word_ariths)
qed

lemma Unmap_mapped: "Unmap (V6 (v4mapped + ucast w) z) = V4 w"
proof -
  have lt: "uint w < 2 ^ 32" using uint_lt2p [of w] by simp
  have "Is4In6 (v4mapped + ucast w)"
    using lt by (simp add: Is4In6_def drop_bit_eq_range mapped_uint)
  moreover have "ucast (v4mapped + ucast w) = w"
  proof -
    have "uint (ucast (v4mapped + ucast w :: 128 word) :: 32 word) = (0xFFFF00000000 + uint w) mod 2 ^ 32"
      by (simp add: unsigned_ucast_eq take_bit_eq_mod mapped_uint)
    also have "\<dots> = uint w" using lt by (simp add: mod_add_left_eq [symmetric])
    finally show ?thesis by (simp add: word_uint_eq_iff)
  qed
  ultimately show ?thesis by simp
qed

text \<open>
  The public-address test on IPv4 decides exactly these ranges: an address is public
  unless it is all zeros or all ones, multicast, or in one of the private, loopback or
  link-local ranges; and the IPv6 form of an IPv4 address, which is how \<open>net.ParseIP\<close>
  delivers it, always gets the verdict of the IPv4 address.
\<close>

theorem public_ipv4_decided_by_ranges:
  "(IsPublicAddr (V4 w) \<longleftrightarrow> w \<noteq> 0 \<and> w \<noteq> 0xFFFFFFFF \<and> uint w \<notin>
      {0x0A000000..0x0AFFFFFF} \<union> {0xAC100000..0xAC1FFFFF} \<union> {0xC0A80000..0xC0A8FFFF}
      \<union> {0xA9FE0000..0xA9FEFFFF} \<union> {0x7F000000..0x7FFFFFFF} \<union> {0xE0000000..0xEFFFFFFF})
   \<and> IsPublicAddr (V6 (v4mapped + ucast w) z) = IsPublicAddr (V4 w)"
proof -
  have "Unmap (V4 w) = V4 w" by simp
  then have "IsPublicAddr (V6 (v4mapped + ucast w) z) = IsPublicAddr (V4 w)"
    by (simp only: IsPublicAddr_def Unmap_mapped) simp
  then show ?thesis using IsPublicAddr_v4 [of w] by (simp add: privateV4_def)
qed

definition privateV6 :: "int set" where
  "privateV6 = {0xFC000000000000000000000000000000..0xFDFFFFFFFFFFFFFFFFFFFFFFFFFFFFFF}
     \<union> {0xFE800000000000000000000000000000..0xFEBFFFFFFFFFFFFFFFFFFFFFFFFFFFFF}"

lemma privateCIDRs_v6:
  "list_ex (\<lambda>p. prefixContains p (V6 w [])) privateCIDRs \<longleftrightarrow> w = 1 \<or> uint w \<in> privateV6"
proof -
  have d: "drop_bit 121 (addr16 [0xFC00, 0, 0, 0, 0, 0, 0, 0]) = 0x7E"
    "drop_bit 118 (addr16 [0xFE80, 0, 0, 0, 0, 0, 0, 0]) = 0x3FA"
    by code_simp+
  show ?thesis
    unfolding privateCIDRs_def privateV6_def
    by (simp add: d drop_bit_eq_range) auto
qed

lemma class_v6:
  assumes "\<not> Is4In6 w"
  shows "IsLoopback (V6 w z) \<longleftrightarrow> w = 1"
    and "IsMulticast (V6 w z) \<longleftrightarrow> uint w \<ge> 0xFF000000000000000000000000000000"
    and "IsLinkLocalUnicast (V6 w z) \<longleftrightarrow>
      uint w \<in> {0xFE800000000000000000000000000000..0xFEBFFFFFFFFFFFFFFFFFFFFFFFFFFFFF}"
  using assms uint_lt2p [of w]
  by (auto simp: IsLoopback_def IsMulticast_def IsLinkLocalUnicast_def drop_bit_eq_range)

text \<open>
  The public-address test on IPv6 addresses without a zone that do not embed an IPv4
  address: public is everything but the unspecified and the loopback address, multicast,
  the unique local and the link-local range.
\<close>

theorem public_ipv6_decided_by_ranges:
  assumes "\<not> Is4In6 w"
  shows "IsPublicAddr (V6 w []) \<longleftrightarrow>
    w \<noteq> 0 \<and> w \<noteq> 1 \<and> uint w < 0xFF000000000000000000000000000000
    \<and> uint w \<notin> {0xFC000000000000000000000000000000..0xFDFFFFFFFFFFFFFFFFFFFFFFFFFFFFFF}
    \<and> uint w \<notin> {0xFE800000000000000000000000000000..0xFEBFFFFFFFFFFFFFFFFFFFFFFFFFFFFF}"
  using assms
  by (auto simp: IsPublicAddr_def Let_def privateCIDRs_v6 IsGlobalUnicast_def class_v6 privateV6_def)

theorem public_ipv6_decided_by_ranges_witness:
  "\<not> Is4In6 0x20014860486000000000000000008888 \<and> IsPublicAddr (V6 0x20014860486000000000000000008888 [])"
proof -
  have n: "\<not> Is4In6 0x20014860486000000000000000008888" by code_simp
  then show ?thesis using public_ipv6_decided_by_ranges [OF n] by simp
qed

text \<open>
  With a zone the test is wrong: a unique local address that carries a zone is taken
  for public, because \<open>netip.Prefix.Contains\<close> never holds for an address with a zone and
  the test does not strip it.
\<close>

theorem zoned_unique_local_is_taken_for_public:
  assumes "uint w \<in> {0xFC000000000000000000000000000000..0xFDFFFFFFFFFFFFFFFFFFFFFFFFFFFFFF}" and "z \<noteq> []"
  shows "IsPublicAddr (V6 w z)"
proof -
  have n: "\<not> Is4In6 w" using assms(1) by (simp add: Is4In6_def drop_bit_eq_range)
  moreover have "\<not> list_ex (\<lambda>p. prefixContains p (V6 w z)) privateCIDRs"
    using assms(2) by (simp add: privateCIDRs_def)
  moreover have "w \<noteq> 1" using assms(1) by auto
  ultimately show ?thesis
    using assms by (simp add: IsPublicAddr_def IsGlobalUnicast_def class_v6)
qed

theorem zoned_unique_local_is_taken_for_public_witness:
  "ParseAddr ''fd00::1%eth0'' = Some (V6 0xFD000000000000000000000000000001 ''eth0'')
   \<and> IsPublicAddr (V6 0xFD000000000000000000000000000001 ''eth0'')
   \<and> \<not> IsPublicAddr (V6 0xFD000000000000000000000000000001 [])"
proof -
  have "ParseAddr ''fd00::1%eth0'' = Some (V6 0xFD000000000000000000000000000001 ''eth0'')" by code_simp
  moreover have "\<not> IsPublicAddr (V6 0xFD000000000000000000000000000001 [])" by code_simp
  ultimately show ?thesis
    using zoned_unique_local_is_taken_for_public [of "0xFD000000000000000000000000000001" "''eth0''"] by simp
qed

section \<open>The guarded dialer\<close>

text \<open>
  What the dialer relies on: a dial of an IP literal that succeeds is connected to that
  address.
\<close>

definition dialsLiterals :: "dialer \<Rightarrow> bool" where
  "dialsLiterals base \<longleftrightarrow> (\<forall>network address host port a conn.
     SplitHostPort address = Some (host, port) \<longrightarrow> ParseIP host = Some a \<longrightarrow> base network address = Inr conn \<longrightarrow>
     (\<exists>rh rp. SplitHostPort conn = Some (rh, rp) \<and> ParseIP rh = Some a))"

text \<open>
  (C14) The guarded dialer: an IP literal that is not public is refused before anything is
  dialled, and a public one is dialled as it is; every connection handed out is open and has a
  public remote address, for a host name whatever the dialer below connects to, for a literal
  when that dialer connects literals to themselves; and every connection refused after the
  dial has been closed.
\<close>

theorem guarded_dialer_is_safe:
  assumes "SplitHostPort address = Some (host, port)"
  shows "(\<forall>a. ParseIP host = Some a \<longrightarrow> \<not> IsPublicAddr a \<longrightarrow>
            DenyPrivateNetworks base network address = ([], Inl ErrDisallowedIP))
    \<and> (\<forall>a. ParseIP host = Some a \<longrightarrow> IsPublicAddr a \<longrightarrow>
            DenyPrivateNetworks base network address = ([Dialled address], base network address))
    \<and> (\<forall>conn ev. ParseIP host = None \<or> dialsLiterals base \<longrightarrow> DenyPrivateNetworks base network address = (ev, Inr conn) \<longrightarrow>
          ev = [Dialled address] \<and> base network address = Inr conn
          \<and> (\<exists>rh rp a. SplitHostPort conn = Some (rh, rp) \<and> ParseIP rh = Some a \<and> IsPublicAddr a))
    \<and> (\<forall>conn ev e. ParseIP host = None \<longrightarrow> base network address = Inr conn \<longrightarrow>
          DenyPrivateNetworks base network address = (ev, Inl e) \<longrightarrow> host \<noteq> [] \<longrightarrow> Closed conn \<in> set ev)"
proof -
  have n: "ParseIP [] = None" by code_simp
  have "\<exists>rh rp a. SplitHostPort conn = Some (rh, rp) \<and> ParseIP rh = Some a \<and> IsPublicAddr a"
    if "dialsLiterals base" "ParseIP host = Some a" "DenyPrivateNetworks base network address = (ev, Inr conn)" for a ev conn
  proof -
    have "base network address = Inr conn" "IsPublicAddr a"
      using that(2,3) assms n by (auto simp: DenyPrivateNetworks_def split: if_splits)
    with that(1,2) assms show ?thesis unfolding dialsLiterals_def by blast
  qed
  then show ?thesis
    using assms n by (auto simp: DenyPrivateNetworks_def split: sum.splits option.splits if_splits)
qed

theorem guarded_dialer_is_safe_witness:
  "DenyPrivateNetworks (\<lambda>_ a. Inr a) ''tcp'' ''10.1.2.3:443'' = ([], Inl ErrDisallowedIP)
   \<and> (\<exists>rh rp a. SplitHostPort ''8.8.8.8:443'' = Some (rh, rp) \<and> ParseIP rh = Some a \<and> IsPublicAddr a)
   \<and> DenyPrivateNetworks (\<lambda>_ _. Inr ''192.168.0.9:443'') ''tcp'' ''charts.example.com:443''
     = ([Dialled ''charts.example.com:443'', Closed ''192.168.0.9:443''], Inl ErrDisallowedIP)"
proof -
  have s: "SplitHostPort ''10.1.2.3:443'' = Some (''10.1.2.3'', ''443'')" "SplitHostPort ''8.8.8.8:443'' = Some (''8.8.8.8'', ''443'')"
    by code_simp+
  have "\<exists>a. ParseIP ''10.1.2.3'' = Some a \<and> \<not> IsPublicAddr a"
    by (rule exI [of _ "V6 (v4mapped + ucast (addr4 10 1 2 3)) []"]) code_simp
  then have "DenyPrivateNetworks (\<lambda>_ a. Inr a) ''tcp'' ''10.1.2.3:443'' = ([], Inl ErrDisallowedIP)"
    using guarded_dialer_is_safe [OF s(1), of "\<lambda>_ a. Inr a" "''tcp''"] by blast
  moreover have "dialsLiterals (\<lambda>_ a. Inr a)" by (simp add: dialsLiterals_def)
  moreover have "DenyPrivateNetworks (\<lambda>_ a. Inr a) ''tcp'' ''8.8.8.8:443'' = ([Dialled ''8.8.8.8:443''], Inr ''8.8.8.8:443'')"
    by code_simp
  ultimately have "\<exists>rh rp a. SplitHostPort ''8.8.8.8:443'' = Some (rh, rp) \<and> ParseIP rh = Some a \<and> IsPublicAddr a"
    using guarded_dialer_is_safe [OF s(2), of "\<lambda>_ a. Inr a" "''tcp''"] by blast
  moreover have "DenyPrivateNetworks (\<lambda>_ _. Inr ''192.168.0.9:443'') ''tcp'' ''charts.example.com:443''
     = ([Dialled ''charts.example.com:443'', Closed ''192.168.0.9:443''], Inl ErrDisallowedIP)"
    by code_simp
  ultimately show ?thesis using \<open>DenyPrivateNetworks (\<lambda>_ a. Inr a) ''tcp'' ''10.1.2.3:443'' = _\<close> by blast
qed

section \<open>Host allowlist\<close>

interpretation url_rules: host_rules "\<lambda>r. ToLower (TrimSpace r)" hostRuleMatches
  by unfold_locales (auto simp: hostRuleMatches_def Let_def wildcard_text HasPrefix_def)

text \<open>
  A host allowed by a list without a bare \<open>*\<close> is an entry of the list or its labels
  end with all the labels of the suffix of a wildcard entry; nothing is allowed by an empty
  list, and no list allows an empty host.
\<close>

theorem allowed_host_by_labels:
  assumes "AllowedHost host rules" and "\<forall>r \<in> set rules. ToLower (TrimSpace r) \<noteq> ''*''"
  shows "TrimSpace host \<noteq> [] \<and> (\<exists>r \<in> set rules. ToLower (TrimSpace host) = ToLower (TrimSpace r)
    \<or> (\<exists>s. ToLower (TrimSpace r) = ''*.'' @ s \<and> suffix (domainLabels s) (domainLabels (ToLower (TrimSpace host)))))"
proof -
  have "list_ex (\<lambda>r. hostRuleMatches r (ToLower (TrimSpace host))) rules" "TrimSpace host \<noteq> []"
    using assms(1) by (auto simp: AllowedHost_def Let_def split: if_splits)
  then show ?thesis using url_rules.allowlist_cases [OF _ assms(2)] by blast
qed

theorem allowed_host_by_labels_witness:
  "AllowedHost ''Charts.Example.com'' ['' *.example.COM ''] \<and> \<not> AllowedHost ''badexample.com'' ['' *.example.COM '']
   \<and> suffix (domainLabels ''example.com'') (domainLabels ''charts.example.com'')"
proof -
  have ok: "AllowedHost ''Charts.Example.com'' ['' *.example.COM '']" by code_simp
  have n: "ToLower (TrimSpace '' *.example.COM '') = ''*.example.com''"
    "ToLower (TrimSpace ''Charts.Example.com'') = ''charts.example.com''" by code_simp+
  have "\<not> AllowedHost ''badexample.com'' ['' *.example.COM '']" by code_simp
  then show ?thesis using allowed_host_by_labels [OF ok] ok n by simp
qed

end
