(* ===== verification/GoCodec.thy ===== *)
theory GoCodec
  imports GoPrelude "HOL-Library.Word"
begin

text \<open>
  The encodings of the Go standard library that the program uses: decimal and hexadecimal
  numbers (\<open>strconv\<close>, \<open>encoding/hex\<close>), \<open>encoding/base32\<close> with a lower-case alphabet and no
  padding, \<open>encoding/base64\<close>, SHA-1 and SHA-256 (\<open>crypto\<close>) and the calendar of \<open>time.Time.Format\<close>.
  A byte is an \<open>8 word\<close>; an instant is its number of seconds since the Unix epoch.
\<close>

unbundle bit_operations_syntax

type_synonym byte = "8 word"

section \<open>Numbers\<close>

fun natDigits :: "nat \<Rightarrow> int \<Rightarrow> int \<Rightarrow> int list" where
  "natDigits 0 b n = []"
| "natDigits (Suc f) b n = (if n < b then [n] else natDigits f b (n div b) @ [n mod b])"

definition digitChar :: "int \<Rightarrow> char" where
  "digitChar d = (if d < 10 then char_of (48 + d) else char_of (87 + d))"

definition decString :: "int \<Rightarrow> string" where
  "decString n = map digitChar (natDigits 20 10 n)"

definition hexString :: "int \<Rightarrow> string" where
  "hexString n = map digitChar (natDigits 16 16 n)"

text \<open>A number with at least \<open>w\<close> digits, as \<open>%0wd\<close> prints it.\<close>

definition padDec :: "nat \<Rightarrow> int \<Rightarrow> string" where
  "padDec w n =
    (let s = decString \<bar>n\<bar> in
     (if n < 0 then ''-'' else []) @ replicate (w - length s) CHR ''0'' @ s)"

lemma natDigits_range: "0 \<le> n \<Longrightarrow> 1 < b \<Longrightarrow> d \<in> set (natDigits f b n) \<Longrightarrow> 0 \<le> d \<and> d < b"
proof (induction f b n rule: natDigits.induct)
  case (2 f b n)
  then show ?case by (auto split: if_splits simp: pos_imp_zdiv_nonneg_iff)
qed simp

lemma digitChar_is_digit: "0 \<le> d \<Longrightarrow> d < 10 \<Longrightarrow> is_digit (digitChar d)"
  by (simp add: digitChar_def is_digit_def)

lemma decString_digits: "0 \<le> n \<Longrightarrow> c \<in> set (decString n) \<Longrightarrow> is_digit c"
  using natDigits_range [of n 10] by (auto simp: decString_def intro!: digitChar_is_digit)

lemma natDigits_not_Nil: "0 < f \<Longrightarrow> natDigits f b n \<noteq> []"
  by (cases f) simp_all

lemma decString_not_Nil [simp]: "decString n \<noteq> []"
  using natDigits_not_Nil [of 20] by (simp add: decString_def)

section \<open>Bytes\<close>

definition bytesOf :: "string \<Rightarrow> byte list" where
  "bytesOf s = map (\<lambda>c. word_of_int (ord c)) s"

definition textOf :: "byte list \<Rightarrow> string" where
  "textOf bs = map (\<lambda>b. char_of (uint b)) bs"

lemma textOf_bytesOf [simp]: "textOf (bytesOf s) = s"
  by (simp add: textOf_def bytesOf_def uint_word_of_int_eq take_bit_eq_mod o_def)

definition hexEncode :: "byte list \<Rightarrow> string" where
  "hexEncode bs = concat (map (\<lambda>b. [digitChar (uint b div 16), digitChar (uint b mod 16)]) bs)"

definition hexChar :: "char \<Rightarrow> bool" where
  "hexChar c \<longleftrightarrow> is_digit c \<or> (97 \<le> ord c \<and> ord c \<le> 102)"

lemma length_hexEncode [simp]: "length (hexEncode bs) = 2 * length bs"
  by (induction bs) (simp_all add: hexEncode_def)

lemma digitChar_hex: "0 \<le> d \<Longrightarrow> d < 16 \<Longrightarrow> hexChar (digitChar d)"
  by (auto simp: digitChar_def hexChar_def is_digit_def)

lemma uint_byte_nibbles: "0 \<le> uint (b :: byte) div 16" "uint b div 16 < 16" "0 \<le> uint b mod 16" "uint b mod 16 < 16"
  using uint_lt2p [of b] by (simp_all add: pos_imp_zdiv_nonneg_iff div_less_iff_less_mult)

lemma hexEncode_chars: "c \<in> set (hexEncode bs) \<Longrightarrow> hexChar c"
  using uint_byte_nibbles digitChar_hex by (auto simp: hexEncode_def)

section \<open>Base 32 and base 64\<close>

definition byteBits :: "byte \<Rightarrow> bool list" where
  "byteBits b = map (\<lambda>i. bit b i) [7, 6, 5, 4, 3, 2, 1, 0]"

definition bitsVal :: "bool list \<Rightarrow> int" where
  "bitsVal bs = foldl (\<lambda>v b. 2 * v + (if b then 1 else 0)) 0 bs"

function groupBits :: "nat \<Rightarrow> bool list \<Rightarrow> int list" where
  "groupBits k bs =
    (if bs = [] \<or> k = 0 then []
     else bitsVal (take k bs @ replicate (k - length bs) False) # groupBits k (drop k bs))"
  by pat_completeness auto
termination by (relation "measure (\<lambda>(k, bs). length bs)") auto

declare groupBits.simps [simp del]

definition base32Char :: "int \<Rightarrow> char" where
  "base32Char v = (if v < 26 then char_of (97 + v) else char_of (24 + v))"

text \<open>The alphabet \<open>abcdefghijklmnopqrstuvwxyz234567\<close> without padding.\<close>

definition base32Encode :: "byte list \<Rightarrow> string" where
  "base32Encode bs = map base32Char (groupBits 5 (concat (map byteBits bs)))"

lemma bitsVal_snoc: "bitsVal (bs @ [b]) = 2 * bitsVal bs + (if b then 1 else 0)"
  by (simp add: bitsVal_def)

lemma bitsVal_range: "0 \<le> bitsVal bs \<and> bitsVal bs < 2 ^ length bs"
  by (induction bs rule: rev_induct) (auto simp: bitsVal_def)

lemma length_byteBits [simp]: "length (byteBits b) = 8"
  by (simp add: byteBits_def)

lemma length_concat_byteBits [simp]: "length (concat (map byteBits bs)) = 8 * length bs"
  by (induction bs) simp_all

lemma length_groupBits: "0 < k \<Longrightarrow> length (groupBits k bs) = (length bs + (k - 1)) div k"
proof (induction k bs rule: groupBits.induct)
  case (1 k bs)
  show ?case
  proof (cases "bs = []")
    case False
    then have n: "0 < length bs" by simp
    have "length (groupBits k bs) = Suc ((length bs - k + (k - 1)) div k)"
      using 1 False by (subst groupBits.simps) simp
    also have "\<dots> = (length bs + (k - 1)) div k"
    proof (cases "k \<le> length bs")
      case True
      then have "length bs + (k - 1) = (length bs - k + (k - 1)) + k" by simp
      then show ?thesis using 1(2) by (simp only: div_add_self2 [OF less_imp_neq [symmetric]])
    next
      case False
      then have "length bs - k + (k - 1) = k - 1" by simp
      moreover have "(length bs + (k - 1)) div k = 1"
        using n False by (intro div_nat_eqI) (linarith, simp)
      ultimately show ?thesis using 1(2) by simp
    qed
    finally show ?thesis .
  qed (simp add: groupBits.simps 1)
qed

lemma groupBits_range: "v \<in> set (groupBits k bs) \<Longrightarrow> 0 \<le> v \<and> v < 2 ^ k"
proof (induction k bs rule: groupBits.induct)
  case (1 k bs)
  have "0 \<le> bitsVal (take k bs @ replicate (k - length bs) False) \<and>
      bitsVal (take k bs @ replicate (k - length bs) False) < 2 ^ k"
  proof -
    have "length (take k bs @ replicate (k - length bs) False) = k" by simp
    then show ?thesis by (metis bitsVal_range)
  qed
  with 1 show ?case by (simp add: groupBits.simps [of k bs] split: if_splits) blast
qed

lemma base32Encode_chars: "c \<in> set (base32Encode bs) \<Longrightarrow> is_lower c \<or> is_digit c"
  using groupBits_range [of _ 5]
  by (fastforce simp: base32Encode_def base32Char_def is_lower_def is_digit_def)

lemma length_base32Encode: "length (base32Encode bs) = (8 * length bs + 4) div 5"
  by (simp add: base32Encode_def length_groupBits)


definition base64Char :: "int \<Rightarrow> char" where
  "base64Char v =
    (if v < 26 then char_of (65 + v) else if v < 52 then char_of (71 + v)
     else if v < 62 then char_of (v - 4) else if v = 62 then CHR ''+'' else CHR ''/'')"

definition base64Val :: "char \<Rightarrow> int option" where
  "base64Val c =
    (if is_upper c then Some (ord c - 65) else if is_lower c then Some (ord c - 71)
     else if is_digit c then Some (ord c + 4) else if c = CHR ''+'' then Some 62
     else if c = CHR ''/'' then Some 63 else None)"

fun base64Encode :: "byte list \<Rightarrow> string" where
  "base64Encode [] = []"
| "base64Encode [a] = [base64Char (uint a div 4), base64Char (uint a mod 4 * 16), CHR ''='', CHR ''='']"
| "base64Encode [a, b] =
    [base64Char (uint a div 4), base64Char (uint a mod 4 * 16 + uint b div 16),
     base64Char (uint b mod 16 * 4), CHR ''='']"
| "base64Encode (a # b # c # r) =
    [base64Char (uint a div 4), base64Char (uint a mod 4 * 16 + uint b div 16),
     base64Char (uint b mod 16 * 4 + uint c div 64), base64Char (uint c mod 64)] @ base64Encode r"

text \<open>
  The decoder of \<open>StdEncoding\<close>: carriage returns and line feeds are skipped everywhere, the
  text is read in groups of four, and padding may only end the text.  Bits beyond the last
  byte are ignored.
\<close>

fun base64Quads :: "string \<Rightarrow> byte list option" where
  "base64Quads [] = Some []"
| "base64Quads (a # b # c # d # r) =
    (case (base64Val a, base64Val b) of
       (Some p, Some q) \<Rightarrow>
         (let x = word_of_int (p * 4 + q div 16) in
          if c = CHR ''='' then (if d = CHR ''='' \<and> r = [] then Some [x] else None)
          else case base64Val c of
            None \<Rightarrow> None
          | Some s \<Rightarrow>
              (let y = word_of_int (q mod 16 * 16 + s div 4) in
               if d = CHR ''='' then (if r = [] then Some [x, y] else None)
               else case (base64Val d, base64Quads r) of
                 (Some u, Some bs) \<Rightarrow> Some (x # y # word_of_int (s mod 4 * 64 + u) # bs)
               | _ \<Rightarrow> None))
     | _ \<Rightarrow> None)"
| "base64Quads _ = None"

definition base64Decode :: "string \<Rightarrow> byte list option" where
  "base64Decode s = base64Quads (filter (\<lambda>c. c \<noteq> CHR 0x0A \<and> c \<noteq> CHR 0x0D) s)"

lemma base64Val_Char: "0 \<le> v \<Longrightarrow> v < 64 \<Longrightarrow> base64Val (base64Char v) = Some v"
  by (auto simp: base64Char_def base64Val_def is_upper_def is_lower_def is_digit_def)

lemma base64Char_plain:
  assumes "0 \<le> v" "v < 64"
  shows "base64Char v \<noteq> CHR ''=''" "\<not> is_space (base64Char v)"
proof -
  show "base64Char v \<noteq> CHR ''=''"
    using base64Val_Char [OF assms] by (auto simp: base64Val_def is_upper_def is_lower_def is_digit_def)
  show "\<not> is_space (base64Char v)"
    using base64Val_Char [OF assms]
    by (auto simp: base64Val_def is_upper_def is_lower_def is_digit_def is_space_def split: if_splits)
qed

lemma byte_parts:
  "0 \<le> uint (a :: byte) div 4" "uint a div 4 < 64" "0 \<le> uint a mod 4" "uint a mod 4 < 4"
  "0 \<le> uint a div 16" "uint a div 16 < 16" "0 \<le> uint a mod 16" "uint a mod 16 < 16"
  "0 \<le> uint a div 64" "uint a div 64 < 4" "0 \<le> uint a mod 64" "uint a mod 64 < 64"
  using uint_lt2p [of a] by (simp_all add: pos_imp_zdiv_nonneg_iff div_less_iff_less_mult)

lemma pack_parts:
  "0 \<le> y \<Longrightarrow> y < k \<Longrightarrow> (x * k + y) div k = x" "0 \<le> y \<Longrightarrow> y < k \<Longrightarrow> (x * k + y) mod k = y" for x y k :: int
  by (auto intro: div_pos_pos_trivial)

lemma byte_joins:
  "word_of_int (uint (a :: byte) div 4 * 4 + (uint a mod 4 * 16) div 16) = a"
  "0 \<le> y \<Longrightarrow> y < 16 \<Longrightarrow> word_of_int (uint a div 4 * 4 + (uint a mod 4 * 16 + y) div 16) = a"
  "0 \<le> x \<Longrightarrow> word_of_int ((x * 16 + uint a div 16) mod 16 * 16 + (uint a mod 16 * 4) div 4) = a"
  "0 \<le> x \<Longrightarrow> 0 \<le> z \<Longrightarrow> z < 4 \<Longrightarrow>
     word_of_int ((x * 16 + uint a div 16) mod 16 * 16 + (uint a mod 16 * 4 + z) div 4) = a"
  "0 \<le> x \<Longrightarrow> word_of_int ((x * 4 + uint a div 64) mod 4 * 64 + uint a mod 64) = a"
proof -
  note p = byte_parts [of a]
  have m: "u div k * k + u mod k = u" for u k :: int by (rule div_mult_mod_eq)
  show "word_of_int (uint a div 4 * 4 + (uint a mod 4 * 16) div 16) = a"
    using pack_parts(1) [of 0 16 "uint a mod 4"] by (simp only: m add_0_right word_of_int_uint)
  show "0 \<le> y \<Longrightarrow> y < 16 \<Longrightarrow> word_of_int (uint a div 4 * 4 + (uint a mod 4 * 16 + y) div 16) = a"
    by (simp only: pack_parts m word_of_int_uint)
  show "0 \<le> x \<Longrightarrow> word_of_int ((x * 16 + uint a div 16) mod 16 * 16 + (uint a mod 16 * 4) div 4) = a"
    using p pack_parts(1) [of 0 4 "uint a mod 16"] by (simp only: pack_parts m add_0_right word_of_int_uint)
  show "0 \<le> x \<Longrightarrow> 0 \<le> z \<Longrightarrow> z < 4 \<Longrightarrow>
     word_of_int ((x * 16 + uint a div 16) mod 16 * 16 + (uint a mod 16 * 4 + z) div 4) = a"
    using p by (simp only: pack_parts m word_of_int_uint)
  show "0 \<le> x \<Longrightarrow> word_of_int ((x * 4 + uint a div 64) mod 4 * 64 + uint a mod 64) = a"
    using p by (simp only: pack_parts m word_of_int_uint)
qed

lemma base64_fields:
  "base64Val (base64Char (uint (a :: byte) div 4)) = Some (uint a div 4)"
  "\<not> is_space (base64Char (uint a div 4))"
  "base64Val (base64Char (uint a mod 4 * 16)) = Some (uint a mod 4 * 16)"
  "\<not> is_space (base64Char (uint a mod 4 * 16))"
  "base64Val (base64Char (uint a mod 4 * 16 + uint (b :: byte) div 16)) = Some (uint a mod 4 * 16 + uint b div 16)"
  "\<not> is_space (base64Char (uint a mod 4 * 16 + uint b div 16))"
  "base64Val (base64Char (uint b mod 16 * 4)) = Some (uint b mod 16 * 4)"
  "\<not> is_space (base64Char (uint b mod 16 * 4))"
  "base64Char (uint b mod 16 * 4) \<noteq> CHR ''=''"
  "base64Val (base64Char (uint b mod 16 * 4 + uint (c :: byte) div 64)) = Some (uint b mod 16 * 4 + uint c div 64)"
  "\<not> is_space (base64Char (uint b mod 16 * 4 + uint c div 64))"
  "base64Char (uint b mod 16 * 4 + uint c div 64) \<noteq> CHR ''=''"
  "base64Val (base64Char (uint c mod 64)) = Some (uint c mod 64)"
  "\<not> is_space (base64Char (uint c mod 64))"
  "base64Char (uint c mod 64) \<noteq> CHR ''=''"
  using byte_parts [of a] byte_parts [of b] byte_parts [of c]
  by (intro base64Val_Char base64Char_plain; linarith)+

lemma base64Quads_Encode: "base64Quads (base64Encode bs) = Some bs"
proof (induction bs rule: base64Encode.induct)
  case (2 a)
  show ?case
    by (simp only: base64Encode.simps base64Quads.simps base64_fields byte_joins Let_def prod.case
        option.case if_True simp_thms)
next
  case (3 a b)
  show ?case
    by (simp only: base64Encode.simps base64Quads.simps base64_fields byte_joins byte_parts Let_def prod.case
        option.case if_True if_False simp_thms)
next
  case (4 a b c r)
  then show ?case
    by (simp only: base64Encode.simps append.simps base64Quads.simps base64_fields byte_joins byte_parts Let_def
        prod.case option.case if_True if_False simp_thms)
qed simp

lemma pad_plain: "\<not> is_space CHR ''=''"
  by (simp add: is_space_def)

lemma base64Encode_plain: "\<forall>c \<in> set (base64Encode bs). \<not> is_space c"
proof (induction bs rule: base64Encode.induct)
  case (4 a b d r)
  then show ?case
    by (simp only: base64Encode.simps append.simps list.set ball_simps base64_fields pad_plain simp_thms)
qed (simp_all only: base64Encode.simps list.set ball_simps base64_fields pad_plain simp_thms)

lemma base64Decode_Encode [simp]: "base64Decode (base64Encode bs) = Some bs"
proof -
  have "filter (\<lambda>c. c \<noteq> CHR 0x0A \<and> c \<noteq> CHR 0x0D) (base64Encode bs) = base64Encode bs"
    by (rule filter_True) (use base64Encode_plain [of bs] in \<open>auto simp: is_space_def\<close>)
  then show ?thesis by (simp add: base64Decode_def base64Quads_Encode)
qed

lemma base64Encode_eq_Nil [simp]: "base64Encode bs = [] \<longleftrightarrow> bs = []"
  by (cases bs rule: base64Encode.cases) simp_all


section \<open>SHA-1\<close>

definition beBytes :: "nat \<Rightarrow> int \<Rightarrow> byte list" where
  "beBytes n v = map (\<lambda>i. word_of_int (v div 256 ^ (n - 1 - i))) [0..<n]"

definition beWord :: "byte list \<Rightarrow> 32 word" where
  "beWord bs = word_of_int (foldl (\<lambda>v b. v * 256 + uint b) 0 bs)"

definition sha1Pad :: "byte list \<Rightarrow> byte list" where
  "sha1Pad m =
    (let k = (119 - length m mod 64) mod 64 in
     m @ [0x80] @ replicate k 0 @ beBytes 8 (8 * int (length m)))"

fun chunks :: "nat \<Rightarrow> nat \<Rightarrow> 'a list \<Rightarrow> 'a list list" where
  "chunks 0 k xs = []"
| "chunks (Suc f) k xs = (if xs = [] then [] else take k xs # chunks f k (drop k xs))"

text \<open>The message schedule is kept newest word first.\<close>

fun sha1Schedule :: "nat \<Rightarrow> 32 word list \<Rightarrow> 32 word list" where
  "sha1Schedule 0 w = w"
| "sha1Schedule (Suc n) w =
    sha1Schedule n (word_rotl 1 (w ! 2 XOR w ! 7 XOR w ! 13 XOR w ! 15) # w)"

type_synonym sha1_state = "32 word \<times> 32 word \<times> 32 word \<times> 32 word \<times> 32 word"

definition sha1Mix :: "nat \<Rightarrow> 32 word \<Rightarrow> 32 word \<Rightarrow> 32 word \<Rightarrow> 32 word" where
  "sha1Mix t b c d =
    (if t < 20 then ((b AND c) OR ((NOT b) AND d)) + 0x5A827999
     else if t < 40 then (b XOR c XOR d) + 0x6ED9EBA1
     else if t < 60 then ((b AND c) OR (b AND d) OR (c AND d)) + 0x8F1BBCDC
     else (b XOR c XOR d) + 0xCA62C1D6)"

fun sha1Rounds :: "nat \<Rightarrow> 32 word list \<Rightarrow> sha1_state \<Rightarrow> sha1_state" where
  "sha1Rounds t [] s = s"
| "sha1Rounds t (w # ws) (a, b, c, d, e) =
    sha1Rounds (Suc t) ws (word_rotl 5 a + sha1Mix t b c d + e + w, a, word_rotl 30 b, c, d)"

definition sha1Block :: "sha1_state \<Rightarrow> byte list \<Rightarrow> sha1_state" where
  "sha1Block s blk =
    (let ws = rev (sha1Schedule 64 (rev (map beWord (chunks 16 4 blk))));
         (a, b, c, d, e) = s; (a', b', c', d', e') = sha1Rounds 0 ws s in
     (a + a', b + b', c + c', d + d', e + e'))"

definition sha1Init :: sha1_state where
  "sha1Init = (0x67452301, 0xEFCDAB89, 0x98BADCFE, 0x10325476, 0xC3D2E1F0)"

definition sha1Sum :: "byte list \<Rightarrow> byte list" where
  "sha1Sum m =
    (let p = sha1Pad m; (a, b, c, d, e) = foldl sha1Block sha1Init (chunks (length p) 64 p) in
     concat (map (\<lambda>w. beBytes 4 (uint w)) [a, b, c, d, e]))"

lemma length_beBytes [simp]: "length (beBytes n v) = n"
  by (simp add: beBytes_def)

lemma length_sha1Sum [simp]: "length (sha1Sum m) = 20"
  by (simp add: sha1Sum_def Let_def split: prod.split)

section \<open>SHA-256\<close>

definition sha256K :: "32 word list" where
  "sha256K =
    [0x428A2F98, 0x71374491, 0xB5C0FBCF, 0xE9B5DBA5, 0x3956C25B, 0x59F111F1, 0x923F82A4, 0xAB1C5ED5,
     0xD807AA98, 0x12835B01, 0x243185BE, 0x550C7DC3, 0x72BE5D74, 0x80DEB1FE, 0x9BDC06A7, 0xC19BF174,
     0xE49B69C1, 0xEFBE4786, 0x0FC19DC6, 0x240CA1CC, 0x2DE92C6F, 0x4A7484AA, 0x5CB0A9DC, 0x76F988DA,
     0x983E5152, 0xA831C66D, 0xB00327C8, 0xBF597FC7, 0xC6E00BF3, 0xD5A79147, 0x06CA6351, 0x14292967,
     0x27B70A85, 0x2E1B2138, 0x4D2C6DFC, 0x53380D13, 0x650A7354, 0x766A0ABB, 0x81C2C92E, 0x92722C85,
     0xA2BFE8A1, 0xA81A664B, 0xC24B8B70, 0xC76C51A3, 0xD192E819, 0xD6990624, 0xF40E3585, 0x106AA070,
     0x19A4C116, 0x1E376C08, 0x2748774C, 0x34B0BCB5, 0x391C0CB3, 0x4ED8AA4A, 0x5B9CCA4F, 0x682E6FF3,
     0x748F82EE, 0x78A5636F, 0x84C87814, 0x8CC70208, 0x90BEFFFA, 0xA4506CEB, 0xBEF9A3F7, 0xC67178F2]"

fun sha256Schedule :: "nat \<Rightarrow> 32 word list \<Rightarrow> 32 word list" where
  "sha256Schedule 0 w = w"
| "sha256Schedule (Suc n) w =
    (let s0 = word_rotr 7 (w ! 14) XOR word_rotr 18 (w ! 14) XOR drop_bit 3 (w ! 14);
         s1 = word_rotr 17 (w ! 1) XOR word_rotr 19 (w ! 1) XOR drop_bit 10 (w ! 1) in
     sha256Schedule n ((w ! 15 + s0 + w ! 6 + s1) # w))"

type_synonym sha256_state =
  "32 word \<times> 32 word \<times> 32 word \<times> 32 word \<times> 32 word \<times> 32 word \<times> 32 word \<times> 32 word"

fun sha256Rounds :: "(32 word \<times> 32 word) list \<Rightarrow> sha256_state \<Rightarrow> sha256_state" where
  "sha256Rounds [] s = s"
| "sha256Rounds ((k, w) # kws) (a, b, c, d, e, f, g, h) =
    (let t1 = h + (word_rotr 6 e XOR word_rotr 11 e XOR word_rotr 25 e) + ((e AND f) XOR ((NOT e) AND g)) + k + w;
         t2 = (word_rotr 2 a XOR word_rotr 13 a XOR word_rotr 22 a) + ((a AND b) XOR (a AND c) XOR (b AND c)) in
     sha256Rounds kws (t1 + t2, a, b, c, d + t1, e, f, g))"

definition sha256Block :: "sha256_state \<Rightarrow> byte list \<Rightarrow> sha256_state" where
  "sha256Block s blk =
    (let ws = rev (sha256Schedule 48 (rev (map beWord (chunks 16 4 blk))));
         (a, b, c, d, e, f, g, h) = s;
         (a', b', c', d', e', f', g', h') = sha256Rounds (zip sha256K ws) s in
     (a + a', b + b', c + c', d + d', e + e', f + f', g + g', h + h'))"

definition sha256Init :: sha256_state where
  "sha256Init = (0x6A09E667, 0xBB67AE85, 0x3C6EF372, 0xA54FF53A, 0x510E527F, 0x9B05688C, 0x1F83D9AB, 0x5BE0CD19)"

text \<open>The padding of the message is the one of SHA-1.\<close>

definition sha256Sum :: "byte list \<Rightarrow> byte list" where
  "sha256Sum m =
    (let p = sha1Pad m; (a, b, c, d, e, f, g, h) = foldl sha256Block sha256Init (chunks (length p) 64 p) in
     concat (map (\<lambda>w. beBytes 4 (uint w)) [a, b, c, d, e, f, g, h]))"

lemma length_sha256Sum [simp]: "length (sha256Sum m) = 32"
  by (simp add: sha256Sum_def Let_def split: prod.split)

section \<open>Calendar time\<close>

text \<open>
  The civil date of a day number in the proleptic Gregorian calendar, and the hour of an
  instant, as \<open>Format\<close> prints them.
\<close>

type_synonym instant = int

definition civilDate :: "int \<Rightarrow> int \<times> int \<times> int" where
  "civilDate days =
    (let z = days + 719468; era = z div 146097; doe = z mod 146097;
         yoe = (doe - doe div 1460 + doe div 36524 - doe div 146096) div 365;
         doy = doe - (365 * yoe + yoe div 4 - yoe div 100); mp = (5 * doy + 2) div 153;
         d = doy - (153 * mp + 2) div 5 + 1; m = (if mp < 10 then mp + 3 else mp - 9) in
     (yoe + era * 400 + (if m \<le> 2 then 1 else 0), m, d))"

text \<open>\<open>Truncate(time.Hour)\<close>.\<close>

definition truncateHour :: "instant \<Rightarrow> instant" where
  "truncateHour t = t - t mod 3600"

text \<open>\<open>Format("2006-01-02T15")\<close>.\<close>

definition formatHour :: "instant \<Rightarrow> string" where
  "formatHour t =
    (let (y, m, d) = civilDate (t div 86400) in
     padDec 4 y @ ''-'' @ padDec 2 m @ ''-'' @ padDec 2 d @ ''T'' @ padDec 2 (t mod 86400 div 3600))"

text \<open>\<open>Format(time.RFC3339)\<close> of an instant in UTC.\<close>

definition formatRFC3339 :: "instant \<Rightarrow> string" where
  "formatRFC3339 t =
    formatHour t @ '':'' @ padDec 2 (t mod 3600 div 60) @ '':'' @ padDec 2 (t mod 60) @ ''Z''"

lemma padDec_chars: "c \<in> set (padDec w n) \<Longrightarrow> is_digit c \<or> c = CHR ''-''"
  by (auto simp: padDec_def Let_def is_digit_def dest: decString_digits [rotated] split: if_splits)

lemma padDec_last: "is_digit (last (padDec w n))"
  using decString_digits [of "\<bar>n\<bar>" "last (decString \<bar>n\<bar>)"] by (simp add: padDec_def Let_def)

lemma padDec_not_Nil [simp]: "padDec w n \<noteq> []"
  by (simp add: padDec_def Let_def)

lemma formatHour_chars: "c \<in> set (formatHour t) \<Longrightarrow> is_digit c \<or> c = CHR ''-'' \<or> c = CHR ''T''"
  by (auto simp: formatHour_def Let_def split: prod.splits dest: padDec_chars)

lemma formatHour_last: "is_digit (last (formatHour t))"
  by (simp add: formatHour_def Let_def padDec_last split: prod.split)

lemma formatHour_not_Nil [simp]: "formatHour t \<noteq> []"
  by (simp add: formatHour_def Let_def split: prod.split)

end
