(* ===== verification/HelmFetch.thy ===== *)
theory HelmFetch
  imports NetSecurityProps GoCodec
begin

text \<open>
  Downloading Helm charts (\<open>internal/service/apps.go\<close>): the host allowlist, the resolution of
  a chart host to addresses, the validation of a chart URL, the dialer of the chart client
  and the dialer of the OCI registry client.  The allowlist is the package variable
  \<open>helmAllowedHosts\<close>, passed explicitly; the resolver and the dial function are arguments.
  The allowlist is only replaced as a whole, by \<open>SetHelmChartAllowedHosts\<close>.
\<close>

section \<open>Text of an address\<close>

text \<open>\<open>netip.Addr.String\<close>.\<close>

definition string4 :: "32 word \<Rightarrow> string" where
  "string4 w =
    (let n = uint w in
     decString (n div 16777216) @ ''.'' @ decString (n div 65536 mod 256) @ ''.''
     @ decString (n div 256 mod 256) @ ''.'' @ decString (n mod 256))"

definition v6u16 :: "128 word \<Rightarrow> nat \<Rightarrow> int" where
  "v6u16 w i = uint w div 2 ^ (16 * (7 - i)) mod 65536"

definition zeroRun :: "int list \<Rightarrow> nat" where
  "zeroRun gs = length (takeWhile (\<lambda>g. g = 0) gs)"

text \<open>The first longest run of at least two zero groups: where it starts and its length.\<close>

definition bestRun :: "int list \<Rightarrow> nat \<times> nat" where
  "bestRun gs = foldl (\<lambda>(s, l) i. let r = zeroRun (drop i gs) in if 2 \<le> r \<and> l < r then (i, r) else (s, l))
     (255, 0) [0..<length gs]"

definition string6 :: "128 word \<Rightarrow> string" where
  "string6 w =
    (let gs = map (v6u16 w) [0..<8]; (s, l) = bestRun gs in
     if l = 0 then Join (map hexString gs) '':''
     else Join (map hexString (take s gs)) '':'' @ ''::'' @ Join (map hexString (drop (s + l) gs)) '':'')"

fun addrString :: "addr \<Rightarrow> string" where
  "addrString NoAddr = ''invalid IP''"
| "addrString (V4 w) = string4 w"
| "addrString (V6 w z) =
    (if Is4In6 w then ''::ffff:'' @ string4 (ucast w) else string6 w) @ (if z = [] then [] else CHR ''%'' # z)"

section \<open>Allowlist and resolution\<close>

datatype helm_error =
    HelmEmptyAllowlist | HelmHostNotPermitted | HelmMissingHost | HelmInvalidIP | HelmDisallowedNetwork
  | HelmLocalhost | HelmResolve | HelmNoAddress | HelmURL net_error | HelmNonIP | HelmNotInTargets | HelmDial
  | HelmRef | HelmDialUnset

fun normalizeLoop :: "string list \<Rightarrow> string list \<Rightarrow> string list option" where
  "normalizeLoop acc [] = Some (rev acc)"
| "normalizeLoop acc (h # hs) =
    (let trimmed = ToLower (TrimSpace h) in
     if trimmed = [] then normalizeLoop acc hs
     else if trimmed = ''*'' then None
     else if trimmed \<in> set acc then normalizeLoop acc hs
     else normalizeLoop (trimmed # acc) hs)"

definition normalizeHelmAllowedHosts :: "string list \<Rightarrow> string list" where
  "normalizeHelmAllowedHosts hosts =
    (case normalizeLoop [] hosts of None \<Rightarrow> [''*''] | Some normalized \<Rightarrow> Strings normalized)"

definition helmChartHostAllowed :: "string list \<Rightarrow> string \<Rightarrow> bool" where
  "helmChartHostAllowed allowed host = AllowedHost host allowed"

definition ensureHelmChartHostAllowed :: "string list \<Rightarrow> string \<Rightarrow> helm_error option" where
  "ensureHelmChartHostAllowed allowed host =
    (let normalized = ToLower (TrimSpace host) in
     if helmChartHostAllowed allowed normalized then None
     else if length allowed = 0 then Some HelmEmptyAllowlist
     else Some HelmHostNotPermitted)"

definition ensureHelmChartAddrAllowed :: "addr \<Rightarrow> helm_error option" where
  "ensureHelmChartAddrAllowed a =
    (if a = NoAddr then Some HelmInvalidIP
     else if \<not> IsPublicAddr a then Some HelmDisallowedNetwork else None)"

text \<open>
  The resolver returns the IP slices of a host; a slice that is no IP address is \<open>None\<close>.
\<close>

type_synonym resolver = "string \<Rightarrow> addr option list option"

fun checkResolved :: "addr option list \<Rightarrow> helm_error + addr list" where
  "checkResolved [] = Inr []"
| "checkResolved (None # ips) = Inl HelmResolve"
| "checkResolved (Some a0 # ips) =
    (let a = Unmap a0 in
     case ensureHelmChartAddrAllowed a of
       Some e \<Rightarrow> Inl e
     | None \<Rightarrow> bindR (checkResolved ips) (\<lambda>as. Inr (a # as)))"

definition resolveHelmChartTarget :: "resolver \<Rightarrow> string \<Rightarrow> helm_error + addr list" where
  "resolveHelmChartTarget resolver host =
    (if host = [] then Inl HelmMissingHost
     else case ParseIP host of
       Some a0 \<Rightarrow>
         (let a = Unmap a0 in
          case ensureHelmChartAddrAllowed a of Some e \<Rightarrow> Inl e | None \<Rightarrow> Inr [a])
     | None \<Rightarrow>
         if ToLower host = ''localhost'' then Inl HelmLocalhost
         else case resolver host of
           None \<Rightarrow> Inl HelmResolve
         | Some ips \<Rightarrow> if length ips = 0 then Inl HelmNoAddress else checkResolved ips)"

definition ParseHelmChartURL :: "string list \<Rightarrow> resolver \<Rightarrow> string \<Rightarrow> helm_error + URL \<times> addr list" where
  "ParseHelmChartURL allowed resolver raw =
    (let validator = (if length allowed > 0 then Some (\<lambda>host. AllowedHost host allowed) else None) in
     case ParseAndValidateHTTPSURL raw validator of
       Inl e \<Rightarrow> Inl (HelmURL e)
     | Inr parsed \<Rightarrow>
         let host = Hostname parsed in
         if length allowed = 0 then Inl HelmEmptyAllowlist
         else case ensureHelmChartHostAllowed allowed host of
           Some e \<Rightarrow> Inl e
         | None \<Rightarrow> bindR (resolveHelmChartTarget resolver host) (\<lambda>addrs. Inr (parsed, addrs)))"

section \<open>Dialers\<close>

text \<open>The addresses a request context carries for its host (\<open>withHelmDialAddrs\<close>).\<close>

type_synonym dial_context = "string \<times> addr list"

definition withHelmDialAddrs :: "string \<Rightarrow> addr list \<Rightarrow> dial_context" where
  "withHelmDialAddrs host addrs = (ToLower host, addrs)"

definition helmDialAddrsFromContext :: "dial_context option \<Rightarrow> string \<Rightarrow> addr list" where
  "helmDialAddrsFromContext ctx host =
    (case ctx of None \<Rightarrow> []
     | Some (h, addrs) \<Rightarrow> if h = [] then [] else if \<not> EqualFold h host then [] else addrs)"

fun tryAddrs ::
  "dialer \<Rightarrow> bool \<Rightarrow> string \<Rightarrow> string \<Rightarrow> helm_error option \<Rightarrow> addr list \<Rightarrow> net_event list \<times> (helm_error + string)" where
  "tryAddrs dial cancelled network port lastErr [] =
    ([], Inl (case lastErr of Some e \<Rightarrow> e | None \<Rightarrow> HelmNoAddress))"
| "tryAddrs dial cancelled network port lastErr (a # as) =
    (if \<not> IsPublicAddr a then tryAddrs dial cancelled network port (Some HelmDisallowedNetwork) as
     else case DenyPrivateNetworks dial network (JoinHostPort (addrString a) port) of
       (ev, Inr conn) \<Rightarrow> (ev, Inr conn)
     | (ev, Inl e) \<Rightarrow>
         if cancelled then (ev, Inl (HelmURL e))
         else (case tryAddrs dial cancelled network port (Some (HelmURL e)) as of
                 (ev', r) \<Rightarrow> (ev @ ev', r)))"

text \<open>The configured dial function, \<open>None\<close> when it is nil.\<close>

definition helmDialFuncForRequest :: "dialer option \<Rightarrow> helm_error + dialer" where
  "helmDialFuncForRequest dial = (case dial of None \<Rightarrow> Inl HelmDialUnset | Some f \<Rightarrow> Inr f)"

text \<open>The \<open>DialContext\<close> of the chart client.\<close>

definition helmDialContext ::
  "resolver \<Rightarrow> dialer option \<Rightarrow> bool \<Rightarrow> dial_context option \<Rightarrow> string \<Rightarrow> string \<Rightarrow> net_event list \<times> (helm_error + string)" where
  "helmDialContext resolver dial cancelled ctx network address =
    (case SplitHostPort address of None \<Rightarrow> ([], Inl HelmDial)
     | Some (host, port) \<Rightarrow>
         let allowed = helmDialAddrsFromContext ctx host in
         (case if length allowed = 0 then resolveHelmChartTarget resolver host else Inr allowed of
            Inl e \<Rightarrow> ([], Inl e)
          | Inr as \<Rightarrow>
              (case helmDialFuncForRequest dial of
                 Inl e \<Rightarrow> ([], Inl e)
               | Inr f \<Rightarrow> tryAddrs f cancelled network port None as)))"

text \<open>The \<open>DialContext\<close> of the registry client.\<close>

definition registryDialContext ::
  "addr list \<Rightarrow> dialer \<Rightarrow> string \<Rightarrow> string \<Rightarrow> net_event list \<times> (helm_error + string)" where
  "registryDialContext addrs dial network address =
    (let allowed = map addrString addrs in
     case SplitHostPort address of None \<Rightarrow> ([], Inl HelmDial)
     | Some (hostPart, port) \<Rightarrow>
         (case ParseIP hostPart of None \<Rightarrow> ([], Inl HelmNonIP)
          | Some a \<Rightarrow>
              (case ensureHelmChartAddrAllowed a of Some e \<Rightarrow> ([], Inl e)
               | None \<Rightarrow>
                   if addrString a \<notin> set allowed then ([], Inl HelmNotInTargets)
                   else let target = JoinHostPort (addrString a) port in
                        ([Dialled target],
                         case dial network target of Inl e \<Rightarrow> Inl (HelmURL e) | Inr c \<Rightarrow> Inr c))))"

definition parseOCIReference :: "string \<Rightarrow> helm_error + string \<times> string" where
  "parseOCIReference ref0 =
    (let ref = TrimSpace ref0 in
     if ref = [] then Inl HelmRef
     else if \<not> HasPrefix ref ''oci://'' then Inl HelmRef
     else let trimmed = TrimPrefix ref ''oci://''; (h, r) = Cut trimmed (CHR ''/'') in
          if CHR ''/'' \<notin> set trimmed \<or> TrimSpace r = [] then Inl HelmRef
          else if TrimSpace h = [] then Inl HelmRef
          else Inr (TrimSpace h, TrimSpace r))"

text \<open>
  The steps of \<open>renderHelmChartFromOCI\<close> before the registry client is used: the host and
  the addresses the client is built with.
\<close>

definition ociTarget :: "resolver \<Rightarrow> string \<Rightarrow> helm_error + string \<times> addr list" where
  "ociTarget resolver ref =
    (case parseOCIReference ref of Inl e \<Rightarrow> Inl e
     | Inr (host, repo) \<Rightarrow>
         if \<not> Contains repo '':'' \<and> \<not> Contains repo ''@'' then Inl HelmRef
         else bindR (resolveHelmChartTarget resolver host) (\<lambda>addrs. Inr (host, addrs)))"

section \<open>Texts and addresses\<close>

lemma digitChar_dec:
  assumes "0 \<le> d" "d < 10"
  shows "is_digit (digitChar d)" and "digitVal (digitChar d) = d" and "digitChar d = CHR ''0'' \<longleftrightarrow> d = 0"
proof -
  have o: "ord (digitChar d) = 48 + d" using assms by (simp add: digitChar_def)
  show "is_digit (digitChar d)" "digitVal (digitChar d) = d"
    using assms by (simp_all add: is_digit_def digitVal_def o)
  have "ord (CHR ''0'') = 48" by simp
  then show "digitChar d = CHR ''0'' \<longleftrightarrow> d = 0" using o by (metis add_cancel_right_right ord_eq_iff)
qed

lemma decString_octet:
  assumes "0 \<le> n" "n \<le> 255"
  shows "decString n =
    (if n < 10 then [digitChar n]
     else if n < 100 then [digitChar (n div 10), digitChar (n mod 10)]
     else [digitChar (n div 100), digitChar (n div 10 mod 10), digitChar (n mod 10)])"
proof -
  have "n div 10 div 10 = n div 100"
    using zdiv_zmult2_eq [of 10 n 10] by simp
  moreover have "n div 10 < 10 \<longleftrightarrow> n < 100"
    using zdiv_mono1 [of n 99 10] zdiv_mono1 [of 100 n 10] by fastforce
  moreover have "n div 100 < 10"
    using zdiv_mono1 [of n 255 100] assms by simp
  ultimately show ?thesis by (simp add: decString_def numeral_eq_Suc)
qed

lemma v4Field_digits:
  "0 \<le> a \<Longrightarrow> a < 10 \<Longrightarrow> v4Field [digitChar a] = Some a"
  "0 < a \<Longrightarrow> a < 10 \<Longrightarrow> 0 \<le> b \<Longrightarrow> b < 10 \<Longrightarrow> v4Field [digitChar a, digitChar b] = Some (10 * a + b)"
  "0 < a \<Longrightarrow> a < 10 \<Longrightarrow> 0 \<le> b \<Longrightarrow> b < 10 \<Longrightarrow> 0 \<le> c \<Longrightarrow> c < 10 \<Longrightarrow> 10 * (10 * a + b) + c \<le> 255 \<Longrightarrow>
    v4Field [digitChar a, digitChar b, digitChar c] = Some (10 * (10 * a + b) + c)"
  by (simp_all add: v4Field_def decVal_def digitChar_dec)

lemma octet_text:
  assumes "0 \<le> n" "n \<le> 255"
  shows "v4Field (decString n) = Some n"
proof -
  have r: "0 \<le> n mod 10" "n mod 10 < 10" "0 \<le> n div 10 mod 10" "n div 10 mod 10 < 10" by simp_all
  have e2: "10 * (n div 10) + n mod 10 = n" by simp
  have e3: "10 * (10 * (n div 100) + n div 10 mod 10) + n mod 10 = n"
    using mult_div_mod_eq [of 10 n] mult_div_mod_eq [of 10 "n div 10"] zdiv_zmult2_eq [of 10 n 10] by simp
  consider "n < 10" | "10 \<le> n" "n < 100" | "100 \<le> n" by linarith
  then show ?thesis
  proof cases
    case 1
    then show ?thesis using decString_octet [OF assms] v4Field_digits(1) [OF assms(1)] by simp
  next
    case 2
    then have "0 < n div 10" "n div 10 < 10"
      using zdiv_mono1 [of n 99 10] zdiv_mono1 [of 10 n 10] by auto
    from v4Field_digits(2) [OF this r(1,2), unfolded e2] show ?thesis
      using decString_octet [OF assms] 2 by simp
  next
    case 3
    then have "0 < n div 100" "n div 100 < 10"
      using zdiv_mono1 [of n 255 100] zdiv_mono1 [of 100 n 100] assms by auto
    from v4Field_digits(3) [OF this r(3,4,1,2), unfolded e3, OF assms(2)] show ?thesis
      using decString_octet [OF assms] 3 by simp
  qed
qed

lemma octet_digits: "0 \<le> n \<Longrightarrow> n \<le> 255 \<Longrightarrow> list_all is_digit (decString n)"
  using octet_text [of n] by (simp add: v4Field_def split: if_splits)

lemma not_digits: "\<not> is_digit (CHR ''.'')" "\<not> is_digit (CHR '':'')" "\<not> is_digit (CHR ''%'')"
  by code_simp+

lemma octet_no_dot: "0 \<le> n \<Longrightarrow> n \<le> 255 \<Longrightarrow> CHR ''.'' \<notin> set (decString n)"
  using octet_digits [of n] not_digits by (auto simp: list_all_iff)

lemma octets_of_word:
  assumes "n = uint (w :: 32 word)"
  shows "0 \<le> n div 16777216" "n div 16777216 \<le> 255" "0 \<le> n div 65536 mod 256" "n div 65536 mod 256 \<le> 255"
    "0 \<le> n div 256 mod 256" "n div 256 mod 256 \<le> 255" "0 \<le> n mod 256" "n mod 256 \<le> 255"
proof -
  have n: "0 \<le> n" "n < 4294967296" using uint_lt2p [of w] assms by simp_all
  then show "0 \<le> n div 16777216" "n div 16777216 \<le> 255"
    using zdiv_mono1 [of n 4294967295 16777216] zdiv_mono1 [of 0 n 16777216] by simp_all
  have "0 \<le> m mod 256 \<and> m mod 256 \<le> 255" for m :: int
    using pos_mod_bound [of 256 m] pos_mod_sign [of 256 m] by linarith
  then show "0 \<le> n div 65536 mod 256" "n div 65536 mod 256 \<le> 255" "0 \<le> n div 256 mod 256"
    "n div 256 mod 256 \<le> 255" "0 \<le> n mod 256" "n mod 256 \<le> 255"
    by blast+
qed

lemma string4_fields:
  assumes "n = uint (w :: 32 word)"
  shows "parseIPv4Fields (string4 w) = Some (n div 16777216, n div 65536 mod 256, n div 256 mod 256, n mod 256)"
proof -
  note r = octets_of_word [OF assms]
  have "Split (string4 w) (CHR ''.'')
      = [decString (n div 16777216), decString (n div 65536 mod 256), decString (n div 256 mod 256), decString (n mod 256)]"
    unfolding string4_def Let_def assms [symmetric]
    by (simp add: Split_append_sep Split_no_occurrence octet_no_dot [OF r(1,2)] octet_no_dot [OF r(3,4)]
        octet_no_dot [OF r(5,6)] octet_no_dot [OF r(7,8)])
  then show ?thesis
    by (simp add: parseIPv4Fields_def octet_text [OF r(1,2)] octet_text [OF r(3,4)]
        octet_text [OF r(5,6)] octet_text [OF r(7,8)])
qed

lemma recombine:
  fixes n :: int
  assumes "256 * q + r = n" "256 * q' + r' = q" "256 * q'' + r'' = q'"
  shows "16777216 * q'' + 65536 * r'' + 256 * r' + r = n"
  using assms by linarith

lemma addr4_fields:
  assumes "n = uint (w :: 32 word)"
  shows "addr4 (n div 16777216) (n div 65536 mod 256) (n div 256 mod 256) (n mod 256) = w"
proof -
  have "n div 65536 = n div 256 div 256" "n div 16777216 = n div 65536 div 256"
    using zdiv_zmult2_eq [of 256 n 256] zdiv_zmult2_eq [of 256 n 65536] by simp_all
  then have "16777216 * (n div 16777216) + 65536 * (n div 65536 mod 256) + 256 * (n div 256 mod 256) + n mod 256 = n"
    using recombine [OF mult_div_mod_eq mult_div_mod_eq mult_div_mod_eq, of n] by simp
  then show ?thesis unfolding addr4_def by (simp only: assms word_of_int_uint)
qed

lemma string4_first_dot:
  "\<exists>t. dropWhile (\<lambda>c. c \<notin> set ''.:%'') (string4 w) = CHR ''.'' # t"
proof -
  let ?a = "decString (uint w div 16777216)"
  have "list_all is_digit ?a" using octet_digits octets_of_word [OF refl] by blast
  then have "\<forall>c \<in> set ?a. c \<notin> set ''.:%''"
    using not_digits by (auto simp: list_all_iff)
  then have "dropWhile (\<lambda>c. c \<notin> set ''.:%'') (?a @ CHR ''.'' # r) = CHR ''.'' # r" for r
    by (subst dropWhile_append2) auto
  then show ?thesis by (simp add: string4_def Let_def)
qed

text \<open>
  Printing and parsing IPv4 addresses are inverse: the text of every address parses
  to that address.
\<close>

lemma ipv4_text_round_trip: "ParseAddr (addrString (V4 w)) = Some (V4 w)"
proof -
  obtain t where "dropWhile (\<lambda>c. c \<notin> set ''.:%'') (string4 w) = CHR ''.'' # t"
    using string4_first_dot by blast
  then show ?thesis
    using string4_fields [OF refl, of w] addr4_fields [OF refl, of w]
    by (simp add: ParseAddr_def)
qed

section \<open>Texts without dots\<close>

lemma digitChar_hex_not_dot: "0 \<le> d \<Longrightarrow> d < 16 \<Longrightarrow> digitChar d \<noteq> CHR ''.''"
proof
  assume "0 \<le> d" "d < 16" "digitChar d = CHR ''.''"
  then have "ord (digitChar d) = 46" by simp
  then show False using \<open>0 \<le> d\<close> \<open>d < 16\<close> by (simp add: digitChar_def split: if_splits)
qed

lemma hexString_no_dot: "0 \<le> n \<Longrightarrow> CHR ''.'' \<notin> set (hexString n)"
  using natDigits_range [of n 16] digitChar_hex_not_dot by (fastforce simp: hexString_def)

lemma set_Join: "set (Join xs sep) \<subseteq> set (concat xs) \<union> set sep"
proof (induction xs)
  case (Cons x xs)
  then show ?case by (cases xs) auto
qed simp

lemma Join_hex_no_dot:
  assumes "\<forall>g \<in> set gs. 0 \<le> g"
  shows "CHR ''.'' \<notin> set (Join (map hexString gs) '':'')"
  using set_Join [of "map hexString gs" "'':''"] hexString_no_dot assms by fastforce

lemma string6_no_dot: "CHR ''.'' \<notin> set (string6 w)"
proof -
  have g: "\<forall>g \<in> set (map (v6u16 w) [0..<8]). 0 \<le> g" by (auto simp: v6u16_def)
  obtain s l where b: "bestRun (map (v6u16 w) [0..<8]) = (s, l)" by (cases "bestRun (map (v6u16 w) [0..<8])")
  have "\<forall>g \<in> set (take s (map (v6u16 w) [0..<8])). 0 \<le> g" "\<forall>g \<in> set (drop (s + l) (map (v6u16 w) [0..<8])). 0 \<le> g"
    using g by (meson in_set_takeD in_set_dropD)+
  then show ?thesis
    using Join_hex_no_dot [OF g] Join_hex_no_dot unfolding string6_def Let_def b by auto
qed

lemma string4_head: "\<exists>c t. string4 w = c # t \<and> is_digit c"
proof -
  let ?a = "decString (uint w div 16777216)"
  have "list_all is_digit ?a" "?a \<noteq> []"
    using octet_digits octet_text octets_of_word(1,2) [OF refl, of w] by (blast, force simp: v4Field_def)
  then show ?thesis by (cases ?a) (auto simp: string4_def Let_def)
qed

lemma string4_has_dot: "CHR ''.'' \<in> set (string4 w)"
  by (simp add: string4_def Let_def)

text \<open>The text of the IPv6 form of an IPv4 address is the text of no unmapped address.\<close>

lemma mapped_text_distinct:
  fixes w :: "32 word"
  assumes "Unmap a = a" "\<And>v z. a = V6 v z \<Longrightarrow> z = []"
  shows "addrString (V6 (v4mapped + ucast w) []) \<noteq> addrString a"
proof -
  have m: "Is4In6 (v4mapped + ucast w)"
    using Unmap_mapped [of w "[]"] by (simp split: if_splits)
  then have l: "addrString (V6 (v4mapped + ucast w) []) = ''::ffff:'' @ string4 (ucast (v4mapped + ucast w))"
    by simp
  show ?thesis
  proof (cases a)
    case (V4 v)
    then show ?thesis
      using l string4_head [of v] not_digits(2) by auto
  next
    case (V6 v z)
    then have "\<not> Is4In6 v" "z = []" using assms by (auto split: if_splits)
    then have "CHR ''.'' \<notin> set (addrString a)" using V6 string6_no_dot by simp
    moreover have "CHR ''.'' \<in> set (addrString (V6 (v4mapped + ucast w) []))"
      unfolding l using string4_has_dot by simp
    ultimately show ?thesis by metis
  next
    case NoAddr
    then show ?thesis unfolding l by simp
  qed
qed

section \<open>What may be fetched\<close>

lemma Unmap_idem [simp]: "Unmap (Unmap a) = Unmap a"
  by (cases a) auto

lemma checkResolved_public:
  "checkResolved ips = Inr as \<Longrightarrow> a \<in> set as \<Longrightarrow> IsPublicAddr a \<and> Unmap a = a"
proof (induction ips arbitrary: as rule: checkResolved.induct)
  case (3 a0 ips)
  then show ?case
    by (auto simp: Let_def ensureHelmChartAddrAllowed_def bindR_eq_Inr split: option.splits if_splits)
qed auto

lemma resolve_public:
  "resolveHelmChartTarget resolver host = Inr as \<Longrightarrow> a \<in> set as \<Longrightarrow> IsPublicAddr a \<and> Unmap a = a"
  using checkResolved_public
  by (auto simp: resolveHelmChartTarget_def Let_def ensureHelmChartAddrAllowed_def split: option.splits if_splits)

lemma AllowedHost_normal: "AllowedHost (ToLower (TrimSpace h)) allowed = AllowedHost h allowed"
proof -
  have "ToLower (TrimSpace (ToLower (TrimSpace h))) = ToLower (TrimSpace h)"
    by (simp add: TrimSpace_ToLower)
  then show ?thesis by (simp add: AllowedHost_def)
qed


definition exResolver :: resolver where
  "exResolver h = (if h = ''charts.example.com'' then Some [Some (V4 (addr4 8 8 8 8))] else None)"


lemma DenyPrivateNetworks_dialled:
  "DenyPrivateNetworks dial n address = (ev, r) \<Longrightarrow> Dialled x \<in> set ev \<Longrightarrow> x = address"
  by (auto simp: DenyPrivateNetworks_def split: option.splits sum.splits if_splits)

lemma tryAddrs_dialled:
  "tryAddrs dial c n port lastErr as = (ev, r) \<Longrightarrow> Dialled x \<in> set ev \<Longrightarrow>
    \<exists>a \<in> set as. IsPublicAddr a \<and> x = JoinHostPort (addrString a) port"
proof (induction as arbitrary: lastErr ev r)
  case (Cons a as)
  obtain ev1 r1 where d: "DenyPrivateNetworks dial n (JoinHostPort (addrString a) port) = (ev1, r1)"
    by (cases "DenyPrivateNetworks dial n (JoinHostPort (addrString a) port)")
  show ?case
  proof (cases "IsPublicAddr a \<and> Dialled x \<in> set ev1")
    case True
    then show ?thesis using DenyPrivateNetworks_dialled [OF d] by auto
  next
    case False
    then show ?thesis
      using Cons d by (cases r1) (fastforce split: if_splits prod.splits)+
  qed
qed simp

text \<open>
  (C16) The chart client dials only public addresses: whatever the resolver answers, and
  whatever addresses the request context carries, every address its dialer hands to the
  dial function is the text of a public address, so a host that resolves to a private
  address later than the check (DNS rebinding) is not reached.
\<close>

theorem chart_client_dials_public_only:
  assumes "helmDialContext resolver dial cancelled ctx network address = (ev, r)" and "Dialled x \<in> set ev"
  shows "\<exists>a host port. SplitHostPort address = Some (host, port) \<and> IsPublicAddr a
    \<and> x = JoinHostPort (addrString a) port"
proof -
  obtain host port where hp: "SplitHostPort address = Some (host, port)"
    using assms by (cases "SplitHostPort address") (auto simp: helmDialContext_def)
  then obtain f as where "tryAddrs f cancelled network port None as = (ev, r)"
    using assms by (auto simp: helmDialContext_def Let_def split: sum.splits)
  then show ?thesis using tryAddrs_dialled [OF _ assms(2)] hp by blast
qed

theorem chart_client_dials_public_only_witness:
  "helmDialContext exResolver (Some (\<lambda>_ a. Inr a)) False None ''tcp'' ''charts.example.com:443''
     = ([Dialled ''8.8.8.8:443''], Inr ''8.8.8.8:443'')
   \<and> (\<exists>a host port. SplitHostPort ''charts.example.com:443'' = Some (host, port) \<and> IsPublicAddr a
        \<and> ''8.8.8.8:443'' = JoinHostPort (addrString a) port)"
proof -
  have "helmDialContext exResolver (Some (\<lambda>_ a. Inr a)) False None ''tcp'' ''charts.example.com:443''
     = ([Dialled ''8.8.8.8:443''], Inr ''8.8.8.8:443'')" by code_simp
  then show ?thesis using chart_client_dials_public_only by fastforce
qed

text \<open>
  (C17) The OCI registry client cannot connect to the registry it was built for: with the
  addresses the code resolves for it, its dialer fails without dialling for every host that
  is not an IP literal, since it accepts nothing else, and for every IPv4 literal, since it
  looks up the text of the IPv4-mapped form among the texts of unmapped addresses.
\<close>

theorem registry_client_never_connects:
  assumes "resolveHelmChartTarget resolver h = Inr addrs"
    and "\<forall>a \<in> set addrs. \<forall>v z. a = V6 v z \<longrightarrow> z = []"
    and "SplitHostPort address = Some (host, port)"
    and "ParseIP host = None \<or> (\<exists>w. ParseAddr host = Some (V4 w))"
  shows "\<exists>e. registryDialContext addrs dial network address = ([], Inl e)"
proof (cases "ParseIP host")
  case None
  then show ?thesis using assms(3) by (simp add: registryDialContext_def Let_def)
next
  case (Some a)
  then obtain w :: "32 word" where "a = V6 (v4mapped + ucast w) []"
    using assms(4) by (auto simp: ParseIP_def)
  then have "addrString a \<notin> addrString ` set addrs"
    using mapped_text_distinct resolve_public [OF assms(1)] assms(2) by (metis imageE)
  then show ?thesis
    using assms(3) Some by (auto simp: registryDialContext_def Let_def split: option.splits)
qed

theorem registry_client_never_connects_witness:
  "ociTarget exResolver ''oci://charts.example.com/web:1.0'' = Inr (''charts.example.com'', [V4 (addr4 8 8 8 8)])
   \<and> (\<exists>e. registryDialContext [V4 (addr4 8 8 8 8)] (\<lambda>_ a. Inr a) ''tcp'' ''charts.example.com:443'' = ([], Inl e))
   \<and> (\<exists>e. registryDialContext [V4 (addr4 8 8 8 8)] (\<lambda>_ a. Inr a) ''tcp'' ''8.8.8.8:443'' = ([], Inl e))"
proof -
  have t: "ociTarget exResolver ''oci://charts.example.com/web:1.0'' = Inr (''charts.example.com'', [V4 (addr4 8 8 8 8)])"
    by code_simp
  have r: "resolveHelmChartTarget exResolver ''charts.example.com'' = Inr [V4 (addr4 8 8 8 8)]" by code_simp
  have s: "SplitHostPort ''charts.example.com:443'' = Some (''charts.example.com'', ''443'')"
    "SplitHostPort ''8.8.8.8:443'' = Some (''8.8.8.8'', ''443'')" by code_simp+
  have p: "ParseIP ''charts.example.com'' = None" "ParseAddr ''8.8.8.8'' = Some (V4 (addr4 8 8 8 8))" by code_simp+
  show ?thesis
    using t registry_client_never_connects [OF r _ s(1)] registry_client_never_connects [OF r _ s(2)] p by simp
qed

section \<open>The allowlist\<close>

lemma hostRuleMatches_norm: "hostRuleMatches r h = hostRuleMatches (ToLower (TrimSpace r)) h"
proof -
  have "ToLower (TrimSpace (ToLower (TrimSpace r))) = ToLower (TrimSpace r)"
    by (simp add: TrimSpace_ToLower)
  then show ?thesis by (simp add: hostRuleMatches_def)
qed

lemma normalizeLoop_None: "normalizeLoop acc hs = None \<longleftrightarrow> (\<exists>h \<in> set hs. ToLower (TrimSpace h) = ''*'')"
proof (induction hs arbitrary: acc)
  case (Cons x hs)
  then show ?case by (simp add: Let_def)
qed simp

lemma normalizeLoop_set:
  "normalizeLoop acc hs = Some ns \<Longrightarrow> set ns = set acc \<union> ((\<lambda>h. ToLower (TrimSpace h)) ` set hs - {[]})"
proof (induction hs arbitrary: acc)
  case (Cons x hs)
  consider "ToLower (TrimSpace x) = []" | "ToLower (TrimSpace x) \<noteq> []" "ToLower (TrimSpace x) \<in> set acc"
    | "ToLower (TrimSpace x) \<noteq> []" "ToLower (TrimSpace x) \<notin> set acc"
    by blast
  then show ?case
  proof cases
    case 1
    then show ?thesis using Cons.IH [of acc] Cons.prems by simp
  next
    case 2
    then show ?thesis using Cons.IH [of acc] Cons.prems by (auto simp: Let_def split: if_splits)
  next
    case 3
    then have "normalizeLoop (ToLower (TrimSpace x) # acc) hs = Some ns"
      using Cons.prems by (simp add: Let_def split: if_splits)
    from Cons.IH [OF this] 3 show ?thesis by auto
  qed
qed auto

lemma hostRuleMatches_Nil [simp]: "\<not> hostRuleMatches [] h"
  by (simp add: hostRuleMatches_def)

lemma AllowedHost_iff:
  "AllowedHost h rules \<longleftrightarrow> TrimSpace h \<noteq> [] \<and> (\<exists>r \<in> set rules. hostRuleMatches r (ToLower (TrimSpace h)))"
  by (cases rules) (auto simp: AllowedHost_def Let_def list_ex_iff)

text \<open>
  Normalising the chart allowlist (lower case, trimming, removing duplicates and
  blanks, sorting, and collapsing to \<open>*\<close>) changes the verdict on no host.
\<close>

theorem normalized_allowlist_same_verdict:
  "AllowedHost h (normalizeHelmAllowedHosts hosts) = AllowedHost h hosts"
proof (cases "normalizeLoop [] hosts")
  case None
  then obtain r where r: "r \<in> set hosts" "ToLower (TrimSpace r) = ''*''"
    by (auto simp: normalizeLoop_None)
  have star: "hostRuleMatches ''*'' x" for x
    using TrimSpace_no_space [of "''*''"]
    by (simp add: hostRuleMatches_def ToLower_def lower_char_def is_upper_def is_space_def)
  then have "hostRuleMatches r x" for x
    using hostRuleMatches_norm [of r] r(2) by simp
  then show ?thesis
    using r(1) star None by (auto simp: normalizeHelmAllowedHosts_def AllowedHost_iff)
next
  case (Some ns)
  let ?n = "\<lambda>h. ToLower (TrimSpace h)"
  have "set (normalizeHelmAllowedHosts hosts) = ?n ` set hosts - {[]}"
    using normalizeLoop_set [OF Some] Some by (simp add: normalizeHelmAllowedHosts_def)
  moreover have "(\<exists>r \<in> ?n ` set hosts - {[]}. hostRuleMatches r x) \<longleftrightarrow> (\<exists>r \<in> set hosts. hostRuleMatches r x)" for x
  proof -
    have "?n r \<noteq> [] \<and> hostRuleMatches (?n r) x \<longleftrightarrow> hostRuleMatches r x" for r
      using hostRuleMatches_norm [of r x] by (auto simp: hostRuleMatches_def)
    then show ?thesis by blast
  qed
  ultimately show ?thesis by (simp add: AllowedHost_iff)
qed

end
