(* ===== verification/Naming.thy ===== *)
theory Naming
  imports GoCodec
begin

text \<open>
  Names and labels of Kubernetes objects: \<open>Slugify\<close> and \<open>DecodeKubeconfig\<close> of
  \<open>internal/util\<close>, the kube names of applications (\<open>internal/service/app_names.go\<close>), user and
  application labels (\<open>labels.go\<close>, \<open>app_labels.go\<close>), and the names of billing records
  (\<open>kubeop-operator/controllers/usagewriter_controller.go\<close>).
\<close>

section \<open>Collapsing separators\<close>

text \<open>
  The three sanitisers walk over the text, keep some characters and write one \<open>-\<close> for a run
  of others.  \<open>collapse keep dash s\<close> is this loop; \<open>dash\<close> tells that the last character
  written is \<open>-\<close>.  The regular expression \<open>[^a-z0-9]+\<close> of \<open>Slugify\<close> replaces the same runs.
\<close>

definition alnum :: "char \<Rightarrow> bool" where
  "alnum c \<longleftrightarrow> is_lower c \<or> is_digit c"

fun collapse :: "(char \<Rightarrow> bool) \<Rightarrow> bool \<Rightarrow> string \<Rightarrow> string" where
  "collapse keep dash [] = []"
| "collapse keep dash (c # s) =
    (if keep c then c # collapse keep (c = CHR ''-'') s
     else if dash then collapse keep True s
     else CHR ''-'' # collapse keep True s)"

definition Slugify :: "string \<Rightarrow> string" where
  "Slugify s =
    (let s = Trim (collapse alnum False (ToLower (TrimSpace s))) ''-'';
         s = (if length s > 63 then take 63 s else s) in
     if s = [] then ''ns'' else s)"

datatype decode_error = KubeconfigRequired | InvalidBase64

definition DecodeKubeconfig :: "string \<Rightarrow> string \<Rightarrow> decode_error + string" where
  "DecodeKubeconfig plain kubeconfigB64 =
    (let b64 = TrimSpace kubeconfigB64 in
     if b64 = [] then Inl KubeconfigRequired
     else case base64Decode b64 of None \<Rightarrow> Inl InvalidBase64 | Some b \<Rightarrow> Inr (textOf b))"

section \<open>Kube names of applications\<close>

definition maxKubeNameLen :: nat where
  "maxKubeNameLen = 63"

definition resourceSuffix :: "string \<Rightarrow> string" where
  "resourceSuffix appID =
    (if TrimSpace appID = [] then []
     else let sum = sha1Sum (bytesOf appID);
              hexPart = hexEncode (take 5 sum);
              hexPart = (if length hexPart > 9 then take 9 hexPart else hexPart);
              base32Part = ToLower (base32Encode (take 3 (drop 5 sum))) in
          if hexPart = [] then base32Part
          else if base32Part = [] then hexPart
          else hexPart @ ''-'' @ base32Part)"

definition deriveKubeName :: "string \<Rightarrow> string \<Rightarrow> string" where
  "deriveKubeName baseName appID =
    (let base = Slugify baseName;
         base = (if base = [] then ''app'' else base);
         suffix = resourceSuffix appID in
     if suffix = [] then (if length base > maxKubeNameLen then take maxKubeNameLen base else base)
     else let m = int maxKubeNameLen - int (length suffix) - 1;
              m = (if m < 1 then 1 else m);
              base = (if int (length base) > m
                      then (let b = Trim (take (nat m) base) ''-'' in if b = [] then ''app'' else b)
                      else base) in
          base @ ''-'' @ suffix)"

text \<open>
  The stored source of an application is a JSON object; \<open>kubeName\<close> is its entry of that name
  when the entry is a string.
\<close>

definition appKubeName :: "string option \<Rightarrow> string \<Rightarrow> string" where
  "appKubeName kubeName name =
    (case kubeName of
       Some slug \<Rightarrow> (let slug = TrimSpace slug in if slug \<noteq> [] then slug else Slugify name)
     | None \<Rightarrow> Slugify name)"

section \<open>Labels\<close>

definition userLabelChar :: "char \<Rightarrow> bool" where
  "userLabelChar c \<longleftrightarrow> alnum c \<or> c = CHR ''.'' \<or> c = CHR ''_'' \<or> c = CHR ''-''"

definition SanitizeUserLabel :: "string \<Rightarrow> string" where
  "SanitizeUserLabel s =
    (if s = [] then []
     else let out = Trim (collapse userLabelChar False (ToLower (TrimSpace s))) ''-'' in
          if out = [] then ''user'' else out)"

definition ResolveUserLabel :: "string \<Rightarrow> string \<Rightarrow> string \<Rightarrow> string" where
  "ResolveUserLabel name email userID =
    (if SanitizeUserLabel name \<noteq> [] then SanitizeUserLabel name
     else if SanitizeUserLabel email \<noteq> [] then SanitizeUserLabel email
     else let short = TrimSpace userID; short = (if length short > 8 then take 8 short else short) in
          if short = [] then ''user'' else ''user-'' @ short)"

record label_project =
  lp_ID :: string
  lp_Name :: string
  lp_Namespace :: string
  lp_ClusterID :: string
  lp_UserID :: string

definition addLabel :: "string \<Rightarrow> string \<Rightarrow> gomap \<Rightarrow> gomap" where
  "addLabel key v labels = (let v = TrimSpace v in if v \<noteq> [] then labels(key \<mapsto> v) else labels)"

definition CanonicalAppLabels :: "label_project \<Rightarrow> string \<Rightarrow> string \<Rightarrow> string \<Rightarrow> gomap" where
  "CanonicalAppLabels project appName kubeName appID =
    (let labels = addLabel ''kubeop.app.id'' appID Map.empty;
         kubeName = (if TrimSpace kubeName = []
                     then (if TrimSpace appName \<noteq> [] then Slugify appName else []) else kubeName);
         labels = addLabel ''kubeop.app.name'' kubeName labels;
         labels = addLabel ''kubeop.project.id'' (lp_ID project) labels;
         labels = (if TrimSpace (lp_Name project) \<noteq> []
                   then addLabel ''kubeop.project.name'' (Slugify (lp_Name project)) labels
                   else if TrimSpace (lp_Namespace project) \<noteq> []
                   then addLabel ''kubeop.project.name'' (Slugify (lp_Namespace project)) labels
                   else labels);
         labels = addLabel ''kubeop.cluster.id'' (lp_ClusterID project) labels in
     addLabel ''kubeop.tenant.id'' (lp_UserID project) labels)"

section \<open>Names of billing records\<close>

definition replaceSeparator :: "char \<Rightarrow> char" where
  "replaceSeparator c = (if c \<in> set ''/:_.'' then CHR ''-'' else c)"

definition sanitizeName :: "string \<Rightarrow> string" where
  "sanitizeName s =
    (let s = map replaceSeparator (ToLower (TrimSpace s));
         sanitized = Trim (collapse alnum False s) ''-'' in
     if sanitized = [] then ''subject'' else sanitized)"

definition sanitizeWindow :: "instant \<Rightarrow> string" where
  "sanitizeWindow window =
    ToLower (map (\<lambda>c. if c = CHR '':'' then CHR ''-'' else c) (formatHour window))"

datatype subject_type = SubjectTenant | SubjectProject | SubjectApp

fun subjectText :: "subject_type \<Rightarrow> string" where
  "subjectText SubjectTenant = ''tenant''"
| "subjectText SubjectProject = ''project''"
| "subjectText SubjectApp = ''app''"

definition buildBillingUsageName :: "subject_type \<Rightarrow> string \<Rightarrow> instant \<Rightarrow> string" where
  "buildBillingUsageName subjectType subjectRef window =
    (let base = ToLower (subjectText subjectType) @ ''-'' @ sanitizeName subjectRef @ ''-'' @ sanitizeWindow window in
     if length base \<le> 63 then base
     else let suffix = hexEncode (take 4 (sha1Sum (bytesOf base)));
              trimmedLength = int 63 - int (length suffix) - 1;
              trimmedLength = (if trimmedLength < 1 then 1 else trimmedLength);
              prefix = sanitizeName (take (nat trimmedLength) base);
              prefix = (if prefix = [] then ''usage'' else prefix) in
          prefix @ ''-'' @ suffix)"

definition namespaceKey :: "string \<Rightarrow> string \<Rightarrow> string" where
  "namespaceKey ns name = (if TrimSpace ns = [] then name else ns @ ''/'' @ name)"


section \<open>Names are DNS labels\<close>

definition labelText :: "string \<Rightarrow> bool" where
  "labelText s \<longleftrightarrow> s \<noteq> [] \<and> list_all (\<lambda>c. alnum c \<or> c = CHR ''-'') s \<and> alnum (hd s) \<and> alnum (last s)"

definition dnsLabel :: "string \<Rightarrow> bool" where
  "dnsLabel s \<longleftrightarrow> labelText s \<and> length s \<le> 63"

lemma alnum_simps [simp]:
  "\<not> alnum CHR ''-''" "is_digit c \<Longrightarrow> alnum c" "is_lower c \<Longrightarrow> alnum c" "hexChar c \<Longrightarrow> alnum c"
  by (auto simp: alnum_def is_lower_def is_digit_def hexChar_def)

lemma collapse_chars: "c \<in> set (collapse keep d s) \<Longrightarrow> keep c \<or> c = CHR ''-''"
  by (induction keep d s rule: collapse.induct) (auto split: if_splits)

lemma Trim_collapse_label:
  assumes "t = Trim (collapse alnum d s) ''-''" "t \<noteq> []"
  shows "labelText t"
proof -
  let ?P = "\<lambda>c. c \<in> set ''-''"
  have t: "t = trimFunc ?P (collapse alnum d s)" using assms(1) by (simp only: Trim_def)
  have c: "alnum c \<or> c = CHR ''-''" if "c \<in> set t" for c
    using that set_trimFunc collapse_chars unfolding t by blast
  have "hd t \<noteq> CHR ''-''" "last t \<noteq> CHR ''-''"
    using assms(2) trimFunc_hd [of ?P] trimFunc_last [of ?P] unfolding t by simp_all
  then show ?thesis
    using c [of "hd t"] c [of "last t"] c assms(2) by (auto simp: labelText_def list_all_iff)
qed

lemma labelText_append:
  assumes "labelText a" "labelText b"
  shows "labelText (a @ CHR ''-'' # b)"
  using assms by (auto simp: labelText_def)

lemma alnum_label: "s \<noteq> [] \<Longrightarrow> \<forall>c \<in> set s. alnum c \<Longrightarrow> labelText s"
  by (auto simp: labelText_def list_all_iff)

lemma labelText_take:
  assumes "labelText s" "0 < n"
  shows "list_all (\<lambda>c. alnum c \<or> c = CHR ''-'') (take n s)" "alnum (hd (take n s))" "take n s \<noteq> []"
  using assms by (auto simp: labelText_def list_all_iff dest: in_set_takeD)

lemma labelText_trim_take:
  assumes "labelText s" "0 < n"
  shows "labelText (Trim (take n s) ''-'')" "length (Trim (take n s) ''-'') \<le> n"
proof -
  let ?P = "\<lambda>c. c \<in> set ''-''" and ?t = "take n s"
  note p = labelText_take [OF assms]
  have ne: "trimFunc ?P ?t \<noteq> []"
  proof -
    have "hd ?t \<in> set ?t" "\<not> ?P (hd ?t)"
      using hd_in_set [OF p(3)] p(2) alnum_simps(1) by (simp, metis empty_iff insert_iff list.set)
    then show ?thesis using trimFunc_eq_Nil [of ?P ?t] by metis
  qed
  have c: "alnum c \<or> c = CHR ''-''" if "c \<in> set (trimFunc ?P ?t)" for c
    using that set_trimFunc [of ?P ?t] p(1) by (auto simp: list_all_iff)
  have "hd (trimFunc ?P ?t) \<noteq> CHR ''-''" "last (trimFunc ?P ?t) \<noteq> CHR ''-''"
    using trimFunc_hd [OF ne] trimFunc_last [OF ne] by simp_all
  then show "labelText (Trim ?t ''-'')"
    using ne c [of "hd (trimFunc ?P ?t)"] c [of "last (trimFunc ?P ?t)"] c
    by (auto simp: labelText_def list_all_iff Trim_def)
  show "length (Trim ?t ''-'') \<le> n"
    using length_trimFunc [of ?P ?t] by (simp add: Trim_def)
qed

text \<open>The parts of a slug.\<close>

definition slugBody :: "string \<Rightarrow> string" where
  "slugBody s = Trim (collapse alnum False (ToLower (TrimSpace s))) ''-''"

lemma Slugify_body: "Slugify s = (if slugBody s = [] then ''ns'' else take 63 (slugBody s))"
  by (simp add: Slugify_def slugBody_def Let_def)

lemma slugBody_label: "slugBody s \<noteq> [] \<Longrightarrow> labelText (slugBody s)"
  by (rule Trim_collapse_label [OF slugBody_def])

lemma ns_label: "labelText ''ns''"
  by (simp add: labelText_def alnum_def is_lower_def)

lemma Slugify_not_Nil [simp]: "Slugify s \<noteq> []"
  by (simp add: Slugify_body)

lemma Slugify_short: "length (Slugify s) < 63 \<Longrightarrow> labelText (Slugify s)"
  using slugBody_label [of s] ns_label by (auto simp: Slugify_body split: if_splits)

lemma Slugify_long: "length (Slugify s) \<ge> 63 \<Longrightarrow> \<exists>b. labelText b \<and> Slugify s = take 63 b"
  using slugBody_label [of s] by (auto simp: Slugify_body split: if_splits)

lemma sanitizeName_label: "labelText (sanitizeName s)"
proof -
  have "labelText ''subject''" by (simp add: labelText_def alnum_def is_lower_def)
  then show ?thesis using Trim_collapse_label [OF refl] by (auto simp: sanitizeName_def Let_def)
qed

lemma sanitizeWindow_chars:
  "c \<in> set (sanitizeWindow w) \<Longrightarrow> alnum c \<or> c = CHR ''-''" "alnum (last (sanitizeWindow w))" "sanitizeWindow w \<noteq> []"
proof -
  have low: "lower_char c = c" if "is_digit c" for c
    using that by (simp add: lower_char_def is_digit_def is_upper_def)
  have t: "lower_char CHR ''T'' = CHR ''t''" "lower_char CHR ''-'' = CHR ''-''"
    by code_simp+
  have col: "c \<noteq> CHR '':''" if "is_digit c" for c using that by (auto simp: is_digit_def)
  show "c \<in> set (sanitizeWindow w) \<Longrightarrow> alnum c \<or> c = CHR ''-''"
    using formatHour_chars low t by (fastforce simp: sanitizeWindow_def ToLower_def alnum_def is_lower_def)
  show "alnum (last (sanitizeWindow w))"
    using formatHour_last [of w] low col by (simp add: sanitizeWindow_def ToLower_def last_map)
  show "sanitizeWindow w \<noteq> []" by (simp add: sanitizeWindow_def)
qed


lemma resourceSuffix_shape:
  assumes "TrimSpace appID \<noteq> []"
  shows "labelText (resourceSuffix appID)" "length (resourceSuffix appID) = 15"
proof -
  define h where "h = take 9 (hexEncode (take 5 (sha1Sum (bytesOf appID))))"
  define b where "b = ToLower (base32Encode (take 3 (drop 5 (sha1Sum (bytesOf appID)))))"
  have lh: "length h = 9" by (simp add: h_def)
  have lb: "length b = 5" by (simp add: b_def ToLower_def length_base32Encode)
  have s: "resourceSuffix appID = h @ CHR ''-'' # b"
    using assms lh lb by (auto simp: resourceSuffix_def Let_def h_def [symmetric] b_def [symmetric])
  have ch: "alnum c" if "c \<in> set h" for c
    using that hexEncode_chars in_set_takeD unfolding h_def by (metis alnum_simps(4))
  have cb: "alnum c" if "c \<in> set b" for c
  proof -
    have "\<And>x. is_lower x \<or> is_digit x \<Longrightarrow> lower_char x = x"
      by (auto simp: lower_char_def is_lower_def is_digit_def is_upper_def)
    with that show ?thesis
      using base32Encode_chars unfolding b_def ToLower_def alnum_def by (metis (no_types, lifting) imageE set_map)
  qed
  have "h \<noteq> []" "b \<noteq> []" using lh lb by auto
  then have "labelText h" "labelText b"
    using ch cb by (auto intro: alnum_label)
  then show "labelText (resourceSuffix appID)" unfolding s by (rule labelText_append)
  show "length (resourceSuffix appID) = 15" by (simp add: s lh lb)
qed

text \<open>
  (C32) The kube name derived for an application with a non-blank identifier is a DNS label:
  at most 63 lower-case letters, digits and hyphens that starts and ends with a letter or a
  digit, whatever the name given by the user.
\<close>

theorem derived_kube_name_is_dns_label:
  assumes "TrimSpace appID \<noteq> []"
  shows "dnsLabel (deriveKubeName baseName appID)"
proof -
  let ?s = "resourceSuffix appID" and ?b = "Slugify baseName"
  note s = resourceSuffix_shape [OF assms]
  define base where
    "base = (if length ?b > 47 then (let t = Trim (take 47 ?b) ''-'' in if t = [] then ''app'' else t) else ?b)"
  have d: "deriveKubeName baseName appID = base @ CHR ''-'' # ?s"
    using s by (auto simp: deriveKubeName_def base_def Let_def maxKubeNameLen_def)
  have "labelText base \<and> length base \<le> 47"
  proof (cases "length ?b > 47")
    case True
    have "\<exists>b. labelText b \<and> take 47 ?b = take 47 b"
    proof (cases "length ?b < 63")
      case True
      then show ?thesis using Slugify_short by blast
    next
      case False
      then obtain b where "labelText b" "?b = take 63 b" using Slugify_long [of baseName] by auto
      then show ?thesis by auto
    qed
    then obtain b where b: "labelText b" "take 47 ?b = take 47 b" by blast
    have "labelText (Trim (take 47 b) ''-'')" "length (Trim (take 47 b) ''-'') \<le> 47"
      using labelText_trim_take [OF b(1), of 47] by simp_all
    moreover have "Trim (take 47 b) ''-'' \<noteq> []" using calculation(1) by (simp add: labelText_def)
    ultimately show ?thesis using True b(2) by (simp add: base_def Let_def)
  next
    case False
    then show ?thesis using Slugify_short [of baseName] by (simp add: base_def)
  qed
  then show ?thesis using d s labelText_append by (simp add: dnsLabel_def)
qed

theorem derived_kube_name_is_dns_label_witness:
  "dnsLabel (deriveKubeName ''My Shop (EU) -- a very long application name that the API accepts!'' ''42'')"
  using derived_kube_name_is_dns_label [of "''42''"] by (simp add: TrimSpace_eq_Nil is_space_def)

lemma subject_labels:
  "labelText (ToLower (subjectText SubjectTenant))"
  "labelText (ToLower (subjectText SubjectProject))"
  "labelText (ToLower (subjectText SubjectApp))"
  by code_simp+

lemma length_collapse: "length (collapse keep d s) \<le> length s"
  by (induction keep d s rule: collapse.induct) auto

lemma length_sanitizeName: "7 \<le> n \<Longrightarrow> length s \<le> n \<Longrightarrow> length (sanitizeName s) \<le> n"
proof -
  assume n: "7 \<le> n" "length s \<le> n"
  have "length (Trim (collapse alnum False (map replaceSeparator (ToLower (TrimSpace s)))) ''-'') \<le> length (TrimSpace s)"
    unfolding Trim_def
    by (rule order_trans [OF length_trimFunc order_trans [OF length_collapse]]) (simp add: ToLower_def)
  also have "\<dots> \<le> n" using length_trimFunc [of is_space s] n(2) unfolding TrimSpace_def by linarith
  finally show ?thesis using n(1) by (simp add: sanitizeName_def Let_def)
qed

text \<open>
  The name of every billing record is a DNS label, for every subject and hour.
\<close>

theorem billing_name_is_dns_label: "dnsLabel (buildBillingUsageName ty ref window)"
proof -
  define base where
    "base = ToLower (subjectText ty) @ ''-'' @ sanitizeName ref @ ''-'' @ sanitizeWindow window"
  have ty: "labelText (ToLower (subjectText ty))"
    using subject_labels by (cases ty) simp_all
  have base: "labelText base"
    using labelText_append [OF ty sanitizeName_label [of ref]] sanitizeWindow_chars(1) [of _ window] sanitizeWindow_chars(2,3) [of window]
      ty by (auto simp: base_def labelText_def list_all_iff hd_append)
  have n: "buildBillingUsageName ty ref window =
      (if length base \<le> 63 then base
       else sanitizeName (take 54 base) @ CHR ''-'' # hexEncode (take 4 (sha1Sum (bytesOf base))))"
    unfolding buildBillingUsageName_def base_def [symmetric] Let_def
    using sanitizeName_label [of "take 54 base"] by (auto simp: labelText_def)
  show ?thesis
  proof (cases "length base \<le> 63")
    case True
    then show ?thesis using base n by (simp add: dnsLabel_def)
  next
    case False
    define h where "h = hexEncode (take 4 (sha1Sum (bytesOf base)))"
    define p where "p = sanitizeName (take 54 base)"
    have "length h = 8" by (simp add: h_def)
    moreover from this have "h \<noteq> []" by auto
    ultimately have h: "labelText h" "length h = 8"
      using hexEncode_chars by (auto simp: h_def intro: alnum_label)
    have p: "labelText p" by (simp add: p_def sanitizeName_label)
    have "length p \<le> 54" by (simp add: p_def length_sanitizeName)
    then show ?thesis
      using n False h labelText_append [OF p h(1)] by (simp add: dnsLabel_def h_def p_def)
  qed
qed


text \<open>
  (C33) A slug consists of at most 63 lower-case letters, digits and hyphens and starts with a
  letter or digit.  It also ends with one unless the text was cut, and the cut can leave a
  trailing hyphen, which Kubernetes refuses.
\<close>

theorem slug_shape:
  "Slugify s \<noteq> [] \<and> length (Slugify s) \<le> 63
   \<and> list_all (\<lambda>c. alnum c \<or> c = CHR ''-'') (Slugify s) \<and> alnum (hd (Slugify s))
   \<and> (length (slugBody s) \<le> 63 \<longrightarrow> dnsLabel (Slugify s))
   \<and> last (Slugify (replicate 62 CHR ''a'' @ '' b'')) = CHR ''-''"
proof -
  have "labelText (slugBody s) \<or> slugBody s = []" using slugBody_label by blast
  then have "list_all (\<lambda>c. alnum c \<or> c = CHR ''-'') (Slugify s)" "alnum (hd (Slugify s))"
    "length (slugBody s) \<le> 63 \<longrightarrow> dnsLabel (Slugify s)"
    using ns_label labelText_take [of "slugBody s" 63]
    by (auto simp: Slugify_body dnsLabel_def) (auto simp: labelText_def)
  moreover have "last (Slugify (replicate 62 CHR ''a'' @ '' b'')) = CHR ''-''" by code_simp
  ultimately show ?thesis by (simp add: Slugify_body)
qed

theorem slug_shape_witness:
  "length (slugBody ''Team Blue'') \<le> 63 \<and> dnsLabel (Slugify ''Team Blue'') \<and> Slugify ''Team Blue'' = ''team-blue''"
proof -
  have "length (slugBody ''Team Blue'') \<le> 63" "Slugify ''Team Blue'' = ''team-blue''" by code_simp+
  then show ?thesis using slug_shape [of "''Team Blue''"] by blast
qed

lemma trimFunc_surround:
  assumes "\<forall>c \<in> set l. P c" "\<forall>c \<in> set r. P c" "s \<noteq> []" "\<not> P (hd s)" "\<not> P (last s)"
  shows "trimFunc P (l @ s @ r) = s"
proof -
  obtain x xs where x: "s = x # xs" using assms(3) by (cases s) auto
  have "dropWhile P (l @ s @ r) = s @ r" using assms by (simp add: x dropWhile_append3)
  moreover obtain y ys where y: "rev s = y # ys" using assms(3) by (cases "rev s") auto
  moreover have "\<not> P y" using assms(5) y by (metis last_rev hd_rev list.sel(1) rev_rev_ident)
  moreover have "dropWhile P (rev r @ y # ys) = y # ys" using assms(2) \<open>\<not> P y\<close> by (simp add: dropWhile_append3)
  ultimately show ?thesis
    by (simp add: trimFunc_def trimLeft_def trimRight_def)
qed

text \<open>
  (C34) Kubeconfigs survive transport: decoding the base 64 text of a non-empty kubeconfig,
  with any white space around it, gives the kubeconfig back, whatever plain kubeconfig
  is passed beside it.
\<close>

theorem kubeconfig_round_trip:
  assumes "cfg \<noteq> []" "\<forall>c \<in> set l \<union> set r. is_space c"
  shows "DecodeKubeconfig plain (l @ base64Encode (bytesOf cfg) @ r) = Inr cfg"
proof -
  have ne: "base64Encode (bytesOf cfg) \<noteq> []" using assms(1) by (simp add: bytesOf_def)
  then have "TrimSpace (l @ base64Encode (bytesOf cfg) @ r) = base64Encode (bytesOf cfg)"
    unfolding TrimSpace_def using assms(2) base64Encode_plain [of "bytesOf cfg"]
    by (intro trimFunc_surround) auto
  then show ?thesis using ne by (simp add: DecodeKubeconfig_def Let_def)
qed

theorem kubeconfig_round_trip_witness:
  "DecodeKubeconfig [] ('' '' @ base64Encode (bytesOf ''apiVersion: v1'') @ '' '') = Inr ''apiVersion: v1''
   \<and> base64Encode (bytesOf ''apiVersion: v1'') = ''YXBpVmVyc2lvbjogdjE=''"
proof -
  have "base64Encode (bytesOf ''apiVersion: v1'') = ''YXBpVmVyc2lvbjogdjE=''" by code_simp
  then show ?thesis
    using kubeconfig_round_trip [of "''apiVersion: v1''" "'' ''" "'' ''" "[]"] by (simp add: is_space_def)
qed

text \<open>
  A user label is never empty, and a name that consists of white space hides the
  e-mail address: the label is the constant \<open>user\<close>, although the address is preferred over
  a fallback.
\<close>

theorem blank_name_hides_email:
  assumes "name \<noteq> []" "TrimSpace name = []"
  shows "ResolveUserLabel name email userID = ''user''"
proof -
  have "Trim [] ''-'' = []" by code_simp
  with assms show ?thesis by (simp add: ResolveUserLabel_def SanitizeUserLabel_def)
qed

theorem blank_name_hides_email_witness:
  "ResolveUserLabel '' '' ''ann@example.com'' ''7'' = ''user'' \<and> ResolveUserLabel [] ''ann@example.com'' ''7'' = ''ann-example.com''"
  using blank_name_hides_email [of "'' ''" "''ann@example.com''" "''7''"]
  by (simp add: TrimSpace_eq_Nil is_space_def) code_simp

end
