(* ===== verification/Usage.thy ===== *)
theory Usage
  imports Naming
begin

text \<open>
  The usage writer of the operator (\<open>kubeop-operator/controllers/usagewriter_controller.go\<close>):
  it sums the samples of the current hour per tenant, project and application, writes the
  sums to the status of tenants and projects, and keeps one BillingUsage record per subject
  and hour.

  Quantities (\<open>resource.Quantity\<close> of the Kubernetes libraries) are a type with an addition
  and a zero that form a commutative monoid; their text is the parameter \<open>ue_String\<close>.  The
  list of conditions of an object and its update \<open>SetStatusCondition\<close> are parameters, too.
  The objects of the API server are a record of lists and a map from record names; every API
  call can fail, as the \<open>ue_fail\<close> parameters say.
\<close>

section \<open>State and environment\<close>

record 'q usageAccumulator =
  ua_CPU :: 'q
  ua_Memory :: 'q
  ua_Storage :: 'q
  ua_Egress :: 'q
  ua_LBHours :: 'q

record 'q UsageSample =
  s_Tenant :: string
  s_ProjectNamespace :: string
  s_Project :: string
  s_AppNamespace :: string
  s_App :: string
  s_CPU :: 'q
  s_Memory :: 'q
  s_Storage :: 'q
  s_Egress :: 'q
  s_LBHours :: 'q

record condition =
  cond_Type :: string
  cond_Status :: bool
  cond_Reason :: string
  cond_Message :: string

record ('q, 'c) usage_tenant =
  ut_Name :: string
  ut_Usage :: "'q usageAccumulator option"
  ut_Conditions :: 'c

record ('q, 'c) usage_project =
  up_Namespace :: string
  up_Name :: string
  up_Usage :: "'q usageAccumulator option"
  up_Conditions :: 'c

record 'c BillingUsage =
  bu_SubjectType :: subject_type
  bu_SubjectRef :: string
  bu_Window :: string
  bu_Meters :: gomap
  bu_Conditions :: 'c

record ('q, 'c) usage_state =
  us_Tenants :: "('q, 'c) usage_tenant list"
  us_Projects :: "('q, 'c) usage_project list"
  us_Apps :: "(string \<times> string) list"
  us_Billing :: "string \<rightharpoonup> 'c BillingUsage"

record ('q, 'c) usage_env =
  ue_Collect :: "instant \<Rightarrow> string + 'q UsageSample list"
  ue_String :: "'q \<Rightarrow> string"
  ue_NoConditions :: 'c
  ue_SetStatusCondition :: "condition \<Rightarrow> 'c \<Rightarrow> 'c"
  ue_failListTenants :: bool
  ue_failListProjects :: bool
  ue_failListApps :: bool
  ue_failPatchTenant :: "string \<Rightarrow> bool"
  ue_failPatchProject :: "string \<Rightarrow> string \<Rightarrow> bool"
  ue_failSync :: "string \<Rightarrow> bool"
  ue_failPatchUsage :: "string \<Rightarrow> bool"

datatype usage_error =
    CollectFailed string | ListTenantsFailed | ListProjectsFailed | ListAppsFailed
  | PatchTenantFailed string | PatchProjectFailed string string
  | SyncUsageFailed subject_type string | PatchUsageFailed subject_type string

section \<open>Accumulators\<close>

definition newUsageAccumulator :: "'q::comm_monoid_add usageAccumulator" where
  "newUsageAccumulator = \<lparr>ua_CPU = 0, ua_Memory = 0, ua_Storage = 0, ua_Egress = 0, ua_LBHours = 0\<rparr>"

definition addNonZero :: "'q::comm_monoid_add \<Rightarrow> 'q \<Rightarrow> 'q" where
  "addNonZero a q = (if q \<noteq> 0 then a + q else a)"

definition addSample :: "'q::comm_monoid_add usageAccumulator \<Rightarrow> 'q UsageSample \<Rightarrow> 'q usageAccumulator" where
  "addSample a sample =
    \<lparr>ua_CPU = addNonZero (ua_CPU a) (s_CPU sample),
     ua_Memory = addNonZero (ua_Memory a) (s_Memory sample),
     ua_Storage = addNonZero (ua_Storage a) (s_Storage sample),
     ua_Egress = addNonZero (ua_Egress a) (s_Egress sample),
     ua_LBHours = addNonZero (ua_LBHours a) (s_LBHours sample)\<rparr>"

type_synonym 'q totals = "string \<rightharpoonup> 'q usageAccumulator"

definition accumulate :: "string \<Rightarrow> 'q::comm_monoid_add UsageSample \<Rightarrow> 'q totals \<Rightarrow> 'q totals" where
  "accumulate key sample totals =
    totals(key \<mapsto> addSample (case totals key of None \<Rightarrow> newUsageAccumulator | Some acc \<Rightarrow> acc) sample)"

definition aggregateSample ::
  "'q::comm_monoid_add totals \<times> 'q totals \<times> 'q totals \<Rightarrow> 'q UsageSample \<Rightarrow> 'q totals \<times> 'q totals \<times> 'q totals" where
  "aggregateSample t sample =
    (let (tenantTotals, projectTotals, appTotals) = t;
         tenant = TrimSpace (s_Tenant sample); project = TrimSpace (s_Project sample);
         appName = TrimSpace (s_App sample) in
     if tenant = [] \<or> project = [] \<or> appName = [] then t
     else (accumulate tenant sample tenantTotals,
           accumulate (namespaceKey (s_ProjectNamespace sample) project) sample projectTotals,
           accumulate (namespaceKey (s_AppNamespace sample) appName) sample appTotals))"

definition aggregate :: "'q::comm_monoid_add UsageSample list \<Rightarrow> 'q totals \<times> 'q totals \<times> 'q totals" where
  "aggregate samples = foldl aggregateSample (Map.empty, Map.empty, Map.empty) samples"

definition totalsFor :: "'q::comm_monoid_add totals \<Rightarrow> string \<Rightarrow> 'q usageAccumulator" where
  "totalsFor totals key = (case totals key of None \<Rightarrow> newUsageAccumulator | Some acc \<Rightarrow> acc)"

section \<open>Writing the results\<close>

definition setUsageConditions ::
  "('q, 'c) usage_env \<Rightarrow> 'c \<Rightarrow> instant \<Rightarrow> string option \<Rightarrow> 'c" where
  "setUsageConditions env conditions window aggregationErr =
    (let windowMsg = ''Usage window '' @ formatRFC3339 window; put = ue_SetStatusCondition env in
     case aggregationErr of
       Some err \<Rightarrow>
         (let reason = ''UsageAggregationFailed''; msg = windowMsg @ '': '' @ err in
          put \<lparr>cond_Type = ''Degraded'', cond_Status = True, cond_Reason = reason, cond_Message = msg\<rparr>
            (put \<lparr>cond_Type = ''Ready'', cond_Status = False, cond_Reason = reason, cond_Message = msg\<rparr>
              (put \<lparr>cond_Type = ''Reconciling'', cond_Status = False, cond_Reason = reason, cond_Message = msg\<rparr>
                conditions)))
     | None \<Rightarrow>
         (let reason = ''UsageAggregationComplete''; msg = windowMsg @ '' updated'' in
          put \<lparr>cond_Type = ''Degraded'', cond_Status = False, cond_Reason = reason,
                cond_Message = ''Usage aggregation healthy''\<rparr>
            (put \<lparr>cond_Type = ''Ready'', cond_Status = True, cond_Reason = reason, cond_Message = msg\<rparr>
              (put \<lparr>cond_Type = ''Reconciling'', cond_Status = False, cond_Reason = reason, cond_Message = msg\<rparr>
                conditions))))"

type_synonym ('q, 'c) usage_run = "('q, 'c) usage_state \<times> usage_error list"

definition patchTenant ::
  "('q, 'c) usage_env \<Rightarrow> string \<Rightarrow> (('q, 'c) usage_tenant \<Rightarrow> ('q, 'c) usage_tenant) \<Rightarrow> ('q, 'c) usage_run \<Rightarrow> ('q, 'c) usage_run" where
  "patchTenant env name f = (\<lambda>(st, errs).
    if ue_failPatchTenant env name then (st, errs @ [PatchTenantFailed name])
    else (st\<lparr>us_Tenants := map (\<lambda>t. if ut_Name t = name then f t else t) (us_Tenants st)\<rparr>, errs))"

definition patchProject ::
  "('q, 'c) usage_env \<Rightarrow> string \<Rightarrow> string \<Rightarrow> (('q, 'c) usage_project \<Rightarrow> ('q, 'c) usage_project) \<Rightarrow>
    ('q, 'c) usage_run \<Rightarrow> ('q, 'c) usage_run" where
  "patchProject env ns name f = (\<lambda>(st, errs).
    if ue_failPatchProject env ns name then (st, errs @ [PatchProjectFailed ns name])
    else (st\<lparr>us_Projects := map (\<lambda>p. if up_Namespace p = ns \<and> up_Name p = name then f p else p)
            (us_Projects st)\<rparr>, errs))"

definition updateTenantStatus ::
  "('q, 'c) usage_env \<Rightarrow> ('q, 'c) usage_tenant \<Rightarrow> 'q usageAccumulator \<Rightarrow> instant \<Rightarrow> string option \<Rightarrow>
    ('q, 'c) usage_run \<Rightarrow> ('q, 'c) usage_run" where
  "updateTenantStatus env tenant totals window aggregationErr =
    patchTenant env (ut_Name tenant)
      (\<lambda>t. t\<lparr>ut_Usage := Some totals,
              ut_Conditions := setUsageConditions env (ut_Conditions tenant) window aggregationErr\<rparr>)"

definition updateProjectStatus ::
  "('q, 'c) usage_env \<Rightarrow> ('q, 'c) usage_project \<Rightarrow> 'q usageAccumulator \<Rightarrow> instant \<Rightarrow> string option \<Rightarrow>
    ('q, 'c) usage_run \<Rightarrow> ('q, 'c) usage_run" where
  "updateProjectStatus env project totals window aggregationErr =
    patchProject env (up_Namespace project) (up_Name project)
      (\<lambda>p. p\<lparr>up_Usage := Some totals,
              up_Conditions := setUsageConditions env (up_Conditions project) window aggregationErr\<rparr>)"

text \<open>
  \<open>CreateOrUpdate\<close> reads the record of the name, or starts with an empty one, applies the
  mutation and stores the outcome; then the status is patched.
\<close>

definition upsertBillingUsage ::
  "('q, 'c) usage_env \<Rightarrow> subject_type \<Rightarrow> string \<Rightarrow> 'q usageAccumulator \<Rightarrow> instant \<Rightarrow> string option \<Rightarrow>
    ('q, 'c) usage_run \<Rightarrow> ('q, 'c) usage_run" where
  "upsertBillingUsage env subjectType subjectRef totals window aggregationErr = (\<lambda>(st, errs).
    let name = buildBillingUsageName subjectType subjectRef window;
        (meters, conds) = (case us_Billing st name of
          None \<Rightarrow> (Map.empty, ue_NoConditions env)
        | Some u \<Rightarrow> (bu_Meters u, bu_Conditions u));
        usage = \<lparr>bu_SubjectType = subjectType, bu_SubjectRef = subjectRef, bu_Window = formatHour window,
          bu_Meters = meters(''cpu'' \<mapsto> ue_String env (ua_CPU totals),
            ''memory'' \<mapsto> ue_String env (ua_Memory totals),
            ''storage'' \<mapsto> ue_String env (ua_Storage totals),
            ''egress'' \<mapsto> ue_String env (ua_Egress totals),
            ''lbHours'' \<mapsto> ue_String env (ua_LBHours totals)),
          bu_Conditions = conds\<rparr> in
    if ue_failSync env name then (st, errs @ [SyncUsageFailed subjectType subjectRef])
    else let st = st\<lparr>us_Billing := (us_Billing st)(name \<mapsto> usage)\<rparr> in
      if ue_failPatchUsage env name then (st, errs @ [PatchUsageFailed subjectType subjectRef])
      else (st\<lparr>us_Billing := (us_Billing st)(name \<mapsto>
              usage\<lparr>bu_Conditions := setUsageConditions env conds window aggregationErr\<rparr>)\<rparr>, errs))"

section \<open>Reconciliation\<close>

definition tenantStep ::
  "('q::comm_monoid_add, 'c) usage_env \<Rightarrow> 'q totals \<Rightarrow> instant \<Rightarrow> ('q, 'c) usage_tenant \<Rightarrow> ('q, 'c) usage_run \<Rightarrow> ('q, 'c) usage_run" where
  "tenantStep env totals window tenant run =
    (let acc = totalsFor totals (ut_Name tenant) in
     upsertBillingUsage env SubjectTenant (ut_Name tenant) acc window None
       (updateTenantStatus env tenant acc window None run))"

definition projectStep ::
  "('q::comm_monoid_add, 'c) usage_env \<Rightarrow> 'q totals \<Rightarrow> instant \<Rightarrow> ('q, 'c) usage_project \<Rightarrow> ('q, 'c) usage_run \<Rightarrow> ('q, 'c) usage_run" where
  "projectStep env totals window project run =
    (let key = namespaceKey (up_Namespace project) (up_Name project); acc = totalsFor totals key in
     upsertBillingUsage env SubjectProject key acc window None
       (updateProjectStatus env project acc window None run))"

definition appStep ::
  "('q::comm_monoid_add, 'c) usage_env \<Rightarrow> 'q totals \<Rightarrow> instant \<Rightarrow> string \<times> string \<Rightarrow> ('q, 'c) usage_run \<Rightarrow> ('q, 'c) usage_run" where
  "appStep env totals window app run =
    (let key = namespaceKey (fst app) (snd app) in
     upsertBillingUsage env SubjectApp key (totalsFor totals key) window None run)"

definition updateConditionsOnError ::
  "('q, 'c) usage_env \<Rightarrow> instant \<Rightarrow> string \<Rightarrow> ('q, 'c) usage_run \<Rightarrow> ('q, 'c) usage_run" where
  "updateConditionsOnError env window aggregationErr run =
    (let run = (if ue_failListTenants env then (fst run, snd run @ [ListTenantsFailed])
                else fold (\<lambda>t. patchTenant env (ut_Name t) (\<lambda>x. x\<lparr>ut_Conditions :=
                       setUsageConditions env (ut_Conditions t) window (Some aggregationErr)\<rparr>))
                     (us_Tenants (fst run)) run) in
     if ue_failListProjects env then (fst run, snd run @ [ListProjectsFailed])
     else fold (\<lambda>p. patchProject env (up_Namespace p) (up_Name p) (\<lambda>x. x\<lparr>up_Conditions :=
            setUsageConditions env (up_Conditions p) window (Some aggregationErr)\<rparr>))
          (us_Projects (fst run)) run)"

definition Reconcile ::
  "('q::comm_monoid_add, 'c) usage_env \<Rightarrow> instant \<Rightarrow> ('q, 'c) usage_state \<Rightarrow> ('q, 'c) usage_run" where
  "Reconcile env now st =
    (let window = truncateHour now in
     case ue_Collect env window of
       Inl err \<Rightarrow> updateConditionsOnError env window err (st, [CollectFailed err])
     | Inr samples \<Rightarrow>
         (let (tenantTotals, projectTotals, appTotals) = aggregate samples in
          if ue_failListTenants env then (st, [ListTenantsFailed])
          else let run = fold (tenantStep env tenantTotals window) (us_Tenants st) (st, []) in
          if ue_failListProjects env then (fst run, [ListProjectsFailed])
          else let run = fold (projectStep env projectTotals window) (us_Projects (fst run)) run in
          if ue_failListApps env then (fst run, [ListAppsFailed])
          else fold (appStep env appTotals window) (us_Apps (fst run)) run))"

end
