(* ===== verification/UsageProps.thy ===== *)
theory UsageProps
  imports Usage
begin

text \<open>
  Correctness of the usage writer: the totals are the sums of the samples of a subject,
  every metered sample is counted once at each level, a reconciliation without failures
  writes exactly these totals, and a failed collection changes conditions only.
\<close>

section \<open>Totals are sums\<close>

definition metered :: "'q UsageSample \<Rightarrow> bool" where
  "metered s \<longleftrightarrow> TrimSpace (s_Tenant s) \<noteq> [] \<and> TrimSpace (s_Project s) \<noteq> [] \<and> TrimSpace (s_App s) \<noteq> []"

definition tenantKey :: "'q UsageSample \<Rightarrow> string" where
  "tenantKey s = TrimSpace (s_Tenant s)"

definition projectKey :: "'q UsageSample \<Rightarrow> string" where
  "projectKey s = namespaceKey (s_ProjectNamespace s) (TrimSpace (s_Project s))"

definition appKey :: "'q UsageSample \<Rightarrow> string" where
  "appKey s = namespaceKey (s_AppNamespace s) (TrimSpace (s_App s))"

definition sumOf :: "'q::comm_monoid_add UsageSample list \<Rightarrow> 'q usageAccumulator" where
  "sumOf xs =
    \<lparr>ua_CPU = sum_list (map s_CPU xs), ua_Memory = sum_list (map s_Memory xs),
     ua_Storage = sum_list (map s_Storage xs), ua_Egress = sum_list (map s_Egress xs),
     ua_LBHours = sum_list (map s_LBHours xs)\<rparr>"

definition usageOf :: "('q UsageSample \<Rightarrow> string) \<Rightarrow> 'q::comm_monoid_add UsageSample list \<Rightarrow> string \<Rightarrow> 'q usageAccumulator" where
  "usageOf key samples k = sumOf (filter (\<lambda>s. metered s \<and> key s = k) samples)"

lemma addNonZero [simp]: "addNonZero a q = a + q"
  by (simp add: addNonZero_def)

lemma sumOf_Nil [simp]: "sumOf [] = newUsageAccumulator"
  by (simp add: sumOf_def newUsageAccumulator_def)

lemma sumOf_snoc [simp]: "sumOf (xs @ [s]) = addSample (sumOf xs) s"
  by (simp add: sumOf_def addSample_def)

lemma totalsFor_empty [simp]: "totalsFor Map.empty k = newUsageAccumulator"
  by (simp add: totalsFor_def)

lemma totalsFor_accumulate:
  "totalsFor (accumulate k s t) k' = (if k' = k then addSample (totalsFor t k) s else totalsFor t k')"
  by (simp add: totalsFor_def accumulate_def)

lemma usageOf_snoc:
  "usageOf key (xs @ [s]) k =
    (if metered s \<and> key s = k then addSample (usageOf key xs k) s else usageOf key xs k)"
  by (simp add: usageOf_def)

lemma aggregate_totals:
  assumes "aggregate samples = (tt, pt, at)"
  shows "totalsFor tt k = usageOf tenantKey samples k \<and> totalsFor pt k = usageOf projectKey samples k
    \<and> totalsFor at k = usageOf appKey samples k"
  using assms
proof (induction samples arbitrary: tt pt at k rule: rev_induct)
  case Nil
  then show ?case by (auto simp: aggregate_def usageOf_def)
next
  case (snoc s samples)
  obtain tt0 pt0 at0 where a: "aggregate samples = (tt0, pt0, at0)" by (metis prod_cases3)
  then have e: "aggregateSample (tt0, pt0, at0) s = (tt, pt, at)"
    using snoc.prems by (simp add: aggregate_def)
  show ?case
    using e snoc.IH [OF a]
    by (cases "metered s")
      (auto simp: aggregateSample_def Let_def metered_def totalsFor_accumulate usageOf_snoc
        tenantKey_def projectKey_def appKey_def)
qed

lemma sum_over_keys:
  fixes f :: "'a \<Rightarrow> 'q::comm_monoid_add"
  assumes "finite S" "key ` set xs \<subseteq> S"
  shows "(\<Sum>k\<in>S. sum_list (map f (filter (\<lambda>x. P x \<and> key x = k) xs))) = sum_list (map f (filter P xs))"
  using assms(2)
proof (induction xs)
  case (Cons x xs)
  have "(\<Sum>k\<in>S. sum_list (map f (filter (\<lambda>y. P y \<and> key y = k) (x # xs)))) =
      (\<Sum>k\<in>S. (if key x = k then (if P x then f x else 0) else 0)
        + sum_list (map f (filter (\<lambda>y. P y \<and> key y = k) xs)))"
    by (rule sum.cong) auto
  also have "\<dots> = (if P x then f x else 0) + sum_list (map f (filter P xs))"
    using Cons assms(1) by (simp add: sum.distrib sum.delta)
  finally show ?case by simp
qed simp

text \<open>
  (C20) Every metered sample is counted exactly once at each level: for each of the five
  meters the totals of all tenants, of all projects and of all applications add up to the
  same amount, the sum over the samples that name a tenant, a project and an application.
\<close>

theorem usage_is_conserved:
  fixes samples :: "'q::comm_monoid_add UsageSample list"
  assumes "aggregate samples = (tt, pt, at)"
    and "(meter, measured) \<in> set [(ua_CPU, s_CPU), (ua_Memory, s_Memory), (ua_Storage, s_Storage),
      (ua_Egress, s_Egress), (ua_LBHours, s_LBHours)]"
  shows "(\<Sum>k\<in>tenantKey ` set samples. meter (totalsFor tt k)) = sum_list (map measured (filter metered samples))
    \<and> (\<Sum>k\<in>projectKey ` set samples. meter (totalsFor pt k)) = sum_list (map measured (filter metered samples))
    \<and> (\<Sum>k\<in>appKey ` set samples. meter (totalsFor at k)) = sum_list (map measured (filter metered samples))"
proof -
  have "meter (sumOf xs) = sum_list (map measured xs)" for xs
    using assms(2) by (auto simp: sumOf_def)
  then have m: "meter (usageOf key samples k) = sum_list (map measured (filter (\<lambda>x. metered x \<and> key x = k) samples))"
    for key k by (simp add: usageOf_def)
  show ?thesis
    by (simp add: aggregate_totals [OF assms(1)] m sum_over_keys)
qed

section \<open>Folds over keyed objects\<close>

lemma fold_keyed_update:
  "distinct (map n xs) \<Longrightarrow>
    fold (\<lambda>x b. b(n x \<mapsto> r x (b (n x)))) xs b k =
      (case find (\<lambda>x. n x = k) xs of None \<Rightarrow> b k | Some x \<Rightarrow> Some (r x (b k)))"
proof (induction xs arbitrary: b)
  case (Cons x xs)
  show ?case
  proof (cases "n x = k")
    case True
    then have "find (\<lambda>x. n x = k) xs = None"
      using Cons.prems by (auto simp: find_None_iff image_iff)
    then show ?thesis using True Cons by simp
  next
    case False
    then show ?thesis using Cons by (auto split: option.split)
  qed
qed simp

lemma fold_patch_all:
  assumes "\<And>x y. key (f x y) = key y"
  shows "distinct (map key (pre @ xs)) \<Longrightarrow>
    fold (\<lambda>x. map (\<lambda>y. if key y = key x then f x y else y)) xs (pre @ xs) = pre @ map (\<lambda>x. f x x) xs"
proof (induction xs arbitrary: pre)
  case (Cons x xs)
  have "key y \<noteq> key x" if "y \<in> set pre \<union> set xs" for y
    using that Cons.prems by (auto simp: image_iff)
  then have "map (\<lambda>y. if key y = key x then f x y else y) (pre @ x # xs) = (pre @ [f x x]) @ xs"
    by (simp add: map_idI)
  moreover have "distinct (map key ((pre @ [f x x]) @ xs))" using Cons.prems assms by simp
  ultimately show ?case using Cons.IH [of "pre @ [f x x]"] by simp
qed simp


section \<open>Reconciliation without failures\<close>

definition faultFree :: "('q, 'c) usage_env \<Rightarrow> bool" where
  "faultFree env \<longleftrightarrow> \<not> ue_failListTenants env \<and> \<not> ue_failListProjects env \<and> \<not> ue_failListApps env
    \<and> ue_failPatchTenant env = (\<lambda>_. False) \<and> ue_failPatchProject env = (\<lambda>_ _. False)
    \<and> ue_failSync env = (\<lambda>_. False) \<and> ue_failPatchUsage env = (\<lambda>_. False)"

text \<open>The record a successful upsert stores over the record \<open>old\<close>.\<close>

definition billingRecord ::
  "('q, 'c) usage_env \<Rightarrow> instant \<Rightarrow> subject_type \<times> string \<times> 'q usageAccumulator \<Rightarrow> 'c BillingUsage option \<Rightarrow> 'c BillingUsage" where
  "billingRecord env window = (\<lambda>(ty, ref, totals) old.
    \<lparr>bu_SubjectType = ty, bu_SubjectRef = ref, bu_Window = formatHour window,
     bu_Meters = (case old of None \<Rightarrow> Map.empty | Some u \<Rightarrow> bu_Meters u)
       (''cpu'' \<mapsto> ue_String env (ua_CPU totals), ''memory'' \<mapsto> ue_String env (ua_Memory totals),
        ''storage'' \<mapsto> ue_String env (ua_Storage totals), ''egress'' \<mapsto> ue_String env (ua_Egress totals),
        ''lbHours'' \<mapsto> ue_String env (ua_LBHours totals)),
     bu_Conditions = setUsageConditions env
       (case old of None \<Rightarrow> ue_NoConditions env | Some u \<Rightarrow> bu_Conditions u) window None\<rparr>)"

definition recordName :: "instant \<Rightarrow> subject_type \<times> string \<times> 'q usageAccumulator \<Rightarrow> string" where
  "recordName window = (\<lambda>(ty, ref, totals). buildBillingUsageName ty ref window)"

definition putRecord :: "('q, 'c) usage_env \<Rightarrow> instant \<Rightarrow> subject_type \<times> string \<times> 'q usageAccumulator \<Rightarrow>
    (string \<rightharpoonup> 'c BillingUsage) \<Rightarrow> (string \<rightharpoonup> 'c BillingUsage)" where
  "putRecord env window x b = b(recordName window x \<mapsto> billingRecord env window x (b (recordName window x)))"

lemma upsert_faultFree:
  assumes "faultFree env"
  shows "upsertBillingUsage env ty ref acc window None (st, errs) =
    (st\<lparr>us_Billing := putRecord env window (ty, ref, acc) (us_Billing st)\<rparr>, errs)"
  using assms
  by (simp add: upsertBillingUsage_def faultFree_def putRecord_def recordName_def billingRecord_def Let_def
      split: option.split)

definition patchedTenant where
  "patchedTenant env window tt t x = x\<lparr>ut_Usage := Some (totalsFor tt (ut_Name t)),
     ut_Conditions := setUsageConditions env (ut_Conditions t) window None\<rparr>"

definition patchedProject where
  "patchedProject env window pt p x = x\<lparr>up_Usage := Some (totalsFor pt (namespaceKey (up_Namespace p) (up_Name p))),
     up_Conditions := setUsageConditions env (up_Conditions p) window None\<rparr>"

definition tenantJobs where
  "tenantJobs tt ts = map (\<lambda>t. (SubjectTenant, ut_Name t, totalsFor tt (ut_Name t))) ts"

definition projectJobs where
  "projectJobs pt ps = map (\<lambda>p. let k = namespaceKey (up_Namespace p) (up_Name p) in (SubjectProject, k, totalsFor pt k)) ps"

definition appJobs where
  "appJobs at as = map (\<lambda>(ns, n). let k = namespaceKey ns n in (SubjectApp, k, totalsFor at k)) as"

lemma fold_tenantStep:
  assumes "faultFree env"
  shows "fold (tenantStep env tt window) ts (st, errs) =
    (st\<lparr>us_Tenants := fold (\<lambda>t. map (\<lambda>x. if ut_Name x = ut_Name t then patchedTenant env window tt t x else x)) ts (us_Tenants st),
        us_Billing := fold (putRecord env window) (tenantJobs tt ts) (us_Billing st)\<rparr>, errs)"
proof (induction ts arbitrary: st)
  case (Cons t ts)
  have "tenantStep env tt window t (st, errs) =
    (st\<lparr>us_Tenants := map (\<lambda>x. if ut_Name x = ut_Name t then patchedTenant env window tt t x else x) (us_Tenants st),
        us_Billing := putRecord env window (SubjectTenant, ut_Name t, totalsFor tt (ut_Name t)) (us_Billing st)\<rparr>, errs)"
    using assms by (simp add: tenantStep_def Let_def updateTenantStatus_def patchTenant_def upsert_faultFree
        patchedTenant_def) (simp add: faultFree_def)
  then show ?case using Cons by (simp add: tenantJobs_def)
qed (simp add: tenantJobs_def)

lemma fold_projectStep:
  assumes "faultFree env"
  shows "fold (projectStep env pt window) ps (st, errs) =
    (st\<lparr>us_Projects := fold (\<lambda>p. map (\<lambda>x. if up_Namespace x = up_Namespace p \<and> up_Name x = up_Name p
            then patchedProject env window pt p x else x)) ps (us_Projects st),
        us_Billing := fold (putRecord env window) (projectJobs pt ps) (us_Billing st)\<rparr>, errs)"
proof (induction ps arbitrary: st)
  case (Cons p ps)
  have "projectStep env pt window p (st, errs) =
    (st\<lparr>us_Projects := map (\<lambda>x. if up_Namespace x = up_Namespace p \<and> up_Name x = up_Name p
            then patchedProject env window pt p x else x) (us_Projects st),
        us_Billing := fold (putRecord env window) (projectJobs pt [p]) (us_Billing st)\<rparr>, errs)"
    using assms by (simp add: projectStep_def Let_def updateProjectStatus_def patchProject_def upsert_faultFree
        patchedProject_def projectJobs_def) (simp add: faultFree_def)
  then show ?case using Cons by (simp add: projectJobs_def Let_def)
qed (simp add: projectJobs_def)

lemma fold_appStep:
  assumes "faultFree env"
  shows "fold (appStep env at window) as (st, errs) =
    (st\<lparr>us_Billing := fold (putRecord env window) (appJobs at as) (us_Billing st)\<rparr>, errs)"
proof (induction as arbitrary: st)
  case (Cons a as)
  then show ?case
    using assms by (simp add: appStep_def Let_def upsert_faultFree appJobs_def split: prod.split)
qed (simp add: appJobs_def)

definition projectId where
  "projectId p = (up_Namespace p, up_Name p)"

lemma patch_tenants:
  "distinct (map ut_Name ts) \<Longrightarrow>
    fold (\<lambda>t. map (\<lambda>x. if ut_Name x = ut_Name t then patchedTenant env window tt t x else x)) ts ts
      = map (\<lambda>t. patchedTenant env window tt t t) ts"
  using fold_patch_all [of ut_Name "patchedTenant env window tt" "[]" ts] by (simp add: patchedTenant_def)

lemma patch_projects:
  "distinct (map projectId ps) \<Longrightarrow>
    fold (\<lambda>p. map (\<lambda>x. if up_Namespace x = up_Namespace p \<and> up_Name x = up_Name p
        then patchedProject env window pt p x else x)) ps ps
      = map (\<lambda>p. patchedProject env window pt p p) ps"
  using fold_patch_all [of projectId "patchedProject env window pt" "[]" ps]
  by (simp add: patchedProject_def projectId_def)

definition jobs where
  "jobs tt pt at st = tenantJobs tt (us_Tenants st) @ projectJobs pt (us_Projects st) @ appJobs at (us_Apps st)"

lemma Reconcile_faultFree:
  assumes "faultFree env" "ue_Collect env (truncateHour now) = Inr samples" "aggregate samples = (tt, pt, at)"
    and "distinct (map ut_Name (us_Tenants st))" "distinct (map projectId (us_Projects st))"
  shows "Reconcile env now st =
    (st\<lparr>us_Tenants := map (\<lambda>t. patchedTenant env (truncateHour now) tt t t) (us_Tenants st),
        us_Projects := map (\<lambda>p. patchedProject env (truncateHour now) pt p p) (us_Projects st),
        us_Billing := fold (putRecord env (truncateHour now)) (jobs tt pt at st) (us_Billing st)\<rparr>, [])"
  using assms
  by (simp add: Reconcile_def Let_def fold_tenantStep fold_projectStep fold_appStep patch_tenants patch_projects jobs_def)
    (simp add: faultFree_def)


definition subjects :: "('q, 'c) usage_state \<Rightarrow> (subject_type \<times> string) list" where
  "subjects st = map (\<lambda>t. (SubjectTenant, ut_Name t)) (us_Tenants st)
    @ map (\<lambda>p. (SubjectProject, namespaceKey (up_Namespace p) (up_Name p))) (us_Projects st)
    @ map (\<lambda>a. (SubjectApp, namespaceKey (fst a) (snd a))) (us_Apps st)"

fun usageFor :: "'q::comm_monoid_add UsageSample list \<Rightarrow> subject_type \<times> string \<Rightarrow> 'q usageAccumulator" where
  "usageFor samples (SubjectTenant, k) = usageOf tenantKey samples k"
| "usageFor samples (SubjectProject, k) = usageOf projectKey samples k"
| "usageFor samples (SubjectApp, k) = usageOf appKey samples k"

definition meterTexts :: "('q, 'c) usage_env \<Rightarrow> 'q usageAccumulator \<Rightarrow> gomap" where
  "meterTexts env acc = [''cpu'' \<mapsto> ue_String env (ua_CPU acc), ''memory'' \<mapsto> ue_String env (ua_Memory acc),
    ''storage'' \<mapsto> ue_String env (ua_Storage acc), ''egress'' \<mapsto> ue_String env (ua_Egress acc),
    ''lbHours'' \<mapsto> ue_String env (ua_LBHours acc)]"

lemma jobs_subjects:
  assumes "aggregate samples = (tt, pt, at)"
  shows "jobs tt pt at st = map (\<lambda>s. (fst s, snd s, usageFor samples s)) (subjects st)"
  using aggregate_totals [OF assms]
  by (simp add: jobs_def subjects_def tenantJobs_def projectJobs_def appJobs_def Let_def split_beta)

lemma billingRecord_meters:
  "meterTexts env acc \<subseteq>\<^sub>m bu_Meters (billingRecord env w (ty, ref, acc) old)"
  by (auto simp: meterTexts_def billingRecord_def map_le_def)

lemma billingRecord_subject:
  "bu_SubjectType (billingRecord env w (ty, ref, acc) old) = ty"
  "bu_SubjectRef (billingRecord env w (ty, ref, acc) old) = ref"
  "bu_Window (billingRecord env w (ty, ref, acc) old) = formatHour w"
  by (simp_all add: billingRecord_def)

lemma find_distinct: "distinct (map n xs) \<Longrightarrow> x \<in> set xs \<Longrightarrow> find (\<lambda>y. n y = n x) xs = Some x"
  by (induction xs) (auto simp: image_iff)

lemma fold_putRecord:
  assumes "distinct (map (recordName w) xs)"
  shows "x \<in> set xs \<Longrightarrow> fold (putRecord env w) xs b (recordName w x) = Some (billingRecord env w x (b (recordName w x)))"
    and "k \<notin> recordName w ` set xs \<Longrightarrow> fold (putRecord env w) xs b k = b k"
proof -
  have p: "putRecord env w = (\<lambda>x b. b(recordName w x \<mapsto> billingRecord env w x (b (recordName w x))))"
    by (intro ext) (simp add: putRecord_def)
  show "x \<in> set xs \<Longrightarrow> fold (putRecord env w) xs b (recordName w x) = Some (billingRecord env w x (b (recordName w x)))"
    unfolding p by (simp add: fold_keyed_update [OF assms] find_distinct [OF assms])
  assume "k \<notin> recordName w ` set xs"
  then have "find (\<lambda>x. recordName w x = k) xs = None" by (auto simp: find_None_iff)
  then show "fold (putRecord env w) xs b k = b k" unfolding p by (simp add: fold_keyed_update [OF assms])
qed

text \<open>
  (C21) A reconciliation in which no API call fails writes the usage exactly: the status of
  every tenant and project holds the sums of its samples of the hour, every tenant, project
  and application has a record for the hour that names it and holds the texts of its sums,
  and no other record changes.  The record names of the subjects must be distinct.
\<close>

theorem reconcile_writes_exact_usage:
  assumes "faultFree env" "ue_Collect env (truncateHour now) = Inr samples"
    and "distinct (map ut_Name (us_Tenants st))" "distinct (map projectId (us_Projects st))"
    and "distinct (map (\<lambda>s. buildBillingUsageName (fst s) (snd s) (truncateHour now)) (subjects st))"
    and "Reconcile env now st = (st', errs)"
  shows "errs = []
    \<and> map ut_Usage (us_Tenants st') = map (\<lambda>t. Some (usageOf tenantKey samples (ut_Name t))) (us_Tenants st)
    \<and> map up_Usage (us_Projects st') =
        map (\<lambda>p. Some (usageOf projectKey samples (namespaceKey (up_Namespace p) (up_Name p)))) (us_Projects st)
    \<and> (\<forall>s \<in> set (subjects st). \<exists>u. us_Billing st' (buildBillingUsageName (fst s) (snd s) (truncateHour now)) = Some u
        \<and> bu_SubjectType u = fst s \<and> bu_SubjectRef u = snd s \<and> bu_Window u = formatHour (truncateHour now)
        \<and> meterTexts env (usageFor samples s) \<subseteq>\<^sub>m bu_Meters u)
    \<and> (\<forall>n. n \<notin> (\<lambda>s. buildBillingUsageName (fst s) (snd s) (truncateHour now)) ` set (subjects st)
        \<longrightarrow> us_Billing st' n = us_Billing st n)"
proof -
  obtain tt pt at where a: "aggregate samples = (tt, pt, at)" by (metis prod_cases3)
  let ?w = "truncateHour now" and ?js = "jobs tt pt at st"
  note t = aggregate_totals [OF a] and r = Reconcile_faultFree [OF assms(1,2) a assms(3,4)]
  have b: "us_Billing st' = fold (putRecord env ?w) ?js (us_Billing st)" and e: "errs = []"
    using r assms(6) by simp_all
  have names: "map (recordName ?w) ?js = map (\<lambda>s. buildBillingUsageName (fst s) (snd s) ?w) (subjects st)"
    by (simp add: jobs_subjects [OF a] recordName_def split_beta comp_def)
  note f = fold_putRecord [of ?w ?js, unfolded names, OF assms(5)]
  have "\<exists>u. us_Billing st' (buildBillingUsageName (fst s) (snd s) ?w) = Some u
      \<and> bu_SubjectType u = fst s \<and> bu_SubjectRef u = snd s \<and> bu_Window u = formatHour ?w
      \<and> meterTexts env (usageFor samples s) \<subseteq>\<^sub>m bu_Meters u" if "s \<in> set (subjects st)" for s
  proof -
    let ?x = "(fst s, snd s, usageFor samples s)"
    have "?x \<in> set ?js" using that by (auto simp: jobs_subjects [OF a])
    note f(1) [OF this, where env = env and b = "us_Billing st"]
    then show ?thesis
      by (simp add: b recordName_def billingRecord_subject billingRecord_meters)
  qed
  moreover have "recordName ?w ` set ?js = (\<lambda>s. buildBillingUsageName (fst s) (snd s) ?w) ` set (subjects st)"
    using names by (metis set_map)
  then have "us_Billing st' n = us_Billing st n"
    if "n \<notin> (\<lambda>s. buildBillingUsageName (fst s) (snd s) ?w) ` set (subjects st)" for n
    using f(2) that b by simp
  ultimately show ?thesis
    using r assms(6) e by (auto simp: patchedTenant_def patchedProject_def t)
qed


definition exUse :: "string \<Rightarrow> string \<Rightarrow> string \<Rightarrow> string \<Rightarrow> int \<Rightarrow> int UsageSample" where
  "exUse tenant ns project app cpu =
    \<lparr>s_Tenant = tenant, s_ProjectNamespace = ns, s_Project = project, s_AppNamespace = ns, s_App = app,
     s_CPU = cpu, s_Memory = 2 * cpu, s_Storage = 0, s_Egress = 0, s_LBHours = 1\<rparr>"

definition exUsageEnv :: "int UsageSample list \<Rightarrow> (int, condition list) usage_env" where
  "exUsageEnv samples =
    \<lparr>ue_Collect = \<lambda>_. Inr samples, ue_String = decString, ue_NoConditions = [],
     ue_SetStatusCondition = \<lambda>c cs. c # filter (\<lambda>d. cond_Type d \<noteq> cond_Type c) cs,
     ue_failListTenants = False, ue_failListProjects = False, ue_failListApps = False,
     ue_failPatchTenant = \<lambda>_. False, ue_failPatchProject = \<lambda>_ _. False,
     ue_failSync = \<lambda>_. False, ue_failPatchUsage = \<lambda>_. False\<rparr>"

definition exUsageProject :: "string \<Rightarrow> string \<Rightarrow> (int, condition list) usage_project" where
  "exUsageProject ns name = \<lparr>up_Namespace = ns, up_Name = name, up_Usage = None, up_Conditions = []\<rparr>"

definition exUsageState :: "(int, condition list) usage_state" where
  "exUsageState =
    \<lparr>us_Tenants = [\<lparr>ut_Name = ''acme'', ut_Usage = None, ut_Conditions = []\<rparr>],
     us_Projects = [exUsageProject ''team'' ''shop''], us_Apps = [(''team'', ''web''), (''team'', ''db'')],
     us_Billing = Map.empty\<rparr>"

definition exSamples :: "int UsageSample list" where
  "exSamples = [exUse ''acme'' ''team'' ''shop'' ''web'' 3, exUse '' acme '' ''team'' ''shop'' ''db'' 4,
    exUse ''acme'' ''team'' ''shop'' '' '' 100]"

theorem usage_is_conserved_witness:
  "(\<Sum>k\<in>tenantKey ` set exSamples. ua_CPU (totalsFor (fst (aggregate exSamples)) k)) = 7
   \<and> (\<Sum>k\<in>appKey ` set exSamples. ua_CPU (totalsFor (snd (snd (aggregate exSamples))) k)) = 7"
proof -
  obtain tt pt at where a: "aggregate exSamples = (tt, pt, at)" by (metis prod_cases3)
  have "sum_list (map s_CPU (filter metered exSamples)) = 7" by code_simp
  then show ?thesis using usage_is_conserved [OF a, of ua_CPU s_CPU] by (simp add: a)
qed

theorem reconcile_writes_exact_usage_witness:
  "map ut_Usage (us_Tenants (fst (Reconcile (exUsageEnv exSamples) 1763208123 exUsageState)))
     = [Some \<lparr>ua_CPU = 7, ua_Memory = 14, ua_Storage = 0, ua_Egress = 0, ua_LBHours = 2\<rparr>]
   \<and> (\<exists>u. us_Billing (fst (Reconcile (exUsageEnv exSamples) 1763208123 exUsageState)) ''app-team-web-2025-11-15t12'' = Some u
        \<and> bu_SubjectRef u = ''team/web'')"
proof -
  let ?env = "exUsageEnv exSamples" and ?now = "1763208123 :: int" and ?st = exUsageState
  have d: "distinct (map ut_Name (us_Tenants ?st))" "distinct (map projectId (us_Projects ?st))"
    "distinct (map (\<lambda>s. buildBillingUsageName (fst s) (snd s) (truncateHour ?now)) (subjects ?st))"
    by code_simp+
  have ff: "faultFree ?env" "ue_Collect ?env (truncateHour ?now) = Inr exSamples"
    by (simp_all add: faultFree_def exUsageEnv_def)
  have n: "buildBillingUsageName SubjectApp ''team/web'' (truncateHour ?now) = ''app-team-web-2025-11-15t12''"
    "map (\<lambda>t. Some (usageOf tenantKey exSamples (ut_Name t))) (us_Tenants ?st)
      = [Some \<lparr>ua_CPU = 7, ua_Memory = 14, ua_Storage = 0, ua_Egress = 0, ua_LBHours = 2\<rparr>]"
    by code_simp+
  have m: "(SubjectApp, ''team/web'') \<in> set (subjects ?st)"
    by (simp add: subjects_def exUsageState_def namespaceKey_def TrimSpace_eq_Nil is_space_def)
  note r = reconcile_writes_exact_usage [OF ff d prod.collapse [symmetric]]
  from r have "map ut_Usage (us_Tenants (fst (Reconcile ?env ?now ?st)))
      = [Some \<lparr>ua_CPU = 7, ua_Memory = 14, ua_Storage = 0, ua_Egress = 0, ua_LBHours = 2\<rparr>]"
    unfolding n(2) by blast
  moreover from r have "\<forall>s \<in> set (subjects ?st). \<exists>u. us_Billing (fst (Reconcile ?env ?now ?st))
      (buildBillingUsageName (fst s) (snd s) (truncateHour ?now)) = Some u \<and> bu_SubjectRef u = snd s" by blast
  from bspec [OF this m] have "\<exists>u. us_Billing (fst (Reconcile ?env ?now ?st)) ''app-team-web-2025-11-15t12'' = Some u
      \<and> bu_SubjectRef u = ''team/web''" unfolding fst_conv snd_conv n(1) .
  ultimately show ?thesis by simp
qed

section \<open>Projects that share a record name\<close>

definition noSpace :: "string \<Rightarrow> bool" where
  "noSpace s \<longleftrightarrow> list_all (\<lambda>c. \<not> is_space c) s"

definition projectSubject :: "('q, 'c) usage_project \<Rightarrow> subject_type \<times> string" where
  "projectSubject p = (SubjectProject, namespaceKey (up_Namespace p) (up_Name p))"

definition subjectRecord :: "instant \<Rightarrow> subject_type \<times> string \<Rightarrow> string" where
  "subjectRecord now s = buildBillingUsageName (fst s) (snd s) (truncateHour now)"

lemma sanitizeName_separator:
  assumes "noSpace ns" "noSpace a" "noSpace b"
  shows "sanitizeName (ns @ ''-'' @ a @ ''/'' @ b) = sanitizeName (ns @ ''/'' @ a @ ''-'' @ b)"
proof -
  have "TrimSpace (ns @ ''-'' @ a @ ''/'' @ b) = ns @ ''-'' @ a @ ''/'' @ b"
    "TrimSpace (ns @ ''/'' @ a @ ''-'' @ b) = ns @ ''/'' @ a @ ''-'' @ b"
    using assms by (auto intro!: TrimSpace_no_space simp: noSpace_def is_space_def list_all_iff)
  moreover have "map replaceSeparator (ToLower (ns @ ''-'' @ a @ ''/'' @ b)) =
      map replaceSeparator (ToLower (ns @ ''/'' @ a @ ''-'' @ b))"
    by (simp add: ToLower_def replaceSeparator_def lower_char_def is_upper_def)
  ultimately show ?thesis by (simp add: sanitizeName_def)
qed

lemma clashing_records:
  assumes "ns \<noteq> []" "noSpace ns" "noSpace a" "noSpace b"
    and "projectId p = (ns @ ''-'' @ a, b)" "projectId q = (ns, a @ ''-'' @ b)"
  shows "subjectRecord now (projectSubject p) = subjectRecord now (projectSubject q)"
    and "snd (projectSubject p) \<noteq> snd (projectSubject q)"
proof -
  have "TrimSpace ns \<noteq> []" "TrimSpace (ns @ ''-'' @ a) \<noteq> []"
    using assms(1,2) by (auto simp: TrimSpace_eq_Nil noSpace_def is_space_def list_all_iff dest: hd_in_set)
  then have k: "projectSubject p = (SubjectProject, ns @ ''-'' @ a @ ''/'' @ b)"
    "projectSubject q = (SubjectProject, ns @ ''/'' @ a @ ''-'' @ b)"
    using assms(5,6) by (simp_all add: projectSubject_def projectId_def namespaceKey_def)
  show "snd (projectSubject p) \<noteq> snd (projectSubject q)" by (simp add: k)
  show "subjectRecord now (projectSubject p) = subjectRecord now (projectSubject q)"
    unfolding k subjectRecord_def buildBillingUsageName_def fst_conv snd_conv sanitizeName_separator [OF assms(2-4)] by (rule refl)
qed

lemma fold_putRecord_other:
  "k \<notin> recordName w ` set xs \<Longrightarrow> fold (putRecord env w) xs b k = b k"
  by (induction xs arbitrary: b) (auto simp: putRecord_def)

lemma last_record_stays:
  assumes "faultFree env" "ue_Collect env (truncateHour now) = Inr samples"
    and "distinct (map ut_Name (us_Tenants st))" "distinct (map projectId (us_Projects st))"
    and "subjects st = pre @ s # post" "subjectRecord now s \<notin> subjectRecord now ` set post"
    and "Reconcile env now st = (st', errs)"
  shows "errs = [] \<and> (\<exists>u. us_Billing st' (subjectRecord now s) = Some u \<and> bu_SubjectType u = fst s \<and> bu_SubjectRef u = snd s
    \<and> meterTexts env (usageFor samples s) \<subseteq>\<^sub>m bu_Meters u)"
proof -
  obtain tt pt at where a: "aggregate samples = (tt, pt, at)" by (metis prod_cases3)
  let ?w = "truncateHour now" and ?job = "\<lambda>s. (fst s, snd s, usageFor samples s)"
  have b: "us_Billing st' = fold (putRecord env ?w) (map ?job (subjects st)) (us_Billing st)" and e: "errs = []"
    using Reconcile_faultFree [OF assms(1,2) a assms(3,4)] assms(7) by (simp_all add: jobs_subjects [OF a])
  have n: "recordName ?w (?job x) = subjectRecord now x" for x by (simp add: recordName_def subjectRecord_def)
  have "subjectRecord now s \<notin> recordName ?w ` set (map ?job post)"
    using assms(6) by (simp add: image_image n)
  then have "us_Billing st' (subjectRecord now s) = putRecord env ?w (?job s)
      (fold (putRecord env ?w) (map ?job pre) (us_Billing st)) (subjectRecord now s)"
    by (simp add: b assms(5) fold_putRecord_other)
  then show ?thesis
    using e by (simp add: putRecord_def n billingRecord_subject billingRecord_meters)
qed

text \<open>
  (C22) Two projects can overwrite each other's billing record.  The separator between the
  namespace and the name of a project becomes \<open>-\<close>, which both may contain.  For all texts
  \<open>ns\<close>, \<open>a\<close> and \<open>b\<close> the project \<open>b\<close> of the namespace \<open>ns-a\<close> and the project \<open>a-b\<close> of
  the namespace \<open>ns\<close> have the same record name in every hour: after a reconciliation without
  failures the record with the name of the first project names the second and holds the
  usage of the second, when the second is listed later and is the last with this name.
\<close>

theorem clashing_projects_lose_usage:
  assumes "faultFree env" "ue_Collect env (truncateHour now) = Inr samples"
    and "distinct (map ut_Name (us_Tenants st))" "distinct (map projectId (us_Projects st))"
    and "ns \<noteq> []" "noSpace ns" "noSpace a" "noSpace b"
    and "us_Projects st = ps @ q # qs" "p \<in> set ps"
    and "projectId p = (ns @ ''-'' @ a, b)" "projectId q = (ns, a @ ''-'' @ b)"
    and "subjectRecord now (projectSubject q) \<notin> subjectRecord now `
      (projectSubject ` set qs \<union> (\<lambda>x. (SubjectApp, namespaceKey (fst x) (snd x))) ` set (us_Apps st))"
    and "Reconcile env now st = (st', errs)"
  shows "errs = [] \<and> snd (projectSubject p) \<noteq> snd (projectSubject q)
    \<and> (\<exists>u. us_Billing st' (subjectRecord now (projectSubject p)) = Some u
        \<and> bu_SubjectType u = SubjectProject \<and> bu_SubjectRef u = snd (projectSubject q)
        \<and> meterTexts env (usageOf projectKey samples (snd (projectSubject q))) \<subseteq>\<^sub>m bu_Meters u)"
proof -
  have ps: "projectSubject = (\<lambda>p. (SubjectProject, namespaceKey (up_Namespace p) (up_Name p)))"
    by (intro ext) (simp add: projectSubject_def)
  have "subjects st = (map (\<lambda>t. (SubjectTenant, ut_Name t)) (us_Tenants st) @ map projectSubject ps) @ projectSubject q #
      (map projectSubject qs @ map (\<lambda>x. (SubjectApp, namespaceKey (fst x) (snd x))) (us_Apps st))"
    by (simp add: subjects_def assms(9) flip: ps)
  note last_record_stays [OF assms(1-4) this _ assms(14)]
  then show ?thesis
    using assms(13) clashing_records [OF assms(5-8,11,12)] by (simp add: projectSubject_def)
qed

definition exClash :: "(int, condition list) usage_state" where
  "exClash = \<lparr>us_Tenants = [], us_Projects = [exUsageProject ''team-a'' ''web'', exUsageProject ''team'' ''a-web''],
     us_Apps = [], us_Billing = Map.empty\<rparr>"

theorem clashing_projects_lose_usage_witness:
  "\<exists>u. us_Billing (fst (Reconcile (exUsageEnv [exUse ''acme'' ''team-a'' ''web'' ''x'' 90, exUse ''acme'' ''team'' ''a-web'' ''y'' 5])
      1763208000 exClash)) ''project-team-a-web-2025-11-15t12'' = Some u
    \<and> bu_SubjectRef u = ''team/a-web'' \<and> bu_Meters u ''cpu'' = Some ''5''"
proof -
  let ?samples = "[exUse ''acme'' ''team-a'' ''web'' ''x'' 90, exUse ''acme'' ''team'' ''a-web'' ''y'' 5]"
  let ?env = "exUsageEnv ?samples" and ?now = "1763208000 :: int" and ?st = exClash
  let ?p = "exUsageProject ''team-a'' ''web''" and ?q = "exUsageProject ''team'' ''a-web''"
  have ff: "faultFree ?env" "ue_Collect ?env (truncateHour ?now) = Inr ?samples"
    by (simp_all add: faultFree_def exUsageEnv_def)
  have d: "distinct (map ut_Name (us_Tenants ?st))" "distinct (map projectId (us_Projects ?st))"
    "(''team''::string) \<noteq> []" "noSpace ''team''" "noSpace ''a''" "noSpace ''web''"
    by code_simp+
  have l: "us_Projects ?st = [?p] @ ?q # []" "?p \<in> set [?p]" "us_Apps ?st = []"
    "projectId ?p = (''team'' @ ''-'' @ ''a'', ''web'')" "projectId ?q = (''team'', ''a'' @ ''-'' @ ''web'')"
    by (simp_all add: exClash_def projectId_def exUsageProject_def)
  have n: "subjectRecord ?now (projectSubject ?p) = ''project-team-a-web-2025-11-15t12''" "snd (projectSubject ?q) = ''team/a-web''"
    "meterTexts ?env (usageOf projectKey ?samples ''team/a-web'') ''cpu'' = Some ''5''"
    by code_simp+
  have "''cpu'' \<in> dom (meterTexts ?env (usageOf projectKey ?samples ''team/a-web''))" using n(3) by auto
  moreover have "\<exists>u. us_Billing (fst (Reconcile ?env ?now ?st)) ''project-team-a-web-2025-11-15t12'' = Some u
      \<and> bu_SubjectRef u = ''team/a-web'' \<and> meterTexts ?env (usageOf projectKey ?samples ''team/a-web'') \<subseteq>\<^sub>m bu_Meters u"
    using clashing_projects_lose_usage [OF ff d l(1,2,4,5) _ prod.collapse [symmetric], unfolded n(1,2) l(3)]
    by (simp only: list.set(1) image_empty Un_empty_left empty_iff simp_thms) blast
  ultimately show ?thesis unfolding map_le_def using n(3) by metis
qed

section \<open>Failed collection\<close>

text \<open>What a failed collection must not touch.\<close>

definition usageView where
  "usageView st = (map (\<lambda>t. (ut_Name t, ut_Usage t)) (us_Tenants st),
     map (\<lambda>p. (up_Namespace p, up_Name p, up_Usage p)) (us_Projects st), us_Apps st, us_Billing st)"

lemma patchTenant_view:
  "(\<And>t. ut_Name (f t) = ut_Name t \<and> ut_Usage (f t) = ut_Usage t) \<Longrightarrow>
    usageView (fst (patchTenant env n f run)) = usageView (fst run)
    \<and> set (snd run) \<subseteq> set (snd (patchTenant env n f run))"
  by (cases run) (auto simp: patchTenant_def usageView_def)

lemma patchProject_view:
  "(\<And>p. up_Namespace (f p) = up_Namespace p \<and> up_Name (f p) = up_Name p \<and> up_Usage (f p) = up_Usage p) \<Longrightarrow>
    usageView (fst (patchProject env ns n f run)) = usageView (fst run)
    \<and> set (snd run) \<subseteq> set (snd (patchProject env ns n f run))"
  by (cases run) (auto simp: patchProject_def usageView_def)

lemma fold_view:
  assumes "\<And>x run. usageView (fst (g x run)) = usageView (fst run) \<and> set (snd run) \<subseteq> set (snd (g x run))"
  shows "usageView (fst (fold g xs run)) = usageView (fst run) \<and> set (snd run) \<subseteq> set (snd (fold g xs run))"
proof (induction xs arbitrary: run)
  case (Cons x xs)
  then show ?case using assms [of x run] by (metis fold_simps(2) subset_trans)
qed simp

text \<open>
  When the samples of the hour cannot be collected, the reconciliation reports the error
  and changes conditions only: the usage in the status of every tenant and project and
  every billing record stay as they were, whichever API calls fail on the way.
\<close>

theorem failed_collection_keeps_usage:
  fixes st :: "('q::comm_monoid_add, 'c) usage_state"
  assumes "ue_Collect env (truncateHour now) = Inl err"
  shows "usageView (fst (Reconcile env now st)) = usageView st
    \<and> CollectFailed err \<in> set (snd (Reconcile env now st))"
proof -
  let ?w = "truncateHour now"
  define g where "g = (\<lambda>t :: ('q, 'c) usage_tenant. patchTenant env (ut_Name t) (\<lambda>x. x\<lparr>ut_Conditions :=
    setUsageConditions env (ut_Conditions t) ?w (Some err)\<rparr>))"
  define h where "h = (\<lambda>p :: ('q, 'c) usage_project. patchProject env (up_Namespace p) (up_Name p) (\<lambda>x. x\<lparr>up_Conditions :=
    setUsageConditions env (up_Conditions p) ?w (Some err)\<rparr>))"
  define r where "r = (if ue_failListTenants env then (st, [CollectFailed err, ListTenantsFailed])
    else fold g (us_Tenants st) (st, [CollectFailed err]))"
  have "usageView (fst (fold g xs (st, e))) = usageView st \<and> set e \<subseteq> set (snd (fold g xs (st, e)))" for xs e
    using fold_view [of g xs "(st, e)"] by (simp add: g_def patchTenant_view)
  from this [of "us_Tenants st" "[CollectFailed err]"]
  have "usageView (fst r) = usageView st \<and> CollectFailed err \<in> set (snd r)"
    by (simp add: r_def)
  moreover have "usageView (fst (fold h xs r)) = usageView (fst r) \<and> set (snd r) \<subseteq> set (snd (fold h xs r))" for xs
    by (rule fold_view) (simp add: h_def patchProject_view)
  moreover have "Reconcile env now st =
      (if ue_failListProjects env then (fst r, snd r @ [ListProjectsFailed]) else fold h (us_Projects (fst r)) r)"
    using assms by (simp add: Reconcile_def updateConditionsOnError_def r_def g_def h_def Let_def)
  ultimately show ?thesis by auto
qed

theorem failed_collection_keeps_usage_witness:
  "usageView (fst (Reconcile ((exUsageEnv []) \<lparr>ue_Collect := \<lambda>_. Inl ''timeout''\<rparr>) 1763208000 exUsageState))
     = usageView exUsageState"
  using failed_collection_keeps_usage [of "(exUsageEnv []) \<lparr>ue_Collect := \<lambda>_. Inl ''timeout''\<rparr>" 1763208000 "''timeout''"]
  by simp

end
