(* ===== verification/Controllers.thy ===== *)
theory Controllers
  imports ApiTypes "HOL-Library.AList"
begin

text \<open>
  The App and Tenant controllers of the operator
  (\<open>kubeop-operator/controllers/app_controller.go\<close> and \<open>tenant_controller.go\<close>).

  The API server is a record of stored objects.  Server-side apply, which merges the applied
  fields into the stored object, and \<open>SetStatusCondition\<close> belong to the Kubernetes libraries
  and are parameters of the environment; so is, for every API call, whether it fails.
  A controller returns the stored objects it leaves behind and the error it reports, if any.
\<close>

section \<open>App controller\<close>

record Deployment =
  d_Labels :: gomap
  d_Image :: string
  d_Ports :: "int list"
  d_Owner :: "string option"

record app_condition =
  ac_Type :: string
  ac_Status :: bool
  ac_Reason :: string
  ac_Message :: string
  ac_ObservedGeneration :: int

record 'c AppStatus =
  st_Revision :: string
  st_Sync :: string
  st_URLs :: "string list"
  st_AvailableReplicas :: int
  st_ObservedGeneration :: int
  st_Conditions :: 'c

record 'c app_object =
  ao_App :: App
  ao_Generation :: int
  ao_Status :: "'c AppStatus"

record 'c ctl_state =
  cs_Apps :: "key \<rightharpoonup> 'c app_object"
  cs_Deployments :: "(key \<times> Deployment) list"

record 'c ctl_env =
  ce_Merge :: "Deployment option \<Rightarrow> Deployment \<Rightarrow> Deployment"
  ce_SetStatusCondition :: "app_condition \<Rightarrow> 'c \<Rightarrow> 'c"
  ce_failGet :: "key \<Rightarrow> bool"
  ce_failDryRun :: "key \<Rightarrow> bool"
  ce_failApply :: "key \<Rightarrow> bool"
  ce_failList :: bool
  ce_failDelete :: "key \<Rightarrow> bool"
  ce_failStatus :: "key \<Rightarrow> bool"

datatype ctl_error =
  FetchFailed | DryRunFailed key | ApplyFailed key | ListFailed | PruneFailed key | StatusFailed

definition fallbackImage :: string where
  "fallbackImage = ''ghcr.io/vaheed/kubeop-operator-placeholder:latest''"

definition resolveAppImage :: "App option \<Rightarrow> string" where
  "resolveAppImage app =
    (case app of None \<Rightarrow> fallbackImage
     | Some a \<Rightarrow> (case Source (AppSpecOf a) of None \<Rightarrow> fallbackImage
       | Some src \<Rightarrow>
           (let image = SourceURL src in
            if image = [] then fallbackImage
            else if SourceRef src \<noteq> [] then image @ '':'' @ SourceRef src
            else image)))"

definition managedBy :: string where
  "managedBy = ''app.kubernetes.io/managed-by''"

text \<open>The desired Deployment, with the controller reference \<open>reconcileWorkload\<close> adds.\<close>

definition buildDesiredResources :: "App \<Rightarrow> (key \<times> Deployment) list" where
  "buildDesiredResources app =
    (let m = AppMeta app;
         labels = [''app.kubernetes.io/name'' \<mapsto> Name m, managedBy \<mapsto> ''kubeop-operator''];
         ports = (case ServiceProfile (AppSpecOf app) of None \<Rightarrow> []
                  | Some profile \<Rightarrow> (case ProfilePorts profile of [] \<Rightarrow> [] | p # _ \<Rightarrow> [p])) in
     [((Namespace m, Name m),
       \<lparr>d_Labels = labels, d_Image = resolveAppImage (Some app), d_Ports = ports, d_Owner = Some (Name m)\<rparr>)])"

fun applyLoop :: "'c ctl_env \<Rightarrow> (key \<times> Deployment) list \<Rightarrow> (key \<times> Deployment) list \<Rightarrow>
    (key \<times> Deployment) list \<times> ctl_error option" where
  "applyLoop env [] deps = (deps, None)"
| "applyLoop env ((k, d) # ds) deps =
    (if ce_failDryRun env k then (deps, Some (DryRunFailed k))
     else if ce_failApply env k then (deps, Some (ApplyFailed k))
     else applyLoop env ds (AList.update k (ce_Merge env (map_of deps k) d) deps))"

definition managed :: "Deployment \<Rightarrow> bool" where
  "managed d \<longleftrightarrow> d_Labels d managedBy = Some ''kubeop-operator''"

fun pruneLoop :: "'c ctl_env \<Rightarrow> key set \<Rightarrow> (key \<times> Deployment) list \<Rightarrow> (key \<times> Deployment) list \<Rightarrow>
    (key \<times> Deployment) list \<times> ctl_error option" where
  "pruneLoop env keep [] deps = (deps, None)"
| "pruneLoop env keep ((k, d) # ds) deps =
    (if k \<in> keep then pruneLoop env keep ds deps
     else if ce_failDelete env k \<and> k \<in> fst ` set deps then (deps, Some (PruneFailed k))
     else pruneLoop env keep ds (AList.delete k deps))"

definition pruneWorkload :: "'c ctl_env \<Rightarrow> App \<Rightarrow> (key \<times> Deployment) list \<Rightarrow> (key \<times> Deployment) list \<Rightarrow>
    (key \<times> Deployment) list \<times> ctl_error option" where
  "pruneWorkload env app desired deps =
    (if ce_failList env then (deps, Some ListFailed)
     else pruneLoop env (set (map fst desired))
       (filter (\<lambda>(k, d). fst k = Namespace (AppMeta app) \<and> managed d) deps) deps)"

definition reconcileWorkload :: "'c ctl_env \<Rightarrow> App \<Rightarrow> (key \<times> Deployment) list \<Rightarrow>
    (key \<times> Deployment) list \<times> ctl_error option" where
  "reconcileWorkload env app deps =
    (let desired = buildDesiredResources app in
     case applyLoop env desired deps of
       (deps', Some e) \<Rightarrow> (deps', Some e)
     | (deps', None) \<Rightarrow> pruneWorkload env app desired deps')"

definition statusOf :: "'c ctl_env \<Rightarrow> 'c app_object \<Rightarrow> 'c AppStatus" where
  "statusOf env obj =
    (let s = ao_Status obj;
         s = (case Source (AppSpecOf (ao_App obj)) of None \<Rightarrow> s
              | Some src \<Rightarrow>
                  (let s = s\<lparr>st_Revision := SourceRef src\<rparr> in
                   if SourceURL src \<noteq> [] then s\<lparr>st_URLs := [SourceURL src]\<rparr> else s));
         ready = \<lparr>ac_Type = ''Ready'', ac_Status = True, ac_Reason = ''Reconciled'',
                  ac_Message = ''App reconciliation completed successfully'',
                  ac_ObservedGeneration = ao_Generation obj\<rparr> in
     s\<lparr>st_Sync := ''Applied'', st_ObservedGeneration := ao_Generation obj,
       st_Conditions := ce_SetStatusCondition env ready (st_Conditions s)\<rparr>)"

definition updateStatus :: "'c ctl_env \<Rightarrow> key \<Rightarrow> 'c app_object \<Rightarrow> (key \<rightharpoonup> 'c app_object) \<Rightarrow>
    (key \<rightharpoonup> 'c app_object) \<times> ctl_error option" where
  "updateStatus env k obj apps =
    (let s = statusOf env obj in
     if ao_Status obj = s then (apps, None)
     else if ce_failStatus env k then (apps, Some StatusFailed)
     else (apps(k \<mapsto> obj\<lparr>ao_Status := s\<rparr>), None))"

definition App_Reconcile :: "'c ctl_env \<Rightarrow> key \<Rightarrow> 'c ctl_state \<Rightarrow> 'c ctl_state \<times> ctl_error option" where
  "App_Reconcile env req st =
    (if ce_failGet env req then (st, Some FetchFailed)
     else case cs_Apps st req of None \<Rightarrow> (st, None)
     | Some obj \<Rightarrow>
         (case reconcileWorkload env (ao_App obj) (cs_Deployments st) of
            (deps, Some e) \<Rightarrow> (st\<lparr>cs_Deployments := deps\<rparr>, Some e)
          | (deps, None) \<Rightarrow>
              (case updateStatus env req obj (cs_Apps st) of
                 (apps, err) \<Rightarrow> (st\<lparr>cs_Deployments := deps, cs_Apps := apps\<rparr>, err))))"

section \<open>Tenant controller\<close>

record RoleBinding =
  rb_Labels :: gomap
  rb_Role :: string
  rb_Groups :: "string list"

record tenant_state =
  ts_Tenants :: "string list"
  ts_Namespaces :: "(string \<times> gomap option) list"
  ts_Bindings :: "key \<rightharpoonup> RoleBinding"

record tenant_env =
  te_failGet :: "string \<Rightarrow> bool"
  te_failList :: bool
  te_failSync :: "key \<Rightarrow> bool"

datatype tenant_error = FetchTenantFailed | ListNamespacesFailed | SyncBindingFailed key

definition tenantLabel :: string where
  "tenantLabel = ''paas.kubeop.io/tenant''"

definition managedRoleBindingLabel :: string where
  "managedRoleBindingLabel = ''rbac.kubeop.io/managed''"

definition namespacesForTenant :: "tenant_env \<Rightarrow> tenant_state \<Rightarrow> string \<Rightarrow> tenant_error + string list" where
  "namespacesForTenant env st tenant =
    (if te_failList env then Inl ListNamespacesFailed
     else Inr (map fst (filter (\<lambda>(n, labels). case labels of None \<Rightarrow> False
                                  | Some l \<Rightarrow> l tenantLabel = Some tenant) (ts_Namespaces st))))"

definition ensureRoleBinding ::
  "tenant_env \<Rightarrow> string \<Rightarrow> string \<Rightarrow> string \<times> string \<Rightarrow> (key \<rightharpoonup> RoleBinding) \<Rightarrow> (key \<rightharpoonup> RoleBinding) \<times> tenant_error option" where
  "ensureRoleBinding env tenant ns = (\<lambda>(roleName, group) bs.
    let k = (ns, ''kubeop:'' @ roleName);
        labels = (case bs k of None \<Rightarrow> Map.empty | Some rb \<Rightarrow> rb_Labels rb) in
    if te_failSync env k then (bs, Some (SyncBindingFailed k))
    else (bs(k \<mapsto> \<lparr>rb_Labels = labels(tenantLabel \<mapsto> tenant, managedRoleBindingLabel \<mapsto> ''true''),
                    rb_Role = roleName, rb_Groups = [group]\<rparr>), None))"

definition tenantRoles :: "string \<Rightarrow> (string \<times> string) list" where
  "tenantRoles tenant =
    [(''tenant-owner'', ''tenant:'' @ tenant @ '':owners''),
     (''tenant-developer'', ''tenant:'' @ tenant @ '':developers''),
     (''tenant-viewer'', ''tenant:'' @ tenant @ '':viewers'')]"

text \<open>Steps that stop at the first error.\<close>

fun runSteps :: "('x \<Rightarrow> 's \<Rightarrow> 's \<times> 'e option) \<Rightarrow> 'x list \<Rightarrow> 's \<Rightarrow> 's \<times> 'e option" where
  "runSteps f [] s = (s, None)"
| "runSteps f (x # xs) s = (case f x s of (s', Some e) \<Rightarrow> (s', Some e) | (s', None) \<Rightarrow> runSteps f xs s')"

definition Tenant_Reconcile :: "tenant_env \<Rightarrow> string \<Rightarrow> tenant_state \<Rightarrow> tenant_state \<times> tenant_error option" where
  "Tenant_Reconcile env req st =
    (if te_failGet env req then (st, Some FetchTenantFailed)
     else if req \<notin> set (ts_Tenants st) then (st, None)
     else case namespacesForTenant env st req of
       Inl e \<Rightarrow> (st, Some e)
     | Inr namespaces \<Rightarrow>
         (case runSteps (\<lambda>ns. runSteps (ensureRoleBinding env req ns) (tenantRoles req)) namespaces (ts_Bindings st) of
            (bs, err) \<Rightarrow> (st\<lparr>ts_Bindings := bs\<rparr>, err)))"

text \<open>A namespace event asks for the tenant its label names.\<close>

definition enqueueNamespace :: "gomap option \<Rightarrow> string list" where
  "enqueueNamespace labels = (let tenant = mget labels tenantLabel in if tenant = [] then [] else [tenant])"

end
