(* ===== verification/ControllerProps.thy ===== *)
theory ControllerProps
  imports Controllers
begin

text \<open>
  What the App and Tenant controllers achieve: the Deployment of a reconciled App, the pruning
  of the other Deployments of its namespace, and the role bindings of a tenant.
\<close>

section \<open>Steps\<close>

lemma runSteps_ok:
  "(\<And>x s. snd (f x s) = None) \<Longrightarrow> runSteps f xs s = (fold (\<lambda>x s. fst (f x s)) xs s, None)"
proof (induction xs arbitrary: s)
  case (Cons x xs)
  then have "f x s = (fst (f x s), None)" by (metis prod.collapse)
  then show ?case using Cons by (auto split: prod.split option.split)
qed simp

lemma runSteps_invariant:
  assumes "\<And>x s. x \<in> set xs \<Longrightarrow> P s \<Longrightarrow> P (fst (f x s))" "P s"
  shows "P (fst (runSteps f xs s))"
  using assms
proof (induction xs arbitrary: s)
  case (Cons x xs)
  obtain s' e where fx: "f x s = (s', e)" by fastforce
  then have "P s'" using Cons.prems by (metis fst_conv list.set_intros(1))
  then show ?case using Cons fx by (cases e) simp_all
qed simp

lemma fold_product:
  "fold (\<lambda>x. fold (g x) ys) xs s = fold (\<lambda>(x, y). g x y) (List.product xs ys) s"
  by (induction xs arbitrary: s) (simp_all add: fold_map comp_def)

lemma fold_keyed:
  assumes step: "\<And>x b k. step x b k = (if k = key x then Some (upd x (b k)) else b k)"
  shows "k \<notin> key ` set xs \<Longrightarrow> fold step xs b k = b k"
    and "inj_on key (set xs) \<Longrightarrow> x \<in> set xs \<Longrightarrow> \<exists>old. fold step xs b (key x) = Some (upd x old)"
proof -
  show "k \<notin> key ` set xs \<Longrightarrow> fold step xs b k = b k"
    by (induction xs arbitrary: b) (auto simp: step)
  show "inj_on key (set xs) \<Longrightarrow> x \<in> set xs \<Longrightarrow> \<exists>old. fold step xs b (key x) = Some (upd x old)"
  proof (induction xs rule: rev_induct)
    case (snoc y ys)
    show ?case
    proof (cases "key x = key y")
      case True
      then have "x = y" using snoc.prems by (auto simp: inj_on_def)
      then show ?thesis by (auto simp: step)
    next
      case False
      then have "x \<in> set ys" using snoc.prems by auto
      then show ?thesis using False snoc by (auto simp: step inj_on_def)
    qed
  qed simp
qed

section \<open>Role bindings\<close>

definition labelledWith :: "tenant_state \<Rightarrow> string \<Rightarrow> string \<Rightarrow> bool" where
  "labelledWith st tenant ns \<longleftrightarrow> (\<exists>l. (ns, Some l) \<in> set (ts_Namespaces st) \<and> l tenantLabel = Some tenant)"

lemma namespacesForTenant_set:
  assumes "namespacesForTenant env st tenant = Inr nss"
  shows "ns \<in> set nss \<longleftrightarrow> labelledWith st tenant ns"
proof -
  let ?P = "\<lambda>l. case l of None \<Rightarrow> False | Some l \<Rightarrow> l tenantLabel = Some tenant"
  have "ns \<in> set nss \<longleftrightarrow> (\<exists>l. (ns, l) \<in> set (ts_Namespaces st) \<and> ?P l)"
    using assms by (auto simp: namespacesForTenant_def image_iff split: if_splits)
  also have "\<dots> \<longleftrightarrow> labelledWith st tenant ns"
    unfolding labelledWith_def by (rule iffI; elim exE conjE) (auto split: option.splits intro: exI)
  finally show ?thesis .
qed

lemma ensureRoleBinding_other:
  "fst k \<noteq> ns \<Longrightarrow> fst (ensureRoleBinding env tenant ns x bs) k = bs k"
  by (cases x) (auto simp: ensureRoleBinding_def Let_def)

lemma Tenant_Reconcile_isolated:
  assumes "\<not> labelledWith st tenant ns"
  shows "ts_Bindings (fst (Tenant_Reconcile env tenant st)) (ns, n) = ts_Bindings st (ns, n)"
proof (cases "namespacesForTenant env st tenant")
  case (Inr nss)
  have nin: "ns \<notin> set nss" using assms namespacesForTenant_set [OF Inr] by simp
  have "fst (runSteps (\<lambda>m. runSteps (ensureRoleBinding env tenant m) (tenantRoles tenant)) nss bs) (ns, n) = bs (ns, n)"
    for bs
  proof (rule runSteps_invariant [where P = "\<lambda>b. b (ns, n) = bs (ns, n)"])
    fix m b assume "m \<in> set nss" "b (ns, n) = bs (ns, n)"
    with nin have "ns \<noteq> m" by auto
    then show "fst (runSteps (ensureRoleBinding env tenant m) (tenantRoles tenant) b) (ns, n) = bs (ns, n)"
      using \<open>b (ns, n) = bs (ns, n)\<close>
      by (intro runSteps_invariant [where P = "\<lambda>b. b (ns, n) = bs (ns, n)"]) (simp_all add: ensureRoleBinding_other)
  qed simp
  then show ?thesis using Inr by (simp add: Tenant_Reconcile_def split: prod.split) (metis fst_conv)
qed (simp add: Tenant_Reconcile_def)

lemma Tenant_Reconcile_keeps:
  "ts_Namespaces (fst (Tenant_Reconcile env tenant st)) = ts_Namespaces st"
  "ts_Tenants (fst (Tenant_Reconcile env tenant st)) = ts_Tenants st"
  by (auto simp: Tenant_Reconcile_def split: sum.split prod.split)

lemma tenantRoles_distinct: "inj_on fst (set (tenantRoles tenant))"
  by (auto simp: tenantRoles_def inj_on_def)



definition exTenants :: tenant_state where
  "exTenants = \<lparr>ts_Tenants = [''acme'', ''globex''],
     ts_Namespaces = [(''shop'', Some [tenantLabel \<mapsto> ''acme'']), (''lab'', Some [tenantLabel \<mapsto> ''globex'']), (''sys'', None)],
     ts_Bindings = [(''shop'', ''kubeop:tenant-owner'') \<mapsto>
       \<lparr>rb_Labels = Map.empty, rb_Role = ''tenant-owner'', rb_Groups = [''tenant:globex:owners'']\<rparr>]\<rparr>"

definition exTenantEnv :: tenant_env where
  "exTenantEnv = \<lparr>te_failGet = \<lambda>_. False, te_failList = False, te_failSync = \<lambda>_. False\<rparr>"


definition Tenant_Reconciles :: "(tenant_env \<times> string) list \<Rightarrow> tenant_state \<Rightarrow> tenant_state" where
  "Tenant_Reconciles reqs st = fold (\<lambda>(env, tenant) st. fst (Tenant_Reconcile env tenant st)) reqs st"

text \<open>
  (C24) Access outlives the label: no sequence of reconciliations of any tenants, with any
  failures, changes a binding in a namespace that carries no tenant label, and the event of
  such a namespace asks for no reconciliation.  So after the label is removed the groups of
  the former tenant keep the roles they had.
\<close>

theorem unlabelled_namespace_keeps_bindings:
  assumes "\<forall>tenant. \<not> labelledWith st tenant ns"
  shows "ts_Bindings (Tenant_Reconciles reqs st) (ns, n) = ts_Bindings st (ns, n)
    \<and> enqueueNamespace None = [] \<and> (l tenantLabel = None \<longrightarrow> enqueueNamespace (Some l) = [])"
proof -
  have "ts_Bindings (Tenant_Reconciles reqs st) (ns, n) = ts_Bindings st (ns, n)"
    using assms unfolding Tenant_Reconciles_def
  proof (induction reqs arbitrary: st)
    case (Cons r reqs)
    obtain env tenant where r: "r = (env, tenant)" by (cases r) auto
    have "\<forall>t. \<not> labelledWith (fst (Tenant_Reconcile env tenant st)) t ns"
      using Cons.prems by (simp add: labelledWith_def Tenant_Reconcile_keeps)
    with Cons.IH Tenant_Reconcile_isolated Cons.prems show ?case by (simp add: r)
  qed simp
  then show ?thesis by (simp add: enqueueNamespace_def)
qed

definition exFormer :: tenant_state where
  "exFormer = exTenants\<lparr>ts_Namespaces := [(''shop'', None)]\<rparr>"

theorem unlabelled_namespace_keeps_bindings_witness:
  "ts_Bindings (Tenant_Reconciles [(exTenantEnv, ''acme''), (exTenantEnv, ''globex'')] exFormer) (''shop'', ''kubeop:tenant-owner'')
   = Some \<lparr>rb_Labels = Map.empty, rb_Role = ''tenant-owner'', rb_Groups = [''tenant:globex:owners'']\<rparr>"
  using unlabelled_namespace_keeps_bindings [of exFormer "''shop''"]
  by (simp add: exFormer_def exTenants_def labelledWith_def)

section \<open>Deployments\<close>

definition appKeyOf :: "App \<Rightarrow> key" where
  "appKeyOf app = (Namespace (AppMeta app), Name (AppMeta app))"

definition desiredDeployment :: "App \<Rightarrow> Deployment" where
  "desiredDeployment app = snd (hd (buildDesiredResources app))"

lemma buildDesired_single: "buildDesiredResources app = [(appKeyOf app, desiredDeployment app)]"
  by (simp add: buildDesiredResources_def appKeyOf_def desiredDeployment_def Let_def)

definition quietEnv :: "'c ctl_env \<Rightarrow> bool" where
  "quietEnv env \<longleftrightarrow> ce_failGet env = (\<lambda>_. False) \<and> ce_failDryRun env = (\<lambda>_. False) \<and> ce_failApply env = (\<lambda>_. False)
    \<and> \<not> ce_failList env \<and> ce_failDelete env = (\<lambda>_. False) \<and> ce_failStatus env = (\<lambda>_. False)"

text \<open>What server-side apply with forced ownership promises of the applied fields.\<close>

definition appliesFields :: "'c ctl_env \<Rightarrow> bool" where
  "appliesFields env \<longleftrightarrow> (\<forall>old d. let r = ce_Merge env old d in
     d_Image r = d_Image d \<and> d_Owner r = d_Owner d \<and> d_Labels d \<subseteq>\<^sub>m d_Labels r)"

lemma pruneLoop_quiet:
  assumes "ce_failDelete env = (\<lambda>_. False)"
  shows "snd (pruneLoop env keep ds deps) = None"
    "map_of (fst (pruneLoop env keep ds deps)) k = (if k \<in> fst ` set ds - keep then None else map_of deps k)"
  using assms by (induction env keep ds deps rule: pruneLoop.induct) (auto simp: delete_conv')

lemma map_of_filter_mem:
  "distinct (map fst deps) \<Longrightarrow> k \<in> fst ` set (filter (\<lambda>(k, d). P k d) deps) \<longleftrightarrow> (\<exists>d. map_of deps k = Some d \<and> P k d)"
  by (auto simp: image_iff)


lemma reconcileWorkload_quiet:
  fixes app :: App
  assumes "quietEnv env" "distinct (map fst deps)"
  defines "merged \<equiv> ce_Merge env (map_of deps (appKeyOf app)) (desiredDeployment app)"
  shows "\<exists>deps'. reconcileWorkload env app deps = (deps', None) \<and> distinct (map fst deps')
    \<and> map_of deps' (appKeyOf app) = Some merged
    \<and> (\<forall>k. k \<noteq> appKeyOf app \<longrightarrow> map_of deps' k = (case map_of deps k of None \<Rightarrow> None
         | Some d \<Rightarrow> if fst k = Namespace (AppMeta app) \<and> managed d then None else Some d))"
proof -
  let ?k = "appKeyOf app"
  let ?up = "AList.update ?k merged deps"
  let ?ls = "filter (\<lambda>(k, d). fst k = Namespace (AppMeta app) \<and> managed d) ?up"
  have d: "distinct (map fst ?up)" using assms(2) by (simp add: distinct_update)
  have fd: "ce_failDelete env = (\<lambda>_. False)" using assms(1) by (simp add: quietEnv_def)
  have r: "reconcileWorkload env app deps = pruneLoop env {?k} ?ls ?up"
    using assms(1) by (simp add: reconcileWorkload_def buildDesired_single pruneWorkload_def merged_def quietEnv_def)
  have "distinct (map fst (fst (pruneLoop env keep ds xs)))" if "distinct (map fst xs)" for keep ds xs
    using that by (induction env keep ds xs rule: pruneLoop.induct) (auto simp: distinct_delete)
  moreover have "pruneLoop env {?k} ?ls ?up = (fst (pruneLoop env {?k} ?ls ?up), None)"
    by (rule prod_eqI) (simp_all add: pruneLoop_quiet(1) [OF fd])
  moreover have "map_of (fst (pruneLoop env {?k} ?ls ?up)) ?k = Some merged"
    by (simp add: pruneLoop_quiet(2) [OF fd] update_conv')
  moreover have "map_of (fst (pruneLoop env {?k} ?ls ?up)) k = (case map_of deps k of None \<Rightarrow> None
         | Some d \<Rightarrow> if fst k = Namespace (AppMeta app) \<and> managed d then None else Some d)" if "k \<noteq> ?k" for k
    using that map_of_filter_mem [OF d, of k "\<lambda>k d. fst k = Namespace (AppMeta app) \<and> managed d"]
    by (auto simp: pruneLoop_quiet(2) [OF fd] update_conv' split: option.split)
  ultimately show ?thesis
    unfolding r using d by (intro exI [of _ "fst (pruneLoop env {?k} ?ls ?up)"]) blast
qed

lemma App_Reconcile_quiet:
  assumes "quietEnv env" "cs_Apps st req = Some obj" "appKeyOf (ao_App obj) = req" "distinct (map fst (cs_Deployments st))"
  obtains st' where "App_Reconcile env req st = (st', None)"
    and "distinct (map fst (cs_Deployments st'))"
    and "map_of (cs_Deployments st') req =
      Some (ce_Merge env (map_of (cs_Deployments st) req) (desiredDeployment (ao_App obj)))"
    and "\<forall>k. k \<noteq> req \<longrightarrow> map_of (cs_Deployments st') k = (case map_of (cs_Deployments st) k of None \<Rightarrow> None
         | Some d \<Rightarrow> if fst k = fst req \<and> managed d then None else Some d)"
    and "cs_Apps st' = (cs_Apps st)(req \<mapsto> obj\<lparr>ao_Status := statusOf env obj\<rparr>)"
proof -
  have ns: "Namespace (AppMeta (ao_App obj)) = fst req" using assms(3) by (auto simp: appKeyOf_def)
  obtain deps' where d: "reconcileWorkload env (ao_App obj) (cs_Deployments st) = (deps', None)"
    "distinct (map fst deps')"
    "map_of deps' req = Some (ce_Merge env (map_of (cs_Deployments st) req) (desiredDeployment (ao_App obj)))"
    "\<forall>k. k \<noteq> req \<longrightarrow> map_of deps' k = (case map_of (cs_Deployments st) k of None \<Rightarrow> None
         | Some d \<Rightarrow> if fst k = fst req \<and> managed d then None else Some d)"
    using reconcileWorkload_quiet [OF assms(1,4), of "ao_App obj"] unfolding assms(3) ns by blast
  have "(cs_Apps st)(req \<mapsto> obj\<lparr>ao_Status := statusOf env obj\<rparr>) = cs_Apps st" if "ao_Status obj = statusOf env obj"
    using assms(2) that by (metis app_object.surjective app_object.update_convs(3) fun_upd_triv)
  then have "App_Reconcile env req st =
      (st\<lparr>cs_Deployments := deps', cs_Apps := (cs_Apps st)(req \<mapsto> obj\<lparr>ao_Status := statusOf env obj\<rparr>)\<rparr>, None)"
    using assms(1,2) d(1) by (auto simp: App_Reconcile_def updateStatus_def Let_def quietEnv_def)
  then show ?thesis by (rule that) (use d in simp_all)
qed

lemma desiredDeployment_fields:
  "d_Image (desiredDeployment app) = resolveAppImage (Some app)"
  "d_Owner (desiredDeployment app) = Some (Name (AppMeta app))"
  "managed (desiredDeployment app)"
  by (simp_all add: desiredDeployment_def buildDesiredResources_def Let_def managed_def)

lemma managed_merge: "appliesFields env \<Longrightarrow> managed d \<Longrightarrow> managed (ce_Merge env old d)"
  by (auto simp: appliesFields_def managed_def Let_def map_le_def dom_def)

text \<open>
  (C25) Reconciling an App without failures: its Deployment runs the image of its source and
  belongs to it, every other Deployment of the namespace that the operator manages is
  deleted, all other Deployments stay, and the status reports the generation as applied.
\<close>

theorem app_reconcile_outcome:
  assumes "quietEnv env" "appliesFields env" "cs_Apps st req = Some obj" "appKeyOf (ao_App obj) = req"
    and "distinct (map fst (cs_Deployments st))" "App_Reconcile env req st = (st', err)"
  shows "err = None
    \<and> (\<exists>d. map_of (cs_Deployments st') req = Some d \<and> d_Image d = resolveAppImage (Some (ao_App obj))
         \<and> d_Owner d = Some (snd req) \<and> managed d)
    \<and> (\<forall>k. k \<noteq> req \<longrightarrow> map_of (cs_Deployments st') k = (case map_of (cs_Deployments st) k of None \<Rightarrow> None
         | Some d \<Rightarrow> if fst k = fst req \<and> managed d then None else Some d))
    \<and> (\<exists>obj'. cs_Apps st' req = Some obj' \<and> st_ObservedGeneration (ao_Status obj') = ao_Generation obj
         \<and> st_Sync (ao_Status obj') = ''Applied'')"
proof -
  obtain s where s: "App_Reconcile env req st = (s, None)" "distinct (map fst (cs_Deployments s))"
    "map_of (cs_Deployments s) req = Some (ce_Merge env (map_of (cs_Deployments st) req) (desiredDeployment (ao_App obj)))"
    "\<forall>k. k \<noteq> req \<longrightarrow> map_of (cs_Deployments s) k = (case map_of (cs_Deployments st) k of None \<Rightarrow> None
         | Some d \<Rightarrow> if fst k = fst req \<and> managed d then None else Some d)"
    "cs_Apps s = (cs_Apps st)(req \<mapsto> obj\<lparr>ao_Status := statusOf env obj\<rparr>)"
    by (rule App_Reconcile_quiet [OF assms(1,3,4,5)])
  have "snd req = Name (AppMeta (ao_App obj))" using assms(4) by (auto simp: appKeyOf_def)
  then have "\<exists>d. map_of (cs_Deployments s) req = Some d \<and> d_Image d = resolveAppImage (Some (ao_App obj))
         \<and> d_Owner d = Some (snd req) \<and> managed d"
    using s(3) assms(2) managed_merge [OF assms(2) desiredDeployment_fields(3)]
    by (simp add: appliesFields_def Let_def desiredDeployment_fields)
  moreover have "st_ObservedGeneration (statusOf env obj) = ao_Generation obj" "st_Sync (statusOf env obj) = ''Applied''"
    by (simp_all add: statusOf_def Let_def)
  ultimately show ?thesis using s assms(6) by auto
qed


definition exWorkload :: "string \<Rightarrow> string \<Rightarrow> unit app_object" where
  "exWorkload name url =
    \<lparr>ao_App = \<lparr>AppMeta = \<lparr>Name = name, Namespace = ''shop'', Labels = None, Annotations = None\<rparr>,
       AppSpecOf = \<lparr>AppType = ''raw'', Source = Some \<lparr>SourceURL = url, SourceChart = [], SourceRef = ''1.0''\<rparr>,
         AppVersion = [], VersionRange = [], Image = [], ValuesRefs = [], SecretsRefs = [], Replicas = None,
         Rollout = None, ServiceProfile = None, IngressRefs = [], Hosts = []\<rparr>\<rparr>,
     ao_Generation = 3,
     ao_Status = \<lparr>st_Revision = [], st_Sync = [], st_URLs = [], st_AvailableReplicas = 0, st_ObservedGeneration = 0,
       st_Conditions = ()\<rparr>\<rparr>"

definition exCtlEnv :: "unit ctl_env" where
  "exCtlEnv = \<lparr>ce_Merge = \<lambda>_ d. d, ce_SetStatusCondition = \<lambda>_ c. c, ce_failGet = \<lambda>_. False, ce_failDryRun = \<lambda>_. False,
     ce_failApply = \<lambda>_. False, ce_failList = False, ce_failDelete = \<lambda>_. False, ce_failStatus = \<lambda>_. False\<rparr>"

definition exCtlState :: "unit ctl_state" where
  "exCtlState = \<lparr>cs_Apps = [(''shop'', ''web'') \<mapsto> exWorkload ''web'' ''reg/web'', (''shop'', ''api'') \<mapsto> exWorkload ''api'' ''reg/api''],
     cs_Deployments = []\<rparr>"

lemma exCtl_facts:
  "quietEnv exCtlEnv" "appliesFields exCtlEnv" "cs_Apps exCtlState (''shop'', ''web'') = Some (exWorkload ''web'' ''reg/web'')"
  "cs_Apps exCtlState (''shop'', ''api'') = Some (exWorkload ''api'' ''reg/api'')"
  "appKeyOf (ao_App (exWorkload n u)) = (''shop'', n)" "distinct (map fst (cs_Deployments exCtlState))"
  by (simp_all add: quietEnv_def appliesFields_def exCtlEnv_def exCtlState_def exWorkload_def appKeyOf_def)

theorem app_reconcile_outcome_witness:
  "\<exists>d. map_of (cs_Deployments (fst (App_Reconcile exCtlEnv (''shop'', ''web'') exCtlState))) (''shop'', ''web'') = Some d
    \<and> d_Image d = ''reg/web:1.0''"
proof -
  have "resolveAppImage (Some (ao_App (exWorkload ''web'' ''reg/web''))) = ''reg/web:1.0''" by code_simp
  then show ?thesis
    using app_reconcile_outcome [OF exCtl_facts(1,2,3,5,6) prod.collapse [symmetric]] by fastforce
qed

text \<open>
  (C26) Apps that share a namespace delete each other's workloads.  After an App and then
  another App of the same namespace are reconciled without failures, the Deployment of the
  first App is gone, and reconciling the first again deletes the one of the second: the
  listing is restricted to the manager of a Deployment and not to its owner.
\<close>

theorem sibling_apps_prune_each_other:
  assumes "quietEnv env" "appliesFields env" "distinct (map fst (cs_Deployments st))"
    and "cs_Apps st (ns, m) = Some a" "appKeyOf (ao_App a) = (ns, m)"
    and "cs_Apps st (ns, n) = Some b" "appKeyOf (ao_App b) = (ns, n)" "m \<noteq> n"
    and "s1 = fst (App_Reconcile env (ns, m) st)" "s2 = fst (App_Reconcile env (ns, n) s1)"
    and "s3 = fst (App_Reconcile env (ns, m) s2)"
  shows "map_of (cs_Deployments s1) (ns, m) \<noteq> None
    \<and> map_of (cs_Deployments s2) (ns, m) = None \<and> map_of (cs_Deployments s2) (ns, n) \<noteq> None
    \<and> map_of (cs_Deployments s3) (ns, n) = None"
proof -
  note mg = managed_merge [OF assms(2) desiredDeployment_fields(3)]
  obtain t1 where 1: "App_Reconcile env (ns, m) st = (t1, None)" "distinct (map fst (cs_Deployments t1))"
    "map_of (cs_Deployments t1) (ns, m) = Some (ce_Merge env (map_of (cs_Deployments st) (ns, m)) (desiredDeployment (ao_App a)))"
    "\<forall>k. k \<noteq> (ns, m) \<longrightarrow> map_of (cs_Deployments t1) k = (case map_of (cs_Deployments st) k of None \<Rightarrow> None
         | Some d \<Rightarrow> if fst k = fst (ns, m) \<and> managed d then None else Some d)"
    "cs_Apps t1 = (cs_Apps st)((ns, m) \<mapsto> a\<lparr>ao_Status := statusOf env a\<rparr>)"
    by (rule App_Reconcile_quiet [OF assms(1,4,5,3)])
  have b: "cs_Apps t1 (ns, n) = Some b" using 1(5) assms(6,8) by simp
  obtain t2 where 2: "App_Reconcile env (ns, n) t1 = (t2, None)" "distinct (map fst (cs_Deployments t2))"
    "map_of (cs_Deployments t2) (ns, n) = Some (ce_Merge env (map_of (cs_Deployments t1) (ns, n)) (desiredDeployment (ao_App b)))"
    "\<forall>k. k \<noteq> (ns, n) \<longrightarrow> map_of (cs_Deployments t2) k = (case map_of (cs_Deployments t1) k of None \<Rightarrow> None
         | Some d \<Rightarrow> if fst k = fst (ns, n) \<and> managed d then None else Some d)"
    "cs_Apps t2 = (cs_Apps t1)((ns, n) \<mapsto> b\<lparr>ao_Status := statusOf env b\<rparr>)"
    by (rule App_Reconcile_quiet [OF assms(1) b assms(7) 1(2)])
  have a: "cs_Apps t2 (ns, m) = Some (a\<lparr>ao_Status := statusOf env a\<rparr>)" using 1(5) 2(5) assms(8) by simp
  have ka: "appKeyOf (ao_App (a\<lparr>ao_Status := statusOf env a\<rparr>)) = (ns, m)" using assms(5) by simp
  obtain t3 where 3: "App_Reconcile env (ns, m) t2 = (t3, None)" "distinct (map fst (cs_Deployments t3))"
    "map_of (cs_Deployments t3) (ns, m) = Some (ce_Merge env (map_of (cs_Deployments t2) (ns, m))
      (desiredDeployment (ao_App (a\<lparr>ao_Status := statusOf env a\<rparr>))))"
    "\<forall>k. k \<noteq> (ns, m) \<longrightarrow> map_of (cs_Deployments t3) k = (case map_of (cs_Deployments t2) k of None \<Rightarrow> None
         | Some d \<Rightarrow> if fst k = fst (ns, m) \<and> managed d then None else Some d)"
    "cs_Apps t3 = (cs_Apps t2)((ns, m) \<mapsto> (a\<lparr>ao_Status := statusOf env a\<rparr>)
      \<lparr>ao_Status := statusOf env (a\<lparr>ao_Status := statusOf env a\<rparr>)\<rparr>)"
    by (rule App_Reconcile_quiet [OF assms(1) a ka 2(2)])
  show ?thesis
    using 1(3) 2(3) 2(4) [rule_format, of "(ns, m)"] 3(4) [rule_format, of "(ns, n)"] assms(8) mg
    by (simp add: assms(9-11) 1(1) 2(1) 3(1))
qed

theorem sibling_apps_prune_each_other_witness:
  "let s1 = fst (App_Reconcile exCtlEnv (''shop'', ''web'') exCtlState);
       s2 = fst (App_Reconcile exCtlEnv (''shop'', ''api'') s1) in
   map_of (cs_Deployments s1) (''shop'', ''web'') \<noteq> None \<and> map_of (cs_Deployments s2) (''shop'', ''web'') = None"
  unfolding Let_def
  using sibling_apps_prune_each_other [OF exCtl_facts(1,2,6,3,5,4,5) _ refl refl refl] by simp

end
