(* ===== verification/Json.thy ===== *)
theory Json
  imports GoCodec
begin

text \<open>
  JSON documents as \<open>encoding/json\<close> decodes them into \<open>any\<close>, with integer numbers, and the
  text \<open>json.Marshal\<close> writes for them.  The entries of an object are listed in the order the
  encoder writes them: the field order of a struct, sorted keys for a map.
\<close>

datatype json =
    JNull | JBool bool | JNum int | JStr string | JArr "json list" | JObj "(string \<times> json) list"

type_synonym jobject = "(string \<times> json) list"

definition jget :: "jobject \<Rightarrow> string \<Rightarrow> json option" where
  "jget m k = map_of m k"

definition jsonHex4 :: "char \<Rightarrow> string" where
  "jsonHex4 c = [CHR 0x5C] @ ''u00'' @ [digitChar (ord c div 16), digitChar (ord c mod 16)]"

definition jsonChar :: "char \<Rightarrow> string" where
  "jsonChar c =
    (if c = CHR 0x22 then [CHR 0x5C, CHR 0x22] else if c = CHR 0x5C then [CHR 0x5C, CHR 0x5C]
     else if c = CHR 0x08 then [CHR 0x5C] @ ''b'' else if c = CHR 0x0C then [CHR 0x5C] @ ''f''
     else if c = CHR 0x0A then [CHR 0x5C] @ ''n'' else if c = CHR 0x0D then [CHR 0x5C] @ ''r''
     else if c = CHR 0x09 then [CHR 0x5C] @ ''t''
     else if ord c < 32 \<or> c = CHR ''<'' \<or> c = CHR ''>'' \<or> c = CHR ''&'' then jsonHex4 c else [c])"

definition jsonString :: "string \<Rightarrow> string" where
  "jsonString s = [CHR 0x22] @ concat (map jsonChar s) @ [CHR 0x22]"

fun jsonText :: "json \<Rightarrow> string"
  and jsonItems :: "json list \<Rightarrow> string list"
  and jsonFields :: "jobject \<Rightarrow> string list" where
  "jsonText JNull = ''null''"
| "jsonText (JBool b) = (if b then ''true'' else ''false'')"
| "jsonText (JNum n) = (if n < 0 then ''-'' else []) @ decString \<bar>n\<bar>"
| "jsonText (JStr s) = jsonString s"
| "jsonText (JArr xs) = ''['' @ Join (jsonItems xs) '','' @ '']''"
| "jsonText (JObj m) = ''{'' @ Join (jsonFields m) '','' @ ''}''"
| "jsonItems [] = []"
| "jsonItems (x # xs) = jsonText x # jsonItems xs"
| "jsonFields [] = []"
| "jsonFields ((k, v) # m) = (jsonString k @ '':'' @ jsonText v) # jsonFields m"

text \<open>A \<open>map[string]string\<close> and a \<open>[]string\<close> as documents.\<close>

definition jMap :: "(string \<times> string) list \<Rightarrow> json" where
  "jMap m = JObj (map (\<lambda>(k, v). (k, JStr v)) m)"

definition jList :: "string list \<Rightarrow> json" where
  "jList xs = JArr (map JStr xs)"

fun asStr :: "json \<Rightarrow> string option" where
  "asStr (JStr s) = Some s"
| "asStr JNull = Some []"
| "asStr _ = None"

fun asNum :: "json \<Rightarrow> int option" where
  "asNum (JNum n) = Some n"
| "asNum JNull = Some 0"
| "asNum _ = None"

fun asBool :: "json \<Rightarrow> bool option" where
  "asBool (JBool b) = Some b"
| "asBool JNull = Some False"
| "asBool _ = None"

fun traverse :: "('a \<Rightarrow> 'b option) \<Rightarrow> 'a list \<Rightarrow> 'b list option" where
  "traverse f [] = Some []"
| "traverse f (x # xs) = (case f x of None \<Rightarrow> None | Some y \<Rightarrow>
     (case traverse f xs of None \<Rightarrow> None | Some ys \<Rightarrow> Some (y # ys)))"

fun asStrList :: "json \<Rightarrow> string list option" where
  "asStrList (JArr xs) = traverse asStr xs"
| "asStrList JNull = Some []"
| "asStrList _ = None"

fun asStrMap :: "json \<Rightarrow> (string \<times> string) list option" where
  "asStrMap (JObj m) = traverse (\<lambda>(k, v). map_option (Pair k) (asStr v)) m"
| "asStrMap JNull = Some []"
| "asStrMap _ = None"

lemma traverse_map: "(\<And>x. x \<in> set xs \<Longrightarrow> f (g x) = Some (h x)) \<Longrightarrow> traverse f (map g xs) = Some (map h xs)"
  by (induction xs) simp_all

lemma asStrList_jList [simp]: "asStrList (jList xs) = Some xs"
  using traverse_map [of xs asStr JStr id] by (simp add: jList_def)

lemma asStrMap_jMap [simp]: "asStrMap (jMap m) = Some m"
  using traverse_map [of m "\<lambda>(k, v). map_option (Pair k) (asStr v)" "\<lambda>(k, v). (k, JStr v)" id]
  by (simp add: jMap_def split: prod.split)

text \<open>\<open>encoding/json\<close> writes the entries of a map in the order of their keys.\<close>

definition sortEntries :: "(string \<times> 'a) list \<Rightarrow> (string \<times> 'a) list" where
  "sortEntries m = sort_key fst m"

lemma set_sortEntries [simp]: "set (sortEntries m) = set m"
  by (simp add: sortEntries_def)

end
