(* ===== verification/Paging.thy ===== *)
theory Paging
  imports GoPrelude "HOL-Library.Product_Lexorder"
begin

text \<open>
  Listing a table page by page.  A row is found by its key, the pair of a time and an
  identifier, and a listing is in descending key order (\<open>ORDER BY at DESC, id DESC\<close>).  The
  locale \<open>paged_listing\<close> is the contract of an operation that returns one page and a cursor
  for the next one; its client is the loop that follows the cursors.
\<close>

section \<open>Rows after a row\<close>

definition after :: "'a \<Rightarrow> 'a list \<Rightarrow> 'a list" where
  "after r xs = tl (dropWhile (\<lambda>x. x \<noteq> r) xs)"

lemma after_split: "r \<notin> set xs \<Longrightarrow> after r (xs @ r # ys) = ys"
  by (induction xs) (auto simp: after_def)

lemma after_nth: "distinct xs \<Longrightarrow> i < length xs \<Longrightarrow> after (xs ! i) xs = drop (Suc i) xs"
proof (induction xs arbitrary: i)
  case (Cons x xs)
  then show ?case by (cases i) (auto simp: after_def)
qed simp

section \<open>Descending order\<close>

definition orderDesc :: "('r \<Rightarrow> 'k::linorder) \<Rightarrow> 'r list \<Rightarrow> 'r list" where
  "orderDesc key rows = rev (sort_key key rows)"

definition descending :: "('r \<Rightarrow> 'k::linorder) \<Rightarrow> 'r list \<Rightarrow> bool" where
  "descending key rows \<longleftrightarrow> sorted_wrt (\<lambda>a b. key b < key a) rows"

lemma set_orderDesc [simp]: "set (orderDesc key rows) = set rows"
  by (simp add: orderDesc_def)

lemma length_orderDesc [simp]: "length (orderDesc key rows) = length rows"
  by (simp add: orderDesc_def)

lemma distinct_map_sort_key: "distinct (map key (sort_key key rows)) = distinct (map key rows)"
  by (metis distinct_map distinct_sort set_sort)

lemma orderDesc_descending: "distinct (map key rows) \<Longrightarrow> descending key (orderDesc key rows)"
proof -
  assume "distinct (map key rows)"
  then have "sorted (map key (sort_key key rows))" "distinct (map key (sort_key key rows))"
    by (simp_all add: distinct_map_sort_key)
  then have "sorted_wrt (<) (map key (sort_key key rows))"
    by (simp add: strict_sorted_iff)
  then show ?thesis
    by (simp add: descending_def orderDesc_def sorted_wrt_rev sorted_wrt_map)
qed

lemma descending_distinct: "descending key rows \<Longrightarrow> distinct rows"
  by (induction rows) (auto simp: descending_def)

lemma filter_orderDesc:
  "orderDesc key (filter P rows) = filter P (orderDesc key rows)"
  by (simp add: orderDesc_def filter_sort flip: rev_filter)

text \<open>In a descending listing the rows below the key of a row are the rows after it.\<close>

lemma filter_below_after:
  assumes "descending key rows" "r \<in> set rows"
  shows "filter (\<lambda>x. key x < key r) rows = after r rows"
proof -
  obtain xs ys where s: "rows = xs @ r # ys" "r \<notin> set xs" using assms(2) by (metis split_list_first)
  have "\<forall>x \<in> set xs. key r < key x" "\<forall>y \<in> set ys. key y < key r"
    using assms(1) by (auto simp: s descending_def sorted_wrt_append)
  then have "filter (\<lambda>x. key x < key r) xs = []" "filter (\<lambda>x. key x < key r) ys = ys"
    by (auto simp: filter_empty_conv filter_id_conv)
  then show ?thesis using s by (simp add: after_split)
qed

section \<open>The contract\<close>

text \<open>One page of the remaining rows, and the cursor of its last row when rows remain.\<close>

definition cutPage :: "('r \<Rightarrow> 'c) \<Rightarrow> nat \<Rightarrow> 'r list \<Rightarrow> 'r list \<times> 'c option" where
  "cutPage cursorOf limit rest =
    (take limit rest, if limit < length rest then Some (cursorOf (rest ! (limit - 1))) else None)"

text \<open>The client that asks for up to \<open>n\<close> pages.\<close>

fun followPages :: "('c option \<Rightarrow> 'r list \<times> 'c option) \<Rightarrow> nat \<Rightarrow> 'c option \<Rightarrow> 'r list" where
  "followPages page 0 c = []"
| "followPages page (Suc n) c =
    (case page c of (rows, None) \<Rightarrow> rows | (rows, Some c') \<Rightarrow> rows @ followPages page n (Some c'))"

locale paged_listing =
  fixes listing :: "'r list" and cursorOf :: "'r \<Rightarrow> 'c" and limit :: nat
    and page :: "'c option \<Rightarrow> 'r list \<times> 'c option"
  assumes rows_distinct: "distinct listing"
    and limit_pos: "0 < limit"
    and first_page: "page None = cutPage cursorOf limit listing"
    and next_page: "\<And>r. r \<in> set listing \<Longrightarrow> page (Some (cursorOf r)) = cutPage cursorOf limit (after r listing)"
begin

lemma follow_rest:
  assumes "i < length listing" "length listing - Suc i < n"
  shows "followPages page n (Some (cursorOf (listing ! i))) = drop (Suc i) listing"
  using assms
proof (induction n arbitrary: i)
  case (Suc n)
  let ?rest = "drop (Suc i) listing"
  have p: "page (Some (cursorOf (listing ! i))) = cutPage cursorOf limit ?rest"
    using Suc.prems rows_distinct by (simp add: next_page after_nth)
  show ?case
  proof (cases "limit < length ?rest")
    case True
    have "?rest ! (limit - 1) = listing ! (i + limit)" using True limit_pos by simp
    moreover have "followPages page n (Some (cursorOf (listing ! (i + limit)))) = drop (Suc (i + limit)) listing"
      using True Suc.prems limit_pos by (intro Suc.IH) auto
    ultimately have "followPages page (Suc n) (Some (cursorOf (listing ! i))) = take limit ?rest @ drop limit ?rest"
      using True by (simp add: p cutPage_def add.commute)
    then show ?thesis by (simp only: append_take_drop_id)
  next
    case False
    then show ?thesis by (simp add: p cutPage_def)
  qed
qed simp

lemma follow_all:
  assumes "length listing < n"
  shows "followPages page n None = listing"
proof (cases "limit < length listing")
  case True
  obtain m where n: "n = Suc m" using assms by (cases n) auto
  have "followPages page m (Some (cursorOf (listing ! (limit - 1)))) = drop limit listing"
    using follow_rest [of "limit - 1" m] True assms limit_pos n by simp
  then show ?thesis using True n by (simp add: first_page cutPage_def)
next
  case False
  then show ?thesis using assms by (cases n) (simp_all add: first_page cutPage_def)
qed

end

end
