(* ===== verification/Events.thy ===== *)
theory Events
  imports Json Paging
begin

text \<open>
  Project events: the table and its paged listing (\<open>internal/store/events.go\<close>), appending,
  listing and the ingestion of batches from an event bridge, and the redaction of metadata
  (\<open>internal/service/events.go\<close>).

  The table is the list of its rows; a time is a number of microseconds.  The generated
  identifiers, the clock of the database, the actor of the request context, the check that
  an identifier is a UUID, and the text form of a time (\<open>RFC3339Nano\<close>) are fields of the
  environment.

  A value of metadata keeps what the code asks of its dynamic type: whether it is a
  \<open>map[string]any\<close>.  Every other value, a \<open>map[string]string\<close> included, is given by its JSON
  document.  A nil map is the empty one.
\<close>

section \<open>Types\<close>

datatype meta_value =
    MetaMap "(string \<times> meta_value) list"
  | MetaValue json

type_synonym meta = "(string \<times> meta_value) list"

record ProjectEvent =
  ev_ID :: string
  ev_ProjectID :: string
  ev_AppID :: string
  ev_ActorUserID :: string
  ev_Kind :: string
  ev_Severity :: string
  ev_Message :: string
  ev_Meta :: meta
  ev_At :: int

record ProjectEventFilter =
  ef_Kinds :: "string list"
  ef_Severities :: "string list"
  ef_ActorUserID :: string
  ef_Since :: "int option"
  ef_Limit :: int
  ef_Cursor :: string
  ef_Search :: string

record ProjectEventPage =
  ep_Events :: "ProjectEvent list"
  ep_NextCursor :: string

record EventInput =
  ei_ProjectID :: string
  ei_AppID :: string
  ei_ActorUserID :: string
  ei_Kind :: string
  ei_Severity :: string
  ei_Message :: string
  ei_Meta :: meta

record event_env =
  ee_dbEnabled :: bool
  ee_bridgeEnabled :: bool
  ee_actor :: string
  ee_newID :: "nat \<Rightarrow> string"
  ee_clock :: "nat \<Rightarrow> int"
  ee_validUUID :: "string \<Rightarrow> bool"
  ee_formatTime :: "int \<Rightarrow> string"
  ee_parseTime :: "string \<Rightarrow> int option"

text \<open>The rows, the number of events appended so far, and the lines of the event log.\<close>

record event_state =
  es_Rows :: "ProjectEvent list"
  es_Count :: nat
  es_Log :: "ProjectEvent list"

datatype event_error =
    EventIDRequired | ProjectIDRequired | KindRequired | SeverityRequired | MessageRequired
  | EventDatabase | EventsDBDisabled | EventBridgeDisabled | EventFieldsRequired | BatchTruncated nat

section \<open>Redaction\<close>

definition shouldRedactKey :: "string \<Rightarrow> bool" where
  "shouldRedactKey key =
    (let lowered = ToLower key in
     Contains lowered ''secret'' \<or> Contains lowered ''token'' \<or> Contains lowered ''password'')"

fun redactEntries :: "meta \<Rightarrow> meta"
  and redactValue :: "meta_value \<Rightarrow> meta_value" where
  "redactEntries [] = []"
| "redactEntries ((k, v) # m) =
    (k, if shouldRedactKey k then MetaValue (JStr ''[redacted]'') else redactValue v) # redactEntries m"
| "redactValue (MetaMap m) = (if m = [] then MetaValue JNull else MetaMap (redactEntries m))"
| "redactValue (MetaValue v) = MetaValue v"

definition redactMeta :: "meta \<Rightarrow> meta" where
  "redactMeta meta = redactEntries meta"

definition cloneMeta :: "meta \<Rightarrow> meta" where
  "cloneMeta meta = meta"

text \<open>
  The column holds the document of the metadata, and a row that is read has the decoded
  document: there every object is a \<open>map[string]any\<close>.
\<close>

fun metaDoc :: "meta_value \<Rightarrow> json" where
  "metaDoc (MetaMap m) = JObj (map (\<lambda>(k, v). (k, metaDoc v)) m)"
| "metaDoc (MetaValue v) = v"

fun decodedMeta :: "json \<Rightarrow> meta_value" where
  "decodedMeta (JObj m) = MetaMap (map (\<lambda>(k, v). (k, decodedMeta v)) m)"
| "decodedMeta v = MetaValue v"

definition storedMeta :: "meta \<Rightarrow> meta" where
  "storedMeta meta = map (\<lambda>(k, v). (k, decodedMeta (metaDoc v))) meta"

section \<open>The table\<close>

definition encodeEventCursor :: "event_env \<Rightarrow> int \<Rightarrow> string \<Rightarrow> string" where
  "encodeEventCursor env at eid = (if eid = [] then [] else ee_formatTime env at @ ''|'' @ eid)"

definition decodeEventCursor :: "event_env \<Rightarrow> string \<Rightarrow> (int \<times> string) option" where
  "decodeEventCursor env raw =
    (case Split raw (CHR ''|'') of
       [t, i] \<Rightarrow>
         (case ee_parseTime env t of None \<Rightarrow> None
          | Some at \<Rightarrow> (let eid = TrimSpace i in if eid = [] then None else Some (at, eid)))
     | _ \<Rightarrow> None)"

definition InsertProjectEvent :: "event_env \<Rightarrow> ProjectEvent \<Rightarrow> event_state \<Rightarrow> event_state \<times> (event_error + ProjectEvent)" where
  "InsertProjectEvent env evt st =
    (if TrimSpace (ev_ID evt) = [] then (st, Inl EventIDRequired)
     else if TrimSpace (ev_ProjectID evt) = [] then (st, Inl ProjectIDRequired)
     else if TrimSpace (ev_Kind evt) = [] then (st, Inl KindRequired)
     else if TrimSpace (ev_Severity evt) = [] then (st, Inl SeverityRequired)
     else if TrimSpace (ev_Message evt) = [] then (st, Inl MessageRequired)
     else let row = evt\<lparr>ev_AppID := if TrimSpace (ev_AppID evt) = [] then [] else ev_AppID evt,
                        ev_ActorUserID := if TrimSpace (ev_ActorUserID evt) = [] then [] else ev_ActorUserID evt,
                        ev_Meta := storedMeta (ev_Meta evt), ev_At := ee_clock env (es_Count st)\<rparr> in
     if \<not> ee_validUUID env (ev_ID row) \<or> \<not> ee_validUUID env (ev_ProjectID row)
        \<or> (ev_AppID row \<noteq> [] \<and> \<not> ee_validUUID env (ev_AppID row))
        \<or> ev_ID row \<in> ev_ID ` set (es_Rows st)
     then (st, Inl EventDatabase)
     else (st\<lparr>es_Rows := es_Rows st @ [row]\<rparr>, Inr (evt\<lparr>ev_At := ev_At row\<rparr>)))"

text \<open>\<open>LIKE\<close> with \<open>%\<close>, \<open>_\<close> and the backslash as the escape character.\<close>

function like :: "string \<Rightarrow> string \<Rightarrow> bool" where
  "like [] s = (s = [])"
| "like (c # p) s =
    (if c = CHR ''%'' then like p s \<or> (case s of [] \<Rightarrow> False | _ # r \<Rightarrow> like (c # p) r)
     else case s of [] \<Rightarrow> False
       | x # r \<Rightarrow>
           if c = CHR ''_'' then like p r
           else if c = CHR 0x5C \<and> p \<noteq> [] then x = hd p \<and> like (tl p) r
           else x = c \<and> like p r)"
  by pat_completeness auto
termination by (relation "measure (\<lambda>(p, s). length p + length s)") auto

definition nonBlank :: "string list \<Rightarrow> string list" where
  "nonBlank xs = filter (\<lambda>x. TrimSpace x \<noteq> []) xs"

definition rowKey :: "ProjectEvent \<Rightarrow> int \<times> string" where
  "rowKey e = (ev_At e, ev_ID e)"

text \<open>The \<open>WHERE\<close> clause without the condition on the cursor, and that condition.\<close>

definition eventMatches :: "string \<Rightarrow> ProjectEventFilter \<Rightarrow> ProjectEvent \<Rightarrow> bool" where
  "eventMatches projectID flt e \<longleftrightarrow>
     ev_ProjectID e = projectID
     \<and> (nonBlank (ef_Kinds flt) = [] \<or> ev_Kind e \<in> set (nonBlank (ef_Kinds flt)))
     \<and> (nonBlank (ef_Severities flt) = [] \<or> ev_Severity e \<in> set (nonBlank (ef_Severities flt)))
     \<and> (TrimSpace (ef_ActorUserID flt) = [] \<or> (ev_ActorUserID e \<noteq> [] \<and> ev_ActorUserID e = ef_ActorUserID flt))
     \<and> (case ef_Since flt of None \<Rightarrow> True | Some t \<Rightarrow> t \<le> ev_At e)
     \<and> (TrimSpace (ef_Search flt) = [] \<or>
        (let pat = ''%'' @ ToLower (TrimSpace (ef_Search flt)) @ ''%'' in
         like pat (ToLower (ev_Message e)) \<or> like pat (ToLower (ev_Kind e))))"

definition cursorAdmits :: "event_env \<Rightarrow> string \<Rightarrow> ProjectEvent \<Rightarrow> bool" where
  "cursorAdmits env cursor e =
    (if TrimSpace cursor = [] then True
     else case decodeEventCursor env cursor of None \<Rightarrow> True
       | Some (at, eid) \<Rightarrow> ev_At e < at \<or> (ev_At e = at \<and> ev_ID e < eid))"

text \<open>The identifier of a cursor is compared with a column of UUIDs.\<close>

definition cursorValid :: "event_env \<Rightarrow> string \<Rightarrow> bool" where
  "cursorValid env cursor \<longleftrightarrow> TrimSpace cursor = []
    \<or> (case decodeEventCursor env cursor of None \<Rightarrow> True | Some (at, eid) \<Rightarrow> ee_validUUID env eid)"

definition pageLimit :: "int \<Rightarrow> nat" where
  "pageLimit l = (let l = (if l \<le> 0 then 50 else l); l = (if l > 500 then 500 else l) in nat l)"

definition Store_ListProjectEvents ::
  "event_env \<Rightarrow> event_state \<Rightarrow> string \<Rightarrow> ProjectEventFilter \<Rightarrow> event_error + ProjectEventPage" where
  "Store_ListProjectEvents env st projectID flt =
    (if TrimSpace projectID = [] then Inl ProjectIDRequired
     else if \<not> ee_validUUID env projectID \<or> \<not> cursorValid env (ef_Cursor flt) then Inl EventDatabase
     else let limit = pageLimit (ef_Limit flt);
              rows = take (limit + 1) (orderDesc rowKey
                (filter (\<lambda>e. eventMatches projectID flt e \<and> cursorAdmits env (ef_Cursor flt) e) (es_Rows st))) in
          if length rows > limit
          then let lastRow = rows ! limit in
               Inr \<lparr>ep_Events = take limit rows, ep_NextCursor = encodeEventCursor env (ev_At lastRow) (ev_ID lastRow)\<rparr>
          else Inr \<lparr>ep_Events = rows, ep_NextCursor = []\<rparr>)"

section \<open>The service\<close>

definition logProjectEvent :: "ProjectEvent \<Rightarrow> event_state \<Rightarrow> event_state" where
  "logProjectEvent evt st = st\<lparr>es_Log := es_Log st @ [evt\<lparr>ev_Meta := redactMeta (ev_Meta evt)\<rparr>]\<rparr>"

definition AppendProjectEvent :: "event_env \<Rightarrow> EventInput \<Rightarrow> event_state \<Rightarrow> event_state \<times> (event_error + ProjectEvent)" where
  "AppendProjectEvent env inp st =
    (let projectID = TrimSpace (ei_ProjectID inp); kind = TrimSpace (ei_Kind inp);
         message = TrimSpace (ei_Message inp) in
     if projectID = [] then (st, Inl ProjectIDRequired)
     else if kind = [] then (st, Inl KindRequired)
     else if message = [] then (st, Inl MessageRequired)
     else let severity = ToUpper (TrimSpace (ei_Severity inp));
              severity = (if severity = [] then ''INFO'' else severity);
              actor = TrimSpace (ei_ActorUserID inp);
              actor = (if actor = [] then ee_actor env else actor);
              n = es_Count st;
              evt = \<lparr>ev_ID = ee_newID env n, ev_ProjectID = projectID, ev_AppID = TrimSpace (ei_AppID inp),
                     ev_ActorUserID = actor, ev_Kind = kind, ev_Severity = severity, ev_Message = message,
                     ev_Meta = cloneMeta (ei_Meta inp), ev_At = 0\<rparr>;
              counted = (\<lambda>s :: event_state. s\<lparr>es_Count := Suc n\<rparr>) in
          if \<not> ee_dbEnabled env
          then let evt = evt\<lparr>ev_At := ee_clock env n\<rparr> in
               (counted (logProjectEvent evt st), Inr (evt\<lparr>ev_Meta := redactMeta (ev_Meta evt)\<rparr>))
          else case InsertProjectEvent env evt st of
            (st', Inl e) \<Rightarrow> (counted st', Inl e)
          | (st', Inr stored) \<Rightarrow>
              (counted (logProjectEvent stored st'), Inr (stored\<lparr>ev_Meta := redactMeta (ev_Meta stored)\<rparr>)))"

definition presentEvent :: "ProjectEvent \<Rightarrow> ProjectEvent" where
  "presentEvent e = e\<lparr>ev_Severity := ToUpper (TrimSpace (ev_Severity e)), ev_Kind := TrimSpace (ev_Kind e),
     ev_Meta := redactMeta (ev_Meta e)\<rparr>"

definition ListProjectEvents ::
  "event_env \<Rightarrow> event_state \<Rightarrow> string \<Rightarrow> ProjectEventFilter \<Rightarrow> event_error + ProjectEventPage" where
  "ListProjectEvents env st projectID flt =
    (if \<not> ee_dbEnabled env then Inl EventsDBDisabled
     else bindR (Store_ListProjectEvents env st projectID flt)
       (\<lambda>page. Inr (page\<lparr>ep_Events := map presentEvent (ep_Events page)\<rparr>)))"

record EventIngestSummary =
  is_ClusterID :: string
  is_Total :: nat
  is_Accepted :: nat
  is_Dropped :: nat
  is_Status :: string
  is_Errors :: "(int \<times> event_error) list"

definition maxEventIngestBatch :: nat where
  "maxEventIngestBatch = 500"

definition ingestOne :: "event_env \<Rightarrow> nat \<times> EventInput \<Rightarrow> event_state \<times> EventIngestSummary \<Rightarrow> event_state \<times> EventIngestSummary" where
  "ingestOne env = (\<lambda>(idx, e0) (st, summary).
    let e = e0\<lparr>ei_ProjectID := TrimSpace (ei_ProjectID e0), ei_AppID := TrimSpace (ei_AppID e0),
               ei_ActorUserID := TrimSpace (ei_ActorUserID e0), ei_Kind := TrimSpace (ei_Kind e0),
               ei_Severity := TrimSpace (ei_Severity e0), ei_Message := TrimSpace (ei_Message e0)\<rparr>;
        skip = (\<lambda>err s. s\<lparr>is_Dropped := is_Dropped s + 1, is_Errors := is_Errors s @ [(int idx, err)]\<rparr>) in
    if ei_ProjectID e = [] \<or> ei_Kind e = [] \<or> ei_Message e = []
    then (st, skip EventFieldsRequired summary)
    else case AppendProjectEvent env e st of
      (st', Inl err) \<Rightarrow> (st', skip err summary)
    | (st', Inr _) \<Rightarrow> (st', summary\<lparr>is_Accepted := is_Accepted summary + 1\<rparr>))"

definition IngestProjectEvents :: "event_env \<Rightarrow> string \<Rightarrow> EventInput list \<Rightarrow> event_state \<Rightarrow>
    event_state \<times> EventIngestSummary \<times> event_error option" where
  "IngestProjectEvents env clusterID events st =
    (let summary = \<lparr>is_ClusterID = TrimSpace clusterID, is_Total = length events, is_Accepted = 0, is_Dropped = 0,
                    is_Status = [], is_Errors = []\<rparr> in
     if \<not> ee_bridgeEnabled env
     then (st, summary\<lparr>is_Status := ''ignored'', is_Dropped := is_Total summary\<rparr>, Some EventBridgeDisabled)
     else if events = [] then (st, summary, None)
     else let (events, summary) =
                (if is_Total summary > maxEventIngestBatch
                 then let dropped = is_Total summary - maxEventIngestBatch; events' = take maxEventIngestBatch events in
                      (events', summary\<lparr>is_Dropped := dropped, is_Errors := [(-1, BatchTruncated dropped)],
                                        is_Total := length events' + dropped\<rparr>)
                 else (events, summary));
              (st, summary) = fold (ingestOne env) (List.enumerate 0 events) (st, summary) in
          (st, summary, None))"

end
