(* ===== verification/EventProps.thy ===== *)
theory EventProps
  imports Events
begin

text \<open>
  Properties of project events: ingestion accounts for every event, nested secrets are
  redacted, and what following the cursors of the listing returns.
\<close>

section \<open>Ingestion\<close>

text \<open>The row that holds an event of a batch, apart from its identifier and time.\<close>

definition storedAs :: "event_env \<Rightarrow> EventInput \<Rightarrow> ProjectEvent \<Rightarrow> bool" where
  "storedAs env e row \<longleftrightarrow>
     ev_ProjectID row = TrimSpace (ei_ProjectID e) \<and> ev_AppID row = TrimSpace (ei_AppID e)
     \<and> ev_Kind row = TrimSpace (ei_Kind e) \<and> ev_Message row = TrimSpace (ei_Message e)
     \<and> ev_Severity row = (if TrimSpace (ei_Severity e) = [] then ''INFO'' else ToUpper (TrimSpace (ei_Severity e)))
     \<and> ev_ActorUserID row = (if TrimSpace (ei_ActorUserID e) \<noteq> [] then TrimSpace (ei_ActorUserID e)
         else if TrimSpace (ee_actor env) = [] then [] else ee_actor env)
     \<and> ev_Meta row = storedMeta (ei_Meta e)"

lemma InsertProjectEvent_rows:
  "InsertProjectEvent env evt st = (st', Inl e) \<Longrightarrow> st' = st"
  "InsertProjectEvent env evt st = (st', Inr x) \<Longrightarrow> st' = st\<lparr>es_Rows := es_Rows st @ [evt
     \<lparr>ev_AppID := if TrimSpace (ev_AppID evt) = [] then [] else ev_AppID evt,
      ev_ActorUserID := if TrimSpace (ev_ActorUserID evt) = [] then [] else ev_ActorUserID evt,
      ev_Meta := storedMeta (ev_Meta evt), ev_At := ee_clock env (es_Count st)\<rparr>]\<rparr>"
  by (auto simp: InsertProjectEvent_def Let_def split: if_splits)

lemma ToUpper_blank: "ToUpper s = [] \<longleftrightarrow> s = []"
  by (simp add: ToUpper_def)

lemma AppendProjectEvent_rows:
  "AppendProjectEvent env inp st = (st', Inl e) \<Longrightarrow> es_Rows st' = es_Rows st"
  "AppendProjectEvent env inp st = (st', Inr x) \<Longrightarrow> ee_dbEnabled env \<Longrightarrow>
    \<exists>row. es_Rows st' = es_Rows st @ [row] \<and> storedAs env inp row"
  by (auto simp: AppendProjectEvent_def Let_def logProjectEvent_def storedAs_def cloneMeta_def ToUpper_blank
      split: if_splits prod.splits sum.splits dest!: InsertProjectEvent_rows)

text \<open>The events of a batch that the summary does not report as failed.\<close>

definition unreported :: "(int \<times> event_error) list \<Rightarrow> (nat \<times> EventInput) list \<Rightarrow> EventInput list" where
  "unreported errors xs = map snd (filter (\<lambda>(i, e). int i \<notin> fst ` set errors) xs)"

definition accounted :: "event_env \<Rightarrow> event_state \<Rightarrow> nat \<Rightarrow> (nat \<times> EventInput) list \<Rightarrow> event_state \<times> EventIngestSummary \<Rightarrow> bool" where
  "accounted env st d xs = (\<lambda>(st', s).
     is_Dropped s + is_Accepted s = d + length xs \<and> is_Accepted s = length (unreported (is_Errors s) xs)
     \<and> fst ` set (is_Errors s) \<subseteq> insert (-1) (int ` fst ` set xs)
     \<and> (ee_dbEnabled env \<longrightarrow> (\<exists>rows. es_Rows st' = es_Rows st @ rows
          \<and> list_all2 (storedAs env) (unreported (is_Errors s) xs) rows)))"

lemma unreported_snoc:
  assumes "i \<notin> fst ` set xs"
  shows "unreported errs (xs @ [(i, e)]) = unreported errs xs @ (if int i \<in> fst ` set errs then [] else [e])"
    and "unreported (errs @ [(int i, err)]) xs = unreported errs xs"
  using assms by (auto simp: unreported_def intro!: arg_cong [where f = "map snd"] filter_cong dest: rev_image_eqI [where f = fst])

lemma storedAs_trimmed:
  "storedAs env (e\<lparr>ei_ProjectID := TrimSpace (ei_ProjectID e), ei_AppID := TrimSpace (ei_AppID e),
      ei_ActorUserID := TrimSpace (ei_ActorUserID e), ei_Kind := TrimSpace (ei_Kind e),
      ei_Severity := TrimSpace (ei_Severity e), ei_Message := TrimSpace (ei_Message e)\<rparr>) = storedAs env e"
  by (simp add: fun_eq_iff storedAs_def)

lemma ingestOne_cases:
  assumes "ingestOne env (i, e) (st, s) = (st', s')"
  shows "(\<exists>err. s' = s\<lparr>is_Dropped := is_Dropped s + 1, is_Errors := is_Errors s @ [(int i, err)]\<rparr> \<and> es_Rows st' = es_Rows st)
    \<or> (s' = s\<lparr>is_Accepted := is_Accepted s + 1\<rparr>
       \<and> (ee_dbEnabled env \<longrightarrow> (\<exists>row. es_Rows st' = es_Rows st @ [row] \<and> storedAs env e row)))"
  using assms
  by (auto simp: ingestOne_def Let_def storedAs_trimmed split: if_splits prod.splits sum.splits dest: AppendProjectEvent_rows)

lemma ingestOne_accounted:
  assumes "accounted env st d xs r" "i \<notin> fst ` set xs"
  shows "accounted env st d (xs @ [(i, e)]) (ingestOne env (i, e) r)"
proof -
  obtain st1 s where r: "r = (st1, s)" by fastforce
  obtain st2 s2 where n: "ingestOne env (i, e) (st1, s) = (st2, s2)" by fastforce
  have new: "int i \<notin> fst ` set (is_Errors s)"
  proof
    assume "int i \<in> fst ` set (is_Errors s)"
    then have "int i \<in> insert (-1) (int ` fst ` set xs)" using assms(1) unfolding accounted_def r prod.case by blast
    moreover have "int i \<noteq> -1" by simp
    ultimately have "int i \<in> int ` fst ` set xs" by simp
    then obtain j where "int i = int j" "j \<in> fst ` set xs" by (rule imageE)
    then show False using assms(2) by simp
  qed
  note snoc = unreported_snoc [OF assms(2)]
  from ingestOne_cases [OF n] show ?thesis
  proof (elim disjE exE conjE)
    fix err
    assume "s2 = s\<lparr>is_Dropped := is_Dropped s + 1, is_Errors := is_Errors s @ [(int i, err)]\<rparr>" "es_Rows st2 = es_Rows st1"
    then show ?thesis using assms(1) by (auto simp: accounted_def r n snoc)
  next
    assume "s2 = s\<lparr>is_Accepted := is_Accepted s + 1\<rparr>"
      "ee_dbEnabled env \<longrightarrow> (\<exists>row. es_Rows st2 = es_Rows st1 @ [row] \<and> storedAs env e row)"
    note step = this
    have "unreported (is_Errors s2) (xs @ [(i, e)]) = unreported (is_Errors s) xs @ [e]"
      using new by (simp add: step(1) snoc)
    moreover have "\<exists>rows. es_Rows st2 = es_Rows st @ rows \<and> list_all2 (storedAs env) (unreported (is_Errors s) xs @ [e]) rows"
      if db: "ee_dbEnabled env"
    proof -
      obtain rows row where "es_Rows st1 = es_Rows st @ rows" "list_all2 (storedAs env) (unreported (is_Errors s) xs) rows"
        "es_Rows st2 = es_Rows st1 @ [row]" "storedAs env e row"
        using db assms(1) step(2) by (auto simp: accounted_def r)
      then show ?thesis by (intro exI [of _ "rows @ [row]"]) (simp add: list_all2_appendI)
    qed
    ultimately show ?thesis using assms(1) by (auto simp: accounted_def r n step(1))
  qed
qed

lemma fold_ingest:
  "accounted env st d pre r \<Longrightarrow> distinct (map fst (pre @ xs)) \<Longrightarrow> accounted env st d (pre @ xs) (fold (ingestOne env) xs r)"
proof (induction xs arbitrary: pre r)
  case (Cons x xs)
  obtain i e where x: "x = (i, e)" by fastforce
  have "accounted env st d (pre @ [x]) (ingestOne env x r)"
    using ingestOne_accounted [OF Cons.prems(1), of i e] Cons.prems(2) by (auto simp: x)
  then show ?case using Cons.IH [of "pre @ [x]"] Cons.prems(2) by simp
qed simp

lemma ingestOne_total: "is_Total (snd (ingestOne env x r)) = is_Total (snd r)"
  by (cases x; cases r) (auto simp: ingestOne_def Let_def split: prod.split sum.split)

lemma fold_total: "is_Total (snd (fold (ingestOne env) xs r)) = is_Total (snd r)"
  by (induction xs arbitrary: r) (simp_all add: ingestOne_total)

text \<open>The events that were accepted, by the summary.\<close>

definition acceptedEvents :: "event_env \<Rightarrow> EventInput list \<Rightarrow> EventIngestSummary \<Rightarrow> EventInput list" where
  "acceptedEvents env events s =
    (if ee_bridgeEnabled env then unreported (is_Errors s) (List.enumerate 0 (take 500 events)) else [])"

text \<open>
  (C27) The ingestion of a batch accounts for every event: the numbers of accepted and dropped
  events add up to the total, which is the size of the batch. The accepted events are those
  among the first 500 whose index is not reported in the summary, none when the bridge is
  disabled, and with the event table enabled exactly these are added to the table, in their
  order and after the events that were there: each row has the project, application, kind,
  message, severity, actor and metadata of its event.
\<close>

theorem ingest_accounts_for_every_event:
  assumes "IngestProjectEvents env clusterID events st = (st', s, err)"
  shows "is_Accepted s + is_Dropped s = is_Total s \<and> is_Total s = length events \<and> is_Accepted s \<le> 500
    \<and> is_Accepted s = length (acceptedEvents env events s)
    \<and> (ee_dbEnabled env \<longrightarrow> (\<exists>rows. es_Rows st' = es_Rows st @ rows
         \<and> list_all2 (storedAs env) (acceptedEvents env events s) rows))"
proof (cases "ee_bridgeEnabled env \<and> events \<noteq> []")
  case False
  then show ?thesis
    using assms by (auto simp: IngestProjectEvents_def acceptedEvents_def unreported_def Let_def split: if_splits)
next
  case True
  let ?s0 = "\<lparr>is_ClusterID = TrimSpace clusterID, is_Total = length events, is_Accepted = 0, is_Dropped = 0,
    is_Status = [], is_Errors = []\<rparr>"
  let ?xs = "List.enumerate 0 (take 500 events)"
  define d where "d = length events - 500"
  define s1 where "s1 = (if length events > 500 then ?s0\<lparr>is_Dropped := d, is_Errors := [(-1, BatchTruncated d)]\<rparr> else ?s0)"
  have s1: "accounted env st d [] (st, s1)" "is_Total s1 = length events"
    by (auto simp: accounted_def unreported_def s1_def d_def)
  have r: "fold (ingestOne env) ?xs (st, s1) = (st', s)"
    using assms True by (auto simp: IngestProjectEvents_def Let_def maxEventIngestBatch_def s1_def d_def split: prod.splits if_splits)
  have "d + length ?xs = length events" by (simp add: d_def)
  moreover have "accounted env st d ?xs (st', s)" using fold_ingest [OF s1(1), of ?xs] r by simp
  moreover have "is_Total s = length events" using fold_total [of env ?xs "(st, s1)"] r s1(2) by simp
  moreover have "length (unreported errs xs) \<le> length xs" for errs xs by (simp add: unreported_def)
  then have "length (unreported (is_Errors s) ?xs) \<le> 500"
    by (rule order_trans) simp
  ultimately show ?thesis using True by (auto simp: accounted_def acceptedEvents_def)
qed

definition exEventEnv :: event_env where
  "exEventEnv = \<lparr>ee_dbEnabled = True, ee_bridgeEnabled = True, ee_actor = [], ee_newID = (\<lambda>n. decString (int n)),
     ee_clock = (\<lambda>n. int n), ee_validUUID = (\<lambda>_. True), ee_formatTime = (\<lambda>t. decString t),
     ee_parseTime = (\<lambda>s. if list_all is_digit s then Some (foldl (\<lambda>v c. 10 * v + (ord c - 48)) 0 s) else None)\<rparr>"

definition exInput :: "string \<Rightarrow> EventInput" where
  "exInput message = \<lparr>ei_ProjectID = ''p'', ei_AppID = [], ei_ActorUserID = [], ei_Kind = ''Deployed'', ei_Severity = [],
     ei_Message = message, ei_Meta = []\<rparr>"

definition exEvents :: event_state where
  "exEvents = \<lparr>es_Rows = [], es_Count = 0, es_Log = []\<rparr>"

theorem ingest_accounts_for_every_event_witness:
  "\<exists>st' s err rows. IngestProjectEvents exEventEnv ''c'' [exInput ''a'', exInput '' '', exInput ''b''] exEvents = (st', s, err)
     \<and> is_Accepted s + is_Dropped s = 3 \<and> es_Rows st' = rows
     \<and> list_all2 (storedAs exEventEnv) (acceptedEvents exEventEnv [exInput ''a'', exInput '' '', exInput ''b''] s) rows"
proof -
  let ?events = "[exInput ''a'', exInput '' '', exInput ''b'']"
  obtain st' s err where i: "IngestProjectEvents exEventEnv ''c'' ?events exEvents = (st', s, err)" by (metis prod_cases3)
  have "ee_dbEnabled exEventEnv" "es_Rows exEvents = []" by (simp_all add: exEventEnv_def exEvents_def)
  with ingest_accounts_for_every_event [OF i] i show ?thesis by auto
qed

section \<open>Redaction\<close>

text \<open>
  The value at the end of a path through nested \<open>map[string]any\<close>, and the value at the end of
  a path through the objects of a document.
\<close>

fun metaPath :: "meta_value \<Rightarrow> string list \<Rightarrow> meta_value option" where
  "metaPath v [] = Some v"
| "metaPath (MetaMap m) (k # ks) = (case map_of m k of None \<Rightarrow> None | Some v \<Rightarrow> metaPath v ks)"
| "metaPath v (k # ks) = None"

fun jpath :: "json \<Rightarrow> string list \<Rightarrow> json option" where
  "jpath v [] = Some v"
| "jpath (JObj m) (k # ks) = (case map_of m k of None \<Rightarrow> None | Some v \<Rightarrow> jpath v ks)"
| "jpath v (k # ks) = None"

lemma map_of_redactEntries:
  "map_of (redactEntries m) k =
    map_option (\<lambda>v. if shouldRedactKey k then MetaValue (JStr ''[redacted]'') else redactValue v) (map_of m k)"
  by (induction m) (auto split: prod.splits)

lemma metaPath_redactValue:
  "metaPath (redactValue v) (ks @ [k]) = Some x \<Longrightarrow> shouldRedactKey k \<Longrightarrow> x = MetaValue (JStr ''[redacted]'')"
proof (induction ks arbitrary: v)
  case Nil
  then show ?case by (cases v) (auto simp: map_of_redactEntries split: if_splits option.splits)
next
  case (Cons l ks)
  obtain m where m: "v = MetaMap m" "m \<noteq> []" using Cons.prems by (cases v) (auto split: if_splits)
  then obtain w where w: "map_of m l = Some w"
    "metaPath (if shouldRedactKey l then MetaValue (JStr ''[redacted]'') else redactValue w) (ks @ [k]) = Some x"
    using Cons.prems by (auto simp: map_of_redactEntries split: option.splits)
  show ?case
  proof (cases "shouldRedactKey l")
    case True
    then show ?thesis using w(2) by (cases ks) simp_all
  next
    case False
    then show ?thesis using Cons.IH [of w] Cons.prems(2) w(2) by simp
  qed
qed

text \<open>In a decoded document every object is such a map, so the two paths agree.\<close>

fun decoded :: "meta_value \<Rightarrow> bool" where
  "decoded (MetaMap m) = list_all (\<lambda>(k, v). decoded v) m"
| "decoded (MetaValue v) = (case v of JObj _ \<Rightarrow> False | _ \<Rightarrow> True)"

lemma decodedMeta_decoded: "decoded (decodedMeta v)"
  by (induction v) (auto simp: list_all_iff split: prod.splits)

lemma redact_decoded:
  "list_all (\<lambda>(k, v). decoded v) m \<Longrightarrow> list_all (\<lambda>(k, v). decoded v) (redactEntries m)"
  "decoded v \<Longrightarrow> decoded (redactValue v)"
  by (induction m and v rule: redactEntries_redactValue.induct) auto

lemma jpath_metaDoc: "decoded v \<Longrightarrow> jpath (metaDoc v) ks = map_option metaDoc (metaPath v ks)"
proof (induction ks arbitrary: v)
  case (Cons k ks)
  show ?case
  proof (cases v)
    case (MetaMap m)
    have "map_of (map (\<lambda>(k, v). (k, metaDoc v)) m) k = map_option metaDoc (map_of m k)" by (induction m) auto
    moreover have "decoded w" if "map_of m k = Some w" for w
      using Cons.prems map_of_SomeD [OF that] by (auto simp: MetaMap list_all_iff)
    ultimately show ?thesis using Cons.IH by (simp add: MetaMap split: option.split)
  next
    case (MetaValue j)
    then show ?thesis using Cons.prems by (cases j) simp_all
  qed
qed simp

lemma redactMeta_map: "meta \<noteq> [] \<Longrightarrow> redactValue (MetaMap meta) = MetaMap (redactMeta meta)"
  by (simp add: redactMeta_def)

lemma metaPath_redactMeta:
  assumes "metaPath (MetaMap (redactMeta meta)) (ks @ [k]) = Some x" "shouldRedactKey k"
  shows "x = MetaValue (JStr ''[redacted]'')"
proof (cases "meta = []")
  case True
  then show ?thesis using assms by (cases ks) (simp_all add: redactMeta_def)
next
  case False
  then show ?thesis using metaPath_redactValue [OF _ assms(2), of "MetaMap meta" ks x] assms(1) redactMeta_map by metis
qed

text \<open>
  (C28) Redaction follows the nested \<open>map[string]any\<close> of the metadata: the value under a key
  that contains \<open>secret\<close>, \<open>token\<close> or \<open>password\<close>, in any case and at any depth of such maps, is
  replaced.  A value of any other type under another key is copied as it is, an array or a
  \<open>map[string]string\<close> with the secrets in it.  In a listing, where the metadata was decoded
  from the table, this covers every object of the document: there the value under such a key
  is replaced at any depth of objects.
\<close>

theorem nested_secrets_are_redacted:
  assumes "shouldRedactKey k"
  shows "(\<forall>x. metaPath (MetaMap (redactMeta meta)) (ks @ [k]) = Some x \<longrightarrow> x = MetaValue (JStr ''[redacted]''))
    \<and> (\<not> shouldRedactKey l \<longrightarrow> redactMeta [(l, MetaValue v)] = [(l, MetaValue v)])
    \<and> (ev_Meta row = storedMeta meta \<longrightarrow> (\<forall>x. jpath (metaDoc (MetaMap (ev_Meta (presentEvent row)))) (ks @ [k]) = Some x
        \<longrightarrow> x = JStr ''[redacted]''))"
proof -
  have "x = JStr ''[redacted]''"
    if "ev_Meta row = storedMeta meta" "jpath (metaDoc (MetaMap (ev_Meta (presentEvent row)))) (ks @ [k]) = Some x" for x
  proof -
    have "list_all (\<lambda>(k, v). decoded v) (storedMeta meta)"
      using decodedMeta_decoded by (auto simp: storedMeta_def list_all_iff)
    then have "decoded (MetaMap (redactMeta (storedMeta meta)))" using redact_decoded(1) by (simp add: redactMeta_def)
    note path = that(2) and jpath_metaDoc [OF this, of "ks @ [k]"]
    moreover have "ev_Meta (presentEvent row) = redactMeta (storedMeta meta)" using that(1) by (simp add: presentEvent_def)
    ultimately have "map_option metaDoc (metaPath (MetaMap (redactMeta (storedMeta meta))) (ks @ [k])) = Some x"
      using path by (simp only:)
    then obtain y where "metaPath (MetaMap (redactMeta (storedMeta meta))) (ks @ [k]) = Some y" "x = metaDoc y"
      unfolding map_option_eq_Some by metis
    with metaPath_redactMeta [OF this(1) assms] show ?thesis by simp
  qed
  moreover have "\<not> shouldRedactKey l \<longrightarrow> redactMeta [(l, MetaValue v)] = [(l, MetaValue v)]" by (simp add: redactMeta_def)
  ultimately show ?thesis using metaPath_redactMeta [OF _ assms] by blast
qed

theorem nested_secrets_are_redacted_witness:
  "metaPath (MetaMap (redactMeta [(''git'', MetaMap [(''Token'', MetaValue (JStr ''t0p''))])])) [''git'', ''Token'']
     = Some (MetaValue (JStr ''[redacted]''))
   \<and> redactMeta [(''overrides'', MetaValue (jMap [(''secrets'', ''5'')]))] = [(''overrides'', MetaValue (jMap [(''secrets'', ''5'')]))]
   \<and> jpath (metaDoc (MetaMap (redactMeta (storedMeta [(''overrides'', MetaValue (jMap [(''secrets'', ''5'')]))])))) [''overrides'', ''secrets'']
     = Some (JStr ''[redacted]'')"
proof -
  let ?meta = "[(''overrides'', MetaValue (jMap [(''secrets'', ''5'')]))]"
  let ?row = "\<lparr>ev_ID = [], ev_ProjectID = [], ev_AppID = [], ev_ActorUserID = [], ev_Kind = [], ev_Severity = [], ev_Message = [],
    ev_Meta = storedMeta ?meta, ev_At = 0\<rparr>"
  have k: "shouldRedactKey ''Token''" "shouldRedactKey ''secrets''" "\<not> shouldRedactKey ''overrides''" "\<not> shouldRedactKey ''git''"
    by code_simp+
  obtain x where "metaPath (MetaMap (redactMeta [(''git'', MetaMap [(''Token'', MetaValue (JStr ''t0p''))])])) ([''git''] @ [''Token'']) = Some x"
    using k(4) by (simp add: redactMeta_def)
  moreover obtain y where "jpath (metaDoc (MetaMap (redactMeta (storedMeta ?meta)))) ([''overrides''] @ [''secrets'']) = Some y"
    using k(3) by (simp add: redactMeta_def storedMeta_def jMap_def)
  ultimately show ?thesis
    using nested_secrets_are_redacted [OF k(1), of "[(''git'', MetaMap [(''Token'', MetaValue (JStr ''t0p''))])]" "[''git'']"
        "''overrides''" "jMap [(''secrets'', ''5'')]"]
      nested_secrets_are_redacted [OF k(2), of ?meta "[''overrides'']" "''overrides''" JNull ?row] k(3)
    by (auto simp: presentEvent_def)
qed

section \<open>Following the cursors of the listing\<close>

definition eventPage :: "event_env \<Rightarrow> event_state \<Rightarrow> string \<Rightarrow> ProjectEventFilter \<Rightarrow> string option \<Rightarrow> ProjectEvent list \<times> string option" where
  "eventPage env st projectID flt c =
    (case Store_ListProjectEvents env st projectID (flt\<lparr>ef_Cursor := (case c of None \<Rightarrow> [] | Some t \<Rightarrow> t)\<rparr>) of
       Inl _ \<Rightarrow> ([], None)
     | Inr p \<Rightarrow> (ep_Events p, if ep_NextCursor p = [] then None else Some (ep_NextCursor p)))"

definition eventListing :: "event_state \<Rightarrow> string \<Rightarrow> ProjectEventFilter \<Rightarrow> ProjectEvent list" where
  "eventListing st projectID flt = orderDesc rowKey (filter (eventMatches projectID flt) (es_Rows st))"

text \<open>The text of a time is read back and has no bar; identifiers are texts without bars and blanks.\<close>

definition timeText :: "event_env \<Rightarrow> bool" where
  "timeText env \<longleftrightarrow> (\<forall>t. ee_parseTime env (ee_formatTime env t) = Some t \<and> CHR ''|'' \<notin> set (ee_formatTime env t))"

definition plainID :: "string \<Rightarrow> bool" where
  "plainID i \<longleftrightarrow> i \<noteq> [] \<and> TrimSpace i = i \<and> CHR ''|'' \<notin> set i"

lemma cursor_round_trip:
  assumes "timeText env" "plainID i"
  shows "decodeEventCursor env (encodeEventCursor env t i) = Some (t, i)" "TrimSpace (encodeEventCursor env t i) \<noteq> []"
proof -
  have "Split (ee_formatTime env t @ CHR ''|'' # i) (CHR ''|'') = [ee_formatTime env t, i]"
    using assms by (simp add: timeText_def plainID_def Split_append_sep Split_no_occurrence)
  then show "decodeEventCursor env (encodeEventCursor env t i) = Some (t, i)"
    using assms by (simp add: decodeEventCursor_def encodeEventCursor_def timeText_def plainID_def)
  have "\<not> is_space CHR ''|''" by (simp add: is_space_def)
  then show "TrimSpace (encodeEventCursor env t i) \<noteq> []"
    using assms(2) by (auto simp: TrimSpace_eq_Nil encodeEventCursor_def plainID_def)
qed

lemma eventMatches_cursor [simp]: "eventMatches p (flt\<lparr>ef_Cursor := c\<rparr>) e = eventMatches p flt e"
  by (simp add: eventMatches_def)

lemma cursorAdmits_encode:
  assumes "timeText env" "plainID (ev_ID r)"
  shows "cursorAdmits env (encodeEventCursor env (ev_At r) (ev_ID r)) e \<longleftrightarrow> rowKey e < rowKey r"
  using cursor_round_trip [OF assms, of "ev_At r"] by (simp add: cursorAdmits_def rowKey_def less_prod_def')

lemma cursorValid_encode:
  assumes "timeText env" "plainID i"
  shows "cursorValid env (encodeEventCursor env t i) \<longleftrightarrow> ee_validUUID env i"
  using cursor_round_trip [OF assms, of t] by (simp add: cursorValid_def)

lemma eventPage_invalid:
  assumes "timeText env" "plainID i" "\<not> ee_validUUID env i"
  shows "eventPage env st p flt (Some (encodeEventCursor env t i)) = ([], None)"
  using cursorValid_encode [OF assms(1,2)] assms(3) by (simp add: eventPage_def Store_ListProjectEvents_def)

lemma eventPage_after:
  assumes "timeText env" "TrimSpace p \<noteq> []" "ee_validUUID env p"
    and "\<forall>r \<in> set (es_Rows st). plainID (ev_ID r)" "r \<in> set (es_Rows st)" "ee_validUUID env (ev_ID r)"
  shows "eventPage env st p flt (Some (encodeEventCursor env (ev_At r) (ev_ID r))) =
    (let rest = filter (\<lambda>e. rowKey e < rowKey r) (eventListing st p flt); l = pageLimit (ef_Limit flt) in
     (take l rest, if l < length rest then Some (encodeEventCursor env (ev_At (rest ! l)) (ev_ID (rest ! l))) else None))"
proof -
  let ?rest = "filter (\<lambda>e. rowKey e < rowKey r) (eventListing st p flt)"
  have "orderDesc rowKey (filter (\<lambda>e. eventMatches p flt e \<and> cursorAdmits env (encodeEventCursor env (ev_At r) (ev_ID r)) e) (es_Rows st)) = ?rest"
    using cursorAdmits_encode [OF assms(1)] assms(4,5)
    by (simp add: eventListing_def filter_orderDesc conj_commute)
  moreover have "plainID (ev_ID (?rest ! i))" if "i < length ?rest" for i
    using nth_mem [OF that] assms(4) by (auto simp: eventListing_def)
  then have "encodeEventCursor env t (ev_ID (?rest ! i)) \<noteq> []" if "i < length ?rest" for t i
    using that by (auto simp: encodeEventCursor_def plainID_def)
  ultimately show ?thesis
    using assms(2,3) cursorValid_encode [OF assms(1), of "ev_ID r"] assms(4-6)
    by (auto simp: eventPage_def Store_ListProjectEvents_def Let_def min_def)
qed

lemma follow_below:
  assumes "timeText env" "TrimSpace p \<noteq> []" "ee_validUUID env p" "\<forall>r \<in> set (es_Rows st). plainID (ev_ID r)"
  shows "r \<in> set (es_Rows st) \<Longrightarrow>
    \<forall>e \<in> set (followPages (eventPage env st p flt) n (Some (encodeEventCursor env (ev_At r) (ev_ID r)))). rowKey e < rowKey r"
proof (induction n arbitrary: r)
  case (Suc n)
  let ?rest = "filter (\<lambda>e. rowKey e < rowKey r) (eventListing st p flt)" and ?l = "pageLimit (ef_Limit flt)"
  have below: "e \<in> set ?rest \<Longrightarrow> rowKey e < rowKey r \<and> e \<in> set (es_Rows st)" for e
    by (simp add: eventListing_def)
  consider (invalid) "\<not> ee_validUUID env (ev_ID r)" | (more) "ee_validUUID env (ev_ID r)" "?l < length ?rest"
    | (final) "ee_validUUID env (ev_ID r)" "\<not> ?l < length ?rest" by blast
  then show ?case
  proof cases
    case invalid
    then show ?thesis using eventPage_invalid [OF assms(1)] assms(4) Suc.prems by simp
  next
    case more
    then have m: "?rest ! ?l \<in> set ?rest" by (intro nth_mem)
    have "rowKey e < rowKey r" if "rowKey e < rowKey (?rest ! ?l)" for e
      using that below [OF m] by (meson order.strict_trans)
    moreover have "e \<in> set (take ?l ?rest) \<Longrightarrow> rowKey e < rowKey r" for e
      using below [of e] in_set_takeD by metis
    moreover have "followPages (eventPage env st p flt) (Suc n) (Some (encodeEventCursor env (ev_At r) (ev_ID r))) =
        take ?l ?rest @ followPages (eventPage env st p flt) n
          (Some (encodeEventCursor env (ev_At (?rest ! ?l)) (ev_ID (?rest ! ?l))))"
      unfolding followPages.simps eventPage_after [OF assms Suc.prems more(1)] Let_def if_P [OF more(2)] by (simp only: prod.case option.case)
    ultimately show ?thesis
      using Suc.IH [of "?rest ! ?l"] below [OF m] by (metis Un_iff set_append)
  next
    case final
    then have "followPages (eventPage env st p flt) (Suc n) (Some (encodeEventCursor env (ev_At r) (ev_ID r))) = take ?l ?rest"
      unfolding followPages.simps eventPage_after [OF assms Suc.prems final(1)] Let_def if_not_P [OF final(2)] by (simp only: prod.case option.case)
    then show ?thesis using below in_set_takeD by metis
  qed
qed simp

lemma eventPage_first:
  assumes "TrimSpace p \<noteq> []" "ee_validUUID env p" "\<forall>r \<in> set (es_Rows st). plainID (ev_ID r)"
  shows "eventPage env st p flt None =
    (let L = eventListing st p flt; l = pageLimit (ef_Limit flt) in
     (take l L, if l < length L then Some (encodeEventCursor env (ev_At (L ! l)) (ev_ID (L ! l))) else None))"
proof -
  have "encodeEventCursor env t (ev_ID (eventListing st p flt ! i)) \<noteq> []" if "i < length (eventListing st p flt)" for t i
    using nth_mem [OF that] assms(3) by (auto simp: eventListing_def encodeEventCursor_def plainID_def)
  then show ?thesis
    using assms(1,2) by (auto simp: eventPage_def Store_ListProjectEvents_def Let_def cursorAdmits_def cursorValid_def min_def
        simp flip: eventListing_def)
qed

text \<open>
  (C29) Following the cursors loses events.  The cursor names the first event that did not fit
  on the page, and the next page starts strictly below the cursor: whenever the matching
  events of a project do not fit on one page, a stored event that matches the filter is on
  no page, however many pages are fetched.
\<close>

theorem paging_loses_events:
  assumes "timeText env" "TrimSpace p \<noteq> []" "ee_validUUID env p" "\<forall>r \<in> set (es_Rows st). plainID (ev_ID r)"
    and "distinct (map rowKey (es_Rows st))"
    and "pageLimit (ef_Limit flt) < length (filter (eventMatches p flt) (es_Rows st))"
  shows "\<exists>e \<in> set (es_Rows st). eventMatches p flt e
    \<and> (\<forall>n. e \<notin> set (followPages (eventPage env st p flt) n None))"
proof -
  let ?L = "eventListing st p flt" and ?l = "pageLimit (ef_Limit flt)"
  have l: "?l < length ?L" using assms(6) by (simp add: eventListing_def)
  have d: "descending rowKey ?L"
    unfolding eventListing_def using assms(5) by (intro orderDesc_descending) (simp add: distinct_map_filter)
  let ?e = "?L ! ?l"
  have e: "?e \<in> set (es_Rows st)" "eventMatches p flt ?e"
    using nth_mem [OF l] by (auto simp: eventListing_def)
  have "?e \<notin> set (take ?l ?L)"
    using descending_distinct [OF d] l by (auto simp: in_set_conv_nth nth_eq_iff_index_eq)
  then have "?e \<notin> set (followPages (eventPage env st p flt) n None)" for n
    using follow_below [OF assms(1-4) e(1)] l
    by (cases n) (auto simp: eventPage_first [OF assms(2-4)] Let_def)
  then show ?thesis using e by blast
qed

definition exRow :: "int \<Rightarrow> ProjectEvent" where
  "exRow n = \<lparr>ev_ID = decString n, ev_ProjectID = ''p'', ev_AppID = [], ev_ActorUserID = [], ev_Kind = ''k'', ev_Severity = ''INFO'',
     ev_Message = ''m'', ev_Meta = [], ev_At = n\<rparr>"

definition exFilter :: ProjectEventFilter where
  "exFilter = \<lparr>ef_Kinds = [], ef_Severities = [], ef_ActorUserID = [], ef_Since = None, ef_Limit = 2, ef_Cursor = [], ef_Search = []\<rparr>"

text \<open>A text form of times that can be read back: unary numbers.\<close>

definition exTextEnv :: event_env where
  "exTextEnv = exEventEnv\<lparr>ee_formatTime := (\<lambda>t. if t < 0 then CHR ''-'' # replicate (nat (- t)) CHR ''i'' else replicate (nat t) CHR ''i''),
     ee_parseTime := (\<lambda>s. case s of [] \<Rightarrow> Some 0 | c # r \<Rightarrow> if c = CHR ''-'' then Some (- int (length r)) else Some (int (length s)))\<rparr>"

lemma exTextEnv_times: "timeText exTextEnv"
proof -
  have "(case replicate (nat t) CHR ''i'' of [] \<Rightarrow> Some 0 | c # r \<Rightarrow> if c = CHR ''-'' then Some (- int (length r))
      else Some (int (length (replicate (nat t) CHR ''i'')))) = Some t" if "0 \<le> t" for t
    using that by (cases "nat t") (auto split: list.split)
  then show ?thesis by (auto simp: timeText_def exTextEnv_def split: list.split)
qed

theorem paging_loses_events_witness:
  "\<exists>e. e \<in> set [exRow 1, exRow 2, exRow 3, exRow 4]
     \<and> (\<forall>n. e \<notin> set (followPages (eventPage exTextEnv \<lparr>es_Rows = [exRow 1, exRow 2, exRow 3, exRow 4], es_Count = 4, es_Log = []\<rparr>
          ''p'' exFilter) n None))"
proof -
  let ?st = "\<lparr>es_Rows = [exRow 1, exRow 2, exRow 3, exRow 4], es_Count = 4, es_Log = []\<rparr>"
  have c: "TrimSpace ''p'' \<noteq> []" "\<forall>r \<in> set (es_Rows ?st). plainID (ev_ID r)" "distinct (map rowKey (es_Rows ?st))"
    "pageLimit (ef_Limit exFilter) < length (filter (eventMatches ''p'' exFilter) (es_Rows ?st))"
    by code_simp+
  have u: "ee_validUUID exTextEnv ''p''" by (simp add: exTextEnv_def exEventEnv_def)
  show ?thesis using paging_loses_events [OF exTextEnv_times c(1) u c(2-4)] by auto
qed

end
