(* ===== verification/Releases.thy ===== *)
theory Releases
  imports Json Paging "HOL-Library.Monad_Syntax"
begin

text \<open>
  Releases of an application: the deployment plan and the record of a release
  (\<open>internal/service/apps.go\<close>, \<open>releases.go\<close>), the JSON document of its specification, the
  table of releases (\<open>internal/store/releases.go\<close>) and its paged listing.

  A Go map is an association list in key order, a nil map or slice the empty list.  A 32-bit
  number is an \<open>int\<close>, and decoding it checks the range.
\<close>

section \<open>Types\<close>

record AppPort =
  po_ContainerPort :: int
  po_ServicePort :: int
  po_Protocol :: string
  po_ServiceType :: string

record LoadBalancerSummary =
  lb_Requested :: int
  lb_Existing :: int
  lb_Limit :: int

record RenderedObjectSummary =
  ro_Kind :: string
  ro_Name :: string
  ro_Namespace :: string

record gitSourcePlan =
  gp_URL :: string
  gp_Ref :: string
  gp_Path :: string
  gp_Mode :: string
  gp_CredentialID :: string
  gp_InsecureSkipTLS :: bool
  gp_Commit :: string
  gp_referenceName :: string
  gp_checkoutHash :: string

record ociBundlePlan =
  op_Ref :: string
  op_CredentialID :: string
  op_Insecure :: bool
  op_Digest :: string
  op_MediaType :: string

record appDeploymentPlan =
  pl_AppID :: string
  pl_Name :: string
  pl_ProjectID :: string
  pl_Namespace :: string
  pl_KubeName :: string
  pl_Replicas :: int
  pl_Resources :: "(string \<times> string) list"
  pl_Ports :: "AppPort list"
  pl_Env :: "(string \<times> string) list"
  pl_Secrets :: "string list"
  pl_Flavor :: string
  pl_Repo :: string
  pl_WebhookSecret :: string
  pl_Domain :: string
  pl_Host :: string
  pl_SourceType :: string
  pl_Image :: string
  pl_Manifests :: "string list"
  pl_HelmSpec :: jobject
  pl_HelmValues :: jobject
  pl_HelmChart :: string
  pl_HelmRendered :: string
  pl_Git :: "gitSourcePlan option"
  pl_OciBundle :: "ociBundlePlan option"
  pl_RenderedObjs :: "RenderedObjectSummary list"
  pl_LBSummary :: LoadBalancerSummary
  pl_Warnings :: "string list"
  pl_SBOM :: jobject

record ReleaseGitSource =
  rg_URL :: string
  rg_Ref :: string
  rg_Commit :: string
  rg_Path :: string
  rg_Mode :: string
  rg_CredentialID :: string

record ReleaseOCIBundle =
  rb_Ref :: string
  rb_Digest :: string
  rb_CredentialID :: string
  rb_Insecure :: bool
  rb_MediaType :: string

record ReleaseSource =
  rs_Type :: string
  rs_Image :: string
  rs_Helm :: jobject
  rs_Manifests :: "string list"
  rs_Git :: "ReleaseGitSource option"
  rs_OciBundle :: "ReleaseOCIBundle option"

record ReleaseSpec =
  sp_Name :: string
  sp_KubeName :: string
  sp_Flavor :: string
  sp_Resources :: "(string \<times> string) list"
  sp_Replicas :: int
  sp_Env :: "(string \<times> string) list"
  sp_Secrets :: "string list"
  sp_Ports :: "AppPort list"
  sp_Domain :: string
  sp_Host :: string
  sp_Repo :: string
  sp_Source :: ReleaseSource

section \<open>The document of a specification\<close>

text \<open>Fields tagged \<open>omitempty\<close> are left out when they are zero.\<close>

definition omitStr :: "string \<Rightarrow> string \<Rightarrow> jobject" where
  "omitStr k s = (if s = [] then [] else [(k, JStr s)])"

definition omitMap :: "string \<Rightarrow> (string \<times> string) list \<Rightarrow> jobject" where
  "omitMap k m = (if m = [] then [] else [(k, jMap m)])"

definition omitList :: "string \<Rightarrow> string list \<Rightarrow> jobject" where
  "omitList k xs = (if xs = [] then [] else [(k, jList xs)])"

definition omitOpt :: "string \<Rightarrow> ('a \<Rightarrow> jobject) \<Rightarrow> 'a option \<Rightarrow> jobject" where
  "omitOpt k f v = (case v of None \<Rightarrow> [] | Some x \<Rightarrow> [(k, JObj (f x))])"

definition encodePort :: "AppPort \<Rightarrow> jobject" where
  "encodePort p = [(''containerPort'', JNum (po_ContainerPort p)), (''servicePort'', JNum (po_ServicePort p))]
     @ omitStr ''protocol'' (po_Protocol p) @ omitStr ''serviceType'' (po_ServiceType p)"

definition encodeGit :: "ReleaseGitSource \<Rightarrow> jobject" where
  "encodeGit g = [(''url'', JStr (rg_URL g))] @ omitStr ''ref'' (rg_Ref g) @ omitStr ''commit'' (rg_Commit g)
     @ omitStr ''path'' (rg_Path g) @ omitStr ''mode'' (rg_Mode g) @ omitStr ''credentialId'' (rg_CredentialID g)"

definition encodeBundle :: "ReleaseOCIBundle \<Rightarrow> jobject" where
  "encodeBundle b = [(''ref'', JStr (rb_Ref b))] @ omitStr ''digest'' (rb_Digest b)
     @ omitStr ''credentialId'' (rb_CredentialID b) @ (if rb_Insecure b then [(''insecure'', JBool True)] else [])
     @ omitStr ''mediaType'' (rb_MediaType b)"

definition encodeSource :: "ReleaseSource \<Rightarrow> jobject" where
  "encodeSource s = [(''type'', JStr (rs_Type s))] @ omitStr ''image'' (rs_Image s)
     @ (if rs_Helm s = [] then [] else [(''helm'', JObj (rs_Helm s))]) @ omitList ''manifests'' (rs_Manifests s)
     @ omitOpt ''git'' encodeGit (rs_Git s) @ omitOpt ''ociBundle'' encodeBundle (rs_OciBundle s)"

definition encodeSpec :: "ReleaseSpec \<Rightarrow> jobject" where
  "encodeSpec s = [(''name'', JStr (sp_Name s)), (''kubeName'', JStr (sp_KubeName s))]
     @ omitStr ''flavor'' (sp_Flavor s) @ omitMap ''resources'' (sp_Resources s)
     @ [(''replicas'', JNum (sp_Replicas s))] @ omitMap ''env'' (sp_Env s) @ omitList ''secrets'' (sp_Secrets s)
     @ (if sp_Ports s = [] then [] else [(''ports'', JArr (map (JObj \<circ> encodePort) (sp_Ports s)))])
     @ omitStr ''domain'' (sp_Domain s) @ omitStr ''host'' (sp_Host s) @ omitStr ''repo'' (sp_Repo s)
     @ [(''source'', JObj (encodeSource (sp_Source s)))]"

text \<open>
  Decoding into a struct: an absent field keeps its zero value, a value of another type is
  an error.  The documents are written by the encoder, so field names match exactly.
\<close>

definition field :: "(json \<Rightarrow> 'a option) \<Rightarrow> 'a \<Rightarrow> jobject \<Rightarrow> string \<Rightarrow> 'a option" where
  "field dec zero m k = (case map_of m k of None \<Rightarrow> Some zero | Some v \<Rightarrow> dec v)"

definition int32 :: "json \<Rightarrow> int option" where
  "int32 v = (case asNum v of None \<Rightarrow> None
     | Some n \<Rightarrow> if - 2147483648 \<le> n \<and> n \<le> 2147483647 then Some n else None)"

fun asObj :: "'a \<Rightarrow> (jobject \<Rightarrow> 'a option) \<Rightarrow> json \<Rightarrow> 'a option" where
  "asObj zero f (JObj m) = f m"
| "asObj zero f JNull = Some zero"
| "asObj zero f _ = None"

fun asPtr :: "(jobject \<Rightarrow> 'a option) \<Rightarrow> json \<Rightarrow> 'a option option" where
  "asPtr f JNull = Some None"
| "asPtr f (JObj m) = map_option Some (f m)"
| "asPtr f _ = None"

fun asArr :: "(json \<Rightarrow> 'a option) \<Rightarrow> json \<Rightarrow> 'a list option" where
  "asArr f (JArr xs) = traverse f xs"
| "asArr f JNull = Some []"
| "asArr f _ = None"

fun asAnyMap :: "json \<Rightarrow> jobject option" where
  "asAnyMap (JObj m) = Some m"
| "asAnyMap JNull = Some []"
| "asAnyMap _ = None"

definition zeroPort :: AppPort where
  "zeroPort = \<lparr>po_ContainerPort = 0, po_ServicePort = 0, po_Protocol = [], po_ServiceType = []\<rparr>"

definition decodePort :: "jobject \<Rightarrow> AppPort option" where
  "decodePort m = do {
     c \<leftarrow> field int32 0 m ''containerPort''; s \<leftarrow> field int32 0 m ''servicePort'';
     p \<leftarrow> field asStr [] m ''protocol''; t \<leftarrow> field asStr [] m ''serviceType'';
     Some \<lparr>po_ContainerPort = c, po_ServicePort = s, po_Protocol = p, po_ServiceType = t\<rparr> }"

definition decodeGit :: "jobject \<Rightarrow> ReleaseGitSource option" where
  "decodeGit m = do {
     u \<leftarrow> field asStr [] m ''url''; r \<leftarrow> field asStr [] m ''ref''; c \<leftarrow> field asStr [] m ''commit'';
     p \<leftarrow> field asStr [] m ''path''; d \<leftarrow> field asStr [] m ''mode''; i \<leftarrow> field asStr [] m ''credentialId'';
     Some \<lparr>rg_URL = u, rg_Ref = r, rg_Commit = c, rg_Path = p, rg_Mode = d, rg_CredentialID = i\<rparr> }"

definition decodeBundle :: "jobject \<Rightarrow> ReleaseOCIBundle option" where
  "decodeBundle m = do {
     r \<leftarrow> field asStr [] m ''ref''; d \<leftarrow> field asStr [] m ''digest''; c \<leftarrow> field asStr [] m ''credentialId'';
     i \<leftarrow> field asBool False m ''insecure''; t \<leftarrow> field asStr [] m ''mediaType'';
     Some \<lparr>rb_Ref = r, rb_Digest = d, rb_CredentialID = c, rb_Insecure = i, rb_MediaType = t\<rparr> }"

definition decodeSource :: "jobject \<Rightarrow> ReleaseSource option" where
  "decodeSource m = do {
     t \<leftarrow> field asStr [] m ''type''; i \<leftarrow> field asStr [] m ''image''; h \<leftarrow> field asAnyMap [] m ''helm'';
     f \<leftarrow> field asStrList [] m ''manifests''; g \<leftarrow> field (asPtr decodeGit) None m ''git'';
     b \<leftarrow> field (asPtr decodeBundle) None m ''ociBundle'';
     Some \<lparr>rs_Type = t, rs_Image = i, rs_Helm = h, rs_Manifests = f, rs_Git = g, rs_OciBundle = b\<rparr> }"

definition zeroSource :: ReleaseSource where
  "zeroSource = \<lparr>rs_Type = [], rs_Image = [], rs_Helm = [], rs_Manifests = [], rs_Git = None, rs_OciBundle = None\<rparr>"

definition decodeSpec :: "jobject \<Rightarrow> ReleaseSpec option" where
  "decodeSpec m = do {
     n \<leftarrow> field asStr [] m ''name''; k \<leftarrow> field asStr [] m ''kubeName''; f \<leftarrow> field asStr [] m ''flavor'';
     r \<leftarrow> field asStrMap [] m ''resources''; c \<leftarrow> field int32 0 m ''replicas''; e \<leftarrow> field asStrMap [] m ''env'';
     s \<leftarrow> field asStrList [] m ''secrets''; p \<leftarrow> field (asArr (asObj zeroPort decodePort)) [] m ''ports'';
     d \<leftarrow> field asStr [] m ''domain''; h \<leftarrow> field asStr [] m ''host''; o' \<leftarrow> field asStr [] m ''repo'';
     q \<leftarrow> field (asObj zeroSource decodeSource) zeroSource m ''source'';
     Some \<lparr>sp_Name = n, sp_KubeName = k, sp_Flavor = f, sp_Resources = r, sp_Replicas = c, sp_Env = e, sp_Secrets = s,
           sp_Ports = p, sp_Domain = d, sp_Host = h, sp_Repo = o', sp_Source = q\<rparr> }"


subsection \<open>Round trip\<close>

lemma field_Nil [simp]: "field dec z [] k = Some z"
  by (simp add: field_def)

lemma field_Cons: "field dec z ((k', v) # m) k = (if k' = k then dec v else field dec z m k)"
  by (simp add: field_def)

lemma field_omitStr: "field dec z (omitStr k' s @ m) k = (if k' = k \<and> s \<noteq> [] then dec (JStr s) else field dec z m k)"
  by (simp add: omitStr_def field_Cons)

lemma field_omitMap: "field dec z (omitMap k' s @ m) k = (if k' = k \<and> s \<noteq> [] then dec (jMap s) else field dec z m k)"
  by (simp add: omitMap_def field_Cons)

lemma field_omitList: "field dec z (omitList k' s @ m) k = (if k' = k \<and> s \<noteq> [] then dec (jList s) else field dec z m k)"
  by (simp add: omitList_def field_Cons)

lemma field_omitOpt:
  "field dec z (omitOpt k' f v @ m) k = (case v of None \<Rightarrow> field dec z m k
     | Some x \<Rightarrow> if k' = k then dec (JObj (f x)) else field dec z m k)"
  by (simp add: omitOpt_def field_Cons split: option.split)

lemma field_if:
  "field dec z ((if P then [] else [(k', v)]) @ m) k = (if \<not> P \<and> k' = k then dec v else field dec z m k)"
  "field dec z ((if P then [(k', v)] else []) @ m) k = (if P \<and> k' = k then dec v else field dec z m k)"
  by (simp_all add: field_Cons)

lemmas field_simps' = field_Cons field_omitStr field_omitMap field_omitList field_omitOpt field_if

lemma field_end:
  "field dec z (omitStr k' s) k = (if k' = k \<and> s \<noteq> [] then dec (JStr s) else Some z)"
  "field dec z (omitOpt k' f v) k = (case v of None \<Rightarrow> Some z | Some x \<Rightarrow> if k' = k then dec (JObj (f x)) else Some z)"
  by (simp_all add: omitStr_def omitOpt_def field_Cons split: option.split)

definition in32 :: "int \<Rightarrow> bool" where
  "in32 n \<longleftrightarrow> - 2147483648 \<le> n \<and> n \<le> 2147483647"

lemma int32_JNum [simp]: "in32 n \<Longrightarrow> int32 (JNum n) = Some n"
  by (simp add: int32_def in32_def)

lemma decodePort_encode:
  "in32 (po_ContainerPort p) \<Longrightarrow> in32 (po_ServicePort p) \<Longrightarrow> decodePort (encodePort p) = Some p"
  by (simp add: decodePort_def encodePort_def field_simps' field_end)

lemma decodeGit_encode: "decodeGit (encodeGit g) = Some g"
  by (simp add: decodeGit_def encodeGit_def field_simps' field_end)

lemma decodeBundle_encode: "decodeBundle (encodeBundle b) = Some b"
  by (simp add: decodeBundle_def encodeBundle_def field_simps' field_end)

lemma decodeSource_encode: "decodeSource (encodeSource s) = Some s"
proof -
  have "field asStr [] (encodeSource s) ''type'' = Some (rs_Type s)" "field asStr [] (encodeSource s) ''image'' = Some (rs_Image s)"
    "field asAnyMap [] (encodeSource s) ''helm'' = Some (rs_Helm s)"
    "field asStrList [] (encodeSource s) ''manifests'' = Some (rs_Manifests s)"
    "field (asPtr decodeGit) None (encodeSource s) ''git'' = Some (rs_Git s)"
    "field (asPtr decodeBundle) None (encodeSource s) ''ociBundle'' = Some (rs_OciBundle s)"
    by (simp_all add: encodeSource_def field_simps' field_end decodeGit_encode decodeBundle_encode split: option.split)
  then show ?thesis by (simp add: decodeSource_def)
qed


definition specInRange :: "ReleaseSpec \<Rightarrow> bool" where
  "specInRange s \<longleftrightarrow> in32 (sp_Replicas s)
     \<and> list_all (\<lambda>p. in32 (po_ContainerPort p) \<and> in32 (po_ServicePort p)) (sp_Ports s)"

lemma decodePorts_encode:
  "list_all (\<lambda>p. in32 (po_ContainerPort p) \<and> in32 (po_ServicePort p)) ps \<Longrightarrow>
    traverse (asObj zeroPort decodePort) (map (JObj \<circ> encodePort) ps) = Some ps"
  using traverse_map [of ps "asObj zeroPort decodePort" "JObj \<circ> encodePort" id]
  by (simp add: list_all_iff decodePort_encode)

lemma decodeSpec_encode:
  assumes "specInRange s"
  shows "decodeSpec (encodeSpec s) = Some s"
proof -
  let ?m = "encodeSpec s"
  have "field asStr [] ?m ''name'' = Some (sp_Name s)" "field asStr [] ?m ''kubeName'' = Some (sp_KubeName s)"
    "field asStr [] ?m ''flavor'' = Some (sp_Flavor s)" "field asStrMap [] ?m ''resources'' = Some (sp_Resources s)"
    "field int32 0 ?m ''replicas'' = Some (sp_Replicas s)" "field asStrMap [] ?m ''env'' = Some (sp_Env s)"
    "field asStrList [] ?m ''secrets'' = Some (sp_Secrets s)"
    "field (asArr (asObj zeroPort decodePort)) [] ?m ''ports'' = Some (sp_Ports s)"
    "field asStr [] ?m ''domain'' = Some (sp_Domain s)" "field asStr [] ?m ''host'' = Some (sp_Host s)"
    "field asStr [] ?m ''repo'' = Some (sp_Repo s)"
    "field (asObj zeroSource decodeSource) zeroSource ?m ''source'' = Some (sp_Source s)"
    using assms
    by (simp_all add: encodeSpec_def field_simps' decodeSource_encode specInRange_def decodePorts_encode del: map_map)
  then show ?thesis by (simp add: decodeSpec_def)
qed

section \<open>The table\<close>

record Release =
  rl_ID :: string
  rl_ProjectID :: string
  rl_AppID :: string
  rl_Source :: string
  rl_SpecDigest :: string
  rl_RenderDigest :: string
  rl_Spec :: jobject
  rl_RenderedObjects :: "jobject list"
  rl_LoadBalancers :: jobject
  rl_Warnings :: "string list"
  rl_HelmChart :: "string option"
  rl_HelmValues :: jobject
  rl_HelmRenderSHA :: "string option"
  rl_ManifestsSHA :: "string option"
  rl_Repo :: "string option"
  rl_SBOM :: jobject
  rl_Status :: string
  rl_Message :: string
  rl_CreatedAt :: int

text \<open>The releases, the live apps and the apps marked as deleted with their projects, and the number of releases created.\<close>

record release_state =
  rt_Rows :: "Release list"
  rt_Apps :: "(string \<times> string) list"
  rt_DeletedApps :: "(string \<times> string) list"
  rt_Count :: nat

record release_env =
  re_newID :: "nat \<Rightarrow> string"
  re_clock :: "nat \<Rightarrow> int"

datatype release_error =
    ReleaseFieldRequired string | ReleaseDatabase | ReleaseNotFound | AppNotFound | AppProjectMismatch
  | InvalidCursor | CursorProjectMismatch | CursorAppMismatch | ReleaseDecode

definition trimmedOption :: "string option \<Rightarrow> string option" where
  "trimmedOption v = (case v of None \<Rightarrow> None | Some s \<Rightarrow> if TrimSpace s \<noteq> [] then Some (TrimSpace s) else None)"

definition defaultStatus :: "string \<Rightarrow> string" where
  "defaultStatus s = (if TrimSpace s = [] then ''succeeded'' else TrimSpace s)"

text \<open>The foreign keys ask for the project and the app; the identifier is the primary key.\<close>

definition CreateRelease :: "release_env \<Rightarrow> Release \<Rightarrow> release_state \<Rightarrow> release_state \<times> release_error option" where
  "CreateRelease env r st =
    (if TrimSpace (rl_ID r) = [] then (st, Some (ReleaseFieldRequired ''release id''))
     else if TrimSpace (rl_ProjectID r) = [] then (st, Some (ReleaseFieldRequired ''project id''))
     else if TrimSpace (rl_AppID r) = [] then (st, Some (ReleaseFieldRequired ''app id''))
     else if TrimSpace (rl_Source r) = [] then (st, Some (ReleaseFieldRequired ''source''))
     else if TrimSpace (rl_SpecDigest r) = [] then (st, Some (ReleaseFieldRequired ''spec digest''))
     else if TrimSpace (rl_RenderDigest r) = [] then (st, Some (ReleaseFieldRequired ''render digest''))
     else let row = r\<lparr>rl_HelmChart := trimmedOption (rl_HelmChart r), rl_HelmRenderSHA := trimmedOption (rl_HelmRenderSHA r),
                      rl_ManifestsSHA := trimmedOption (rl_ManifestsSHA r), rl_Repo := trimmedOption (rl_Repo r),
                      rl_Status := defaultStatus (rl_Status r), rl_CreatedAt := re_clock env (rt_Count st)\<rparr> in
     if rl_ID r \<in> rl_ID ` set (rt_Rows st) \<or> rl_AppID r \<notin> fst ` set (rt_Apps st @ rt_DeletedApps st)
        \<or> rl_ProjectID r \<notin> snd ` set (rt_Apps st @ rt_DeletedApps st)
     then (st, Some ReleaseDatabase)
     else (st\<lparr>rt_Rows := rt_Rows st @ [row], rt_Count := Suc (rt_Count st)\<rparr>, None))"

definition scanRelease :: "Release \<Rightarrow> Release" where
  "scanRelease r = r\<lparr>rl_Status := defaultStatus (rl_Status r), rl_Message := TrimSpace (rl_Message r)\<rparr>"

definition GetRelease :: "release_state \<Rightarrow> string \<Rightarrow> release_error + Release" where
  "GetRelease st rid =
    (if TrimSpace rid = [] then Inl (ReleaseFieldRequired ''release id'')
     else case find (\<lambda>r. rl_ID r = rid) (rt_Rows st) of None \<Rightarrow> Inl ReleaseNotFound | Some r \<Rightarrow> Inr (scanRelease r))"

definition releaseKey :: "Release \<Rightarrow> int \<times> string" where
  "releaseKey r = (rl_CreatedAt r, rl_ID r)"

text \<open>
  A cursor is the zero value or the creation time and identifier of a release; the time comes from the
  clock of the database and is not the zero time of Go.
\<close>

definition ListReleasesByApp ::
  "release_state \<Rightarrow> string \<Rightarrow> string \<Rightarrow> int \<Rightarrow> (string \<times> int) option \<Rightarrow> release_error + Release list" where
  "ListReleasesByApp st projectID appID limit cursor =
    (if TrimSpace projectID = [] then Inl (ReleaseFieldRequired ''project id'')
     else if TrimSpace appID = [] then Inl (ReleaseFieldRequired ''app id'')
     else let limit = (if limit \<le> 0 then 20 else limit); limit = (if limit > 200 then 200 else limit);
              base = filter (\<lambda>r. rl_ProjectID r = projectID \<and> rl_AppID r = appID) (rt_Rows st);
              rows = (case cursor of
                 Some (cid, cat) \<Rightarrow>
                   if TrimSpace cid \<noteq> []
                   then filter (\<lambda>r. rl_CreatedAt r < cat \<or> (rl_CreatedAt r = cat \<and> rl_ID r < cid)) base else base
               | None \<Rightarrow> base) in
          Inr (map scanRelease (take (nat limit) (orderDesc releaseKey rows))))"


section \<open>The service\<close>

record AppRelease =
  ar_ID :: string
  ar_ProjectID :: string
  ar_AppID :: string
  ar_CreatedAt :: int
  ar_Source :: string
  ar_SpecDigest :: string
  ar_RenderDigest :: string
  ar_Repo :: string
  ar_Spec :: ReleaseSpec
  ar_RenderedObjects :: "RenderedObjectSummary list"
  ar_LoadBalancers :: LoadBalancerSummary
  ar_Warnings :: "string list"
  ar_HelmChart :: string
  ar_HelmValues :: jobject
  ar_HelmRenderSHA :: string
  ar_ManifestsSHA :: string
  ar_SBOM :: jobject
  ar_Status :: string
  ar_Message :: string

definition encodeObject :: "RenderedObjectSummary \<Rightarrow> jobject" where
  "encodeObject o' = [(''kind'', JStr (ro_Kind o')), (''name'', JStr (ro_Name o'))] @ omitStr ''namespace'' (ro_Namespace o')"

definition decodeObject :: "jobject \<Rightarrow> RenderedObjectSummary option" where
  "decodeObject m = do {
     k \<leftarrow> field asStr [] m ''kind''; n \<leftarrow> field asStr [] m ''name''; s \<leftarrow> field asStr [] m ''namespace'';
     Some \<lparr>ro_Kind = k, ro_Name = n, ro_Namespace = s\<rparr> }"

fun toInt :: "json option \<Rightarrow> int option" where
  "toInt (Some (JNum n)) = Some n"
| "toInt _ = None"

definition decodeLoadBalancers :: "jobject \<Rightarrow> LoadBalancerSummary" where
  "decodeLoadBalancers m =
    (let get = (\<lambda>k. case toInt (map_of m k) of None \<Rightarrow> 0 | Some n \<Rightarrow> n) in
     \<lparr>lb_Requested = get ''requested'', lb_Existing = get ''existing'', lb_Limit = get ''limit''\<rparr>)"

definition orEmpty :: "string option \<Rightarrow> string" where
  "orEmpty v = (case v of None \<Rightarrow> [] | Some s \<Rightarrow> s)"

definition convertRelease :: "Release \<Rightarrow> AppRelease option" where
  "convertRelease rel =
    (case decodeSpec (rl_Spec rel) of None \<Rightarrow> None
     | Some spec \<Rightarrow>
         (case traverse decodeObject (rl_RenderedObjects rel) of None \<Rightarrow> None
          | Some objs \<Rightarrow>
              Some \<lparr>ar_ID = rl_ID rel, ar_ProjectID = rl_ProjectID rel, ar_AppID = rl_AppID rel, ar_CreatedAt = rl_CreatedAt rel,
                    ar_Source = rl_Source rel, ar_SpecDigest = rl_SpecDigest rel, ar_RenderDigest = rl_RenderDigest rel,
                    ar_Repo = orEmpty (rl_Repo rel), ar_Spec = spec, ar_RenderedObjects = objs,
                    ar_LoadBalancers = decodeLoadBalancers (rl_LoadBalancers rel), ar_Warnings = rl_Warnings rel,
                    ar_HelmChart = orEmpty (rl_HelmChart rel), ar_HelmValues = rl_HelmValues rel,
                    ar_HelmRenderSHA = orEmpty (rl_HelmRenderSHA rel), ar_ManifestsSHA = orEmpty (rl_ManifestsSHA rel),
                    ar_SBOM = rl_SBOM rel, ar_Status = defaultStatus (rl_Status rel), ar_Message = TrimSpace (rl_Message rel)\<rparr>))"

definition releaseLimit :: "int \<Rightarrow> int" where
  "releaseLimit l = (let l = (if l \<le> 0 then 20 else l) in if l > 100 then 100 else l)"

definition resolveCursor ::
  "release_state \<Rightarrow> string \<Rightarrow> string \<Rightarrow> string \<Rightarrow> release_error + (string \<times> int) option" where
  "resolveCursor st projectID appID cursor =
    (if cursor = [] then Inr None
     else case GetRelease st cursor of Inl _ \<Rightarrow> Inl InvalidCursor
       | Inr rel \<Rightarrow>
           if rl_ProjectID rel \<noteq> projectID then Inl CursorProjectMismatch
           else if rl_AppID rel \<noteq> appID then Inl CursorAppMismatch
           else Inr (Some (rl_ID rel, rl_CreatedAt rel)))"

text \<open>The page and the cursor for the next one, empty when there is none.\<close>

definition pageOf :: "int \<Rightarrow> Release list \<Rightarrow> release_error + AppRelease list \<times> string" where
  "pageOf limit rows =
    (let hasMore = int (length rows) > limit; rows = (if hasMore then take (nat limit) rows else rows) in
     case traverse convertRelease rows of None \<Rightarrow> Inl ReleaseDecode
     | Some rels \<Rightarrow> Inr (rels, if hasMore then rl_ID (last rows) else []))"

definition ListAppReleases ::
  "release_state \<Rightarrow> string \<Rightarrow> string \<Rightarrow> int \<Rightarrow> string \<Rightarrow> release_error + AppRelease list \<times> string" where
  "ListAppReleases st projectID0 appID0 limit0 cursor0 =
    (let projectID = TrimSpace projectID0; appID = TrimSpace appID0; limit = releaseLimit limit0; cursor = TrimSpace cursor0 in
     if projectID = [] \<or> appID = [] then Inl (ReleaseFieldRequired ''projectId and appId'')
     else case map_of (rt_Apps st) appID of None \<Rightarrow> Inl AppNotFound
     | Some appProject \<Rightarrow>
         if appProject \<noteq> projectID then Inl AppProjectMismatch
         else bindR (resolveCursor st projectID appID cursor)
           (\<lambda>cur. bindR (ListReleasesByApp st projectID appID (limit + 1) cur) (pageOf limit)))"

definition sha256Hex :: "string \<Rightarrow> string" where
  "sha256Hex s = hexEncode (sha256Sum (bytesOf s))"

definition encodeForRelease :: "jobject \<Rightarrow> jobject \<times> string" where
  "encodeForRelease payload = (payload, sha256Hex (jsonText (JObj payload)))"

definition hashIfNotEmpty :: "string \<Rightarrow> string" where
  "hashIfNotEmpty s = (if TrimSpace s = [] then [] else sha256Hex s)"

definition hashSliceIfNotEmpty :: "string list \<Rightarrow> string" where
  "hashSliceIfNotEmpty xs = (if xs = [] then [] else sha256Hex (jsonText (jList xs)))"

definition releaseSource :: "appDeploymentPlan \<Rightarrow> ReleaseSource" where
  "releaseSource plan =
    (let src = zeroSource\<lparr>rs_Type := pl_SourceType plan\<rparr> in
     if pl_SourceType plan = ''image'' then src\<lparr>rs_Image := pl_Image plan\<rparr>
     else if pl_SourceType plan = ''manifests'' then src\<lparr>rs_Manifests := pl_Manifests plan\<rparr>
     else if pl_SourceType plan = ''ociBundle'' then
       src\<lparr>rs_Manifests := pl_Manifests plan,
           rs_OciBundle := map_option (\<lambda>b. \<lparr>rb_Ref = op_Ref b, rb_Digest = op_Digest b, rb_CredentialID = op_CredentialID b,
             rb_Insecure = op_Insecure b, rb_MediaType = op_MediaType b\<rparr>) (pl_OciBundle plan)\<rparr>
     else if pl_SourceType plan = ''helm'' then src\<lparr>rs_Helm := pl_HelmSpec plan\<rparr>
     else case pl_Git plan of
       Some g \<Rightarrow>
         if HasPrefix (pl_SourceType plan) ''git:''
         then src\<lparr>rs_Manifests := pl_Manifests plan,
                  rs_Git := Some \<lparr>rg_URL = gp_URL g, rg_Ref = gp_Ref g, rg_Commit = gp_Commit g, rg_Path = gp_Path g,
                    rg_Mode = gp_Mode g, rg_CredentialID = gp_CredentialID g\<rparr>\<rparr>
         else src
     | None \<Rightarrow> src)"

definition releaseSpec :: "appDeploymentPlan \<Rightarrow> string \<Rightarrow> ReleaseSpec" where
  "releaseSpec plan name =
    \<lparr>sp_Name = name, sp_KubeName = pl_KubeName plan, sp_Flavor = pl_Flavor plan, sp_Resources = pl_Resources plan,
     sp_Replicas = pl_Replicas plan, sp_Env = pl_Env plan, sp_Secrets = pl_Secrets plan, sp_Ports = pl_Ports plan,
     sp_Domain = pl_Domain plan, sp_Host = pl_Host plan, sp_Repo = pl_Repo plan, sp_Source = releaseSource plan\<rparr>"

definition renderFingerprint :: "appDeploymentPlan \<Rightarrow> jobject" where
  "renderFingerprint plan =
    sortEntries
      ([(''renderedObjects'', if pl_RenderedObjs plan = [] then JNull else JArr (map (JObj \<circ> encodeObject) (pl_RenderedObjs plan)))]
       @ omitStr ''helmChart'' (pl_HelmChart plan)
       @ (if pl_HelmValues plan = [] then [] else [(''helmValues'', JObj (pl_HelmValues plan))])
       @ omitStr ''helmRenderSha'' (hashIfNotEmpty (pl_HelmRendered plan))
       @ omitStr ''manifestsSha'' (hashSliceIfNotEmpty (pl_Manifests plan))
       @ (case pl_OciBundle plan of None \<Rightarrow> [] | Some b \<Rightarrow> omitStr ''ociBundleDigest'' (op_Digest b)))"

definition nonEmpty :: "string \<Rightarrow> string option" where
  "nonEmpty s = (if s = [] then None else Some s)"

definition recordRelease ::
  "release_env \<Rightarrow> appDeploymentPlan \<Rightarrow> string \<Rightarrow> release_state \<Rightarrow> release_state \<times> (release_error + string)" where
  "recordRelease env plan name st =
    (let (specMap, specDigest) = encodeForRelease (encodeSpec (releaseSpec plan name));
         loadBalancers = [(''requested'', JNum (lb_Requested (pl_LBSummary plan))), (''existing'', JNum (lb_Existing (pl_LBSummary plan))),
                          (''limit'', JNum (lb_Limit (pl_LBSummary plan)))];
         renderDigest = snd (encodeForRelease (renderFingerprint plan));
         releaseID = re_newID env (rt_Count st);
         release = \<lparr>rl_ID = releaseID, rl_ProjectID = pl_ProjectID plan, rl_AppID = pl_AppID plan, rl_Source = pl_SourceType plan,
           rl_SpecDigest = specDigest, rl_RenderDigest = renderDigest, rl_Spec = specMap,
           rl_RenderedObjects = map encodeObject (pl_RenderedObjs plan), rl_LoadBalancers = loadBalancers,
           rl_Warnings = pl_Warnings plan, rl_HelmChart = nonEmpty (pl_HelmChart plan), rl_HelmValues = pl_HelmValues plan,
           rl_HelmRenderSHA = nonEmpty (hashIfNotEmpty (pl_HelmRendered plan)),
           rl_ManifestsSHA = nonEmpty (hashSliceIfNotEmpty (pl_Manifests plan)),
           rl_Repo = (if TrimSpace (pl_Repo plan) \<noteq> [] then Some (TrimSpace (pl_Repo plan)) else None),
           rl_SBOM = pl_SBOM plan, rl_Status = ''succeeded'', rl_Message = [], rl_CreatedAt = 0\<rparr> in
     case CreateRelease env release st of (st', Some e) \<Rightarrow> (st', Inl e) | (st', None) \<Rightarrow> (st', Inr releaseID))"

end
