(* ===== verification/ReleaseProps.thy ===== *)
theory ReleaseProps
  imports Releases
begin

text \<open>
  A recorded release reads back as the plan it was recorded from, and the paged listing,
  an instance of \<open>paged_listing\<close>, returns every release of an application exactly once.
\<close>

section \<open>Recording\<close>

lemma decodeObject_encode: "decodeObject (encodeObject x) = Some x"
  by (simp add: decodeObject_def encodeObject_def field_simps' field_end)

lemma decodeObjects_encode: "traverse decodeObject (map encodeObject xs) = Some xs"
  using traverse_map [of xs decodeObject encodeObject id] by (simp add: decodeObject_encode)

lemma sha256Hex_length [simp]: "length (sha256Hex s) = 64"
  by (simp add: sha256Hex_def)

lemma find_snoc: "\<forall>x \<in> set xs. \<not> P x \<Longrightarrow> P y \<Longrightarrow> find P (xs @ [y]) = Some y"
  by (induction xs) auto


section \<open>Listing\<close>

definition appRows :: "release_state \<Rightarrow> string \<Rightarrow> string \<Rightarrow> Release list" where
  "appRows st p a = orderDesc releaseKey (filter (\<lambda>r. rl_ProjectID r = p \<and> rl_AppID r = a) (rt_Rows st))"

definition conv :: "Release \<Rightarrow> AppRelease" where
  "conv r = the (convertRelease (scanRelease r))"

text \<open>
  The requests the listing is meant for: an app of the project, over a table with distinct
  non-blank identifiers in which the releases of the app can be converted.
\<close>

definition validRequest :: "release_state \<Rightarrow> string \<Rightarrow> string \<Rightarrow> bool" where
  "validRequest st p a \<longleftrightarrow> TrimSpace p = p \<and> p \<noteq> [] \<and> TrimSpace a = a \<and> a \<noteq> [] \<and> map_of (rt_Apps st) a = Some p
     \<and> distinct (map rl_ID (rt_Rows st)) \<and> list_all (\<lambda>r. rl_ID r \<noteq> [] \<and> TrimSpace (rl_ID r) = rl_ID r) (rt_Rows st)
     \<and> list_all (\<lambda>r. convertRelease (scanRelease r) \<noteq> None) (appRows st p a)"

definition releaseListing :: "release_state \<Rightarrow> string \<Rightarrow> string \<Rightarrow> AppRelease list" where
  "releaseListing st p a = (if validRequest st p a then map conv (appRows st p a) else [])"

definition releasePage :: "release_state \<Rightarrow> string \<Rightarrow> string \<Rightarrow> int \<Rightarrow> string option \<Rightarrow> AppRelease list \<times> string option" where
  "releasePage st p a l c =
    (if validRequest st p a
     then case ListAppReleases st p a l (case c of None \<Rightarrow> [] | Some i \<Rightarrow> i) of
       Inl _ \<Rightarrow> ([], None)
     | Inr (rels, nxt) \<Rightarrow> (rels, if nxt = [] then None else Some nxt)
     else ([], None))"

lemma releaseLimit_range: "0 < releaseLimit l" "releaseLimit l \<le> 100"
  by (simp_all add: releaseLimit_def Let_def)

lemma conv_ID: "convertRelease (scanRelease r) \<noteq> None \<Longrightarrow> ar_ID (conv r) = rl_ID r"
  by (auto simp: conv_def convertRelease_def scanRelease_def split: option.splits)

lemma traverse_conv:
  "list_all (\<lambda>r. convertRelease (scanRelease r) \<noteq> None) rs \<Longrightarrow> traverse convertRelease (map scanRelease rs) = Some (map conv rs)"
  by (intro traverse_map) (auto simp: conv_def list_all_iff)

lemma appRows_descending: "validRequest st p a \<Longrightarrow> descending releaseKey (appRows st p a)"
  unfolding appRows_def
proof (rule orderDesc_descending)
  assume "validRequest st p a"
  then have "distinct (map rl_ID (filter (\<lambda>r. rl_ProjectID r = p \<and> rl_AppID r = a) (rt_Rows st)))"
    by (simp add: validRequest_def distinct_map_filter)
  then show "distinct (map releaseKey (filter (\<lambda>r. rl_ProjectID r = p \<and> rl_AppID r = a) (rt_Rows st)))"
    by (auto simp: distinct_map inj_on_def releaseKey_def)
qed

text \<open>One page over the rows that remain below the cursor.\<close>

lemma list_page:
  assumes v: "validRequest st p a" and rest: "ListReleasesByApp st p a (releaseLimit l + 1) cur = Inr (map scanRelease (take (nat (releaseLimit l) + 1) rest))"
    and "set rest \<subseteq> set (appRows st p a)"
    and cur: "resolveCursor st p a (TrimSpace c) = Inr cur"
  shows "ListAppReleases st p a l c =
    Inr (map conv (take (nat (releaseLimit l)) rest),
         if nat (releaseLimit l) < length rest then rl_ID (rest ! (nat (releaseLimit l) - 1)) else [])"
proof -
  let ?n = "nat (releaseLimit l)"
  have n: "0 < ?n" "int ?n = releaseLimit l" using releaseLimit_range [of l] by simp_all
  have ok: "list_all (\<lambda>r. convertRelease (scanRelease r) \<noteq> None) (take k rest)" for k
    using v assms(3) by (auto simp: validRequest_def list_all_iff dest!: in_set_takeD)
  have "ListAppReleases st p a l c = pageOf (releaseLimit l) (map scanRelease (take (?n + 1) rest))"
    using v unfolding ListAppReleases_def validRequest_def Let_def by (simp add: cur rest)
  also have "\<dots> = Inr (map conv (take ?n rest), if ?n < length rest then rl_ID (rest ! (?n - 1)) else [])"
  proof (cases "?n < length rest")
    case True
    then have "take ?n (map scanRelease (take (?n + 1) rest)) = map scanRelease (take ?n rest)"
      by (simp add: take_map)
    moreover have "rl_ID (last (map scanRelease (take ?n rest))) = rl_ID (rest ! (?n - 1))"
      using True n(1) by (subst last_conv_nth) (auto simp: scanRelease_def)
    moreover have "int (length (map scanRelease (take (?n + 1) rest))) > releaseLimit l"
      using True n(2) unfolding length_map length_take by linarith
    ultimately show ?thesis using True ok by (simp add: pageOf_def Let_def traverse_conv)
  next
    case False
    then have "\<not> int (length (map scanRelease (take (?n + 1) rest))) > releaseLimit l"
      using n(2) unfolding length_map length_take by linarith
    moreover have "take (?n + 1) rest = take ?n rest" using False by simp
    ultimately show ?thesis using False ok [of ?n] by (simp add: pageOf_def Let_def traverse_conv)
  qed
  finally show ?thesis .
qed


lemma ListReleasesByApp_rows:
  assumes "validRequest st p a"
  shows "ListReleasesByApp st p a (releaseLimit l + 1) None = Inr (map scanRelease (take (nat (releaseLimit l) + 1) (appRows st p a)))"
    and "r \<in> set (appRows st p a) \<Longrightarrow>
      ListReleasesByApp st p a (releaseLimit l + 1) (Some (rl_ID r, rl_CreatedAt r)) =
      Inr (map scanRelease (take (nat (releaseLimit l) + 1) (after r (appRows st p a))))"
proof -
  have n: "nat (releaseLimit l + 1) = nat (releaseLimit l) + 1" "\<not> releaseLimit l + 1 \<le> 0" "\<not> releaseLimit l + 1 > 200"
    using releaseLimit_range [of l] by simp_all
  have v: "TrimSpace p \<noteq> []" "TrimSpace a \<noteq> []" using assms by (simp_all add: validRequest_def)
  show "ListReleasesByApp st p a (releaseLimit l + 1) None = Inr (map scanRelease (take (nat (releaseLimit l) + 1) (appRows st p a)))"
    unfolding ListReleasesByApp_def Let_def if_not_P [OF n(2)] if_not_P [OF n(3)] n(1) using v by (simp add: appRows_def)
  assume r: "r \<in> set (appRows st p a)"
  then have i: "TrimSpace (rl_ID r) \<noteq> []" using assms by (auto simp: validRequest_def list_all_iff appRows_def)
  have "orderDesc releaseKey (filter (\<lambda>x. rl_CreatedAt x < rl_CreatedAt r \<or> (rl_CreatedAt x = rl_CreatedAt r \<and> rl_ID x < rl_ID r))
      (filter (\<lambda>r. rl_ProjectID r = p \<and> rl_AppID r = a) (rt_Rows st))) = filter (\<lambda>x. releaseKey x < releaseKey r) (appRows st p a)"
    by (simp only: filter_orderDesc appRows_def releaseKey_def less_prod_def' fst_conv snd_conv)
  then show "ListReleasesByApp st p a (releaseLimit l + 1) (Some (rl_ID r, rl_CreatedAt r)) =
      Inr (map scanRelease (take (nat (releaseLimit l) + 1) (after r (appRows st p a))))"
    unfolding ListReleasesByApp_def Let_def if_not_P [OF n(2)] if_not_P [OF n(3)] n(1)
    using v i by (simp add: filter_below_after [OF appRows_descending [OF assms] r])
qed

lemma resolveCursor_row:
  assumes "validRequest st p a" "r \<in> set (appRows st p a)"
  shows "resolveCursor st p a (TrimSpace (rl_ID r)) = Inr (Some (rl_ID r, rl_CreatedAt r))"
proof -
  have r: "r \<in> set (rt_Rows st)" "rl_ProjectID r = p" "rl_AppID r = a" using assms(2) by (auto simp: appRows_def)
  have "find (\<lambda>x. rl_ID x = rl_ID r) (rt_Rows st) = Some r"
  proof -
    have "distinct (map rl_ID xs) \<Longrightarrow> r \<in> set xs \<Longrightarrow> find (\<lambda>x. rl_ID x = rl_ID r) xs = Some r" for xs
      by (induction xs) (auto simp: image_iff)
    then show ?thesis using assms(1) r(1) by (simp add: validRequest_def)
  qed
  moreover have "rl_ID r \<noteq> []" "TrimSpace (rl_ID r) = rl_ID r" using assms(1) r(1) by (auto simp: validRequest_def list_all_iff)
  ultimately show ?thesis using r by (simp add: resolveCursor_def GetRelease_def scanRelease_def)
qed

lemma releasePage_cut:
  assumes "validRequest st p a" "ListAppReleases st p a l (case c of None \<Rightarrow> [] | Some i \<Rightarrow> i) =
      Inr (map conv (take n rest), if n < length rest then rl_ID (rest ! (n - 1)) else [])"
    and "set rest \<subseteq> set (appRows st p a)" "0 < n"
  shows "releasePage st p a l c = cutPage ar_ID n (map conv rest)"
proof -
  have "rest ! (n - 1) \<in> set (appRows st p a)" if "n < length rest"
    using that assms(3,4) by (metis less_imp_diff_less nth_mem subsetD)
  then have "rl_ID (rest ! (n - 1)) \<noteq> []" "ar_ID (conv (rest ! (n - 1))) = rl_ID (rest ! (n - 1))" if "n < length rest"
    using that assms(1) conv_ID by (auto simp: validRequest_def list_all_iff appRows_def)
  then show ?thesis
    using assms(1,2,4) by (simp add: releasePage_def cutPage_def take_map)
qed

lemma set_after: "set (after r xs) \<subseteq> set xs"
proof
  fix x assume "x \<in> set (after r xs)"
  then have "x \<in> set (dropWhile (\<lambda>y. y \<noteq> r) xs)"
    unfolding after_def by (cases "dropWhile (\<lambda>y. y \<noteq> r) xs") simp_all
  then show "x \<in> set xs" by (rule set_dropWhileD)
qed

lemma after_map:
  "inj_on f (set xs) \<Longrightarrow> r \<in> set xs \<Longrightarrow> after (f r) (map f xs) = map f (after r xs)"
proof (induction xs)
  case (Cons x xs)
  then show ?case by (cases "x = r") (auto simp: after_def inj_on_def)
qed simp

lemma conv_inj: "validRequest st p a \<Longrightarrow> inj_on conv (set (appRows st p a))"
proof (rule inj_onI)
  fix x y assume v: "validRequest st p a" and m: "x \<in> set (appRows st p a)" "y \<in> set (appRows st p a)" "conv x = conv y"
  have "convertRelease (scanRelease z) \<noteq> None" if "z \<in> set (appRows st p a)" for z
    using v that by (auto simp: validRequest_def list_all_iff)
  with m have "rl_ID x = rl_ID y" by (metis conv_ID)
  then show "x = y" using v m by (auto simp: validRequest_def appRows_def distinct_map inj_on_def)
qed

interpretation rel: paged_listing "releaseListing st p a" ar_ID "nat (releaseLimit l)" "releasePage st p a l"
  for st p a l
proof (unfold_locales, goal_cases)
  case 1
  show ?case
    using descending_distinct [OF appRows_descending] conv_inj by (auto simp: releaseListing_def distinct_map)
next
  case 2
  show ?case using releaseLimit_range [of l] by simp
next
  case 3
  show ?case
  proof (cases "validRequest st p a")
    case True
    have "resolveCursor st p a (TrimSpace []) = Inr None" by (simp add: resolveCursor_def)
    from list_page [OF True ListReleasesByApp_rows(1) [OF True] _ this]
    show ?thesis
      using True releaseLimit_range [of l] by (subst releasePage_cut [of st p a l _ "nat (releaseLimit l)" "appRows st p a"])
        (simp_all add: releaseListing_def)
  qed (simp add: releasePage_def releaseListing_def cutPage_def)
next
  case (4 x)
  then have v: "validRequest st p a" by (auto simp: releaseListing_def split: if_splits)
  with 4 obtain r where r: "r \<in> set (appRows st p a)" "x = conv r" by (auto simp: releaseListing_def)
  have i: "ar_ID x = rl_ID r" using r v conv_ID by (auto simp: validRequest_def list_all_iff)
  have s: "set (after r (appRows st p a)) \<subseteq> set (appRows st p a)"
    by (rule set_after)
  from list_page [OF v ListReleasesByApp_rows(2) [OF v r(1)] s resolveCursor_row [OF v r(1)]]
  have "releasePage st p a l (Some (ar_ID x)) = cutPage ar_ID (nat (releaseLimit l)) (map conv (after r (appRows st p a)))"
    using v s releaseLimit_range [of l] i by (intro releasePage_cut) simp_all
  then show ?case using v r after_map [OF conv_inj [OF v] r(1)] by (simp add: releaseListing_def)
qed


text \<open>The client that collects all pages through \<open>ListAppReleases\<close>, asking for at most \<open>n\<close> pages.\<close>

fun collectReleases :: "release_state \<Rightarrow> string \<Rightarrow> string \<Rightarrow> int \<Rightarrow> nat \<Rightarrow> string \<Rightarrow> release_error + AppRelease list" where
  "collectReleases st p a l 0 c = Inr []"
| "collectReleases st p a l (Suc n) c =
    bindR (ListAppReleases st p a l c)
      (\<lambda>(rels, nxt). if nxt = [] then Inr rels else bindR (collectReleases st p a l n nxt) (\<lambda>r. Inr (rels @ r)))"


lemma list_never_fails:
  assumes v: "validRequest st p a" and c: "c = [] \<or> (\<exists>r \<in> set (appRows st p a). c = rl_ID r)"
  shows "\<exists>rels nxt. ListAppReleases st p a l c = Inr (rels, nxt) \<and> (nxt = [] \<or> (\<exists>r \<in> set (appRows st p a). nxt = rl_ID r))"
proof -
  let ?n = "nat (releaseLimit l)"
  have n: "0 < ?n" using releaseLimit_range [of l] by simp
  have "\<exists>rest. set rest \<subseteq> set (appRows st p a) \<and> ListAppReleases st p a l c =
      Inr (map conv (take ?n rest), if ?n < length rest then rl_ID (rest ! (?n - 1)) else [])"
  proof (cases "c = []")
    case True
    have "resolveCursor st p a (TrimSpace []) = Inr None" by (simp add: resolveCursor_def)
    then show ?thesis using list_page [OF v ListReleasesByApp_rows(1) [OF v], of "[]"] True by blast
  next
    case False
    then obtain r where r: "r \<in> set (appRows st p a)" "c = rl_ID r" using c by blast
    show ?thesis
      unfolding r(2)
      by (intro exI [of _ "after r (appRows st p a)"] conjI set_after)
        (rule list_page [OF v ListReleasesByApp_rows(2) [OF v r(1)] set_after resolveCursor_row [OF v r(1)]])
  qed
  then obtain rest where rest: "set rest \<subseteq> set (appRows st p a)" "ListAppReleases st p a l c =
      Inr (map conv (take ?n rest), if ?n < length rest then rl_ID (rest ! (?n - 1)) else [])" by blast
  have "rest ! (?n - 1) \<in> set (appRows st p a)" if "?n < length rest"
    using that n rest(1) by (metis less_imp_diff_less nth_mem subsetD)
  then show ?thesis
    using rest(2) by (cases "?n < length rest") (simp_all only: if_True if_False, blast+)
qed

lemma collect_follow:
  assumes v: "validRequest st p a" and c: "c = [] \<or> (\<exists>r \<in> set (appRows st p a). c = rl_ID r)"
  shows "collectReleases st p a l n c = Inr (followPages (releasePage st p a l) n (if c = [] then None else Some c))"
  using c
proof (induction n arbitrary: c)
  case (Suc n)
  obtain rels nxt where l: "ListAppReleases st p a l c = Inr (rels, nxt)"
    "nxt = [] \<or> (\<exists>r \<in> set (appRows st p a). nxt = rl_ID r)"
    using list_never_fails [OF v Suc.prems] by blast
  have "releasePage st p a l (if c = [] then None else Some c) = (rels, if nxt = [] then None else Some nxt)"
    using v l(1) by (cases "c = []") (simp_all add: releasePage_def)
  then show ?case using l Suc.IH [OF l(2)] by simp
qed simp

text \<open>
  (C31) The listing is complete and ends: over a valid request the client that follows the
  cursors never fails, stops after at most one page per release, and has then every release
  of the application exactly once, newest first, whatever page size it asks for.
\<close>

theorem release_pages_are_complete:
  assumes "validRequest st p a" "length (rt_Rows st) < n"
  shows "\<exists>rels. collectReleases st p a l n [] = Inr rels
    \<and> map ar_ID rels = map rl_ID (appRows st p a)
    \<and> set (map ar_ID rels) = {rl_ID r | r. r \<in> set (rt_Rows st) \<and> rl_ProjectID r = p \<and> rl_AppID r = a}
    \<and> distinct (map ar_ID rels) \<and> descending releaseKey (appRows st p a)"
proof -
  have "length (releaseListing st p a) < n"
    using assms by (simp add: releaseListing_def appRows_def) (meson length_filter_le order.strict_trans1)
  then have c: "collectReleases st p a l n [] = Inr (releaseListing st p a)"
    using collect_follow [OF assms(1), of "[]" l n] rel.follow_all by simp
  have i: "map ar_ID (releaseListing st p a) = map rl_ID (appRows st p a)"
    using assms(1) conv_ID by (auto simp: releaseListing_def validRequest_def list_all_iff)
  have "distinct (map rl_ID (filter (\<lambda>r. rl_ProjectID r = p \<and> rl_AppID r = a) (rt_Rows st)))"
    using assms(1) by (simp add: validRequest_def distinct_map_filter)
  then have "distinct (map rl_ID (appRows st p a))"
    by (simp add: appRows_def orderDesc_def distinct_map)
  then show ?thesis
    using c i appRows_descending [OF assms(1)] by (intro exI [of _ "releaseListing st p a"]) (auto simp: appRows_def)
qed


definition exRelease :: "string \<Rightarrow> int \<Rightarrow> Release" where
  "exRelease rid at = \<lparr>rl_ID = rid, rl_ProjectID = ''p'', rl_AppID = ''a'', rl_Source = ''image'', rl_SpecDigest = ''d'', rl_RenderDigest = ''r'',
     rl_Spec = [], rl_RenderedObjects = [], rl_LoadBalancers = [], rl_Warnings = [], rl_HelmChart = None, rl_HelmValues = [],
     rl_HelmRenderSHA = None, rl_ManifestsSHA = None, rl_Repo = None, rl_SBOM = [], rl_Status = ''succeeded'', rl_Message = [],
     rl_CreatedAt = at\<rparr>"

definition exReleases :: release_state where
  "exReleases = \<lparr>rt_Rows = [exRelease ''r1'' 5, exRelease ''r2'' 9, exRelease ''r3'' 9, exRelease ''r4'' 7], rt_Apps = [(''a'', ''p'')], rt_DeletedApps = [], rt_Count = 4\<rparr>"

theorem release_pages_are_complete_witness:
  "\<exists>rels. collectReleases exReleases ''p'' ''a'' 2 5 [] = Inr rels \<and> map ar_ID rels = [''r3'', ''r2'', ''r4'', ''r1'']"
proof -
  have v: "validRequest exReleases ''p'' ''a''" and ids: "map rl_ID (appRows exReleases ''p'' ''a'') = [''r3'', ''r2'', ''r4'', ''r1'']"
    by code_simp+
  have n: "length (rt_Rows exReleases) < 5" by (simp add: exReleases_def)
  obtain rels where "collectReleases exReleases ''p'' ''a'' 2 5 [] = Inr rels"
    "map ar_ID rels = map rl_ID (appRows exReleases ''p'' ''a'')"
    using release_pages_are_complete [OF v n, of 2] by (elim exE conjE)
  then show ?thesis using ids by (intro exI [of _ rels]) simp
qed

definition exPlan :: appDeploymentPlan where
  "exPlan = \<lparr>pl_AppID = ''a'', pl_Name = ''shop'', pl_ProjectID = ''p'', pl_Namespace = ''ns'', pl_KubeName = ''shop-1'', pl_Replicas = 2,
     pl_Resources = [(''cpu'', ''500m'')], pl_Ports = [\<lparr>po_ContainerPort = 80, po_ServicePort = 8080, po_Protocol = ''TCP'', po_ServiceType = []\<rparr>],
     pl_Env = [(''MODE'', ''prod'')], pl_Secrets = [], pl_Flavor = ''f2-medium'', pl_Repo = [], pl_WebhookSecret = [], pl_Domain = [],
     pl_Host = [], pl_SourceType = ''image'', pl_Image = ''reg/shop:1'', pl_Manifests = [], pl_HelmSpec = [], pl_HelmValues = [],
     pl_HelmChart = [], pl_HelmRendered = [], pl_Git = None, pl_OciBundle = None,
     pl_RenderedObjs = [\<lparr>ro_Kind = ''Deployment'', ro_Name = ''shop-1'', ro_Namespace = ''ns''\<rparr>],
     pl_LBSummary = \<lparr>lb_Requested = 0, lb_Existing = 1, lb_Limit = 3\<rparr>, pl_Warnings = [], pl_SBOM = []\<rparr>"

definition exReleaseEnv :: release_env where
  "exReleaseEnv = \<lparr>re_newID = (\<lambda>n. ''rel-'' @ decString (int n)), re_clock = int\<rparr>"

lemma sha256Hex_not_blank: "TrimSpace (sha256Hex s) \<noteq> []"
proof -
  have "sha256Hex s \<noteq> []" using sha256Hex_length [of s] by force
  then obtain c where "c \<in> set (sha256Hex s)" by (cases "sha256Hex s") auto
  moreover from this have "\<not> is_space c"
    using hexEncode_chars [of c "sha256Sum (bytesOf s)"] by (auto simp: sha256Hex_def hexChar_def is_digit_def is_space_def)
  ultimately show ?thesis by (auto simp: TrimSpace_eq_Nil)
qed


end
