(* ===== verification/JsonParse.thy ===== *)
theory JsonParse
  imports Json "HOL-Library.AList"
begin

text \<open>
  \<open>json.Unmarshal\<close> into \<open>any\<close>: a recursive-descent parser for the documents of \<open>Json\<close>, and
  the proof that it reads back what \<open>json.Marshal\<close> writes.  The counter of the parser bounds
  the nesting and is the length of the text, which is always enough.  Numbers with a fraction or
  an exponent are outside the model and rejected.  Of two fields with the same name the last wins.
\<close>

section \<open>Lexical parts\<close>

definition jsonSpace :: "char \<Rightarrow> bool" where
  "jsonSpace c \<longleftrightarrow> c = CHR '' '' \<or> c = CHR 0x09 \<or> c = CHR 0x0A \<or> c = CHR 0x0D"

definition skipWs :: "string \<Rightarrow> string" where
  "skipWs s = dropWhile jsonSpace s"

definition hexDigit :: "char \<Rightarrow> int option" where
  "hexDigit c =
    (if is_digit c then Some (ord c - 48)
     else if 97 \<le> ord c \<and> ord c \<le> 102 then Some (ord c - 87)
     else if 65 \<le> ord c \<and> ord c \<le> 70 then Some (ord c - 55)
     else None)"

definition hexQuad :: "char \<Rightarrow> char \<Rightarrow> char \<Rightarrow> char \<Rightarrow> int option" where
  "hexQuad a b c d =
    (case (hexDigit a, hexDigit b, hexDigit c, hexDigit d) of
       (Some w, Some x, Some y, Some z) \<Rightarrow> Some (w * 4096 + x * 256 + y * 16 + z)
     | _ \<Rightarrow> None)"

text \<open>The bytes of a code point; half of a surrogate pair becomes the replacement character.\<close>

definition utf8 :: "int \<Rightarrow> string" where
  "utf8 n =
    (if n < 0x80 then [char_of n]
     else if n < 0x800 then [char_of (0xC0 + n div 64), char_of (0x80 + n mod 64)]
     else if 0xD800 \<le> n \<and> n < 0xE000 then [char_of (0xEF :: int), char_of (0xBF :: int), char_of (0xBD :: int)]
     else if n < 0x10000 then [char_of (0xE0 + n div 4096), char_of (0x80 + n div 64 mod 64), char_of (0x80 + n mod 64)]
     else [char_of (0xF0 + n div 262144), char_of (0x80 + n div 4096 mod 64), char_of (0x80 + n div 64 mod 64),
           char_of (0x80 + n mod 64)])"

definition escapeChar :: "char \<Rightarrow> char option" where
  "escapeChar c =
    (if c = CHR 0x22 \<or> c = CHR 0x5C \<or> c = CHR ''/'' then Some c
     else if c = CHR ''b'' then Some CHR 0x08 else if c = CHR ''f'' then Some CHR 0x0C
     else if c = CHR ''n'' then Some CHR 0x0A else if c = CHR ''r'' then Some CHR 0x0D
     else if c = CHR ''t'' then Some CHR 0x09 else None)"

definition prepend :: "string \<Rightarrow> (string \<times> string) option \<Rightarrow> (string \<times> string) option" where
  "prepend p r = map_option (\<lambda>(s, rest). (p @ s, rest)) r"

text \<open>The text after an opening quote: the string and what follows its closing quote.\<close>

fun surrogatePair :: "int \<Rightarrow> string \<Rightarrow> (string \<times> string) option" where
  "surrogatePair n (b # u # w # x # y # z # r) =
    (if b = CHR 0x5C \<and> u = CHR ''u'' \<and> 0xD800 \<le> n \<and> n < 0xDC00
     then (case hexQuad w x y z of None \<Rightarrow> None
           | Some m \<Rightarrow> if 0xDC00 \<le> m \<and> m < 0xE000
               then Some (utf8 (0x10000 + (n - 0xD800) * 1024 + (m - 0xDC00)), r) else None)
     else None)"
| "surrogatePair n _ = None"

lemma surrogatePair_length [termination_simp]: "surrogatePair n s = Some (p, r) \<Longrightarrow> length r < length s"
  by (induction n s rule: surrogatePair.induct) (auto split: if_splits option.splits)

fun parseStr :: "string \<Rightarrow> (string \<times> string) option" where
  "parseStr [] = None"
| "parseStr (c # r) =
    (if c = CHR 0x22 then Some ([], r)
     else if c = CHR 0x5C then
       (case r of
          [] \<Rightarrow> None
        | e # r1 \<Rightarrow>
            if e = CHR ''u'' then
              (case r1 of
                 w # x # y # z # r2 \<Rightarrow>
                   (case hexQuad w x y z of None \<Rightarrow> None
                    | Some n \<Rightarrow>
                        (case surrogatePair n r2 of Some (p, r3) \<Rightarrow> prepend p (parseStr r3)
                         | None \<Rightarrow> prepend (utf8 n) (parseStr r2)))
               | _ \<Rightarrow> None)
            else (case escapeChar e of None \<Rightarrow> None | Some d \<Rightarrow> prepend [d] (parseStr r1)))
     else if ord c < 32 then None
     else prepend [c] (parseStr r))"

definition digitsVal :: "string \<Rightarrow> int" where
  "digitsVal s = foldl (\<lambda>n c. n * 10 + (ord c - 48)) 0 s"

text \<open>An unsigned number: no leading zero, no fraction and no exponent.\<close>

definition parseNat :: "string \<Rightarrow> (int \<times> string) option" where
  "parseNat s =
    (let ds = takeWhile is_digit s; r = dropWhile is_digit s in
     if ds = [] \<or> hd ds = CHR ''0'' \<and> ds \<noteq> ''0'' then None
     else if r \<noteq> [] \<and> hd r \<in> set ''.eE'' then None
     else Some (digitsVal ds, r))"

section \<open>Values\<close>

fun parseValue :: "nat \<Rightarrow> string \<Rightarrow> (json \<times> string) option"
  and parseItems :: "nat \<Rightarrow> string \<Rightarrow> (json list \<times> string) option"
  and parseFields :: "nat \<Rightarrow> jobject \<Rightarrow> string \<Rightarrow> (jobject \<times> string) option" where
  "parseValue 0 s = None"
| "parseValue (Suc f) s0 =
    (let s = skipWs s0 in
     case s of
       [] \<Rightarrow> None
     | c # r \<Rightarrow>
         if c = CHR 0x22 then map_option (\<lambda>(t, rest). (JStr t, rest)) (parseStr r)
         else if c = CHR ''['' then
           (case skipWs r of [] \<Rightarrow> None
            | d # r' \<Rightarrow> if d = CHR '']'' then Some (JArr [], r')
                else map_option (\<lambda>(xs, rest). (JArr xs, rest)) (parseItems f r))
         else if c = CHR ''{'' then
           (case skipWs r of [] \<Rightarrow> None
            | d # r' \<Rightarrow> if d = CHR ''}'' then Some (JObj [], r')
                else map_option (\<lambda>(m, rest). (JObj m, rest)) (parseFields f [] r))
         else if c = CHR ''-'' then map_option (\<lambda>(n, rest). (JNum (- n), rest)) (parseNat r)
         else if is_digit c then map_option (\<lambda>(n, rest). (JNum n, rest)) (parseNat s)
         else if HasPrefix s ''null'' then Some (JNull, drop 4 s)
         else if HasPrefix s ''true'' then Some (JBool True, drop 4 s)
         else if HasPrefix s ''false'' then Some (JBool False, drop 5 s)
         else None)"
| "parseItems 0 s = None"
| "parseItems (Suc f) s =
    (case parseValue f s of None \<Rightarrow> None
     | Some (v, r) \<Rightarrow>
         (case skipWs r of [] \<Rightarrow> None
          | d # r' \<Rightarrow> if d = CHR '']'' then Some ([v], r')
              else if d = CHR '','' then map_option (\<lambda>(vs, rest). (v # vs, rest)) (parseItems f r')
              else None))"
| "parseFields 0 m s = None"
| "parseFields (Suc f) m s =
    (case skipWs s of [] \<Rightarrow> None
     | q # r \<Rightarrow>
         if q \<noteq> CHR 0x22 then None
         else (case parseStr r of None \<Rightarrow> None
         | Some (k, r1) \<Rightarrow>
             (case skipWs r1 of [] \<Rightarrow> None
              | d # r2 \<Rightarrow>
                  if d \<noteq> CHR '':'' then None
                  else (case parseValue f r2 of None \<Rightarrow> None
                  | Some (v, r3) \<Rightarrow>
                      (case skipWs r3 of [] \<Rightarrow> None
                       | e # r4 \<Rightarrow> if e = CHR ''}'' then Some (AList.update k v m, r4)
                           else if e = CHR '','' then parseFields f (AList.update k v m) r4
                           else None)))))"

definition parseJson :: "string \<Rightarrow> json option" where
  "parseJson s =
    (case parseValue (Suc (length s)) s of None \<Rightarrow> None
     | Some (v, r) \<Rightarrow> if skipWs r = [] then Some v else None)"


section \<open>Reading back what was written\<close>

lemma skipWs_id: "s \<noteq> [] \<Longrightarrow> \<not> jsonSpace (hd s) \<Longrightarrow> skipWs s = s"
  by (cases s) (simp_all add: skipWs_def)

lemma hexDigit_digitChar: "0 \<le> d \<Longrightarrow> d < 16 \<Longrightarrow> hexDigit (digitChar d) = Some d"
  by (simp add: digitChar_def hexDigit_def is_digit_def)

lemma utf8_ascii: "ord c < 128 \<Longrightarrow> utf8 (ord c) = [c]"
  by (simp add: utf8_def)

lemma hexQuad_char:
  assumes "ord c < 128"
  shows "hexQuad CHR ''0'' CHR ''0'' (digitChar (ord c div 16)) (digitChar (ord c mod 16)) = Some (ord c)"
proof -
  have "0 \<le> ord c div 16" "ord c div 16 < 16" "0 \<le> ord c mod 16" "ord c mod 16 < 16" "ord c div 16 * 16 + ord c mod 16 = ord c"
    using assms ord_range [of c] by (simp_all add: pos_imp_zdiv_nonneg_iff)
  then show ?thesis using hexDigit_digitChar [of "ord c div 16"] hexDigit_digitChar [of "ord c mod 16"]
    by (simp add: hexQuad_def) (simp add: hexDigit_def is_digit_def)
qed

lemma surrogatePair_small: "n < 128 \<Longrightarrow> surrogatePair n s = None"
  by (induction n s rule: surrogatePair.induct) simp_all

lemma parseStr_char: "parseStr (jsonChar c @ s) = prepend [c] (parseStr s)"
proof (cases "ord c < 32 \<or> c = CHR ''<'' \<or> c = CHR ''>'' \<or> c = CHR ''&''")
  case True
  then have small: "ord c < 128" by auto
  then have "parseStr (jsonHex4 c @ s) = prepend [c] (parseStr s)"
    by (simp add: jsonHex4_def hexQuad_char surrogatePair_small utf8_ascii)
  then show ?thesis by (auto simp: jsonChar_def escapeChar_def)
next
  case False
  then show ?thesis by (auto simp: jsonChar_def escapeChar_def)
qed

lemma parseStr_chars: "parseStr (concat (map jsonChar s) @ CHR 0x22 # rest) = Some (s, rest)"
proof (induction s)
  case (Cons c s)
  then show ?case using parseStr_char [of c "concat (map jsonChar s) @ CHR 0x22 # rest"] by (simp add: prepend_def)
qed simp

lemma foldl_dec_snoc: "digitsVal (s @ [c]) = digitsVal s * 10 + (ord c - 48)"
  by (simp add: digitsVal_def)

lemma digitsVal_natDigits:
  "0 \<le> n \<Longrightarrow> n < 10 ^ f \<Longrightarrow> digitsVal (map digitChar (natDigits f 10 n)) = n"
proof (induction f arbitrary: n)
  case (Suc f)
  show ?case
  proof (cases "n < 10")
    case True
    then show ?thesis using Suc.prems by (simp add: digitsVal_def digitChar_def)
  next
    case False
    have d: "0 \<le> n div 10" "n div 10 < 10 ^ f" "n div 10 * 10 + n mod 10 = n" "0 \<le> n mod 10" "n mod 10 < 10"
      using Suc.prems by (simp_all add: pos_imp_zdiv_nonneg_iff)
    then have "digitsVal (map digitChar (natDigits f 10 (n div 10))) = n div 10" using Suc.IH by blast
    moreover have "ord (digitChar (n mod 10)) - 48 = n mod 10" using d(4,5) by (simp add: digitChar_def)
    ultimately show ?thesis using False d(3) by (simp add: foldl_dec_snoc)
  qed
qed (simp add: digitsVal_def)

lemma natDigits_hd: "0 < n \<Longrightarrow> n < 10 ^ f \<Longrightarrow> 0 < hd (natDigits f 10 n)"
proof (induction f arbitrary: n)
  case (Suc f)
  show ?case
  proof (cases "n < 10")
    case False
    then have d: "0 < n div 10" "n div 10 < 10 ^ f"
      using Suc.prems by (simp_all add: pos_imp_zdiv_pos_iff)
    then have "0 < f" by (cases f) simp_all
    then show ?thesis using Suc.IH [OF d] False natDigits_not_Nil [of f 10 "n div 10"] by simp
  qed (use Suc.prems in simp)
qed simp

definition endsNumber :: "string \<Rightarrow> bool" where
  "endsNumber r \<longleftrightarrow> r = [] \<or> \<not> is_digit (hd r) \<and> hd r \<notin> set ''.eE''"

lemma parseNat_decString:
  assumes "0 \<le> n" "n < 10 ^ 20" "endsNumber r"
  shows "parseNat (decString n @ r) = Some (n, r)"
proof -
  have d: "\<forall>c \<in> set (decString n). is_digit c" using decString_digits [OF assms(1)] by blast
  have t: "takeWhile is_digit (decString n @ r) = decString n" "dropWhile is_digit (decString n @ r) = r"
    using d assms(3) by (cases r; simp add: endsNumber_def takeWhile_append2 dropWhile_append2 takeWhile_append1)+
  have z: "\<not> (hd (decString n) = CHR ''0'' \<and> decString n \<noteq> ''0'')"
  proof (cases "n = 0")
    case True
    then show ?thesis by (simp add: decString_def digitChar_def numeral_eq_Suc)
  next
    case False
    then have h: "0 < hd (natDigits 20 10 n)" using natDigits_hd [of n 20] assms(1,2) by simp
    have "hd (natDigits 20 10 n) \<in> set (natDigits 20 10 n)" using natDigits_not_Nil [of 20 10 n] by simp
    then have "hd (natDigits 20 10 n) < 10" using natDigits_range [OF assms(1), of 10] by simp
    then have "ord (digitChar (hd (natDigits 20 10 n))) \<noteq> 48" using h by (simp add: digitChar_def)
    then have "hd (decString n) \<noteq> CHR ''0''"
      using natDigits_not_Nil [of 20 10 n] by (auto simp: decString_def hd_map)
    then show ?thesis by simp
  qed
  have "digitsVal (decString n) = n" unfolding decString_def by (rule digitsVal_natDigits) (use assms in simp_all)
  then show ?thesis using t z assms(3) by (auto simp: parseNat_def Let_def endsNumber_def)
qed


text \<open>Documents with distinct field names and numbers of at most twenty digits.\<close>

fun docOK :: "json \<Rightarrow> bool"
  and docsOK :: "json list \<Rightarrow> bool"
  and fieldsOK :: "jobject \<Rightarrow> bool" where
  "docOK (JNum n) = (\<bar>n\<bar> < 10 ^ 20)"
| "docOK (JArr xs) = docsOK xs"
| "docOK (JObj m) = fieldsOK m"
| "docOK _ = True"
| "docsOK [] = True"
| "docsOK (x # xs) = (docOK x \<and> docsOK xs)"
| "fieldsOK [] = True"
| "fieldsOK ((k, v) # m) = (k \<notin> fst ` set m \<and> docOK v \<and> fieldsOK m)"

lemma jsonItems_length [simp]: "length (jsonItems xs) = length xs"
  by (induction xs) simp_all

lemma jsonItems_Nil [simp]: "jsonItems xs = [] \<longleftrightarrow> xs = []"
  by (cases xs) simp_all

lemma jsonFields_Nil [simp]: "jsonFields m = [] \<longleftrightarrow> m = []"
  by (cases m) auto

lemma decString_hd_digit: "0 \<le> n \<Longrightarrow> is_digit (hd (decString n))"
  using decString_digits [of n "hd (decString n)"] by simp

lemma jsonText_first:
  "jsonText v \<noteq> [] \<and> \<not> jsonSpace (hd (jsonText v)) \<and> hd (jsonText v) \<notin> {CHR '']'', CHR ''}''}"
proof (cases v)
  case (JNum n)
  have "is_digit (hd (decString \<bar>n\<bar>))" by (rule decString_hd_digit) simp
  then have "\<not> jsonSpace (hd (decString \<bar>n\<bar>)) \<and> hd (decString \<bar>n\<bar>) \<notin> {CHR '']'', CHR ''}''}"
    by (auto simp: jsonSpace_def is_digit_def)
  then show ?thesis using JNum by (auto simp: jsonSpace_def)
qed (auto simp: jsonSpace_def jsonString_def)

lemma jsonText_skip: "skipWs (jsonText v @ r) = jsonText v @ r"
  using jsonText_first [of v] by (intro skipWs_id) auto

lemma update_new: "k \<notin> fst ` set m \<Longrightarrow> AList.update k v m = m @ [(k, v)]"
  by (induction m) auto

definition follows :: "string \<Rightarrow> bool" where
  "follows r \<longleftrightarrow> r = [] \<or> hd r \<in> set '',]}''"

lemma follows_number: "follows r \<Longrightarrow> endsNumber r"
  by (auto simp: follows_def endsNumber_def is_digit_def)

lemma follows_simps [simp]: "follows []" "follows (CHR '','' # r)" "follows (CHR '']'' # r)" "follows (CHR ''}'' # r)"
  by (simp_all add: follows_def)

lemma skip_sep [simp]:
  "skipWs (CHR '','' # r) = CHR '','' # r" "skipWs (CHR '']'' # r) = CHR '']'' # r" "skipWs (CHR ''}'' # r) = CHR ''}'' # r"
  "skipWs (CHR '':'' # r) = CHR '':'' # r" "skipWs (CHR 0x22 # r) = CHR 0x22 # r" "skipWs (CHR ''['' # r) = CHR ''['' # r"
  "skipWs (CHR ''{'' # r) = CHR ''{'' # r" "skipWs (CHR ''-'' # r) = CHR ''-'' # r"
  by (simp_all add: skipWs_def jsonSpace_def)

lemma parse_number:
  assumes "\<bar>n\<bar> < 10 ^ 20" "follows r"
  shows "parseValue (Suc f) (jsonText (JNum n) @ r) = Some (JNum n, r)"
proof -
  note p = parseNat_decString [OF _ assms(1) follows_number [OF assms(2)]]
  have d: "is_digit (hd (decString \<bar>n\<bar>))" by (rule decString_hd_digit) simp
  obtain c s where cs: "decString \<bar>n\<bar> = c # s" by (cases "decString \<bar>n\<bar>") simp_all
  have "skipWs (decString \<bar>n\<bar> @ r) = decString \<bar>n\<bar> @ r"
    using d by (intro skipWs_id) (auto simp: jsonSpace_def is_digit_def)
  moreover have "c \<noteq> CHR 0x22" "c \<noteq> CHR ''[''" "c \<noteq> CHR ''{''" "c \<noteq> CHR ''-''" "is_digit c"
    using d cs by (auto simp: is_digit_def)
  ultimately show ?thesis using p cs by (cases "n < 0") (simp_all add: Let_def)
qed

lemma parse_array:
  assumes "xs \<noteq> []" "parseItems f (Join (jsonItems xs) '','' @ CHR '']'' # r) = Some (xs, r)"
  shows "parseValue (Suc f) (jsonText (JArr xs) @ r) = Some (JArr xs, r)"
proof -
  obtain y ys where xs: "xs = y # ys" using assms(1) by (cases xs) auto
  obtain c s where c: "jsonText y = c # s" "\<not> jsonSpace c" "c \<noteq> CHR '']''"
    using jsonText_first [of y] by (cases "jsonText y") auto
  obtain t where "Join (jsonItems xs) '','' = c # t"
    using c(1) xs by (cases ys) auto
  then show ?thesis using assms(2) c(2,3) skipWs_id [of "Join (jsonItems xs) '','' @ CHR '']'' # r"] by (simp add: Let_def)
qed

lemma parse_object:
  assumes "m \<noteq> []" "parseFields f [] (Join (jsonFields m) '','' @ CHR ''}'' # r) = Some (m, r)"
  shows "parseValue (Suc f) (jsonText (JObj m) @ r) = Some (JObj m, r)"
proof -
  obtain k v m' where m: "m = (k, v) # m'" using assms(1) by (cases m) auto
  obtain t where "Join (jsonFields m) '','' = CHR 0x22 # t"
    using m by (cases m') (auto simp: jsonString_def)
  then show ?thesis using assms(2) by (simp add: Let_def)
qed

lemma parse_jsonText:
  "docOK v \<Longrightarrow> length (jsonText v) \<le> f \<Longrightarrow> follows r \<Longrightarrow> parseValue f (jsonText v @ r) = Some (v, r)"
  "docsOK xs \<Longrightarrow> xs \<noteq> [] \<Longrightarrow> length (Join (jsonItems xs) '','') < f \<Longrightarrow>
    parseItems f (Join (jsonItems xs) '','' @ CHR '']'' # r) = Some (xs, r)"
  "fieldsOK m \<Longrightarrow> m \<noteq> [] \<Longrightarrow> fst ` set acc \<inter> fst ` set m = {} \<Longrightarrow> length (Join (jsonFields m) '','') < f \<Longrightarrow>
    parseFields f acc (Join (jsonFields m) '','' @ CHR ''}'' # r) = Some (acc @ m, r)"
proof (induction v and xs and m arbitrary: f r and f r and f acc r rule: jsonText_jsonItems_jsonFields.induct)
  case 1
  then show ?case by (cases f) (simp_all add: Let_def skipWs_def jsonSpace_def is_digit_def HasPrefix_def)
next
  case (2 b)
  then show ?case
    by (cases f) (auto simp: Let_def skipWs_def jsonSpace_def is_digit_def HasPrefix_def split: if_splits)
next
  case (3 n)
  then have "f \<noteq> 0" by (cases f) simp_all
  then show ?case using 3 parse_number [of n r] by (cases f) simp_all
next
  case (4 s)
  then show ?case using parseStr_chars [of s r] by (cases f) (simp_all add: jsonString_def Let_def)
next
  case (5 xs)
  show ?case
  proof (cases "xs = []")
    case True
    then show ?thesis using 5 by (cases f) (simp_all add: Let_def)
  next
    case False
    then obtain g where g: "f = Suc g" using 5 by (cases f) simp_all
    then have "parseItems g (Join (jsonItems xs) '','' @ CHR '']'' # r) = Some (xs, r)"
      using 5 False by simp
    then show ?thesis using parse_array [OF False] g by blast
  qed
next
  case (6 m)
  show ?case
  proof (cases "m = []")
    case True
    then show ?thesis using 6 by (cases f) (simp_all add: Let_def)
  next
    case False
    then obtain g where g: "f = Suc g" using 6 by (cases f) simp_all
    then have "parseFields g [] (Join (jsonFields m) '','' @ CHR ''}'' # r) = Some (m, r)"
      using 6 False by simp
    then show ?thesis using parse_object [OF False] g by blast
  qed
next
  case (8 x xs)
  then obtain g where g: "f = Suc g" by (cases f) simp_all
  show ?case
  proof (cases "xs = []")
    case True
    then show ?thesis using 8 g by simp
  next
    case False
    have "length (jsonText x) \<le> g" "length (Join (jsonItems xs) '','') < g"
      using 8(5) g False by (simp_all add: Join_Cons_not_Nil)
    then show ?thesis using 8 g False by (simp add: Join_Cons_not_Nil)
  qed
next
  case (10 k v m)
  then obtain g where g: "f = Suc g" by (cases f) simp_all
  have u: "AList.update k v acc = acc @ [(k, v)]" using 10(5) by (intro update_new) auto
  have ps: "parseStr (concat (map jsonChar k) @ CHR 0x22 # s) = Some (k, s)" for s by (rule parseStr_chars)
  show ?case
  proof (cases "m = []")
    case True
    then show ?thesis using 10 g u ps by (simp add: jsonString_def)
  next
    case False
    have "length (jsonText v) \<le> g" "length (Join (jsonFields m) '','') < g"
      using 10(6) g False by (simp_all add: Join_Cons_not_Nil jsonString_def)
    moreover have "fst ` set (acc @ [(k, v)]) \<inter> fst ` set m = {}" using 10(3,5) by auto
    ultimately show ?thesis using 10 g u ps False by (simp add: Join_Cons_not_Nil jsonString_def)
  qed
qed simp_all

lemma parseJson_jsonText: "docOK v \<Longrightarrow> parseJson (jsonText v) = Some v"
  using parse_jsonText(1) [of v "Suc (length (jsonText v))" "[]"] by (simp add: parseJson_def skipWs_def)

end
