(* ===== verification/Crypto.thy ===== *)
theory Crypto
  imports JsonParse
begin

text \<open>
  The key derivation and the envelope of \<open>internal/crypto/crypto.go\<close>.  The cipher itself,
  AES in Galois/counter mode, is a parameter: the record \<open>aead\<close> holds its two functions, and
  \<open>aeadOK\<close> states what is relied on, that opening undoes sealing and that sealing adds a tag of
  sixteen bytes.
\<close>

section \<open>Keys\<close>

fun hexDecode :: "string \<Rightarrow> byte list option" where
  "hexDecode [] = Some []"
| "hexDecode [c] = None"
| "hexDecode (a # b # r) =
    (case (hexDigit a, hexDigit b, hexDecode r) of
       (Some x, Some y, Some bs) \<Rightarrow> Some (word_of_int (x * 16 + y) # bs)
     | _ \<Rightarrow> None)"

text \<open>Key material of at least 32 bytes is cut, shorter material is hashed.\<close>

definition keyFrom :: "byte list \<Rightarrow> byte list" where
  "keyFrom b = (if 32 \<le> length b then take 32 b else sha256Sum b)"

definition DeriveKey :: "string \<Rightarrow> byte list" where
  "DeriveKey s =
    (case base64Decode s of
       Some b \<Rightarrow> keyFrom b
     | None \<Rightarrow>
         (case hexDecode s of
            Some b \<Rightarrow> keyFrom b
          | None \<Rightarrow> sha256Sum (bytesOf s)))"

lemma length_DeriveKey [simp]: "length (DeriveKey s) = 32"
  by (simp add: DeriveKey_def keyFrom_def split: option.split)

section \<open>The envelope\<close>

record aead =
  gcmSeal :: "byte list \<Rightarrow> byte list \<Rightarrow> byte list \<Rightarrow> byte list \<Rightarrow> byte list"
  gcmOpen :: "byte list \<Rightarrow> byte list \<Rightarrow> byte list \<Rightarrow> byte list \<Rightarrow> byte list option"

definition aeadOK :: "aead \<Rightarrow> bool" where
  "aeadOK a \<longleftrightarrow> (\<forall>k n p d. gcmOpen a k n (gcmSeal a k n p d) d = Some p \<and> length (gcmSeal a k n p d) = length p + 16)"

datatype crypto_error = InvalidKeySize | NoRandomness | CiphertextTooShort | AuthenticationFailed

definition nonceSize :: nat where "nonceSize = 12"
definition overhead :: nat where "overhead = 16"

definition associated :: "byte list" where
  "associated = bytesOf ''kcfg-v1''"

definition validKey :: "byte list \<Rightarrow> bool" where
  "validKey key \<longleftrightarrow> length key \<in> {16, 24, 32}"

text \<open>The random source gives the nonce, or nothing when it fails.\<close>

definition EncryptAESGCM :: "aead \<Rightarrow> byte list option \<Rightarrow> byte list \<Rightarrow> byte list \<Rightarrow> crypto_error + byte list" where
  "EncryptAESGCM a random plaintext key =
    (if \<not> validKey key then Inl InvalidKeySize
     else case random of None \<Rightarrow> Inl NoRandomness
     | Some nonce \<Rightarrow> Inr (nonce @ gcmSeal a key nonce plaintext associated))"

definition DecryptAESGCM :: "aead \<Rightarrow> byte list \<Rightarrow> byte list \<Rightarrow> crypto_error + byte list" where
  "DecryptAESGCM a data key =
    (if \<not> validKey key then Inl InvalidKeySize
     else if length data < nonceSize + overhead then Inl CiphertextTooShort
     else case gcmOpen a key (take nonceSize data) (drop nonceSize data) associated of
       None \<Rightarrow> Inl AuthenticationFailed
     | Some pt \<Rightarrow> Inr pt)"

lemma decrypt_encrypt:
  assumes "aeadOK a" "length nonce = nonceSize" "EncryptAESGCM a (Some nonce) pt key = Inr enc"
  shows "DecryptAESGCM a enc key = Inr pt"
  using assms by (auto simp: EncryptAESGCM_def DecryptAESGCM_def aeadOK_def overhead_def split: if_splits)

lemma encrypt_succeeds: "\<exists>enc. EncryptAESGCM a (Some nonce) pt (DeriveKey s) = Inr enc"
  by (simp add: EncryptAESGCM_def validKey_def)

lemma encrypt_not_empty:
  "length nonce = nonceSize \<Longrightarrow> EncryptAESGCM a (Some nonce) pt key = Inr enc \<Longrightarrow> enc \<noteq> []"
  by (auto simp: EncryptAESGCM_def nonceSize_def split: if_splits)

text \<open>
  (C35) Encryption under a configured key is total and reversible: whatever text the key is
  configured with, the derived key has 32 bytes, encrypting with any nonce succeeds, and
  decrypting the result gives the plaintext back; anything shorter than nonce and tag is
  refused.
\<close>

theorem envelope_round_trip:
  assumes "aeadOK a" "length nonce = nonceSize"
  shows "length (DeriveKey s) = 32
    \<and> (\<exists>enc. EncryptAESGCM a (Some nonce) pt (DeriveKey s) = Inr enc \<and> length enc = length pt + 28
         \<and> DecryptAESGCM a enc (DeriveKey s) = Inr pt
         \<and> DecryptAESGCM a (take 27 enc) (DeriveKey s) = Inl CiphertextTooShort)"
proof -
  obtain enc where e: "EncryptAESGCM a (Some nonce) pt (DeriveKey s) = Inr enc" using encrypt_succeeds by blast
  have "length enc = length pt + 28"
    using e assms by (auto simp: EncryptAESGCM_def aeadOK_def nonceSize_def split: if_splits)
  then show ?thesis
    using e decrypt_encrypt [OF assms e] by (simp add: DecryptAESGCM_def validKey_def nonceSize_def overhead_def)
qed

text \<open>A cipher of this kind: the identity with a fixed tag, which satisfies the laws.\<close>

definition exAead :: aead where
  "exAead = \<lparr>gcmSeal = \<lambda>k n p d. p @ replicate 16 0, gcmOpen = \<lambda>k n c d. Some (take (length c - 16) c)\<rparr>"

lemma exAead_OK: "aeadOK exAead"
  by (simp add: aeadOK_def exAead_def)

theorem envelope_round_trip_witness:
  "aeadOK exAead \<and> length (DeriveKey ''secret'') = 32
    \<and> (\<exists>enc. EncryptAESGCM exAead (Some (replicate 12 7)) (bytesOf ''kc'') (DeriveKey ''secret'') = Inr enc
        \<and> DecryptAESGCM exAead enc (DeriveKey ''secret'') = Inr (bytesOf ''kc''))"
proof -
  have "length (replicate 12 (7 :: byte)) = nonceSize" by (simp add: nonceSize_def)
  from envelope_round_trip [OF exAead_OK this, of "''secret''" "bytesOf ''kc''"] exAead_OK show ?thesis by blast
qed

section \<open>Hexadecimal keys\<close>

lemma base64Val_hex: "hexDigit c = Some v \<Longrightarrow> base64Val c \<noteq> None"
  by (auto simp: hexDigit_def base64Val_def is_digit_def is_lower_def is_upper_def split: if_splits)

lemma hexDigit_plain: "hexDigit c = Some v \<Longrightarrow> c \<noteq> CHR ''='' \<and> c \<noteq> CHR 0x0A \<and> c \<noteq> CHR 0x0D"
  by (auto simp: hexDigit_def is_digit_def split: if_splits)

definition hexText :: "string \<Rightarrow> bool" where
  "hexText s \<longleftrightarrow> list_all (\<lambda>c. hexDigit c \<noteq> None) s"

lemma base64Quads_hex:
  "hexText s \<Longrightarrow> length s = 4 * n \<Longrightarrow> \<exists>bs. base64Quads s = Some bs \<and> length bs = 3 * n"
proof (induction n arbitrary: s)
  case (Suc n)
  then obtain a b c d r where s: "s = a # b # c # d # r" by (auto simp: length_Suc_conv numeral_eq_Suc)
  have r: "hexText r" "length r = 4 * n" using Suc.prems s by (simp_all add: hexText_def)
  obtain bs where bs: "base64Quads r = Some bs" "length bs = 3 * n" using Suc.IH [OF r] by blast
  have h: "hexDigit a \<noteq> None" "hexDigit b \<noteq> None" "hexDigit c \<noteq> None" "hexDigit d \<noteq> None"
    using Suc.prems s by (simp_all add: hexText_def)
  then obtain p q v w where "base64Val a = Some p" "base64Val b = Some q" "base64Val c = Some v" "base64Val d = Some w"
    using base64Val_hex by (metis not_None_eq)
  moreover have "c \<noteq> CHR ''=''" "d \<noteq> CHR ''=''" using h hexDigit_plain by auto
  ultimately show ?case using s bs by (simp add: Let_def)
qed (simp add: hexText_def)

lemma base64Quads_prefix:
  "hexText s \<Longrightarrow> hexText t \<Longrightarrow> length s = 4 * n \<Longrightarrow> length t = 4 * n \<Longrightarrow> take (4 * k) s = take (4 * k) t \<Longrightarrow>
    map_option (take (3 * k)) (base64Quads s) = map_option (take (3 * k)) (base64Quads t)"
proof (induction n arbitrary: s t k)
  case (Suc n)
  show ?case
  proof (cases k)
    case 0
    then show ?thesis using base64Quads_hex [OF Suc.prems(1,3)] base64Quads_hex [OF Suc.prems(2,4)] by auto
  next
    case (Suc j)
    have k4: "4 * k = Suc (Suc (Suc (Suc (4 * j))))" and k3: "3 * k = Suc (Suc (Suc (3 * j)))" using Suc by simp_all
    obtain a b c d r where s: "s = a # b # c # d # r" using Suc.prems(3) by (auto simp: length_Suc_conv numeral_eq_Suc)
    obtain a' b' c' d' r' where t: "t = a' # b' # c' # d' # r'" using Suc.prems(4) by (auto simp: length_Suc_conv numeral_eq_Suc)
    have e: "a' = a" "b' = b" "c' = c" "d' = d" "take (4 * j) r = take (4 * j) r'"
      using Suc.prems(5) unfolding s t k4 by simp_all
    have "map_option (take (3 * j)) (base64Quads r) = map_option (take (3 * j)) (base64Quads r')"
      using Suc.IH [of r r' j] Suc.prems s t e(5) by (simp add: hexText_def)
    moreover have "c \<noteq> CHR ''=''" "d \<noteq> CHR ''=''"
      using Suc.prems(1) s hexDigit_plain by (auto simp: hexText_def)
    ultimately show ?thesis unfolding s t e(1-4) k3 by (auto simp: Let_def split: option.splits)
  qed
qed simp

lemma base64Decode_hex: "hexText s \<Longrightarrow> base64Decode s = base64Quads s"
proof -
  assume "hexText s"
  then have "filter (\<lambda>c. c \<noteq> CHR 0x0A \<and> c \<noteq> CHR 0x0D) s = s"
    using hexDigit_plain by (intro filter_True) (fastforce simp: hexText_def list_all_iff)
  then show ?thesis by (simp add: base64Decode_def)
qed

text \<open>
  (C36) Hexadecimal keys are read as base 64.  Every text of 64 hexadecimal digits is also base
  64, so the key is cut from that reading: it does not depend on the last 20 digits, and two
  keys that differ only there encrypt alike.
\<close>

theorem hex_keys_lose_digits:
  assumes "hexText s" "length s = 64" "hexText t" "length t = 64" "take 44 s = take 44 t"
  shows "DeriveKey s = DeriveKey t \<and> (\<exists>b. base64Decode s = Some b \<and> DeriveKey s = take 32 b)"
proof -
  obtain b where b: "base64Decode s = Some b" "length b = 48"
    using base64Quads_hex [OF assms(1), of 16] assms(2) base64Decode_hex [OF assms(1)] by auto
  obtain b' where b': "base64Decode t = Some b'" "length b' = 48"
    using base64Quads_hex [OF assms(3), of 16] assms(4) base64Decode_hex [OF assms(3)] by auto
  have "take 33 b = take 33 b'"
    using base64Quads_prefix [OF assms(1,3), of 16 11] assms(2,4,5) b b' base64Decode_hex [OF assms(1)] base64Decode_hex [OF assms(3)]
    by simp
  then have "take 32 (take 33 b) = take 32 (take 33 b')" by simp
  then show ?thesis using b b' by (simp add: DeriveKey_def keyFrom_def)
qed

theorem hex_keys_lose_digits_witness:
  "DeriveKey (replicate 64 CHR ''a'') = DeriveKey (replicate 44 CHR ''a'' @ replicate 20 CHR ''0'')
    \<and> hexDecode (replicate 64 CHR ''a'') \<noteq> hexDecode (replicate 44 CHR ''a'' @ replicate 20 CHR ''0'')"
proof -
  have "hexText (replicate 64 CHR ''a'')" "hexText (replicate 44 CHR ''a'' @ replicate 20 CHR ''0'')"
    "hexDecode (replicate 64 CHR ''a'') \<noteq> hexDecode (replicate 44 CHR ''a'' @ replicate 20 CHR ''0'')"
    "take 44 (replicate 64 CHR ''a'') = take 44 (replicate 44 CHR ''a'' @ replicate 20 CHR ''0'')"
    by code_simp+
  then show ?thesis
    using hex_keys_lose_digits [of "replicate 64 CHR ''a''" "replicate 44 CHR ''a'' @ replicate 20 CHR ''0''"] by simp
qed

end
