(* ===== verification/QuotaPolicy.thy ===== *)
theory QuotaPolicy
  imports Config Naming JsonParse
begin

text \<open>
  What the control plane writes into a tenant namespace: the resource quota and limit ranges computed from
  the configuration and the overrides of a project, the network policies, the role of a tenant and the
  kubeconfig. This is \<open>internal/service/quota.go\<close>, \<open>internal/service/manifests.go\<close> and the pure part of
  \<open>internal/service/service.go\<close>. A resource list is an association list from resource names to the
  canonical texts of quantities. The parser of quantities belongs to Kubernetes and is a parameter that
  maps a text to its canonical form; \<open>resource.MustParse\<close> panics where it gives none, which is the
  result \<open>None\<close>.
\<close>

section \<open>Comma separated settings\<close>

definition parseCSV :: "string \<Rightarrow> string list" where
  "parseCSV raw =
    (if TrimSpace raw = [] then []
     else filter (\<lambda>part. part \<noteq> []) (map TrimSpace (Split (TrimSpace raw) (CHR '',''))))"

definition resourcePair :: "string \<Rightarrow> (string \<times> string) option" where
  "resourcePair segment =
    (if CHR ''='' \<notin> set segment then None
     else let key = TrimSpace (fst (Cut segment (CHR ''='')));
              val = TrimSpace (snd (Cut segment (CHR ''='')))
          in if key = [] \<or> val = [] then None else Some (key, val))"

definition parseResourcePairs :: "string \<Rightarrow> (string \<times> string) list" where
  "parseResourcePairs raw =
    foldl (\<lambda>out segment. case resourcePair segment of None \<Rightarrow> out | Some (k, v) \<Rightarrow> AList.update k v out) []
      (parseCSV raw)"

section \<open>Resource lists\<close>

type_synonym resource_list = "(string \<times> string) list"
type_synonym quantities = "string \<Rightarrow> string option"

definition setResourceQuantity :: "quantities \<Rightarrow> resource_list \<Rightarrow> string \<Rightarrow> string \<Rightarrow> resource_list option" where
  "setResourceQuantity parse rl name raw =
    (if TrimSpace raw = [] then Some rl
     else map_option (\<lambda>q. AList.update name q rl) (parse (TrimSpace raw)))"

fun setQuantities :: "quantities \<Rightarrow> resource_list \<Rightarrow> (string \<times> string) list \<Rightarrow> resource_list option" where
  "setQuantities parse rl [] = Some rl"
| "setQuantities parse rl ((name, raw) # rest) =
    (case setResourceQuantity parse rl name raw of
       None \<Rightarrow> None
     | Some rl' \<Rightarrow> setQuantities parse rl' rest)"

definition applyExtendedResources :: "quantities \<Rightarrow> resource_list \<Rightarrow> string \<Rightarrow> resource_list option" where
  "applyExtendedResources parse rl raw = setQuantities parse rl (parseResourcePairs raw)"

definition quotaSettings :: "quotaConfig \<Rightarrow> (string \<times> string) list" where
  "quotaSettings cfg =
    [(''requests.cpu'', NamespaceQuotaRequestsCPU cfg),
     (''limits.cpu'', NamespaceQuotaLimitsCPU cfg),
     (''requests.memory'', NamespaceQuotaRequestsMemory cfg),
     (''limits.memory'', NamespaceQuotaLimitsMemory cfg),
     (''requests.ephemeral-storage'', NamespaceQuotaRequestsEphemeral cfg),
     (''limits.ephemeral-storage'', NamespaceQuotaLimitsEphemeral cfg),
     (''pods'', NamespaceQuotaPods cfg),
     (''services'', NamespaceQuotaServices cfg),
     (''services.loadbalancers'', NamespaceQuotaServicesLoadBalancers cfg),
     (''configmaps'', NamespaceQuotaConfigMaps cfg),
     (''secrets'', NamespaceQuotaSecrets cfg),
     (''persistentvolumeclaims'', NamespaceQuotaPVCs cfg),
     (''requests.storage'', NamespaceQuotaRequestsStorage cfg),
     (''count/deployments.apps'', NamespaceQuotaDeployments cfg),
     (''count/replicasets.apps'', NamespaceQuotaReplicaSets cfg),
     (''count/statefulsets.apps'', NamespaceQuotaStatefulSets cfg),
     (''count/jobs.batch'', NamespaceQuotaJobs cfg),
     (''count/cronjobs.batch'', NamespaceQuotaCronJobs cfg),
     (''count/ingresses.networking.k8s.io'', NamespaceQuotaIngresses cfg)]"

definition defaultQuota :: "quantities \<Rightarrow> Config \<Rightarrow> (string \<times> string) list \<Rightarrow> resource_list option" where
  "defaultQuota parse cfg overrides =
    Option.bind (setQuantities parse [] (quotaSettings (cfgQuota cfg)))
      (\<lambda>rl. setQuantities parse rl overrides)"

section \<open>Limit ranges\<close>

record limit_item =
  li_Type :: string
  li_Max :: resource_list
  li_Min :: resource_list
  li_Default :: resource_list
  li_DefaultRequest :: resource_list

text \<open>The three basic resources, then the extended ones of a setting.\<close>

definition limitList :: "quantities \<Rightarrow> string \<Rightarrow> string \<Rightarrow> string \<Rightarrow> string \<Rightarrow> resource_list option" where
  "limitList parse cpu memory ephemeral ext =
    Option.bind (setQuantities parse [] [(''cpu'', cpu), (''memory'', memory), (''ephemeral-storage'', ephemeral)])
      (\<lambda>rl. applyExtendedResources parse rl ext)"

definition containerLimits :: "quantities \<Rightarrow> limitsConfig \<Rightarrow> limit_item option" where
  "containerLimits parse cfg =
    (case (limitList parse (NamespaceLRContainerMaxCPU cfg) (NamespaceLRContainerMaxMemory cfg)
             (NamespaceLRContainerMaxEphemeral cfg) (NamespaceLRExtMax cfg),
           limitList parse (NamespaceLRContainerMinCPU cfg) (NamespaceLRContainerMinMemory cfg)
             (NamespaceLRContainerMinEphemeral cfg) (NamespaceLRExtMin cfg),
           limitList parse (NamespaceLRContainerDefaultCPU cfg) (NamespaceLRContainerDefaultMemory cfg)
             (NamespaceLRContainerDefaultEphemeral cfg) (NamespaceLRExtDefault cfg),
           limitList parse (NamespaceLRContainerDefaultRequestCPU cfg) (NamespaceLRContainerDefaultRequestMemory cfg)
             (NamespaceLRContainerDefaultRequestEphemeral cfg) (NamespaceLRExtDefaultRequest cfg)) of
       (Some mx, Some mn, Some df, Some dr) \<Rightarrow>
         Some \<lparr> li_Type = ''Container'', li_Max = mx, li_Min = mn, li_Default = df, li_DefaultRequest = dr \<rparr>
     | _ \<Rightarrow> None)"

definition podLimits :: "quantities \<Rightarrow> Config \<Rightarrow> limit_item option" where
  "podLimits parse cfg =
    (case (limitList parse (NamespaceQuotaLimitsCPU (cfgQuota cfg)) (NamespaceQuotaLimitsMemory (cfgQuota cfg))
             (NamespaceQuotaLimitsEphemeral (cfgQuota cfg)) (NamespaceLRExtMax (cfgLimits cfg)),
           limitList parse (NamespaceLRContainerMinCPU (cfgLimits cfg)) (NamespaceLRContainerMinMemory (cfgLimits cfg))
             (NamespaceLRContainerMinEphemeral (cfgLimits cfg)) (NamespaceLRExtMin (cfgLimits cfg))) of
       (Some mx, Some mn) \<Rightarrow>
         Some \<lparr> li_Type = ''Pod'', li_Max = mx, li_Min = mn, li_Default = [], li_DefaultRequest = [] \<rparr>
     | _ \<Rightarrow> None)"

definition defaultLimitRange :: "quantities \<Rightarrow> Config \<Rightarrow> limit_item list option" where
  "defaultLimitRange parse cfg =
    (case (containerLimits parse (cfgLimits cfg), podLimits parse cfg) of
       (Some container, Some pod) \<Rightarrow> Some [container, pod]
     | _ \<Rightarrow> None)"

definition projectLimitRange :: "quantities \<Rightarrow> projectsConfig \<Rightarrow> limit_item list option" where
  "projectLimitRange parse cfg =
    (case (parse (ProjectLRRequestCPU cfg), parse (ProjectLRRequestMemory cfg),
           parse (ProjectLRLimitCPU cfg), parse (ProjectLRLimitMemory cfg)) of
       (Some rc, Some rm, Some lc, Some lm) \<Rightarrow>
         Some [\<lparr> li_Type = ''Container'', li_Max = [], li_Min = [], li_Default = [(''cpu'', lc), (''memory'', lm)],
                 li_DefaultRequest = [(''cpu'', rc), (''memory'', rm)] \<rparr>]
     | _ \<Rightarrow> None)"

section \<open>Scopes\<close>

definition buildQuotaScopes :: "string \<Rightarrow> string list" where
  "buildQuotaScopes raw = Strings (parseCSV raw)"

definition notBestEffortResources :: "string list" where
  "notBestEffortResources = [''requests.cpu'', ''limits.cpu'', ''requests.memory'', ''limits.memory'',
     ''requests.ephemeral-storage'', ''limits.ephemeral-storage'']"

definition hasUnsupportedResourcesForNotBestEffort :: "resource_list \<Rightarrow> bool" where
  "hasUnsupportedResourcesForNotBestEffort hard =
    list_ex (\<lambda>(name, _). name \<notin> set notBestEffortResources) hard"

definition hasUnsupportedResourcesForBestEffort :: "resource_list \<Rightarrow> bool" where
  "hasUnsupportedResourcesForBestEffort hard = list_ex (\<lambda>(name, _). name \<noteq> ''pods'') hard"

definition scopeUnsupported :: "resource_list \<Rightarrow> string \<Rightarrow> bool" where
  "scopeUnsupported hard scope =
    (if scope = ''NotBestEffort'' then hasUnsupportedResourcesForNotBestEffort hard
     else if scope = ''BestEffort'' then hasUnsupportedResourcesForBestEffort hard
     else False)"

definition filterQuotaScopes :: "resource_list \<Rightarrow> string list \<Rightarrow> string list \<times> string list" where
  "filterQuotaScopes hard scopes =
    (filter (\<lambda>s. \<not> scopeUnsupported hard s) scopes, filter (scopeUnsupported hard) scopes)"

text \<open>The selector for priority classes: the values of its one \<open>In\<close> expression.\<close>

definition buildPriorityClassSelector :: "string \<Rightarrow> string list option" where
  "buildPriorityClassSelector raw =
    (case parseCSV raw of [] \<Rightarrow> None | v # vs \<Rightarrow> Some (Strings (v # vs)))"

section \<open>Quota and limit objects of a namespace\<close>

record quota_spec =
  rq_Hard :: resource_list
  rq_Scopes :: "string list"
  rq_PriorityClasses :: "string list option"

definition configureNamespaceResourceQuota ::
  "quantities \<Rightarrow> Config \<Rightarrow> (string \<times> string) list \<Rightarrow> quota_spec option" where
  "configureNamespaceResourceQuota parse cfg overrides =
    map_option (\<lambda>hard.
      \<lparr> rq_Hard = hard,
        rq_Scopes = fst (filterQuotaScopes hard (buildQuotaScopes (NamespaceQuotaScopes (cfgQuota cfg)))),
        rq_PriorityClasses = buildPriorityClassSelector (NamespaceQuotaPriorityClasses (cfgQuota cfg)) \<rparr>)
      (defaultQuota parse cfg overrides)"

datatype limit_error = NamespaceRequired | BadQuantity

definition buildNamespaceLimitPolicyObjects ::
  "quantities \<Rightarrow> Config \<Rightarrow> string \<Rightarrow> (string \<times> string) list \<Rightarrow> limit_error + string \<times> quota_spec \<times> limit_item list" where
  "buildNamespaceLimitPolicyObjects parse cfg namespace overrides =
    (let ns = TrimSpace namespace in
     if ns = [] then Inl NamespaceRequired
     else case (configureNamespaceResourceQuota parse cfg overrides, defaultLimitRange parse cfg) of
       (Some rq, Some lr) \<Rightarrow> Inr (ns, rq, lr)
     | _ \<Rightarrow> Inl BadQuantity)"

section \<open>Stored overrides\<close>

fun cleanOverrides :: "(string \<times> string) list \<Rightarrow> (string \<times> string) list \<Rightarrow> (string \<times> string) list" where
  "cleanOverrides cleaned [] = cleaned"
| "cleanOverrides cleaned ((k, v) # rest) =
    (if TrimSpace k = [] then cleanOverrides cleaned rest
     else cleanOverrides (AList.update (TrimSpace k) (TrimSpace v) cleaned) rest)"

definition EncodeQuotaOverrides :: "(string \<times> string) list \<Rightarrow> string option" where
  "EncodeQuotaOverrides overrides =
    (let cleaned = cleanOverrides [] overrides in
     if cleaned = [] then None else Some (jsonText (jMap (sortEntries cleaned))))"

text \<open>The column may be \<open>NULL\<close>; a document is decoded into a map of texts.\<close>

definition DecodeQuotaOverrides :: "string option \<Rightarrow> (string \<times> string) list option" where
  "DecodeQuotaOverrides raw =
    (case raw of
       None \<Rightarrow> Some []
     | Some text \<Rightarrow>
         if TrimSpace text = [] then Some []
         else Option.bind (parseJson text) asStrMap)"

section \<open>Network policies, roles and kubeconfigs\<close>

datatype peer = Peer "(string \<times> string) option" "(string \<times> string) option"

record network_policy =
  np_Name :: string
  np_Namespace :: string
  np_Types :: "string list"
  np_Ingress :: "peer list"
  np_Egress :: "(peer \<times> string \<times> int) list"

definition BuildTenantNetworkPolicies :: "tenancyConfig \<Rightarrow> string \<Rightarrow> network_policy list" where
  "BuildTenantNetworkPolicies cfg namespace =
    [\<lparr> np_Name = ''default-deny'', np_Namespace = namespace, np_Types = [''Ingress'', ''Egress''],
       np_Ingress = [], np_Egress = [] \<rparr>,
     \<lparr> np_Name = ''allow-dns'', np_Namespace = namespace, np_Types = [''Egress''], np_Ingress = [],
       np_Egress = [(Peer (Some (DNSNamespaceLabelKey cfg, DNSNamespaceLabelValue cfg))
                          (Some (DNSPodLabelKey cfg, DNSPodLabelValue cfg)), ''UDP'', 53)] \<rparr>]
    @ (if IngressNamespaceLabelKey cfg \<noteq> [] \<and> IngressNamespaceLabelValue cfg \<noteq> []
       then [\<lparr> np_Name = ''allow-from-ingress'', np_Namespace = namespace, np_Types = [''Ingress''],
               np_Ingress = [Peer (Some (IngressNamespaceLabelKey cfg, IngressNamespaceLabelValue cfg)) None],
               np_Egress = [] \<rparr>]
       else [])"

record policy_rule =
  pr_APIGroups :: "string list"
  pr_Resources :: "string list"
  pr_Verbs :: "string list"

definition defaultRoleRules :: "policy_rule list" where
  "defaultRoleRules =
    (let full = [''get'', ''list'', ''watch'', ''create'', ''update'', ''delete''] in
     [\<lparr> pr_APIGroups = [''''],
        pr_Resources = [''pods'', ''services'', ''configmaps'', ''secrets'', ''persistentvolumeclaims'', ''events''],
        pr_Verbs = full \<rparr>,
      \<lparr> pr_APIGroups = [''apps''], pr_Resources = [''deployments'', ''replicasets'', ''statefulsets'', ''daemonsets''],
        pr_Verbs = full \<rparr>,
      \<lparr> pr_APIGroups = [''apps''], pr_Resources = [''deployments/scale'', ''statefulsets/scale''],
        pr_Verbs = [''get'', ''patch'', ''update''] \<rparr>,
      \<lparr> pr_APIGroups = [''networking.k8s.io''], pr_Resources = [''ingresses''],
        pr_Verbs = [''get'', ''list'', ''watch''] \<rparr>,
      \<lparr> pr_APIGroups = [''batch''], pr_Resources = [''jobs'', ''cronjobs''], pr_Verbs = full \<rparr>])"

datatype kubeconfig_error = ServerRequired | CARequired

definition newline :: string where
  "newline = [CHR 0x0A]"

definition buildNamespaceScopedKubeconfig ::
  "string \<Rightarrow> string \<Rightarrow> string \<Rightarrow> string \<Rightarrow> string \<Rightarrow> string \<Rightarrow> kubeconfig_error + string" where
  "buildNamespaceScopedKubeconfig server caBase64 namespace userLabel clusterLabel token =
    (if server = [] then Inl ServerRequired
     else if caBase64 = [] then Inl CARequired
     else Inr (
       ''apiVersion: v1'' @ newline @ ''kind: Config'' @ newline
       @ ''clusters:'' @ newline @ ''- cluster:'' @ newline
       @ ''    certificate-authority-data: '' @ caBase64
       @ newline @ ''    server: '' @ server
       @ newline @ ''  name: '' @ clusterLabel @ newline
       @ ''contexts:'' @ newline @ ''- context:'' @ newline @ ''    cluster: '' @ clusterLabel
       @ newline @ ''    namespace: '' @ namespace
       @ newline @ ''    user: '' @ userLabel
       @ newline @ ''  name: '' @ clusterLabel @ newline
       @ ''current-context: '' @ clusterLabel
       @ newline @ ''users:'' @ newline @ ''- name: '' @ userLabel
       @ newline @ ''  user:'' @ newline @ ''    token: '' @ token @ newline))"

text \<open>The text after the first occurrence of a key, up to the end of its line.\<close>

definition extractYAMLScalar :: "string \<Rightarrow> string \<Rightarrow> string" where
  "extractYAMLScalar kc key =
    (case cutAt key kc of
       None \<Rightarrow> []
     | Some (_, rest) \<Rightarrow> takeWhile (\<lambda>c. c \<noteq> CHR 0x0A) (TrimSpace (drop (length key) rest)))"

definition extractServer :: "string \<Rightarrow> string" where
  "extractServer kc = extractYAMLScalar kc ''server:''"

end
