(* ===== verification/Dns.thy ===== *)
theory Dns
  imports HelmFetch Releases Config
begin

text \<open>
  DNS records of applications: the three providers of \<open>internal/dns/providers.go\<close>.

  A provider talks to an HTTP API, which is a parameter: given the requests sent so far, the last one
  included, it answers the last one or cannot be reached. The functions thread the requests they send.
\<close>

section \<open>Requests\<close>

record dns_request =
  dr_Method :: string
  dr_URL :: URL
  dr_Header :: "(string \<times> string) list"
  dr_Body :: "json option"

record dns_response =
  ds_Status :: int
  ds_Body :: "json option"

datatype dns_error =
    DnsNoAddresses | DnsBadURL | DnsUnreachable | DnsStatus int string | DnsUndecodable | DnsRefused string

type_synonym dns_history = "dns_request list"
type_synonym dns_server = "dns_history \<Rightarrow> dns_response option"
type_synonym 'a dns_action = "dns_history \<Rightarrow> dns_history \<times> (dns_error + 'a)"

definition bindD :: "'a dns_action \<Rightarrow> ('a \<Rightarrow> 'b dns_action) \<Rightarrow> 'b dns_action" where
  "bindD m f h = (case m h of (h', Inl e) \<Rightarrow> (h', Inl e) | (h', Inr x) \<Rightarrow> f x h')"

definition retD :: "'a \<Rightarrow> 'a dns_action" where
  "retD x h = (h, Inr x)"

definition failD :: "dns_error \<Rightarrow> 'a dns_action" where
  "failD e h = (h, Inl e)"

definition sendRequest :: "dns_server \<Rightarrow> dns_request option \<Rightarrow> dns_response dns_action" where
  "sendRequest server req h =
    (case req of
       None \<Rightarrow> (h, Inl DnsBadURL)
     | Some rq \<Rightarrow> (h @ [rq], case server (h @ [rq]) of None \<Rightarrow> Inl DnsUnreachable | Some resp \<Rightarrow> Inr resp))"

fun eachD :: "('a \<Rightarrow> unit dns_action) \<Rightarrow> 'a list \<Rightarrow> unit dns_action" where
  "eachD f [] = retD ()"
| "eachD f (x # xs) = bindD (f x) (\<lambda>_. eachD f xs)"

definition statusOK :: "dns_response \<Rightarrow> bool" where
  "statusOK resp \<longleftrightarrow> 200 \<le> ds_Status resp \<and> ds_Status resp < 300"

section \<open>Addresses of the API\<close>

text \<open>\<open>path.Join\<close>, \<open>EscapedPath\<close> and \<open>JoinPath\<close>; a URL with a host and a path is written with a slash between them.\<close>

definition pathJoin :: "string list \<Rightarrow> string" where
  "pathJoin elems = (let es = filter (\<lambda>e. e \<noteq> []) elems in if es = [] then [] else Clean (Join es ''/''))"

definition validEncodedPath :: "string \<Rightarrow> bool" where
  "validEncodedPath s =
    list_all (\<lambda>c. c \<in> set ''!$&()*+,;=:@[]%'' \<or> ord c = 39 \<or> \<not> shouldEscape c EncPath) s"

definition EscapedPath :: "URL \<Rightarrow> string" where
  "EscapedPath u =
    (if RawPath u \<noteq> [] \<and> validEncodedPath (RawPath u) \<and> unescape EncPath (RawPath u) = Some (Path u) then RawPath u
     else if Path u = ''*'' then ''*'' else escape (Path u) EncPath)"

definition rooted :: "URL \<Rightarrow> URL" where
  "rooted u = (if Host u \<noteq> [] \<and> Path u \<noteq> [] \<and> \<not> HasPrefix (Path u) ''/'' then u\<lparr> Path := CHR ''/'' # Path u \<rparr> else u)"

definition withPath :: "(string \<Rightarrow> string) \<Rightarrow> string \<Rightarrow> URL option" where
  "withPath f base = map_option (\<lambda>u. rooted (u\<lparr> Path := f (Path u), RawPath := [] \<rparr>)) (ParseURL base)"

definition JoinPath :: "string \<Rightarrow> string \<Rightarrow> URL option" where
  "JoinPath base elem =
    map_option (\<lambda>u.
      let first = EscapedPath u;
          p = (if HasPrefix first ''/'' then pathJoin [first, elem] else drop 1 (pathJoin [CHR ''/'' # first, elem]));
          p = (if HasSuffix elem ''/'' \<and> \<not> HasSuffix p ''/'' then p @ ''/'' else p)
      in rooted (case setPath p u of None \<Rightarrow> u | Some v \<Rightarrow> v)) (ParseURL base)"

definition setQuery :: "string \<Rightarrow> string \<Rightarrow> URL \<Rightarrow> URL" where
  "setQuery key value u =
    u\<lparr> RawQuery := EncodeQuery (filter (\<lambda>(k, _). k \<noteq> key) (ParseQuery (RawQuery u)) @ [(key, value)]) \<rparr>"

definition newRequest :: "string \<Rightarrow> URL option \<Rightarrow> (string \<times> string) list \<Rightarrow> json option \<Rightarrow> dns_request option" where
  "newRequest meth url header body =
    map_option (\<lambda>u. \<lparr> dr_Method = meth, dr_URL = u, dr_Header = header, dr_Body = body \<rparr>) url"

section \<open>Providers\<close>

record HTTPProvider =
  hp_baseURL :: string
  hp_apiKey :: string

record CloudflareProvider =
  cp_baseURL :: string
  cp_apiToken :: string
  cp_zoneID :: string

record PowerDNSProvider =
  pp_baseURL :: string
  pp_apiKey :: string
  pp_serverID :: string
  pp_zone :: string

datatype provider = HTTPAPI HTTPProvider | Cloudflare CloudflareProvider | PowerDNS PowerDNSProvider

definition ensureTrailingDot :: "string \<Rightarrow> string" where
  "ensureTrailingDot inValue =
    (let v = TrimSpace inValue in if v = [] then v else if HasSuffix v ''.'' then v else v @ ''.'')"

definition trimSlashes :: "string \<Rightarrow> string" where
  "trimSlashes s = trimRight (\<lambda>c. c = CHR ''/'') s"

definition NewProvider :: "dnsConfig \<Rightarrow> provider option" where
  "NewProvider cfg =
    (let kind = ToLower (TrimSpace (DNSProvider cfg)) in
     if kind = [] \<or> kind = ''http'' then
       (let baseURL = TrimSpace (DNSAPIURL cfg); apiKey = TrimSpace (DNSAPIKey cfg) in
        if baseURL = [] \<or> apiKey = [] then None
        else Some (HTTPAPI \<lparr> hp_baseURL = trimSlashes baseURL, hp_apiKey = apiKey \<rparr>))
     else if kind = ''cloudflare'' then
       (let baseURL = TrimSpace (CloudflareAPIBase cfg); token = TrimSpace (CloudflareAPIToken cfg);
            zoneID = TrimSpace (CloudflareZoneID cfg) in
        if baseURL = [] \<or> token = [] \<or> zoneID = [] then None
        else Some (Cloudflare \<lparr> cp_baseURL = trimSlashes baseURL, cp_apiToken = token, cp_zoneID = zoneID \<rparr>))
     else if kind = ''powerdns'' then
       (let baseURL = TrimSpace (PowerDNSAPIURL cfg); apiKey = TrimSpace (PowerDNSAPIKey cfg);
            serverID = TrimSpace (PowerDNSServerID cfg); zone = TrimSpace (PowerDNSZone cfg) in
        if baseURL = [] \<or> apiKey = [] \<or> serverID = [] \<or> zone = [] then None
        else Some (PowerDNS \<lparr> pp_baseURL = trimSlashes baseURL, pp_apiKey = apiKey, pp_serverID = serverID,
                               pp_zone = ensureTrailingDot zone \<rparr>))
     else None)"

text \<open>The record an address asks for: its type and content.\<close>

fun recordType :: "addr \<Rightarrow> string" where
  "recordType (V6 w z) = ''AAAA''"
| "recordType _ = ''A''"

definition addrRecords :: "addr list \<Rightarrow> (string \<times> string) list" where
  "addrRecords addrs = map (\<lambda>a. (recordType a, addrString a)) (filter (\<lambda>a. a \<noteq> NoAddr) addrs)"

section \<open>The HTTP provider\<close>

definition apiErrorOf :: "json option \<Rightarrow> string" where
  "apiErrorOf body = (case body of Some (JObj m) \<Rightarrow> (case map_of m ''error'' of Some (JStr s) \<Rightarrow> s | _ \<Rightarrow> []) | _ \<Rightarrow> [])"

definition expectOK :: "dns_response \<Rightarrow> unit dns_action" where
  "expectOK resp = (if statusOK resp then retD () else failD (DnsStatus (ds_Status resp) (apiErrorOf (ds_Body resp))))"

definition ensurePayload :: "string \<Rightarrow> int \<Rightarrow> (string \<times> string) list \<Rightarrow> json" where
  "ensurePayload host ttl recs =
    JObj [(''fqdn'', JStr host), (''ttl'', JNum ttl),
          (''records'', JArr (map (\<lambda>(t, v). JObj [(''type'', JStr t), (''value'', JStr v)]) recs))]"

definition HTTP_EnsureRecords :: "dns_server \<Rightarrow> HTTPProvider \<Rightarrow> string \<Rightarrow> addr list \<Rightarrow> int \<Rightarrow> unit dns_action" where
  "HTTP_EnsureRecords server p host addrs ttl =
    (if host = [] \<or> addrs = [] then retD ()
     else if addrRecords addrs = [] then failD DnsNoAddresses
     else bindD (sendRequest server (newRequest ''PUT'' (JoinPath (hp_baseURL p) ''records'')
            [(''Content-Type'', ''application/json''), (''Authorization'', ''Bearer '' @ hp_apiKey p)]
            (Some (ensurePayload host ttl (addrRecords addrs))))) expectOK)"

definition HTTP_DeleteRecords :: "dns_server \<Rightarrow> HTTPProvider \<Rightarrow> string \<Rightarrow> unit dns_action" where
  "HTTP_DeleteRecords server p host =
    (if host = [] then retD ()
     else bindD (sendRequest server (newRequest ''DELETE''
            (map_option (setQuery ''fqdn'' host) (withPath (\<lambda>path. trimSlashes path @ ''/records'') (hp_baseURL p)))
            [(''Authorization'', ''Bearer '' @ hp_apiKey p)] None)) expectOK)"

section \<open>Cloudflare\<close>

record cloudflareRecord =
  cf_ID :: string
  cf_Type :: string
  cf_Name :: string
  cf_Content :: string
  cf_TTL :: int

fun asBool :: "json \<Rightarrow> bool option" where
  "asBool (JBool b) = Some b"
| "asBool JNull = Some False"
| "asBool _ = None"

definition zeroRecord :: cloudflareRecord where
  "zeroRecord = \<lparr> cf_ID = [], cf_Type = [], cf_Name = [], cf_Content = [], cf_TTL = 0 \<rparr>"

definition decodeRecord :: "jobject \<Rightarrow> cloudflareRecord option" where
  "decodeRecord m = do {
     i \<leftarrow> field asStr [] m ''id''; t \<leftarrow> field asStr [] m ''type''; n \<leftarrow> field asStr [] m ''name'';
     c \<leftarrow> field asStr [] m ''content''; ttl \<leftarrow> field asNum 0 m ''ttl'';
     Some \<lparr> cf_ID = i, cf_Type = t, cf_Name = n, cf_Content = c, cf_TTL = ttl \<rparr> }"

text \<open>The envelope of a response: whether it succeeded, the messages of its errors, and the result.\<close>

definition decodeEnvelope :: "(json \<Rightarrow> 'a option) \<Rightarrow> 'a \<Rightarrow> json \<Rightarrow> (bool \<times> string list \<times> 'a) option" where
  "decodeEnvelope dec zero = asObj (False, [], zero) (\<lambda>m. do {
     ok \<leftarrow> field asBool False m ''success'';
     errs \<leftarrow> field (asArr (asObj [] (\<lambda>e. field asStr [] e ''message''))) [] m ''errors'';
     result \<leftarrow> field dec zero m ''result'';
     Some (ok, errs, result) })"

definition joinCloudflareErrors :: "string list \<Rightarrow> string" where
  "joinCloudflareErrors errs =
    (let msgs = filter (\<lambda>m. m \<noteq> []) (map TrimSpace errs) in if msgs = [] then ''unknown error'' else Join msgs ''; '')"

definition readEnvelope :: "(json \<Rightarrow> 'a option) \<Rightarrow> 'a \<Rightarrow> dns_response \<Rightarrow> 'a dns_action" where
  "readEnvelope dec zero resp =
    (if \<not> statusOK resp then failD (DnsStatus (ds_Status resp) [])
     else case Option.bind (ds_Body resp) (decodeEnvelope dec zero) of
       None \<Rightarrow> failD DnsUndecodable
     | Some (ok, errs, result) \<Rightarrow> if ok then retD result else failD (DnsRefused (joinCloudflareErrors errs)))"

definition bearer :: "CloudflareProvider \<Rightarrow> string \<times> string" where
  "bearer p = (''Authorization'', ''Bearer '' @ cp_apiToken p)"

definition recordsURL :: "CloudflareProvider \<Rightarrow> string list \<Rightarrow> URL option" where
  "recordsURL p extra = withPath (\<lambda>path. pathJoin ([path, ''zones'', cp_zoneID p, ''dns_records''] @ extra)) (cp_baseURL p)"

definition listRequest :: "CloudflareProvider \<Rightarrow> string \<Rightarrow> dns_request option" where
  "listRequest p host = newRequest ''GET'' (map_option (setQuery ''name'' host) (recordsURL p [])) [bearer p] None"

definition createRequest :: "CloudflareProvider \<Rightarrow> string \<Rightarrow> string \<Rightarrow> string \<Rightarrow> int \<Rightarrow> dns_request option" where
  "createRequest p host recType value ttl =
    newRequest ''POST'' (recordsURL p []) [(''Content-Type'', ''application/json''), bearer p]
      (Some (JObj [(''content'', JStr value), (''name'', JStr host), (''proxied'', JBool False), (''ttl'', JNum ttl),
                   (''type'', JStr recType)]))"

definition deleteRequest :: "CloudflareProvider \<Rightarrow> string \<Rightarrow> dns_request option" where
  "deleteRequest p ident = newRequest ''DELETE'' (recordsURL p [ident]) [bearer p] None"

definition listRecords :: "dns_server \<Rightarrow> CloudflareProvider \<Rightarrow> string \<Rightarrow> cloudflareRecord list dns_action" where
  "listRecords server p host =
    bindD (sendRequest server (listRequest p host)) (readEnvelope (asArr (asObj zeroRecord decodeRecord)) [])"

definition createRecord :: "dns_server \<Rightarrow> CloudflareProvider \<Rightarrow> string \<Rightarrow> string \<Rightarrow> string \<Rightarrow> int \<Rightarrow> unit dns_action" where
  "createRecord server p host recType value ttl =
    bindD (sendRequest server (createRequest p host recType value ttl)) (\<lambda>resp.
      bindD (readEnvelope (asObj zeroRecord decodeRecord) zeroRecord resp) (\<lambda>_. retD ()))"

definition deleteRecord :: "dns_server \<Rightarrow> CloudflareProvider \<Rightarrow> string \<Rightarrow> unit dns_action" where
  "deleteRecord server p ident =
    (if ident = [] then retD ()
     else bindD (sendRequest server (deleteRequest p ident)) (\<lambda>resp.
       bindD (readEnvelope (asObj zeroRecord decodeRecord) zeroRecord resp) (\<lambda>_. retD ())))"

definition hasCloudflareRecord :: "cloudflareRecord list \<Rightarrow> string \<Rightarrow> string \<Rightarrow> string \<Rightarrow> bool" where
  "hasCloudflareRecord recs host recType value \<longleftrightarrow>
    list_ex (\<lambda>r. cf_Name r = host \<and> cf_Type r = recType \<and> cf_Content r = value) recs"

definition ownAddress :: "string \<Rightarrow> cloudflareRecord \<Rightarrow> bool" where
  "ownAddress host r \<longleftrightarrow> cf_Name r = host \<and> (cf_Type r = ''A'' \<or> cf_Type r = ''AAAA'')"

text \<open>Go leaves the order in which the missing records are created open; here it is that of the addresses.\<close>

definition Cloudflare_EnsureRecords ::
  "dns_server \<Rightarrow> CloudflareProvider \<Rightarrow> string \<Rightarrow> addr list \<Rightarrow> int \<Rightarrow> unit dns_action" where
  "Cloudflare_EnsureRecords server p host addrs ttl0 =
    (if host = [] \<or> addrs = [] then retD ()
     else let ttl = (if ttl0 \<le> 0 then 300 else ttl0); desired = remdups (addrRecords addrs) in
       if desired = [] then failD DnsNoAddresses
       else bindD (listRecords server p host) (\<lambda>existing.
         bindD (eachD (\<lambda>r. deleteRecord server p (cf_ID r))
                  (filter (\<lambda>r. ownAddress host r \<and> (cf_Type r, cf_Content r) \<notin> set desired) existing)) (\<lambda>_.
           eachD (\<lambda>(t, v). createRecord server p host t v ttl)
             (filter (\<lambda>(t, v). \<not> hasCloudflareRecord existing host t v) desired))))"

definition Cloudflare_DeleteRecords :: "dns_server \<Rightarrow> CloudflareProvider \<Rightarrow> string \<Rightarrow> unit dns_action" where
  "Cloudflare_DeleteRecords server p host =
    (if host = [] then retD ()
     else bindD (listRecords server p host) (\<lambda>recs.
       eachD (\<lambda>r. deleteRecord server p (cf_ID r)) (filter (ownAddress host) recs)))"

section \<open>PowerDNS\<close>

definition patchZone :: "dns_server \<Rightarrow> PowerDNSProvider \<Rightarrow> json list \<Rightarrow> unit dns_action" where
  "patchZone server p rrsets =
    bindD (sendRequest server (newRequest ''PATCH''
        (withPath (\<lambda>path. pathJoin [path, ''servers'', pp_serverID p, ''zones'', pp_zone p]) (pp_baseURL p))
        [(''Content-Type'', ''application/json''), (''X-API-Key'', pp_apiKey p)] (Some (JObj [(''rrsets'', JArr rrsets)]))))
      (\<lambda>resp. if statusOK resp then retD () else failD (DnsStatus (ds_Status resp) []))"

definition replaceSet :: "string \<Rightarrow> string \<Rightarrow> int \<Rightarrow> string list \<Rightarrow> json list" where
  "replaceSet name recType ttl contents =
    (if contents = [] then []
     else [JObj [(''name'', JStr name), (''type'', JStr recType), (''ttl'', JNum ttl), (''changetype'', JStr ''REPLACE''),
                 (''records'', JArr (map (\<lambda>c. JObj [(''content'', JStr c), (''disabled'', JBool False)]) contents))]])"

definition deleteSet :: "string \<Rightarrow> string \<Rightarrow> json" where
  "deleteSet name recType = JObj [(''name'', JStr name), (''type'', JStr recType), (''changetype'', JStr ''DELETE'')]"

definition contentsOf :: "string \<Rightarrow> addr list \<Rightarrow> string list" where
  "contentsOf recType addrs = map snd (filter (\<lambda>(t, _). t = recType) (addrRecords addrs))"

definition PowerDNS_EnsureRecords ::
  "dns_server \<Rightarrow> PowerDNSProvider \<Rightarrow> string \<Rightarrow> addr list \<Rightarrow> int \<Rightarrow> unit dns_action" where
  "PowerDNS_EnsureRecords server p host addrs ttl0 =
    (if host = [] \<or> addrs = [] then retD ()
     else let ttl = (if ttl0 \<le> 0 then 300 else ttl0); name = ensureTrailingDot host in
       if contentsOf ''A'' addrs = [] \<and> contentsOf ''AAAA'' addrs = [] then failD DnsNoAddresses
       else patchZone server p
         (replaceSet name ''A'' ttl (contentsOf ''A'' addrs) @ replaceSet name ''AAAA'' ttl (contentsOf ''AAAA'' addrs)))"

definition PowerDNS_DeleteRecords :: "dns_server \<Rightarrow> PowerDNSProvider \<Rightarrow> string \<Rightarrow> unit dns_action" where
  "PowerDNS_DeleteRecords server p host =
    (if host = [] then retD ()
     else patchZone server p [deleteSet (ensureTrailingDot host) ''A'', deleteSet (ensureTrailingDot host) ''AAAA''])"

section \<open>The interface\<close>

fun EnsureRecords :: "dns_server \<Rightarrow> provider \<Rightarrow> string \<Rightarrow> addr list \<Rightarrow> int \<Rightarrow> unit dns_action" where
  "EnsureRecords server (HTTPAPI p) = HTTP_EnsureRecords server p"
| "EnsureRecords server (Cloudflare p) = Cloudflare_EnsureRecords server p"
| "EnsureRecords server (PowerDNS p) = PowerDNS_EnsureRecords server p"

fun DeleteRecords :: "dns_server \<Rightarrow> provider \<Rightarrow> string \<Rightarrow> unit dns_action" where
  "DeleteRecords server (HTTPAPI p) = HTTP_DeleteRecords server p"
| "DeleteRecords server (Cloudflare p) = Cloudflare_DeleteRecords server p"
| "DeleteRecords server (PowerDNS p) = PowerDNS_DeleteRecords server p"

end
