(* ===== verification/ControlPlane.thy ===== *)
theory ControlPlane
  imports QuotaPolicy Crypto Events Dns
begin

text \<open>
  The world the service of the control plane acts on, and the way its handlers are composed. The world has
  the tables of the database (\<open>internal/store/models.go\<close> and the migrations), the objects in the
  registered clusters, the client cache of \<open>internal/kube/manager.go\<close> and a counter of external calls.
  A handler is a function from the world to the world and a result or an error.

  Every statement sent to the database and every request to a cluster is an external call; the environment
  says which calls fail, and a call that fails changes nothing. The environment also gives the identifiers,
  times, nonces and tokens the calls produce. Identifiers are well-formed UUIDs. Of a Kubernetes object the
  world holds the fields the control plane owns, which a forced server-side apply by the same field
  manager replaces; an object of a namespace can only be written while the namespace exists, and
  deleting a namespace deletes its objects.
\<close>

section \<open>Rows of the tables\<close>

record User =
  u_ID :: string
  u_Name :: string
  u_Email :: string
  u_CreatedAt :: int
  u_Deleted :: bool

record ClusterStatus =
  cs_ID :: string
  cs_ClusterID :: string
  cs_Healthy :: bool
  cs_Message :: string
  cs_APIServerVersion :: string
  cs_NodeCount :: "int option"
  cs_CheckedAt :: int
  cs_Details :: jobject

record Cluster =
  c_ID :: string
  c_Name :: string
  c_Owner :: string
  c_Contact :: string
  c_Environment :: string
  c_Region :: string
  c_APIServer :: string
  c_Description :: string
  c_Tags :: "string list"
  c_LastSeen :: "int option"
  c_LastStatus :: "ClusterStatus option"
  c_CreatedAt :: int
  c_Kubeconfig :: "byte list"

text \<open>A project row has the columns \<open>quota_overrides\<close>, \<open>kubeconfig_enc\<close> and \<open>deleted_at\<close> besides the struct.\<close>

record Project =
  p_ID :: string
  p_UserID :: string
  p_ClusterID :: string
  p_Name :: string
  p_Namespace :: string
  p_Suspended :: bool
  p_CreatedAt :: int
  p_Quota :: "json option"
  p_Kubeconfig :: "byte list"
  p_Deleted :: bool

record UserSpace =
  us_ID :: string
  us_UserID :: string
  us_ClusterID :: string
  us_Namespace :: string
  us_CreatedAt :: int
  us_Kubeconfig :: "byte list"

record KubeconfigRecord =
  kr_ID :: string
  kr_ClusterID :: string
  kr_Namespace :: string
  kr_UserID :: string
  kr_ProjectID :: "string option"
  kr_ServiceAccount :: string
  kr_SecretName :: string
  kr_Kubeconfig :: "byte list"

record MaintenanceState =
  ms_Enabled :: bool
  ms_Message :: string
  ms_UpdatedAt :: int
  ms_UpdatedBy :: string

record App =
  a_ID :: string
  a_ProjectID :: string
  a_Name :: string
  a_Status :: string
  a_Repo :: "string option"
  a_WebhookSecret :: "string option"
  a_ExternalRef :: "string option"
  a_Source :: jobject
  a_Delivery :: jobject
  a_UpdatedAt :: int
  a_Deleted :: bool

record AppDomain =
  ad_ID :: string
  ad_AppID :: string
  ad_FQDN :: string
  ad_CertStatus :: string
  ad_CreatedAt :: int

record Credential =
  cr_ID :: string
  cr_Name :: string
  cr_Registry :: string
  cr_UserID :: "string option"
  cr_ProjectID :: "string option"
  cr_AuthType :: string
  cr_Username :: string
  cr_CreatedAt :: int
  cr_UpdatedAt :: int
  cr_Secret :: "byte list"

text \<open>The copy of an \<open>App\<close> object of a cluster that the store keeps.\<close>

record K8sCRD =
  kc_ID :: string
  kc_ClusterID :: string
  kc_ProjectID :: string
  kc_Kind :: string
  kc_Namespace :: string
  kc_Name :: string
  kc_UID :: string
  kc_ResourceVersion :: string
  kc_SpecHash :: string
  kc_Spec :: jobject
  kc_Status :: jobject
  kc_DeletedAt :: "int option"
  kc_CreatedAt :: int
  kc_UpdatedAt :: int

section \<open>Objects in the clusters\<close>

datatype env_source =
    Literal string
  | FromConfigMap string string
  | FromSecret string string

record env_var =
  e_Name :: string
  e_Source :: env_source

datatype env_from = AllOfConfigMap string | AllOfSecret string

record security_context =
  sc_AllowPrivilegeEscalation :: bool
  sc_SeccompProfile :: string
  sc_RunAsNonRoot :: "bool option"
  sc_ReadOnlyRootFilesystem :: "bool option"
  sc_DropCapabilities :: "string list"

record container =
  ct_Name :: string
  ct_Image :: string
  ct_Env :: "env_var list"
  ct_EnvFrom :: "env_from list"
  ct_Ports :: "int list"
  ct_Requests :: resource_list
  ct_Limits :: resource_list
  ct_Security :: "security_context option"

record deployment =
  dp_Labels :: gomap
  dp_Annotations :: gomap
  dp_Replicas :: "int option"
  dp_Selector :: gomap
  dp_TemplateLabels :: gomap
  dp_Containers :: "container list"

record service_object =
  sv_Labels :: gomap
  sv_Annotations :: gomap
  sv_Type :: string
  sv_Ports :: "(int \<times> int \<times> string) list"
  sv_Selector :: gomap

record ingress_object =
  ig_Labels :: gomap
  ig_Annotations :: gomap
  ig_Hosts :: "string list"
  ig_Backend :: "string \<times> int"
  ig_TLS :: "string option"

record app_object =
  ao_Labels :: gomap
  ao_Image :: string
  ao_Replicas :: "int option"
  ao_Hosts :: "string list"
  ao_ResourceVersion :: string

datatype kobj =
    KNamespace gomap
  | KQuota quota_spec
  | KLimits "limit_item list"
  | KPolicy network_policy
  | KAccount
  | KRole "policy_rule list"
  | KBinding string string
  | KToken string
  | KConfigMap gomap "(string \<times> string) list"
  | KSecret gomap string "(string \<times> string) list"
  | KDeployment deployment
  | KService service_object
  | KIngress ingress_object
  | KCertificate string string
  | KApp app_object
  | KManifest gomap json

text \<open>Cluster, kind, namespace (empty for objects of the cluster) and name.\<close>

type_synonym kube_key = "string \<times> string \<times> string \<times> string"

section \<open>The world and its environment\<close>

record world =
  w_Users :: "User list"
  w_Clusters :: "Cluster list"
  w_Statuses :: "ClusterStatus list"
  w_Projects :: "Project list"
  w_Spaces :: "UserSpace list"
  w_Kubeconfigs :: "KubeconfigRecord list"
  w_Maintenance :: "MaintenanceState option"
  w_Apps :: "App list"
  w_Domains :: "AppDomain list"
  w_GitCreds :: "Credential list"
  w_RegistryCreds :: "Credential list"
  w_Releases :: "Release list"
  w_Crds :: "K8sCRD list"
  w_Events :: event_state
  w_Dns :: dns_history
  w_Waiting :: "(string \<times> string \<times> string \<times> string) list"
  w_Kube :: "(kube_key \<times> kobj) list"
  w_Clients :: "string list"
  w_Calls :: nat

record cp_env =
  ce_cfg :: Config
  ce_fails :: "nat \<Rightarrow> bool"
  ce_uuid :: "nat \<Rightarrow> string"
  ce_clock :: "nat \<Rightarrow> int"
  ce_nonce :: "nat \<Rightarrow> byte list option"
  ce_aead :: aead
  ce_parse :: quantities
  ce_restOK :: "string \<Rightarrow> bool"
  ce_token :: "nat \<Rightarrow> string \<Rightarrow> string \<times> byte list"
  ce_actor :: string
  ce_events :: event_env

datatype cp_error =
    Unavailable | NoRows | ConstraintViolated | KubeNotFound | KubeAlreadyExists | BadKubeconfig
  | MaintenanceEnabled string | InvalidInput | NotPermitted | Panicked | TokenTimeout
  | CryptoFailed crypto_error | EventFailed event_error | KubeconfigFailed kubeconfig_error
  | BadDocument | OperatorFailed | DnsFailed dns_error | ReleaseFailed release_error

section \<open>Composition of handlers\<close>

type_synonym 'a handler = "world \<Rightarrow> world \<times> (cp_error + 'a)"

definition ret :: "'a \<Rightarrow> 'a handler" where
  "ret x w = (w, Inr x)"

definition fail :: "cp_error \<Rightarrow> 'a handler" where
  "fail e w = (w, Inl e)"

text \<open>Go's \<open>x, err := m; if err != nil { return err }; f(x)\<close>.\<close>

definition bindS :: "'a handler \<Rightarrow> ('a \<Rightarrow> 'b handler) \<Rightarrow> 'b handler" where
  "bindS m f w = (case m w of (w', Inl e) \<Rightarrow> (w', Inl e) | (w', Inr x) \<Rightarrow> f x w')"

text \<open>Go's \<open>x, err := m\<close> where the code looks at \<open>err\<close> itself.\<close>

definition tryS :: "'a handler \<Rightarrow> (cp_error + 'a \<Rightarrow> 'b handler) \<Rightarrow> 'b handler" where
  "tryS m f w = (case m w of (w', r) \<Rightarrow> f r w')"

text \<open>Reading the world, an early return, and the loop that stops at the first error.\<close>

definition getS :: "(world \<Rightarrow> 'a) \<Rightarrow> 'a handler" where
  "getS f w = (w, Inr (f w))"

definition putS :: "(world \<Rightarrow> world) \<Rightarrow> unit handler" where
  "putS f w = (f w, Inr ())"

definition unless :: "bool \<Rightarrow> cp_error \<Rightarrow> 'a handler \<Rightarrow> 'a handler" where
  "unless ok e m = (if ok then m else fail e)"

fun forEach :: "('a \<Rightarrow> unit handler) \<Rightarrow> 'a list \<Rightarrow> unit handler" where
  "forEach f [] = ret ()"
| "forEach f (x # xs) = bindS (f x) (\<lambda>_. forEach f xs)"

definition liftR :: "('e \<Rightarrow> cp_error) \<Rightarrow> 'e + 'a \<Rightarrow> 'a handler" where
  "liftR err r = (case r of Inl e \<Rightarrow> fail (err e) | Inr x \<Rightarrow> ret x)"

definition orPanic :: "'a option \<Rightarrow> 'a handler" where
  "orPanic r = (case r of None \<Rightarrow> fail Panicked | Some x \<Rightarrow> ret x)"

definition firstRow :: "'a list \<Rightarrow> 'a handler" where
  "firstRow rows = (case rows of [] \<Rightarrow> fail NoRows | r # _ \<Rightarrow> ret r)"

text \<open>An external call, and the values the environment supplies.\<close>

definition tick :: "world \<Rightarrow> world" where
  "tick w = w\<lparr> w_Calls := Suc (w_Calls w) \<rparr>"

definition call :: "cp_env \<Rightarrow> 'a handler \<Rightarrow> 'a handler" where
  "call env m w = (if ce_fails env (w_Calls w) then (tick w, Inl Unavailable) else m (tick w))"

definition newUUID :: "cp_env \<Rightarrow> string handler" where
  "newUUID env w = (tick w, Inr (ce_uuid env (w_Calls w)))"

definition timeNow :: "cp_env \<Rightarrow> int handler" where
  "timeNow env w = (tick w, Inr (ce_clock env (w_Calls w)))"

section \<open>Encryption at rest\<close>

definition encKey :: "cp_env \<Rightarrow> byte list" where
  "encKey env = DeriveKey (KcfgEncryptionKey (cfgApp (ce_cfg env)))"

definition encrypt :: "cp_env \<Rightarrow> string \<Rightarrow> byte list handler" where
  "encrypt env plaintext w =
    liftR CryptoFailed
      (EncryptAESGCM (ce_aead env) (ce_nonce env (w_Calls w)) (bytesOf plaintext) (encKey env)) (tick w)"

definition decrypt :: "cp_env \<Rightarrow> byte list \<Rightarrow> string handler" where
  "decrypt env data =
    bindS (liftR CryptoFailed (DecryptAESGCM (ce_aead env) data (encKey env))) (\<lambda>pt. ret (textOf pt))"

section \<open>Requests to a cluster\<close>

definition nsKey :: "string \<Rightarrow> string \<Rightarrow> kube_key" where
  "nsKey cluster ns = (cluster, ''Namespace'', [], ns)"

definition namespaceExists :: "string \<Rightarrow> string \<Rightarrow> world \<Rightarrow> bool" where
  "namespaceExists cluster ns w \<longleftrightarrow> ns = [] \<or> map_of (w_Kube w) (nsKey cluster ns) \<noteq> None"

definition kubeGet :: "cp_env \<Rightarrow> kube_key \<Rightarrow> kobj handler" where
  "kubeGet env key = call env (\<lambda>w.
    case map_of (w_Kube w) key of None \<Rightarrow> (w, Inl KubeNotFound) | Some obj \<Rightarrow> (w, Inr obj))"

text \<open>\<open>apply\<close>: a server-side apply that forces ownership.\<close>

definition kubeApply :: "cp_env \<Rightarrow> kube_key \<Rightarrow> kobj \<Rightarrow> unit handler" where
  "kubeApply env key obj = call env (\<lambda>w.
    case key of (cluster, kind, ns, name) \<Rightarrow>
      if namespaceExists cluster ns w then (w\<lparr> w_Kube := AList.update key obj (w_Kube w) \<rparr>, Inr ())
      else (w, Inl KubeNotFound))"

definition kubeCreate :: "cp_env \<Rightarrow> kube_key \<Rightarrow> kobj \<Rightarrow> unit handler" where
  "kubeCreate env key obj = call env (\<lambda>w.
    case key of (cluster, kind, ns, name) \<Rightarrow>
      if \<not> namespaceExists cluster ns w then (w, Inl KubeNotFound)
      else if map_of (w_Kube w) key \<noteq> None then (w, Inl KubeAlreadyExists)
      else (w\<lparr> w_Kube := AList.update key obj (w_Kube w) \<rparr>, Inr ()))"

text \<open>Deleting a namespace deletes what it holds.\<close>

definition doomed :: "kube_key \<Rightarrow> kube_key \<Rightarrow> bool" where
  "doomed gone key \<longleftrightarrow>
    key = gone \<or> (case (gone, key) of
      ((cluster, kind, ns, name), (cluster', _, ns', _)) \<Rightarrow> kind = ''Namespace'' \<and> ns = [] \<and> cluster' = cluster \<and> ns' = name)"

definition kubeDelete :: "cp_env \<Rightarrow> kube_key \<Rightarrow> unit handler" where
  "kubeDelete env key = call env (\<lambda>w.
    if map_of (w_Kube w) key = None then (w, Inl KubeNotFound)
    else (w\<lparr> w_Kube := filter (\<lambda>(k, _). \<not> doomed key k) (w_Kube w) \<rparr>, Inr ()))"

definition kubeList :: "cp_env \<Rightarrow> string \<Rightarrow> string \<Rightarrow> string \<Rightarrow> (string \<times> kobj) list handler" where
  "kubeList env cluster kind ns = call env (\<lambda>w.
    (w, Inr (List.map_filter (\<lambda>((c, k, n, name), obj).
       if c = cluster \<and> k = kind \<and> n = ns then Some (name, obj) else None) (w_Kube w))))"

text \<open>Reading a document: \<open>getString\<close> and \<open>getMapString\<close> of \<open>internal/service/apps.go\<close>.\<close>

definition getString :: "jobject \<Rightarrow> string \<Rightarrow> string" where
  "getString m k = (case map_of m k of Some (JStr s) \<Rightarrow> s | _ \<Rightarrow> [])"

fun getMapString :: "json \<Rightarrow> string list \<Rightarrow> string" where
  "getMapString cur [] = (case cur of JStr s \<Rightarrow> s | _ \<Rightarrow> [])"
| "getMapString cur (p # path) =
    (case cur of
       JObj m \<Rightarrow> (case map_of m p of None \<Rightarrow> [] | Some v \<Rightarrow> getMapString v path)
     | _ \<Rightarrow> [])"

section \<open>Events\<close>

text \<open>
  The handlers put texts, numbers, slices and a \<open>map[string]string\<close> into the metadata of their events,
  but no \<open>map[string]any\<close>.
\<close>

definition plainMeta :: "jobject \<Rightarrow> meta" where
  "plainMeta m = map (\<lambda>(k, v). (k, MetaValue v)) m"

definition appendEvent :: "cp_env \<Rightarrow> string \<Rightarrow> string \<Rightarrow> string \<Rightarrow> string \<Rightarrow> string \<Rightarrow> jobject \<Rightarrow> unit handler" where
  "appendEvent env projectID appID kind severity message meta =
    (let event = (\<lambda>w. case AppendProjectEvent (ce_events env)
             \<lparr> ei_ProjectID = projectID, ei_AppID = appID, ei_ActorUserID = [], ei_Kind = kind,
               ei_Severity = severity, ei_Message = message, ei_Meta = plainMeta meta \<rparr> (w_Events w) of
           (st, r) \<Rightarrow> (w\<lparr> w_Events := st \<rparr>, case r of Inl e \<Rightarrow> Inl (EventFailed e) | Inr _ \<Rightarrow> Inr ()))
     in if ee_dbEnabled (ce_events env) then call env event else event)"

section \<open>Rules for composed handlers\<close>

named_theorems handler_rules
named_theorems handler_defs

text \<open>
  \<open>keeps I m\<close>: running \<open>m\<close> in a world with the invariant \<open>I\<close> gives a world with it, whatever the
  outcome; \<open>yields I m Q\<close> says in addition that a result of \<open>m\<close> satisfies \<open>Q\<close>.
\<close>

definition yields :: "(world \<Rightarrow> bool) \<Rightarrow> 'a handler \<Rightarrow> ('a \<Rightarrow> bool) \<Rightarrow> bool" where
  "yields I m Q \<longleftrightarrow> (\<forall>w. I w \<longrightarrow> I (fst (m w)) \<and> (\<forall>x. snd (m w) = Inr x \<longrightarrow> Q x))"

abbreviation keeps :: "(world \<Rightarrow> bool) \<Rightarrow> 'a handler \<Rightarrow> bool" where
  "keeps I m \<equiv> yields I m (\<lambda>_. True)"

lemma yieldsI: "(\<And>w. I w \<Longrightarrow> I (fst (m w))) \<Longrightarrow> (\<And>w x. I w \<Longrightarrow> snd (m w) = Inr x \<Longrightarrow> Q x) \<Longrightarrow> yields I m Q"
  by (auto simp: yields_def)

lemma yieldsD: "yields I m Q \<Longrightarrow> I w \<Longrightarrow> I (fst (m w))"
  "yields I m Q \<Longrightarrow> I w \<Longrightarrow> snd (m w) = Inr x \<Longrightarrow> Q x"
  by (auto simp: yields_def)

lemma yields_weaken: "yields I m Q \<Longrightarrow> (\<And>x. Q x \<Longrightarrow> R x) \<Longrightarrow> yields I m R"
  by (auto simp: yields_def)

lemma yields_ret: "Q x \<Longrightarrow> yields I (ret x) Q"
  by (simp add: yields_def ret_def)

lemma yields_fail [handler_rules]: "yields I (fail e) Q"
  by (simp add: yields_def fail_def)

lemma yields_getS: "(\<And>w. I w \<Longrightarrow> Q (f w)) \<Longrightarrow> yields I (getS f) Q"
  by (simp add: yields_def getS_def)

lemma yields_putS: "(\<And>w. I w \<Longrightarrow> I (f w)) \<Longrightarrow> keeps I (putS f)"
  by (simp add: yields_def putS_def)

lemma yields_bindS:
  assumes "yields I m P" "\<And>x. P x \<Longrightarrow> yields I (f x) Q"
  shows "yields I (bindS m f) Q"
  using assms by (auto simp: yields_def bindS_def split: prod.splits sum.splits)

lemma yields_tryS:
  assumes "yields I m P" "\<And>x. P x \<Longrightarrow> yields I (f (Inr x)) Q" "\<And>e. yields I (f (Inl e)) Q"
  shows "yields I (tryS m f) Q"
proof (rule yieldsI)
  fix w assume i: "I w"
  obtain w' r where m: "m w = (w', r)" by fastforce
  have i': "I w'" using yieldsD(1) [OF assms(1) i] m by simp
  have y: "yields I (f r) Q"
    using assms(2,3) yieldsD(2) [OF assms(1) i] m by (cases r) auto
  show "I (fst (tryS m f w))" using yieldsD(1) [OF y i'] by (simp add: tryS_def m)
  show "Q x" if "snd (tryS m f w) = Inr x" for x
    using yieldsD(2) [OF y i'] that by (simp add: tryS_def m)
qed

lemma yields_unless: "(ok \<Longrightarrow> yields I m Q) \<Longrightarrow> yields I (unless ok e m) Q"
  by (simp add: unless_def yields_fail)

lemma yields_if: "(b \<Longrightarrow> yields I m Q) \<Longrightarrow> (\<not> b \<Longrightarrow> yields I n Q) \<Longrightarrow> yields I (if b then m else n) Q"
  by simp

lemma keeps_forEach: "(\<And>x. x \<in> set xs \<Longrightarrow> keeps I (f x)) \<Longrightarrow> keeps I (forEach f xs)"
  by (induction xs) (auto intro!: yields_ret yields_bindS)

lemma yields_liftR: "(\<And>x. r = Inr x \<Longrightarrow> Q x) \<Longrightarrow> yields I (liftR err r) Q"
  by (cases r) (simp_all add: liftR_def yields_ret yields_fail)

lemma yields_orPanic: "(\<And>x. r = Some x \<Longrightarrow> Q x) \<Longrightarrow> yields I (orPanic r) Q"
  by (cases r) (simp_all add: orPanic_def yields_ret yields_fail)

lemma yields_firstRow: "(\<And>x. x \<in> set rows \<Longrightarrow> Q x) \<Longrightarrow> yields I (firstRow rows) Q"
  by (cases rows) (simp_all add: firstRow_def yields_ret yields_fail)

text \<open>Invariants that do not look at the counter of calls.\<close>

definition callStable :: "(world \<Rightarrow> bool) \<Rightarrow> bool" where
  "callStable I \<longleftrightarrow> (\<forall>w. I (tick w) = I w)"

lemma callStableD [simp]: "callStable I \<Longrightarrow> I (tick w) = I w"
  by (simp add: callStable_def)

lemma yields_call: "callStable I \<Longrightarrow> yields I m Q \<Longrightarrow> yields I (call env m) Q"
  by (auto simp: yields_def call_def) (metis callStableD)

lemma keeps_newUUID: "callStable I \<Longrightarrow> keeps I (newUUID env)"
  by (simp add: yields_def newUUID_def)

lemma keeps_timeNow: "callStable I \<Longrightarrow> keeps I (timeNow env)"
  by (simp add: yields_def timeNow_def)

end
