(* ===== verification/StoreOps.thy ===== *)
theory StoreOps
  imports ControlPlane
begin

text \<open>
  The statements of the store: \<open>users.go\<close>, \<open>userspace.go\<close>, \<open>projects.go\<close>, \<open>clusters.go\<close>, \<open>kubeconfigs.go\<close>,
  \<open>maintenance.go\<close> and \<open>apps.go\<close> under \<open>internal/store\<close>, with the keys and the unique and foreign key
  constraints of the migrations. An \<open>INSERT\<close> that breaks a constraint fails; users, projects and apps are
  deleted by marking their rows. A store function with the name of a service function has the prefix
  \<open>Store_\<close>.
\<close>

section \<open>Paging\<close>

definition pageSizeOf :: "int \<Rightarrow> nat" where
  "pageSizeOf limit = (if limit \<le> 0 then 100 else nat limit)"

definition pageStart :: "int \<Rightarrow> nat" where
  "pageStart offset = (if offset < 0 then 0 else nat offset)"

definition pageRows :: "int \<Rightarrow> int \<Rightarrow> 'a list \<Rightarrow> 'a list" where
  "pageRows limit offset rows = take (pageSizeOf limit) (drop (pageStart offset) rows)"

section \<open>Users\<close>

definition GetUser :: "cp_env \<Rightarrow> string \<Rightarrow> User handler" where
  "GetUser env ident = call env (bindS
    (getS (\<lambda>w. filter (\<lambda>u. u_ID u = ident \<and> \<not> u_Deleted u) (w_Users w))) firstRow)"

definition GetUserByEmail :: "cp_env \<Rightarrow> string \<Rightarrow> User handler" where
  "GetUserByEmail env email = call env (bindS
    (getS (\<lambda>w. filter (\<lambda>u. u_Email u = email \<and> \<not> u_Deleted u) (w_Users w))) firstRow)"

definition CreateUser :: "cp_env \<Rightarrow> string \<Rightarrow> string \<Rightarrow> string \<Rightarrow> User handler" where
  "CreateUser env ident name email = call env (\<lambda>w.
    if list_ex (\<lambda>r. u_ID r = ident \<or> u_Email r = email) (w_Users w) then (w, Inl ConstraintViolated)
    else let row = \<lparr> u_ID = ident, u_Name = name, u_Email = email, u_CreatedAt = ce_clock env (w_Calls w),
                     u_Deleted = False \<rparr>
         in (w\<lparr> w_Users := w_Users w @ [row] \<rparr>, Inr row))"

definition ListUsers :: "cp_env \<Rightarrow> int \<Rightarrow> int \<Rightarrow> User list handler" where
  "ListUsers env limit offset = call env (getS (\<lambda>w.
    pageRows limit offset (sort_key (\<lambda>u. - u_CreatedAt u) (filter (\<lambda>u. \<not> u_Deleted u) (w_Users w)))))"

definition SoftDeleteUser :: "cp_env \<Rightarrow> string \<Rightarrow> unit handler" where
  "SoftDeleteUser env ident = call env (putS (\<lambda>w. w\<lparr> w_Users :=
    map (\<lambda>u. if u_ID u = ident then u\<lparr> u_Deleted := True \<rparr> else u) (w_Users w) \<rparr>))"

section \<open>User spaces\<close>

definition CreateUserSpace :: "cp_env \<Rightarrow> string \<Rightarrow> string \<Rightarrow> string \<Rightarrow> string \<Rightarrow> byte list \<Rightarrow> UserSpace handler" where
  "CreateUserSpace env ident userID clusterID namespace enc = call env (\<lambda>w.
    if list_ex (\<lambda>r. us_ID r = ident \<or> (us_UserID r = userID \<and> us_ClusterID r = clusterID)) (w_Spaces w)
    then (w, Inl ConstraintViolated)
    else let row = \<lparr> us_ID = ident, us_UserID = userID, us_ClusterID = clusterID, us_Namespace = namespace,
                     us_CreatedAt = ce_clock env (w_Calls w), us_Kubeconfig = enc \<rparr>
         in (w\<lparr> w_Spaces := w_Spaces w @ [row] \<rparr>, Inr row))"

definition GetUserSpace :: "cp_env \<Rightarrow> string \<Rightarrow> string \<Rightarrow> UserSpace handler" where
  "GetUserSpace env userID clusterID = call env (bindS
    (getS (\<lambda>w. filter (\<lambda>r. us_UserID r = userID \<and> us_ClusterID r = clusterID) (w_Spaces w))) firstRow)"

definition UpdateUserSpaceKubeconfig :: "cp_env \<Rightarrow> string \<Rightarrow> byte list \<Rightarrow> unit handler" where
  "UpdateUserSpaceKubeconfig env ident enc = call env (putS (\<lambda>w. w\<lparr> w_Spaces :=
    map (\<lambda>r. if us_ID r = ident then r\<lparr> us_Kubeconfig := enc \<rparr> else r) (w_Spaces w) \<rparr>))"

definition ListUserSpacesByUser :: "cp_env \<Rightarrow> string \<Rightarrow> UserSpace list handler" where
  "ListUserSpacesByUser env userID = call env (getS (\<lambda>w. filter (\<lambda>r. us_UserID r = userID) (w_Spaces w)))"

section \<open>Projects\<close>

text \<open>A document for a \<open>jsonb\<close> column has to be JSON; it reads back as the text of its value.\<close>

definition jsonColumn :: "string option \<Rightarrow> json option option" where
  "jsonColumn text = (case text of None \<Rightarrow> Some None | Some t \<Rightarrow> map_option Some (parseJson t))"

definition columnText :: "json option \<Rightarrow> string option" where
  "columnText col = map_option jsonText col"

definition projectClash :: "string \<Rightarrow> string \<Rightarrow> string \<Rightarrow> Project \<Rightarrow> bool" where
  "projectClash ident clusterID namespace r \<longleftrightarrow>
    p_ID r = ident \<or> (\<not> p_Deleted r \<and> p_ClusterID r = clusterID \<and> p_Namespace r = namespace)"

definition Store_CreateProject ::
  "cp_env \<Rightarrow> string \<Rightarrow> string \<Rightarrow> string \<Rightarrow> string \<Rightarrow> string \<Rightarrow> bool \<Rightarrow> string option \<Rightarrow> byte list \<Rightarrow> Project handler" where
  "Store_CreateProject env ident userID clusterID name namespace suspended quota enc = call env (\<lambda>w.
    case jsonColumn quota of
      None \<Rightarrow> (w, Inl BadDocument)
    | Some col \<Rightarrow>
        if list_ex (projectClash ident clusterID namespace) (w_Projects w) then (w, Inl ConstraintViolated)
        else let row = \<lparr> p_ID = ident, p_UserID = userID, p_ClusterID = clusterID, p_Name = name,
                         p_Namespace = namespace, p_Suspended = suspended, p_CreatedAt = ce_clock env (w_Calls w),
                         p_Quota = col, p_Kubeconfig = enc, p_Deleted = False \<rparr>
             in (w\<lparr> w_Projects := w_Projects w @ [row] \<rparr>, Inr row))"

definition liveProjects :: "world \<Rightarrow> Project list" where
  "liveProjects w = filter (\<lambda>p. \<not> p_Deleted p) (w_Projects w)"

definition GetProject :: "cp_env \<Rightarrow> string \<Rightarrow> Project handler" where
  "GetProject env ident = call env (bindS (getS (\<lambda>w. filter (\<lambda>p. p_ID p = ident) (liveProjects w))) firstRow)"

definition updateProject :: "cp_env \<Rightarrow> string \<Rightarrow> (Project \<Rightarrow> Project) \<Rightarrow> unit handler" where
  "updateProject env ident f = call env (putS (\<lambda>w. w\<lparr> w_Projects :=
    map (\<lambda>p. if p_ID p = ident then f p else p) (w_Projects w) \<rparr>))"

definition UpdateProjectSuspended :: "cp_env \<Rightarrow> string \<Rightarrow> bool \<Rightarrow> unit handler" where
  "UpdateProjectSuspended env ident suspended = updateProject env ident (\<lambda>p. p\<lparr> p_Suspended := suspended \<rparr>)"

definition UpdateProjectQuotaOverrides :: "cp_env \<Rightarrow> string \<Rightarrow> string option \<Rightarrow> unit handler" where
  "UpdateProjectQuotaOverrides env ident quota =
    (case jsonColumn quota of
       None \<Rightarrow> call env (fail BadDocument)
     | Some col \<Rightarrow> updateProject env ident (\<lambda>p. p\<lparr> p_Quota := col \<rparr>))"

definition UpdateProjectKubeconfig :: "cp_env \<Rightarrow> string \<Rightarrow> byte list \<Rightarrow> unit handler" where
  "UpdateProjectKubeconfig env ident enc = updateProject env ident (\<lambda>p. p\<lparr> p_Kubeconfig := enc \<rparr>)"

definition newestFirst :: "Project list \<Rightarrow> Project list" where
  "newestFirst = sort_key (\<lambda>p. - p_CreatedAt p)"

definition ListProjects :: "cp_env \<Rightarrow> int \<Rightarrow> int \<Rightarrow> Project list handler" where
  "ListProjects env limit offset = call env (getS (\<lambda>w. pageRows limit offset (newestFirst (liveProjects w))))"

definition ListProjectsByUser :: "cp_env \<Rightarrow> string \<Rightarrow> int \<Rightarrow> int \<Rightarrow> Project list handler" where
  "ListProjectsByUser env userID limit offset = call env (getS (\<lambda>w.
    pageRows limit offset (newestFirst (filter (\<lambda>p. p_UserID p = userID) (liveProjects w)))))"

definition GetProjectByNamespace :: "cp_env \<Rightarrow> string \<Rightarrow> string \<Rightarrow> Project handler" where
  "GetProjectByNamespace env clusterID namespace = call env (bindS (getS (\<lambda>w.
    sort_key p_CreatedAt (filter (\<lambda>p. p_ClusterID p = clusterID \<and> p_Namespace p = namespace) (liveProjects w)))) firstRow)"

definition SoftDeleteProject :: "cp_env \<Rightarrow> string \<Rightarrow> unit handler" where
  "SoftDeleteProject env ident = updateProject env ident (\<lambda>p. p\<lparr> p_Deleted := True \<rparr>)"

definition SoftDeleteProjectsByUser :: "cp_env \<Rightarrow> string \<Rightarrow> unit handler" where
  "SoftDeleteProjectsByUser env userID = call env (putS (\<lambda>w. w\<lparr> w_Projects :=
    map (\<lambda>p. if p_UserID p = userID then p\<lparr> p_Deleted := True \<rparr> else p) (w_Projects w) \<rparr>))"

section \<open>Clusters\<close>

fun normalizeTagsLoop :: "string list \<Rightarrow> string list \<Rightarrow> string list" where
  "normalizeTagsLoop out [] = rev out"
| "normalizeTagsLoop out (t # tags) =
    (let cleaned = ToLower (TrimSpace t) in
     if TrimSpace t = [] \<or> cleaned \<in> set out then normalizeTagsLoop out tags
     else normalizeTagsLoop (cleaned # out) tags)"

definition normalizeTags :: "string list \<Rightarrow> string list" where
  "normalizeTags tags = Strings (normalizeTagsLoop [] tags)"

text \<open>A blank text is stored as \<open>NULL\<close>, which \<open>scanCluster\<close> reads as the empty text.\<close>

definition nullableString :: "string \<Rightarrow> string" where
  "nullableString v = (if TrimSpace v = [] then [] else v)"

definition scanStatus :: "ClusterStatus \<Rightarrow> ClusterStatus" where
  "scanStatus st = st\<lparr> cs_Message := nullableString (cs_Message st),
    cs_APIServerVersion := nullableString (cs_APIServerVersion st) \<rparr>"

definition metadataColumns :: "Cluster \<Rightarrow> Cluster \<Rightarrow> Cluster" where
  "metadataColumns c row = row\<lparr> c_Owner := nullableString (c_Owner c), c_Contact := nullableString (c_Contact c),
    c_Environment := nullableString (c_Environment c), c_Region := nullableString (c_Region c),
    c_APIServer := nullableString (c_APIServer c), c_Description := nullableString (c_Description c),
    c_Tags := normalizeTags (c_Tags c) \<rparr>"

definition Store_CreateCluster :: "cp_env \<Rightarrow> Cluster \<Rightarrow> byte list \<Rightarrow> Cluster handler" where
  "Store_CreateCluster env c enc = call env (\<lambda>w.
    if list_ex (\<lambda>r. c_ID r = c_ID c \<or> c_Name r = c_Name c) (w_Clusters w) then (w, Inl ConstraintViolated)
    else let at = ce_clock env (w_Calls w);
             row = (metadataColumns c c)\<lparr> c_LastSeen := None, c_LastStatus := None, c_CreatedAt := at,
                     c_Kubeconfig := enc \<rparr>
         in (w\<lparr> w_Clusters := w_Clusters w @ [row] \<rparr>,
             Inr (c\<lparr> c_Tags := normalizeTags (c_Tags c), c_CreatedAt := at \<rparr>)))"

definition Store_GetCluster :: "cp_env \<Rightarrow> string \<Rightarrow> Cluster handler" where
  "Store_GetCluster env ident = call env (bindS (getS (\<lambda>w. filter (\<lambda>c. c_ID c = ident) (w_Clusters w))) firstRow)"

definition Store_UpdateClusterMetadata :: "cp_env \<Rightarrow> Cluster \<Rightarrow> Cluster handler" where
  "Store_UpdateClusterMetadata env c =
    bindS (call env (\<lambda>w.
      if list_ex (\<lambda>r. c_ID r = c_ID c) (w_Clusters w)
      then (w\<lparr> w_Clusters := map (\<lambda>r. if c_ID r = c_ID c then metadataColumns c r else r) (w_Clusters w) \<rparr>, Inr ())
      else (w, Inl NoRows)))
    (\<lambda>_. Store_GetCluster env (c_ID c))"

definition Store_ListClusters :: "cp_env \<Rightarrow> Cluster list handler" where
  "Store_ListClusters env = call env (getS (\<lambda>w. sort_key (\<lambda>c. - c_CreatedAt c) (w_Clusters w)))"

definition GetClusterKubeconfigEnc :: "cp_env \<Rightarrow> string \<Rightarrow> byte list handler" where
  "GetClusterKubeconfigEnc env ident = call env (bindS (getS (\<lambda>w. filter (\<lambda>c. c_ID c = ident) (w_Clusters w)))
    (\<lambda>rows. bindS (firstRow rows) (\<lambda>c. ret (c_Kubeconfig c))))"

definition DeleteCluster :: "cp_env \<Rightarrow> string \<Rightarrow> unit handler" where
  "DeleteCluster env ident = call env (putS (\<lambda>w. w\<lparr>
    w_Clusters := filter (\<lambda>c. c_ID c \<noteq> ident) (w_Clusters w),
    w_Statuses := filter (\<lambda>s. cs_ClusterID s \<noteq> ident) (w_Statuses w) \<rparr>))"

definition ListClusterStatus :: "cp_env \<Rightarrow> string \<Rightarrow> int \<Rightarrow> ClusterStatus list handler" where
  "ListClusterStatus env clusterID limit = call env (getS (\<lambda>w.
    take (if limit \<le> 0 then 20 else nat limit)
      (sort_key (\<lambda>s. - cs_CheckedAt s) (filter (\<lambda>s. cs_ClusterID s = clusterID) (w_Statuses w)))))"

definition InsertClusterStatus :: "cp_env \<Rightarrow> ClusterStatus \<Rightarrow> ClusterStatus handler" where
  "InsertClusterStatus env st = call env (\<lambda>w.
    if \<not> list_ex (\<lambda>c. c_ID c = cs_ClusterID st) (w_Clusters w) \<or> list_ex (\<lambda>s. cs_ID s = cs_ID st) (w_Statuses w)
    then (w, Inl ConstraintViolated)
    else (w\<lparr> w_Statuses := w_Statuses w @ [scanStatus st],
             w_Clusters := map (\<lambda>c. if c_ID c = cs_ClusterID st
               then c\<lparr> c_LastStatus := Some (scanStatus st), c_LastSeen := Some (cs_CheckedAt st) \<rparr> else c) (w_Clusters w) \<rparr>,
          Inr st))"

section \<open>Kubeconfig records\<close>

definition kubeconfigClash :: "KubeconfigRecord \<Rightarrow> KubeconfigRecord \<Rightarrow> bool" where
  "kubeconfigClash rec r \<longleftrightarrow> kr_ID r = kr_ID rec
    \<or> (kr_ClusterID r = kr_ClusterID rec \<and> kr_Namespace r = kr_Namespace rec
       \<and> (case (kr_ProjectID rec, kr_ProjectID r) of
            (None, None) \<Rightarrow> kr_UserID r = kr_UserID rec
          | (Some p, Some q) \<Rightarrow> p = q
          | _ \<Rightarrow> False))"

definition CreateKubeconfigRecord :: "cp_env \<Rightarrow> KubeconfigRecord \<Rightarrow> KubeconfigRecord handler" where
  "CreateKubeconfigRecord env rec = call env (\<lambda>w.
    if list_ex (kubeconfigClash rec) (w_Kubeconfigs w) then (w, Inl ConstraintViolated)
    else (w\<lparr> w_Kubeconfigs := w_Kubeconfigs w @ [rec] \<rparr>, Inr rec))"

definition findKubeconfig :: "cp_env \<Rightarrow> (KubeconfigRecord \<Rightarrow> bool) \<Rightarrow> KubeconfigRecord handler" where
  "findKubeconfig env P = call env (bindS (getS (\<lambda>w. filter P (w_Kubeconfigs w))) firstRow)"

definition GetKubeconfigByID :: "cp_env \<Rightarrow> string \<Rightarrow> KubeconfigRecord handler" where
  "GetKubeconfigByID env ident = findKubeconfig env (\<lambda>r. kr_ID r = ident)"

definition GetKubeconfigByProject :: "cp_env \<Rightarrow> string \<Rightarrow> KubeconfigRecord handler" where
  "GetKubeconfigByProject env projectID = findKubeconfig env (\<lambda>r. kr_ProjectID r = Some projectID)"

definition GetKubeconfigByUserScope :: "cp_env \<Rightarrow> string \<Rightarrow> string \<Rightarrow> string \<Rightarrow> KubeconfigRecord handler" where
  "GetKubeconfigByUserScope env clusterID namespace userID = findKubeconfig env (\<lambda>r.
    kr_ClusterID r = clusterID \<and> kr_Namespace r = namespace \<and> kr_UserID r = userID \<and> kr_ProjectID r = None)"

definition UpdateKubeconfigRecord :: "cp_env \<Rightarrow> string \<Rightarrow> string \<Rightarrow> string \<Rightarrow> byte list \<Rightarrow> unit handler" where
  "UpdateKubeconfigRecord env ident secretName serviceAccount enc = call env (putS (\<lambda>w. w\<lparr> w_Kubeconfigs :=
    map (\<lambda>r. if kr_ID r = ident then r\<lparr> kr_SecretName := secretName, kr_ServiceAccount := serviceAccount,
                kr_Kubeconfig := enc \<rparr> else r) (w_Kubeconfigs w) \<rparr>))"

definition DeleteKubeconfigRecord :: "cp_env \<Rightarrow> string \<Rightarrow> unit handler" where
  "DeleteKubeconfigRecord env ident = call env (putS (\<lambda>w. w\<lparr> w_Kubeconfigs :=
    filter (\<lambda>r. kr_ID r \<noteq> ident) (w_Kubeconfigs w) \<rparr>))"

definition CountKubeconfigsByServiceAccount :: "cp_env \<Rightarrow> string \<Rightarrow> string \<Rightarrow> nat handler" where
  "CountKubeconfigsByServiceAccount env namespace serviceAccount = call env (getS (\<lambda>w.
    length (filter (\<lambda>r. kr_Namespace r = namespace \<and> kr_ServiceAccount r = serviceAccount) (w_Kubeconfigs w))))"

section \<open>Maintenance\<close>

definition ensureMaintenanceRow :: "cp_env \<Rightarrow> unit handler" where
  "ensureMaintenanceRow env = call env (\<lambda>w. (case w_Maintenance w of
     Some _ \<Rightarrow> w
   | None \<Rightarrow> w\<lparr> w_Maintenance := Some \<lparr> ms_Enabled = False, ms_Message = [], ms_UpdatedAt = ce_clock env (w_Calls w),
       ms_UpdatedBy = [] \<rparr> \<rparr>, Inr ()))"

definition Store_GetMaintenanceState :: "cp_env \<Rightarrow> MaintenanceState handler" where
  "Store_GetMaintenanceState env = bindS (ensureMaintenanceRow env) (\<lambda>_. call env (\<lambda>w.
     case w_Maintenance w of None \<Rightarrow> (w, Inl NoRows) | Some st \<Rightarrow> (w, Inr st)))"

text \<open>The update calls itself when the row is gone; \<open>fuel\<close> bounds the number of attempts.\<close>

fun Store_UpdateMaintenanceState :: "nat \<Rightarrow> cp_env \<Rightarrow> bool \<Rightarrow> string \<Rightarrow> string \<Rightarrow> MaintenanceState handler" where
  "Store_UpdateMaintenanceState 0 env enabled message actor = fail Panicked"
| "Store_UpdateMaintenanceState (Suc fuel) env enabled message actor =
    bindS (ensureMaintenanceRow env) (\<lambda>_.
      tryS (call env (\<lambda>w. case w_Maintenance w of
          None \<Rightarrow> (w, Inl NoRows)
        | Some _ \<Rightarrow> let st = \<lparr> ms_Enabled = enabled, ms_Message = message,
                               ms_UpdatedAt = ce_clock env (w_Calls w), ms_UpdatedBy = actor \<rparr>
                     in (w\<lparr> w_Maintenance := Some st \<rparr>, Inr st)))
        (\<lambda>r. case r of
            Inr st \<Rightarrow> ret st
          | Inl e \<Rightarrow>
              if e = NoRows
              then bindS (ensureMaintenanceRow env) (\<lambda>_. Store_UpdateMaintenanceState fuel env enabled message actor)
              else fail e))"

section \<open>Applications\<close>

definition liveApps :: "world \<Rightarrow> App list" where
  "liveApps w = filter (\<lambda>a. \<not> a_Deleted a) (w_Apps w)"

definition appClash :: "string \<Rightarrow> string option \<Rightarrow> App \<Rightarrow> bool" where
  "appClash ident ref r \<longleftrightarrow> a_ID r = ident \<or> (\<not> a_Deleted r \<and> ref \<noteq> None \<and> a_ExternalRef r = ref)"

definition CreateApp ::
  "cp_env \<Rightarrow> string \<Rightarrow> string \<Rightarrow> string \<Rightarrow> string \<Rightarrow> string \<Rightarrow> string \<Rightarrow> string \<Rightarrow> jobject \<Rightarrow> jobject \<Rightarrow> unit handler" where
  "CreateApp env ident projectID name status repo webhookSecret externalRef source delivery = call env (\<lambda>w.
    if list_ex (appClash ident (Some externalRef)) (w_Apps w) then (w, Inl ConstraintViolated)
    else (w\<lparr> w_Apps := w_Apps w @ [\<lparr> a_ID = ident, a_ProjectID = projectID, a_Name = name, a_Status = status,
            a_Repo = Some repo, a_WebhookSecret = Some webhookSecret, a_ExternalRef = Some externalRef,
            a_Source = source, a_Delivery = delivery, a_UpdatedAt = ce_clock env (w_Calls w), a_Deleted = False \<rparr>] \<rparr>,
          Inr ()))"

definition GetApp :: "cp_env \<Rightarrow> string \<Rightarrow> App handler" where
  "GetApp env ident = call env (bindS (getS (\<lambda>w. filter (\<lambda>a. a_ID a = ident) (liveApps w))) firstRow)"

definition GetAppByExternalRef :: "cp_env \<Rightarrow> string \<Rightarrow> App handler" where
  "GetAppByExternalRef env ref = call env (bindS
    (getS (\<lambda>w. filter (\<lambda>a. a_ExternalRef a = Some ref) (liveApps w))) firstRow)"

definition FindAppsByRepo :: "cp_env \<Rightarrow> string \<Rightarrow> App list handler" where
  "FindAppsByRepo env repo = call env (getS (\<lambda>w. filter (\<lambda>a. a_Repo a = Some repo) (liveApps w)))"

definition ListAppsByProject :: "cp_env \<Rightarrow> string \<Rightarrow> App list handler" where
  "ListAppsByProject env projectID = call env (getS (\<lambda>w.
    sort_key (\<lambda>a. - a_UpdatedAt a) (filter (\<lambda>a. a_ProjectID a = projectID) (liveApps w))))"

definition softDeleteApps :: "(App \<Rightarrow> bool) \<Rightarrow> world \<Rightarrow> world" where
  "softDeleteApps P w = w\<lparr> w_Apps := map (\<lambda>a. if P a then a\<lparr> a_Deleted := True \<rparr> else a) (w_Apps w) \<rparr>"

definition SoftDeleteApp :: "cp_env \<Rightarrow> string \<Rightarrow> unit handler" where
  "SoftDeleteApp env ident = call env (putS (softDeleteApps (\<lambda>a. a_ID a = ident)))"

definition SoftDeleteAppsByProject :: "cp_env \<Rightarrow> string \<Rightarrow> unit handler" where
  "SoftDeleteAppsByProject env projectID = call env (putS (softDeleteApps (\<lambda>a. a_ProjectID a = projectID)))"

definition SoftDeleteAppsByUser :: "cp_env \<Rightarrow> string \<Rightarrow> unit handler" where
  "SoftDeleteAppsByUser env userID = call env (putS (\<lambda>w.
    softDeleteApps (\<lambda>a. list_ex (\<lambda>p. p_ID p = a_ProjectID a \<and> p_UserID p = userID) (w_Projects w)) w))"

definition UpsertAppDomain :: "cp_env \<Rightarrow> string \<Rightarrow> string \<Rightarrow> string \<Rightarrow> AppDomain handler" where
  "UpsertAppDomain env appID fqdn certStatus =
    (let certStatus = (if certStatus = [] then ''pending'' else certStatus) in
     bindS (newUUID env) (\<lambda>ident. call env (\<lambda>w.
       if \<not> list_ex (\<lambda>a. a_ID a = appID) (w_Apps w) then (w, Inl ConstraintViolated)
       else case filter (\<lambda>d. ad_AppID d = appID \<and> ad_FQDN d = fqdn) (w_Domains w) of
         d # _ \<Rightarrow> let d' = d\<lparr> ad_CertStatus := certStatus \<rparr> in
           (w\<lparr> w_Domains := map (\<lambda>r. if r = d then d' else r) (w_Domains w) \<rparr>, Inr d')
       | [] \<Rightarrow> let d' = \<lparr> ad_ID = ident, ad_AppID = appID, ad_FQDN = fqdn, ad_CertStatus = certStatus,
                         ad_CreatedAt = ce_clock env (w_Calls w) \<rparr> in
           (w\<lparr> w_Domains := w_Domains w @ [d'] \<rparr>, Inr d'))))"

definition ListAppDomains :: "cp_env \<Rightarrow> string \<Rightarrow> AppDomain list handler" where
  "ListAppDomains env appID = call env (getS (\<lambda>w.
    sort_key ad_CreatedAt (filter (\<lambda>d. ad_AppID d = appID) (w_Domains w))))"

definition DeleteAppDomains :: "cp_env \<Rightarrow> string \<Rightarrow> unit handler" where
  "DeleteAppDomains env appID = call env (putS (\<lambda>w. w\<lparr> w_Domains :=
    filter (\<lambda>d. ad_AppID d \<noteq> appID) (w_Domains w) \<rparr>))"

end
