(* ===== verification/ClusterOps.thy ===== *)
theory ClusterOps
  imports StoreOps
begin

text \<open>
  Clusters and maintenance: \<open>internal/service/maintenance.go\<close>, the client cache \<open>internal/kube/manager.go\<close>,
  the installation of the operator \<open>internal/service/operator.go\<close>, the cluster handlers at the top of
  \<open>internal/service/service.go\<close> and the health scheduler \<open>internal/service/healthscheduler.go\<close>.
\<close>

section \<open>Maintenance mode\<close>

definition ensureMaintenanceAllows :: "cp_env \<Rightarrow> unit handler" where
  "ensureMaintenanceAllows env =
    bindS (Store_GetMaintenanceState env) (\<lambda>state.
      if \<not> ms_Enabled state then ret () else fail (MaintenanceEnabled (ms_Message state)))"

definition GetMaintenanceState :: "cp_env \<Rightarrow> MaintenanceState handler" where
  "GetMaintenanceState env = Store_GetMaintenanceState env"

definition UpdateMaintenanceState :: "cp_env \<Rightarrow> bool \<Rightarrow> string \<Rightarrow> MaintenanceState handler" where
  "UpdateMaintenanceState env enabled message =
    (let msg = TrimSpace message;
         actor = TrimSpace (ce_actor env);
         actor = (if actor = [] then ''system'' else actor)
     in unless (length msg \<le> 512) InvalidInput (Store_UpdateMaintenanceState 2 env enabled msg actor))"

section \<open>Clients of the clusters\<close>

definition DecryptClusterKubeconfig :: "cp_env \<Rightarrow> string \<Rightarrow> string handler" where
  "DecryptClusterKubeconfig env ident = bindS (GetClusterKubeconfigEnc env ident) (decrypt env)"

definition getOrCreate :: "cp_env \<Rightarrow> string \<Rightarrow> string handler \<Rightarrow> unit handler" where
  "getOrCreate env ident loader =
    bindS (getS w_Clients) (\<lambda>cached.
      if ident \<in> set cached then ret ()
      else bindS loader (\<lambda>kubeconfig.
        unless (ce_restOK env kubeconfig) BadKubeconfig
          (putS (\<lambda>w. w\<lparr> w_Clients := ident # w_Clients w \<rparr>))))"

definition clusterClient :: "cp_env \<Rightarrow> string \<Rightarrow> unit handler" where
  "clusterClient env ident = getOrCreate env ident (DecryptClusterKubeconfig env ident)"

section \<open>Installing the operator\<close>

definition parsePullPolicy :: "string \<Rightarrow> string option" where
  "parsePullPolicy policy =
    (let p = TrimSpace policy in
     if p = [] then Some ''IfNotPresent''
     else if p \<in> {''Always'', ''IfNotPresent'', ''Never''} then Some p else None)"

definition operatorLabels :: "operatorConfig \<Rightarrow> gomap" where
  "operatorLabels cfg = Map.empty(
    ''app.kubernetes.io/name'' \<mapsto> OperatorDeploymentName cfg,
    ''app.kubernetes.io/instance'' \<mapsto> OperatorDeploymentName cfg,
    ''app.kubernetes.io/component'' \<mapsto> ''operator'',
    ''app.kubernetes.io/part-of'' \<mapsto> ''kubeop'',
    ''app.kubernetes.io/managed-by'' \<mapsto> ''kubeop-api'',
    ''kubeop.io/managed'' \<mapsto> ''true'')"

definition operatorRules :: "policy_rule list" where
  "operatorRules =
    [\<lparr> pr_APIGroups = [''apiextensions.k8s.io''], pr_Resources = [''customresourcedefinitions''],
       pr_Verbs = [''get'', ''list'', ''watch'', ''create'', ''update'', ''patch''] \<rparr>,
     \<lparr> pr_APIGroups = [''app.kubeop.io''], pr_Resources = [''apps''],
       pr_Verbs = [''get'', ''list'', ''watch'', ''create'', ''update'', ''patch'', ''delete''] \<rparr>,
     \<lparr> pr_APIGroups = [''app.kubeop.io''], pr_Resources = [''apps/status''],
       pr_Verbs = [''get'', ''patch'', ''update''] \<rparr>,
     \<lparr> pr_APIGroups = [''apps''], pr_Resources = [''deployments''],
       pr_Verbs = [''get'', ''list'', ''watch'', ''create'', ''update'', ''patch'', ''delete''] \<rparr>,
     \<lparr> pr_APIGroups = [''apps''], pr_Resources = [''replicasets''], pr_Verbs = [''get'', ''list'', ''watch''] \<rparr>,
     \<lparr> pr_APIGroups = [''''], pr_Resources = [''pods''], pr_Verbs = [''get'', ''list'', ''watch''] \<rparr>]"

definition schemaType :: "string \<Rightarrow> json" where
  "schemaType t = JObj [(''type'', JStr t)]"

definition schemaFormat :: "string \<Rightarrow> string \<Rightarrow> json" where
  "schemaFormat t f = JObj [(''type'', JStr t), (''format'', JStr f)]"

definition schemaObject :: "jobject \<Rightarrow> json" where
  "schemaObject properties = JObj [(''type'', JStr ''object''), (''properties'', JObj properties)]"

definition buildAppSchema :: json where
  "buildAppSchema = schemaObject
    [(''spec'', schemaObject
       [(''image'', schemaType ''string''),
        (''replicas'', schemaFormat ''integer'' ''int32''),
        (''hosts'', JObj [(''type'', JStr ''array''), (''items'', schemaType ''string'')])]),
     (''status'', schemaObject
       [(''observedGeneration'', schemaFormat ''integer'' ''int64''),
        (''availableReplicas'', schemaFormat ''integer'' ''int32''),
        (''conditions'', JObj [(''type'', JStr ''array''), (''items'', schemaObject
           [(''type'', schemaType ''string''), (''status'', schemaType ''string''),
            (''reason'', schemaType ''string''), (''message'', schemaType ''string''),
            (''lastTransitionTime'', schemaFormat ''string'' ''date-time'')])])])]"

definition crdGroup :: string where
  "crdGroup = ''app.kubeop.io''"

definition buildAppCRD :: json where
  "buildAppCRD = JObj
    [(''group'', JStr crdGroup),
     (''names'', JObj [(''plural'', JStr ''apps''), (''singular'', JStr ''app''), (''kind'', JStr ''App''),
        (''shortNames'', jList [''kapp'']), (''categories'', jList [''kubeop''])]),
     (''scope'', JStr ''Namespaced''),
     (''versions'', JArr [JObj
        [(''name'', JStr ''v1alpha1''), (''served'', JBool True), (''storage'', JBool True),
         (''schema'', JObj [(''openAPIV3Schema'', buildAppSchema)]),
         (''subresources'', JObj [(''status'', JObj [])]),
         (''additionalPrinterColumns'', JArr
           [jMap [(''name'', ''Image''), (''type'', ''string''), (''jsonPath'', ''.spec.image'')],
            jMap [(''name'', ''Replicas''), (''type'', ''integer''), (''jsonPath'', ''.spec.replicas'')],
            jMap [(''name'', ''Ready''), (''type'', ''string''),
              (''jsonPath'', ''.status.conditions[?(@.type=='' @ [CHR 0x22] @ ''Ready'' @ [CHR 0x22] @ '')].status'')]])]])]"

definition httpProbe :: "string \<Rightarrow> int \<Rightarrow> int \<Rightarrow> json" where
  "httpProbe path period delay = JObj
    [(''httpGet'', JObj [(''path'', JStr path), (''port'', JNum 8081)]), (''periodSeconds'', JNum period),
     (''failureThreshold'', JNum 3), (''successThreshold'', JNum 1), (''initialDelaySeconds'', JNum delay),
     (''timeoutSeconds'', JNum 5)]"

definition operatorPod :: "operatorConfig \<Rightarrow> string \<Rightarrow> json" where
  "operatorPod cfg pullPolicy = JObj
    [(''serviceAccountName'', JStr (OperatorServiceAccount cfg)),
     (''containers'', JArr [JObj
        [(''name'', JStr ''manager''), (''image'', JStr (OperatorImage cfg)), (''imagePullPolicy'', JStr pullPolicy),
         (''args'', jList (if OperatorLeaderElection cfg then [''--leader-elect''] else [])),
         (''ports'', JArr
           [JObj [(''name'', JStr ''metrics''), (''containerPort'', JNum 8080), (''protocol'', JStr ''TCP'')],
            JObj [(''name'', JStr ''probes''), (''containerPort'', JNum 8081), (''protocol'', JStr ''TCP'')]]),
         (''readinessProbe'', httpProbe ''/readyz'' 15 10),
         (''livenessProbe'', httpProbe ''/healthz'' 20 15)]])]"

text \<open>
  The objects in the order they are installed. The selector and the pod labels of the deployment are the
  common labels; the binding joins the service account and the role.
\<close>

definition buildOperatorResources :: "operatorConfig \<Rightarrow> ((string \<times> string \<times> string) \<times> kobj) list option" where
  "buildOperatorResources cfg =
    map_option (\<lambda>pullPolicy.
      [((''Namespace'', [], OperatorNamespace cfg), KNamespace (operatorLabels cfg)),
       ((''ServiceAccount'', OperatorNamespace cfg, OperatorServiceAccount cfg), KAccount),
       ((''ClusterRole'', [], OperatorDeploymentName cfg), KRole operatorRules),
       ((''ClusterRoleBinding'', [], OperatorDeploymentName cfg @ ''-binding''),
        KBinding (OperatorNamespace cfg @ ''/'' @ OperatorServiceAccount cfg) (OperatorDeploymentName cfg)),
       ((''CustomResourceDefinition'', [], ''apps.'' @ crdGroup), KManifest (operatorLabels cfg) buildAppCRD),
       ((''Deployment'', OperatorNamespace cfg, OperatorDeploymentName cfg),
        KManifest (operatorLabels cfg) (JObj [(''replicas'', JNum 1), (''template'', operatorPod cfg pullPolicy)]))])
      (parsePullPolicy (OperatorImagePullPolicy cfg))"

definition createOrUpdate :: "cp_env \<Rightarrow> kube_key \<Rightarrow> kobj \<Rightarrow> unit handler" where
  "createOrUpdate env key obj =
    tryS (kubeGet env key) (\<lambda>r. case r of
        Inr _ \<Rightarrow> kubeApply env key obj
      | Inl e \<Rightarrow> if e = KubeNotFound then kubeCreate env key obj else fail e)"

definition ensureOperatorDeployment :: "cp_env \<Rightarrow> string \<Rightarrow> string \<Rightarrow> unit handler" where
  "ensureOperatorDeployment env clusterID kubeconfig =
    unless (TrimSpace kubeconfig \<noteq> []) InvalidInput
      (bindS (getOrCreate env clusterID (ret (TrimSpace kubeconfig))) (\<lambda>_.
        case buildOperatorResources (cfgOperator (ce_cfg env)) of
          None \<Rightarrow> fail InvalidInput
        | Some resources \<Rightarrow>
            forEach (\<lambda>((kind, ns, name), obj). createOrUpdate env (clusterID, kind, ns, name) obj) resources))"

section \<open>The registry of clusters\<close>

record ClusterMetadataInput =
  cm_Owner :: string
  cm_Contact :: string
  cm_Environment :: string
  cm_Region :: string
  cm_APIServer :: string
  cm_Description :: string
  cm_Tags :: "string list"

text \<open>At most sixteen distinct tags of at most 32 bytes.\<close>

fun clampLoop :: "string list \<Rightarrow> string list \<Rightarrow> string list" where
  "clampLoop out [] = rev out"
| "clampLoop out (tag # tags) =
    (let cleaned = TrimSpace (ToLower tag);
         cleaned = (if length cleaned > 32 then take 32 cleaned else cleaned)
     in if cleaned = [] \<or> cleaned \<in> set out then clampLoop out tags
        else if length out = 15 then rev (cleaned # out)
        else clampLoop (cleaned # out) tags)"

definition clampClusterTags :: "string list \<Rightarrow> string list" where
  "clampClusterTags tags = Strings (clampLoop [] tags)"

definition applyClusterDefaults :: "clusterConfig \<Rightarrow> ClusterMetadataInput \<Rightarrow> ClusterMetadataInput" where
  "applyClusterDefaults cfg meta =
    (let environment = TrimSpace (cm_Environment meta);
         region = TrimSpace (cm_Region meta)
     in \<lparr> cm_Owner = TrimSpace (cm_Owner meta), cm_Contact = TrimSpace (cm_Contact meta),
          cm_Environment = (if environment = [] then TrimSpace (ClusterDefaultEnvironment cfg) else environment),
          cm_Region = (if region = [] then TrimSpace (ClusterDefaultRegion cfg) else region),
          cm_APIServer = TrimSpace (cm_APIServer meta), cm_Description = TrimSpace (cm_Description meta),
          cm_Tags = clampClusterTags (cm_Tags meta) \<rparr>)"

definition clusterOf :: "string \<Rightarrow> string \<Rightarrow> ClusterMetadataInput \<Rightarrow> int \<Rightarrow> Cluster" where
  "clusterOf ident name meta at =
    \<lparr> c_ID = ident, c_Name = name, c_Owner = cm_Owner meta, c_Contact = cm_Contact meta,
      c_Environment = cm_Environment meta, c_Region = cm_Region meta, c_APIServer = cm_APIServer meta,
      c_Description = cm_Description meta, c_Tags = cm_Tags meta, c_LastSeen = None, c_LastStatus = None,
      c_CreatedAt = at, c_Kubeconfig = [] \<rparr>"

definition RegisterCluster :: "cp_env \<Rightarrow> string \<Rightarrow> string \<Rightarrow> ClusterMetadataInput \<Rightarrow> Cluster handler" where
  "RegisterCluster env inName inKubeconfig inMeta =
    bindS (ensureMaintenanceAllows env) (\<lambda>_.
      let name = TrimSpace inName; kubeconfig = TrimSpace inKubeconfig in
      unless (name \<noteq> [] \<and> kubeconfig \<noteq> []) InvalidInput
        (let meta = applyClusterDefaults (cfgCluster (ce_cfg env)) inMeta in
         bindS (encrypt env kubeconfig) (\<lambda>enc.
         bindS (newUUID env) (\<lambda>ident.
         bindS (timeNow env) (\<lambda>at.
         bindS (Store_CreateCluster env (clusterOf ident name meta at) enc) (\<lambda>created.
           tryS (ensureOperatorDeployment env (c_ID created) kubeconfig) (\<lambda>r. case r of
               Inr _ \<Rightarrow> ret created
             | Inl _ \<Rightarrow> tryS (DeleteCluster env (c_ID created)) (\<lambda>_. fail OperatorFailed))))))))"

definition UpdateClusterMetadata :: "cp_env \<Rightarrow> string \<Rightarrow> ClusterMetadataInput \<Rightarrow> Cluster handler" where
  "UpdateClusterMetadata env inID inMeta =
    bindS (ensureMaintenanceAllows env) (\<lambda>_.
      let ident = TrimSpace inID in
      unless (ident \<noteq> []) InvalidInput
        (Store_UpdateClusterMetadata env
          (clusterOf ident [] (applyClusterDefaults (cfgCluster (ce_cfg env)) inMeta) 0)))"

section \<open>Health\<close>

record ClusterHealth =
  ch_ID :: string
  ch_Name :: string
  ch_Healthy :: bool
  ch_Failed :: bool
  ch_Checked :: int
  ch_StatusID :: string
  ch_Message :: string
  ch_APIServerVersion :: string
  ch_NodeCount :: "int option"
  ch_Details :: jobject

definition persistClusterStatus :: "cp_env \<Rightarrow> ClusterStatus \<Rightarrow> ClusterStatus handler" where
  "persistClusterStatus env st =
    tryS (InsertClusterStatus env st) (\<lambda>r. case r of Inl _ \<Rightarrow> ret st | Inr saved \<Rightarrow> ret saved)"

definition clusterNameOf :: "cp_env \<Rightarrow> string \<Rightarrow> string handler" where
  "clusterNameOf env ident =
    tryS (Store_ListClusters env) (\<lambda>r. case r of
        Inl _ \<Rightarrow> ret []
      | Inr cs \<Rightarrow> ret (case filter (\<lambda>c. c_ID c = ident) cs of [] \<Rightarrow> [] | c # _ \<Rightarrow> c_Name c))"

definition healthOf :: "string \<Rightarrow> string \<Rightarrow> bool \<Rightarrow> ClusterStatus \<Rightarrow> ClusterHealth" where
  "healthOf ident name failed saved =
    \<lparr> ch_ID = ident, ch_Name = name, ch_Healthy = \<not> failed, ch_Failed = failed, ch_Checked = cs_CheckedAt saved,
      ch_StatusID = cs_ID saved, ch_Message = cs_Message saved,
      ch_APIServerVersion = (if failed then [] else cs_APIServerVersion saved),
      ch_NodeCount = (if failed then None else cs_NodeCount saved), ch_Details = cs_Details saved \<rparr>"

text \<open>
  Listing the namespaces and reading the version of the API server are the two calls of the probe. The
  texts of errors and the version that the API server reports are parameters.
\<close>

record probe_texts =
  pt_error :: "cp_error \<Rightarrow> string"
  pt_version :: "nat \<Rightarrow> string"

definition CheckCluster :: "cp_env \<Rightarrow> probe_texts \<Rightarrow> string \<Rightarrow> ClusterHealth handler" where
  "CheckCluster env texts ident =
    bindS (clusterNameOf env ident) (\<lambda>name.
    bindS (newUUID env) (\<lambda>statusID.
    bindS (timeNow env) (\<lambda>at.
      let status = (\<lambda>healthy msg stage ver. \<lparr> cs_ID = statusID, cs_ClusterID = ident, cs_Healthy = healthy,
              cs_Message = msg, cs_APIServerVersion = ver, cs_NodeCount = None, cs_CheckedAt = at,
              cs_Details = [(''stage'', JStr stage)] \<rparr>);
          report = (\<lambda>failed st. bindS (persistClusterStatus env st) (\<lambda>saved. ret (healthOf ident name failed saved)))
      in tryS (clusterClient env ident) (\<lambda>client. case client of
          Inl e \<Rightarrow> report True (status False (pt_error texts e) ''client'' [])
        | Inr _ \<Rightarrow>
            tryS (call env (ret ())) (\<lambda>listed. case listed of
                Inl e \<Rightarrow> report True (status False (pt_error texts e) ''listNamespaces'' [])
              | Inr _ \<Rightarrow>
                  tryS (call env (getS (\<lambda>w. pt_version texts (w_Calls w)))) (\<lambda>ver.
                    report False (status True ''connected'' ''listNamespaces''
                      (case ver of Inl _ \<Rightarrow> [] | Inr v \<Rightarrow> v))))))))"

fun checkEach :: "cp_env \<Rightarrow> probe_texts \<Rightarrow> Cluster list \<Rightarrow> ClusterHealth list handler" where
  "checkEach env texts [] = ret []"
| "checkEach env texts (c # cs) =
    bindS (CheckCluster env texts (c_ID c)) (\<lambda>h.
    bindS (checkEach env texts cs) (\<lambda>hs.
      ret ((if ch_Name h = [] then h\<lparr> ch_Name := c_Name c \<rparr> else h) # hs)))"

definition CheckAllClusters :: "cp_env \<Rightarrow> probe_texts \<Rightarrow> ClusterHealth list handler" where
  "CheckAllClusters env texts = bindS (Store_ListClusters env) (checkEach env texts)"

record ClusterHealthSummary =
  hs_Clusters :: nat
  hs_Healthy :: nat
  hs_Unhealthy :: nat

definition TickWithSummary :: "cp_env \<Rightarrow> probe_texts \<Rightarrow> ClusterHealthSummary handler" where
  "TickWithSummary env texts =
    bindS (Store_ListClusters env) (\<lambda>cs.
    bindS (checkEach env texts cs) (\<lambda>hs.
      ret \<lparr> hs_Clusters = length cs, hs_Healthy = length (filter ch_Healthy hs),
            hs_Unhealthy = length (filter (\<lambda>h. \<not> ch_Healthy h) hs) \<rparr>))"

end
