(* ===== verification/Tenancy.thy ===== *)
theory Tenancy
  imports ClusterOps
begin

text \<open>
  Projects and users: the tenancy handlers of \<open>internal/service/service.go\<close> and the whole of
  \<open>internal/service/user_bootstrap.go\<close>. Log files are prepared by one external call.
\<close>

section \<open>What a tenant namespace gets\<close>

definition namespaceQuotaObjectName :: string where "namespaceQuotaObjectName = ''tenant-quota''"
definition namespaceLimitRangeName :: string where "namespaceLimitRangeName = ''tenant-limits''"

definition podSecurityLabels :: "tenancyConfig \<Rightarrow> gomap" where
  "podSecurityLabels cfg =
    (if PodSecurityLevel cfg = [] then Map.empty
     else let labels = Map.empty(''pod-security.kubernetes.io/enforce'' \<mapsto> PodSecurityLevel cfg);
              labels = (if PodSecurityWarnLevel cfg = [] then labels
                        else labels(''pod-security.kubernetes.io/warn'' \<mapsto> PodSecurityWarnLevel cfg))
          in if PodSecurityAuditLevel cfg = [] then labels
             else labels(''pod-security.kubernetes.io/audit'' \<mapsto> PodSecurityAuditLevel cfg))"

definition applyNamespace :: "cp_env \<Rightarrow> string \<Rightarrow> string \<Rightarrow> unit handler" where
  "applyNamespace env cluster ns =
    kubeApply env (nsKey cluster ns) (KNamespace (podSecurityLabels (cfgTenancy (ce_cfg env))))"

definition applyNamespaceLimitObjects :: "cp_env \<Rightarrow> string \<Rightarrow> string \<Rightarrow> quota_spec \<Rightarrow> limit_item list \<Rightarrow> unit handler" where
  "applyNamespaceLimitObjects env cluster ns rq lr =
    bindS (kubeApply env (cluster, ''ResourceQuota'', ns, namespaceQuotaObjectName) (KQuota rq)) (\<lambda>_.
      kubeApply env (cluster, ''LimitRange'', ns, namespaceLimitRangeName) (KLimits lr))"

definition limitPolicy :: "cp_env \<Rightarrow> string \<Rightarrow> (string \<times> string) list \<Rightarrow> (string \<times> quota_spec \<times> limit_item list) handler" where
  "limitPolicy env namespace overrides =
    liftR (\<lambda>e. case e of NamespaceRequired \<Rightarrow> InvalidInput | BadQuantity \<Rightarrow> Panicked)
      (buildNamespaceLimitPolicyObjects (ce_parse env) (ce_cfg env) namespace overrides)"

definition ensureNamespaceLimitPolicy :: "cp_env \<Rightarrow> string \<Rightarrow> string \<Rightarrow> (string \<times> string) list \<Rightarrow> unit handler" where
  "ensureNamespaceLimitPolicy env cluster namespace overrides =
    bindS (limitPolicy env namespace overrides) (\<lambda>(ns, rq, lr). applyNamespaceLimitObjects env cluster ns rq lr)"

definition applyNetworkPolicies :: "cp_env \<Rightarrow> string \<Rightarrow> string \<Rightarrow> unit handler" where
  "applyNetworkPolicies env cluster ns =
    forEach (\<lambda>np. kubeApply env (cluster, ''NetworkPolicy'', ns, np_Name np) (KPolicy np))
      (BuildTenantNetworkPolicies (cfgTenancy (ce_cfg env)) ns)"

definition BuildNamespaceRBAC :: "string \<Rightarrow> string \<Rightarrow> string \<Rightarrow> policy_rule list \<Rightarrow> ((string \<times> string) \<times> kobj) list" where
  "BuildNamespaceRBAC saName roleName rbName rules =
    [((''ServiceAccount'', saName), KAccount), ((''Role'', roleName), KRole rules),
     ((''RoleBinding'', rbName), KBinding saName roleName)]"

definition applyRBAC :: "cp_env \<Rightarrow> string \<Rightarrow> string \<Rightarrow> string \<Rightarrow> string \<Rightarrow> string \<Rightarrow> unit handler" where
  "applyRBAC env cluster ns saName roleName rbName =
    forEach (\<lambda>((kind, name), obj). kubeApply env (cluster, kind, ns, name) obj)
      (BuildNamespaceRBAC saName roleName rbName defaultRoleRules)"

section \<open>Service account tokens and kubeconfigs\<close>

text \<open>
  Eight attempts; an attempt sees what the token controller has filled in so far. A secret that is not
  there yet is waited for, any other error stops the wait.
\<close>

fun awaitToken :: "nat \<Rightarrow> cp_env \<Rightarrow> kube_key \<Rightarrow> (string \<times> byte list) handler" where
  "awaitToken 0 env key = fail TokenTimeout"
| "awaitToken (Suc steps) env key =
    tryS (kubeGet env key) (\<lambda>r. case r of
        Inl e \<Rightarrow> if e = KubeNotFound then awaitToken steps env key else fail e
      | Inr _ \<Rightarrow> bindS (getS w_Calls) (\<lambda>n.
          case ce_token env n (snd (snd (snd key))) of (token, ca) \<Rightarrow>
            if token = [] \<or> ca = [] then awaitToken steps env key else ret (token, ca)))"

definition mintServiceAccountSecret :: "cp_env \<Rightarrow> string \<Rightarrow> string \<Rightarrow> string \<Rightarrow> (string \<times> string \<times> byte list) handler" where
  "mintServiceAccountSecret env cluster namespace saName =
    unless (namespace \<noteq> [] \<and> saName \<noteq> []) InvalidInput
      (bindS (newUUID env) (\<lambda>u.
        let secretName = saName @ ''-token-'' @ filter (\<lambda>c. c \<noteq> CHR ''-'') u;
            key = (cluster, ''Secret'', namespace, secretName)
        in tryS (kubeCreate env key (KToken saName)) (\<lambda>r.
             let proceed = bindS (awaitToken 8 env key) (\<lambda>(token, ca). ret (secretName, token, ca)) in
             case r of
               Inr _ \<Rightarrow> proceed
             | Inl e \<Rightarrow> if e = KubeAlreadyExists then bindS (kubeGet env key) (\<lambda>_. proceed) else fail e)))"

definition kubeconfigUserLabel :: "cp_env \<Rightarrow> string \<Rightarrow> string handler" where
  "kubeconfigUserLabel env userID =
    tryS (GetUser env userID) (\<lambda>r. case r of
        Inr u \<Rightarrow> ret (ResolveUserLabel (u_Name u) (u_Email u) userID)
      | Inl _ \<Rightarrow> ret (ResolveUserLabel [] [] userID))"

definition clusterLabel :: "cp_env \<Rightarrow> string \<Rightarrow> string handler" where
  "clusterLabel env clusterID =
    bindS (clusterNameOf env clusterID) (\<lambda>name. ret (if name = [] then ''kubeop-target'' else name))"

definition scopedKubeconfig :: "string \<Rightarrow> byte list \<Rightarrow> string \<Rightarrow> string \<Rightarrow> string \<Rightarrow> string \<Rightarrow> string handler" where
  "scopedKubeconfig clusterKubeconfig ca namespace userLabel cluster token =
    liftR KubeconfigFailed (buildNamespaceScopedKubeconfig (extractServer clusterKubeconfig) (base64Encode ca)
      namespace userLabel cluster token)"

text \<open>The record of a scope is updated when it exists and created when there is none.\<close>

definition saveKubeconfig ::
  "cp_env \<Rightarrow> KubeconfigRecord handler \<Rightarrow> (string \<Rightarrow> KubeconfigRecord) \<Rightarrow> string \<Rightarrow> string \<Rightarrow> byte list \<Rightarrow> (cp_error \<Rightarrow> unit handler) \<Rightarrow> unit handler" where
  "saveKubeconfig env lookup fresh secretName saName enc otherwise =
    tryS lookup (\<lambda>r. case r of
        Inr existing \<Rightarrow> UpdateKubeconfigRecord env (kr_ID existing) secretName saName enc
      | Inl e \<Rightarrow>
          if e = NoRows
          then bindS (newUUID env) (\<lambda>ident. bindS (CreateKubeconfigRecord env (fresh ident)) (\<lambda>_. ret ()))
          else otherwise e)"

definition kubeconfigRecord ::
  "string \<Rightarrow> string \<Rightarrow> string \<Rightarrow> string option \<Rightarrow> string \<Rightarrow> string \<Rightarrow> byte list \<Rightarrow> string \<Rightarrow> KubeconfigRecord" where
  "kubeconfigRecord clusterID namespace userID projectID saName secretName enc ident =
    \<lparr> kr_ID = ident, kr_ClusterID = clusterID, kr_Namespace = namespace, kr_UserID = userID, kr_ProjectID = projectID,
      kr_ServiceAccount = saName, kr_SecretName = secretName, kr_Kubeconfig = enc \<rparr>"

section \<open>User spaces\<close>

definition storeUserSpace :: "cp_env \<Rightarrow> string \<Rightarrow> string \<Rightarrow> string \<Rightarrow> byte list \<Rightarrow> unit handler" where
  "storeUserSpace env userID clusterID nsName enc =
    bindS (newUUID env) (\<lambda>ident.
      tryS (CreateUserSpace env ident userID clusterID nsName enc) (\<lambda>r. case r of
          Inr _ \<Rightarrow> ret ()
        | Inl e \<Rightarrow>
            tryS (GetUserSpace env userID clusterID) (\<lambda>r2. case r2 of
                Inr existing \<Rightarrow> UpdateUserSpaceKubeconfig env (us_ID existing) enc
              | Inl _ \<Rightarrow> fail e)))"

definition provisionUserSpace :: "cp_env \<Rightarrow> string \<Rightarrow> string \<Rightarrow> string handler" where
  "provisionUserSpace env userID clusterID =
    bindS (clusterClient env clusterID) (\<lambda>_.
      let nsName = ''user-'' @ TrimSpace userID in
      unless (nsName \<noteq> ''user-'') InvalidInput
        (bindS (applyNamespace env clusterID nsName) (\<lambda>_.
         bindS (ensureNamespaceLimitPolicy env clusterID nsName []) (\<lambda>_.
         bindS (applyNetworkPolicies env clusterID nsName) (\<lambda>_.
         bindS (applyRBAC env clusterID nsName ''user-sa'' ''user-role'' ''user-rb'') (\<lambda>_.
         bindS (mintServiceAccountSecret env clusterID nsName ''user-sa'') (\<lambda>(secretName, token, ca).
         bindS (clusterLabel env clusterID) (\<lambda>cluster.
         bindS (DecryptClusterKubeconfig env clusterID) (\<lambda>clusterKubeconfig.
         bindS (kubeconfigUserLabel env userID) (\<lambda>userLabel.
         bindS (scopedKubeconfig clusterKubeconfig ca nsName userLabel cluster token) (\<lambda>kc.
         bindS (encrypt env kc) (\<lambda>enc.
         bindS (storeUserSpace env userID clusterID nsName enc) (\<lambda>_.
         bindS (saveKubeconfig env (GetKubeconfigByUserScope env clusterID nsName userID)
                 (kubeconfigRecord clusterID nsName userID None ''user-sa'' secretName enc)
                 secretName ''user-sa'' enc fail) (\<lambda>_.
           ret nsName))))))))))))))"

record UserBootstrapInput =
  ub_UserID :: string
  ub_Name :: string
  ub_Email :: string
  ub_ClusterID :: string

definition resolveUser :: "cp_env \<Rightarrow> UserBootstrapInput \<Rightarrow> User handler" where
  "resolveUser env inp =
    (if ub_UserID inp \<noteq> [] then GetUser env (ub_UserID inp)
     else unless (ub_Name inp \<noteq> [] \<and> ub_Email inp \<noteq> []) InvalidInput
       (bindS (newUUID env) (\<lambda>ident.
         tryS (CreateUser env ident (ub_Name inp) (ub_Email inp)) (\<lambda>r. case r of
             Inr u \<Rightarrow> ret u
           | Inl e \<Rightarrow> tryS (GetUserByEmail env (ub_Email inp)) (\<lambda>r2. case r2 of Inr u \<Rightarrow> ret u | Inl _ \<Rightarrow> fail e)))))"

definition toB64 :: "string \<Rightarrow> string" where
  "toB64 s = base64Encode (bytesOf s)"

definition BootstrapUser :: "cp_env \<Rightarrow> UserBootstrapInput \<Rightarrow> (User \<times> string \<times> string) handler" where
  "BootstrapUser env inp =
    unless (ub_ClusterID inp \<noteq> []) InvalidInput
      (bindS (resolveUser env inp) (\<lambda>u.
        let present = (\<lambda>us. bindS (decrypt env (us_Kubeconfig us)) (\<lambda>kc. ret (u, us_Namespace us, toB64 kc)));
            provision = bindS (provisionUserSpace env (u_ID u) (ub_ClusterID inp)) (\<lambda>_.
              bindS (GetUserSpace env (u_ID u) (ub_ClusterID inp)) present)
        in tryS (GetUserSpace env (u_ID u) (ub_ClusterID inp)) (\<lambda>r. case r of
             Inr us \<Rightarrow> if us_Kubeconfig us \<noteq> [] then present us else provision
           | Inl _ \<Rightarrow> provision)))"

definition dropNamespace :: "cp_env \<Rightarrow> UserSpace \<Rightarrow> unit handler" where
  "dropNamespace env us =
    tryS (clusterClient env (us_ClusterID us)) (\<lambda>r. case r of
        Inl _ \<Rightarrow> ret ()
      | Inr _ \<Rightarrow> tryS (kubeDelete env (nsKey (us_ClusterID us) (us_Namespace us))) (\<lambda>_. ret ()))"

definition DeleteUser :: "cp_env \<Rightarrow> string \<Rightarrow> unit handler" where
  "DeleteUser env userID =
    unless (userID \<noteq> []) InvalidInput
      (bindS (tryS (ListUserSpacesByUser env userID) (\<lambda>r. case r of
           Inl _ \<Rightarrow> ret ()
         | Inr usList \<Rightarrow> forEach (dropNamespace env) usList)) (\<lambda>_.
       tryS (SoftDeleteAppsByUser env userID) (\<lambda>_.
       tryS (SoftDeleteProjectsByUser env userID) (\<lambda>_.
         SoftDeleteUser env userID))))"

definition RenewUserKubeconfig :: "cp_env \<Rightarrow> string \<Rightarrow> string \<Rightarrow> string handler" where
  "RenewUserKubeconfig env userID clusterID =
    unless (userID \<noteq> [] \<and> clusterID \<noteq> []) InvalidInput
      (bindS (GetUserSpace env userID clusterID) (\<lambda>us.
       bindS (clusterClient env clusterID) (\<lambda>_.
       bindS (mintServiceAccountSecret env clusterID (us_Namespace us) ''user-sa'') (\<lambda>(secretName, token, ca).
       bindS (clusterLabel env clusterID) (\<lambda>cluster.
       bindS (DecryptClusterKubeconfig env clusterID) (\<lambda>clusterKubeconfig.
       bindS (kubeconfigUserLabel env userID) (\<lambda>userLabel.
       bindS (scopedKubeconfig clusterKubeconfig ca (us_Namespace us) userLabel cluster token) (\<lambda>kc.
       bindS (encrypt env kc) (\<lambda>enc.
       bindS (UpdateUserSpaceKubeconfig env (us_ID us) enc) (\<lambda>_.
       bindS (saveKubeconfig env (GetKubeconfigByUserScope env clusterID (us_Namespace us) userID)
               (kubeconfigRecord clusterID (us_Namespace us) userID None ''user-sa'' secretName enc)
               secretName ''user-sa'' enc (\<lambda>_. ret ())) (\<lambda>_.
         ret (toB64 kc))))))))))))"

section \<open>Creating a project\<close>

record ProjectCreateInput =
  pc_UserID :: string
  pc_UserEmail :: string
  pc_UserName :: string
  pc_ClusterID :: string
  pc_Name :: string
  pc_QuotaOverrides :: "(string \<times> string) list"

text \<open>The local part of an address, or all of it when there is none.\<close>

definition nameFromEmail :: "string \<Rightarrow> string" where
  "nameFromEmail email =
    (if CHR ''@'' \<in> set email \<and> hd email \<noteq> CHR ''@'' then takeWhile (\<lambda>c. c \<noteq> CHR ''@'') email else email)"

definition projectOwner :: "cp_env \<Rightarrow> ProjectCreateInput \<Rightarrow> string handler" where
  "projectOwner env inp =
    (if TrimSpace (pc_UserID inp) \<noteq> [] then ret (pc_UserID inp)
     else let email = TrimSpace (ToLower (pc_UserEmail inp)) in
       unless (email \<noteq> []) InvalidInput
         (tryS (GetUserByEmail env email) (\<lambda>r. case r of
             Inr u \<Rightarrow> ret (u_ID u)
           | Inl _ \<Rightarrow>
               let name = TrimSpace (pc_UserName inp);
                   name = (if name = [] then nameFromEmail email else name)
               in bindS (newUUID env) (\<lambda>ident. bindS (CreateUser env ident name email) (\<lambda>u. ret (u_ID u))))))"

definition sharedNamespaces :: "cp_env \<Rightarrow> bool" where
  "sharedNamespaces env = ProjectsInUserNamespace (cfgProjects (ce_cfg env))"

definition projectNamespace :: "cp_env \<Rightarrow> string \<Rightarrow> string \<Rightarrow> string \<Rightarrow> string handler" where
  "projectNamespace env userID clusterID name =
    (if sharedNamespaces env then
       tryS (GetUserSpace env userID clusterID) (\<lambda>r. case r of
           Inr us \<Rightarrow> ret (us_Namespace us)
         | Inl e \<Rightarrow> if e = NoRows then provisionUserSpace env userID clusterID else fail e)
     else ret (take 63 (Slugify (''tenant-'' @ userID @ ''-'' @ name))))"

definition projectLimitsName :: "string \<Rightarrow> string" where
  "projectLimitsName name = ''proj-'' @ Slugify name @ ''-limits''"

text \<open>Shared namespaces get a limit range for the project, own namespaces everything a tenant has.\<close>

definition equipSharedProject :: "cp_env \<Rightarrow> string \<Rightarrow> string \<Rightarrow> string \<Rightarrow> unit handler" where
  "equipSharedProject env clusterID ns name =
    bindS (ensureNamespaceLimitPolicy env clusterID ns []) (\<lambda>_.
    bindS (orPanic (projectLimitRange (ce_parse env) (cfgProjects (ce_cfg env)))) (\<lambda>limits.
      kubeApply env (clusterID, ''LimitRange'', ns, projectLimitsName name) (KLimits limits)))"

definition equipOwnProject ::
  "cp_env \<Rightarrow> string \<Rightarrow> string \<Rightarrow> string \<Rightarrow> string \<Rightarrow> (string \<times> string) list \<Rightarrow> (string \<times> byte list) handler" where
  "equipOwnProject env projectID userID clusterID ns overrides =
    bindS (applyNamespace env clusterID ns) (\<lambda>_.
    bindS (ensureNamespaceLimitPolicy env clusterID ns overrides) (\<lambda>_.
    bindS (applyNetworkPolicies env clusterID ns) (\<lambda>_.
    bindS (applyRBAC env clusterID ns ''tenant-sa'' ''tenant-role'' ''tenant-rb'') (\<lambda>_.
    bindS (mintServiceAccountSecret env clusterID ns ''tenant-sa'') (\<lambda>(secretName, token, ca).
    bindS (DecryptClusterKubeconfig env clusterID) (\<lambda>clusterKubeconfig.
    bindS (clusterLabel env clusterID) (\<lambda>cluster.
    bindS (scopedKubeconfig clusterKubeconfig ca ns ''tenant-sa'' cluster token) (\<lambda>kc.
    bindS (encrypt env kc) (\<lambda>enc.
    bindS (saveKubeconfig env (GetKubeconfigByProject env projectID)
            (kubeconfigRecord clusterID ns userID (Some projectID) ''tenant-sa'' secretName enc)
            secretName ''tenant-sa'' enc fail) (\<lambda>_.
      ret (kc, enc)))))))))))"

definition CreateProject :: "cp_env \<Rightarrow> ProjectCreateInput \<Rightarrow> (Project \<times> string) handler" where
  "CreateProject env inp =
    bindS (ensureMaintenanceAllows env) (\<lambda>_.
    bindS (projectOwner env inp) (\<lambda>userID.
      let clusterID = pc_ClusterID inp; name = pc_Name inp in
      unless (TrimSpace clusterID \<noteq> [] \<and> TrimSpace name \<noteq> []) InvalidInput
        (bindS (newUUID env) (\<lambda>projectID.
         bindS (call env (ret ())) (\<lambda>_.
         bindS (projectNamespace env userID clusterID name) (\<lambda>ns.
         bindS (clusterClient env clusterID) (\<lambda>_.
         bindS (if sharedNamespaces env
                then bindS (equipSharedProject env clusterID ns name) (\<lambda>_. ret ([], []))
                else equipOwnProject env projectID userID clusterID ns (pc_QuotaOverrides inp)) (\<lambda>(kc, enc).
         bindS (Store_CreateProject env projectID userID clusterID name ns False
                 (EncodeQuotaOverrides (pc_QuotaOverrides inp)) enc) (\<lambda>p.
         bindS (appendEvent env projectID [] ''project_created'' ''INFO'' (''project '' @ name @ '' created'')
                 [(''cluster_id'', JStr clusterID), (''namespace'', JStr ns), (''project_name'', JStr name),
                  (''user_id'', JStr userID)]) (\<lambda>_.
           ret (p, if sharedNamespaces env then [] else toB64 kc)))))))))))"

section \<open>Managing a project\<close>

definition projectStatusKeys :: "Project \<Rightarrow> (string \<times> kube_key) list" where
  "projectStatusKeys p =
    [(''resourcequota'', (p_ClusterID p, ''ResourceQuota'', p_Namespace p, namespaceQuotaObjectName)),
     (''limitrange'', (p_ClusterID p, ''LimitRange'', p_Namespace p, namespaceLimitRangeName)),
     (''serviceaccount'', (p_ClusterID p, ''ServiceAccount'', p_Namespace p, ''tenant-sa''))]"

fun statusDetails :: "cp_env \<Rightarrow> (string \<times> kube_key) list \<Rightarrow> (string \<times> bool) list handler" where
  "statusDetails env [] = ret []"
| "statusDetails env ((label, key) # rest) =
    tryS (kubeGet env key) (\<lambda>r. bindS (statusDetails env rest) (\<lambda>more. ret ((label, isOk r) # more)))"

definition GetProjectStatus :: "cp_env \<Rightarrow> string \<Rightarrow> (Project \<times> bool \<times> (string \<times> bool) list) handler" where
  "GetProjectStatus env ident =
    bindS (GetProject env ident) (\<lambda>p.
    bindS (clusterClient env (p_ClusterID p)) (\<lambda>_.
      tryS (kubeGet env (nsKey (p_ClusterID p) (p_Namespace p))) (\<lambda>r. case r of
          Inl _ \<Rightarrow> ret (p, False, [])
        | Inr _ \<Rightarrow> bindS (statusDetails env (projectStatusKeys p)) (\<lambda>details. ret (p, True, details)))))"

definition decodeOverrides :: "Project \<Rightarrow> (string \<times> string) list handler" where
  "decodeOverrides p =
    (case DecodeQuotaOverrides (columnText (p_Quota p)) of None \<Rightarrow> fail BadDocument | Some m \<Rightarrow> ret m)"

record LoadBalancerQuota =
  lq_Default :: int
  lq_Override :: "int option"
  lq_Effective :: int
  lq_Used :: int

record ProjectQuotaSnapshot =
  qs_Project :: Project
  qs_Defaults :: resource_list
  qs_Overrides :: "(string \<times> string) list"
  qs_Effective :: resource_list
  qs_Hard :: resource_list
  qs_Used :: resource_list
  qs_LoadBalancers :: LoadBalancerQuota

text \<open>The type of a service, whether the control plane or a manifest of a tenant made it.\<close>

definition serviceTypeOf :: "kobj \<Rightarrow> string" where
  "serviceTypeOf obj =
    (case obj of
       KService s \<Rightarrow> sv_Type s
     | KManifest _ doc \<Rightarrow> getMapString doc [''spec'', ''type'']
     | _ \<Rightarrow> [])"

definition countLoadBalancers :: "(string \<times> kobj) list \<Rightarrow> int" where
  "countLoadBalancers svcs = int (length (filter (\<lambda>(_, obj). serviceTypeOf obj = ''LoadBalancer'') svcs))"

text \<open>The status of a quota (what is enforced and used) is kept by Kubernetes and is a parameter.\<close>

definition GetProjectQuota :: "cp_env \<Rightarrow> (nat \<Rightarrow> resource_list \<times> resource_list) \<Rightarrow> string \<Rightarrow> ProjectQuotaSnapshot handler" where
  "GetProjectQuota env rqStatus ident =
    unless (\<not> sharedNamespaces env) NotPermitted
      (bindS (GetProject env ident) (\<lambda>p.
       bindS (decodeOverrides p) (\<lambda>overrides.
       bindS (clusterClient env (p_ClusterID p)) (\<lambda>_.
         tryS (kubeGet env (p_ClusterID p, ''ResourceQuota'', p_Namespace p, namespaceQuotaObjectName)) (\<lambda>r.
           let rest = (\<lambda>(hard, used).
             bindS (orPanic (defaultQuota (ce_parse env) (ce_cfg env) [])) (\<lambda>defaults.
             bindS (orPanic (defaultQuota (ce_parse env) (ce_cfg env) overrides)) (\<lambda>effective.
             bindS (kubeList env (p_ClusterID p) ''Service'' (p_Namespace p)) (\<lambda>svcs.
               let dflt = MaxLoadBalancersPerProject (cfgIngress (ce_cfg env));
                   override = Option.bind (map_of overrides ''services.loadbalancers'') (\<lambda>raw. Atoi (TrimSpace raw))
               in ret \<lparr> qs_Project = p, qs_Defaults = defaults, qs_Overrides = overrides, qs_Effective = effective,
                        qs_Hard = hard, qs_Used = used,
                        qs_LoadBalancers = \<lparr> lq_Default = dflt, lq_Override = override,
                          lq_Effective = (case override of None \<Rightarrow> dflt | Some n \<Rightarrow> n),
                          lq_Used = countLoadBalancers svcs \<rparr> \<rparr>))))
           in case r of
                Inr (KQuota rq) \<Rightarrow> bindS (getS w_Calls) (\<lambda>n.
                  let (hard, used) = rqStatus n in rest (if hard = [] then rq_Hard rq else hard, used))
              | Inr _ \<Rightarrow> rest ([], [])
              | Inl e \<Rightarrow> if e = KubeNotFound then rest ([], []) else fail e)))))"

definition suspendedQuota :: "cp_env \<Rightarrow> quota_spec \<Rightarrow> quota_spec handler" where
  "suspendedQuota env rq = bindS (orPanic (ce_parse env ''0'')) (\<lambda>zero. ret (rq\<lparr> rq_Hard := [(''pods'', zero)] \<rparr>))"

definition SetProjectSuspended :: "cp_env \<Rightarrow> string \<Rightarrow> bool \<Rightarrow> unit handler" where
  "SetProjectSuspended env ident suspended =
    bindS (ensureMaintenanceAllows env) (\<lambda>_.
      unless (\<not> sharedNamespaces env) NotPermitted
        (bindS (GetProject env ident) (\<lambda>p.
         bindS (clusterClient env (p_ClusterID p)) (\<lambda>_.
         bindS (if suspended
                then bindS (limitPolicy env (p_Namespace p) []) (\<lambda>(ns, rq, lr).
                       bindS (suspendedQuota env rq) (\<lambda>rq'. ret (ns, rq', lr)))
                else bindS (decodeOverrides p) (\<lambda>overrides. limitPolicy env (p_Namespace p) overrides)) (\<lambda>(ns, rq, lr).
         bindS (applyNamespaceLimitObjects env (p_ClusterID p) ns rq lr) (\<lambda>_.
         bindS (UpdateProjectSuspended env ident suspended) (\<lambda>_.
           appendEvent env ident [] (if suspended then ''project_suspended'' else ''project_unsuspended'') ''INFO''
             (if suspended then ''project suspended'' else ''project unsuspended'')
             [(''cluster_id'', JStr (p_ClusterID p)), (''namespace'', JStr (p_Namespace p)),
              (''suspended'', JBool suspended)])))))))"

definition UpdateProjectQuota :: "cp_env \<Rightarrow> string \<Rightarrow> (string \<times> string) list \<Rightarrow> unit handler" where
  "UpdateProjectQuota env ident overrides =
    bindS (ensureMaintenanceAllows env) (\<lambda>_.
      unless (\<not> sharedNamespaces env) NotPermitted
        (bindS (GetProject env ident) (\<lambda>p.
         bindS (clusterClient env (p_ClusterID p)) (\<lambda>_.
         bindS (limitPolicy env (p_Namespace p) overrides) (\<lambda>(ns, rq, lr).
         bindS (applyNamespaceLimitObjects env (p_ClusterID p) ns rq lr) (\<lambda>_.
         bindS (UpdateProjectQuotaOverrides env ident (EncodeQuotaOverrides overrides)) (\<lambda>_.
           appendEvent env ident [] ''project_quota_updated'' ''INFO'' ''project quotas updated''
             [(''cluster_id'', JStr (p_ClusterID p)), (''namespace'', JStr (p_Namespace p)),
              (''overrides'', jMap overrides)])))))))"

definition DeleteProject :: "cp_env \<Rightarrow> string \<Rightarrow> unit handler" where
  "DeleteProject env ident =
    bindS (ensureMaintenanceAllows env) (\<lambda>_.
    bindS (GetProject env ident) (\<lambda>p.
    bindS (clusterClient env (p_ClusterID p)) (\<lambda>_.
    bindS (if sharedNamespaces env
           then tryS (kubeDelete env (p_ClusterID p, ''LimitRange'', p_Namespace p, projectLimitsName (p_Name p))) (\<lambda>_. ret ())
           else tryS (kubeDelete env (nsKey (p_ClusterID p) (p_Namespace p))) (\<lambda>r. case r of
                  Inr _ \<Rightarrow> ret () | Inl e \<Rightarrow> if e = KubeNotFound then ret () else fail e)) (\<lambda>_.
      tryS (SoftDeleteAppsByProject env ident) (\<lambda>_.
      bindS (SoftDeleteProject env ident) (\<lambda>_.
        appendEvent env ident [] ''project_deleted'' ''WARN'' (''project '' @ p_Name p @ '' deleted'')
          [(''cluster_id'', JStr (p_ClusterID p)), (''namespace'', JStr (p_Namespace p)),
           (''project_name'', JStr (p_Name p))]))))))"

end
