(* ===== verification/KubeconfigOps.thy ===== *)
theory KubeconfigOps
  imports Tenancy
begin

text \<open>
  The life cycle of kubeconfigs: \<open>internal/service/kubeconfigs.go\<close>, \<open>RenewProjectKubeconfig\<close> of
  \<open>internal/service/apps.go\<close> and the start-up loop \<open>EnsureProjectLogs\<close> of \<open>internal/service/service.go\<close>.
\<close>

section \<open>Renewing\<close>

definition RenewProjectKubeconfig :: "cp_env \<Rightarrow> string \<Rightarrow> string handler" where
  "RenewProjectKubeconfig env projectID =
    bindS (GetProject env projectID) (\<lambda>p.
      unless (\<not> sharedNamespaces env) NotPermitted
        (bindS (clusterClient env (p_ClusterID p)) (\<lambda>_.
         bindS (mintServiceAccountSecret env (p_ClusterID p) (p_Namespace p) ''tenant-sa'') (\<lambda>(secretName, token, ca).
         bindS (DecryptClusterKubeconfig env (p_ClusterID p)) (\<lambda>clusterKubeconfig.
         bindS (scopedKubeconfig clusterKubeconfig ca (p_Namespace p) ''tenant-sa'' (p_ClusterID p) token) (\<lambda>kc.
         bindS (encrypt env kc) (\<lambda>enc.
         bindS (UpdateProjectKubeconfig env projectID enc) (\<lambda>_.
         bindS (saveKubeconfig env (GetKubeconfigByProject env projectID)
                 (kubeconfigRecord (p_ClusterID p) (p_Namespace p) (p_UserID p) (Some projectID) ''tenant-sa'' secretName enc)
                 secretName ''tenant-sa'' enc (\<lambda>_. ret ())) (\<lambda>_.
         bindS (appendEvent env projectID [] ''project_kubeconfig_renewed'' ''INFO'' ''project kubeconfig renewed''
                 [(''cluster_id'', JStr (p_ClusterID p)), (''namespace'', JStr (p_Namespace p))]) (\<lambda>_.
           ret (toB64 kc)))))))))))"

section \<open>Ensuring a binding\<close>

record KubeconfigEnsureInput =
  ke_UserID :: string
  ke_ProjectID :: string
  ke_ClusterID :: string

record KubeconfigEnsureOutput =
  ko_ID :: string
  ko_ClusterID :: string
  ko_UserID :: string
  ko_ProjectID :: string
  ko_Namespace :: string
  ko_ServiceAccount :: string
  ko_SecretName :: string
  ko_KubeconfigB64 :: string

definition ensureOutput :: "cp_env \<Rightarrow> string \<Rightarrow> string \<Rightarrow> KubeconfigRecord \<Rightarrow> KubeconfigEnsureOutput handler" where
  "ensureOutput env userID projectID rec =
    bindS (decrypt env (kr_Kubeconfig rec)) (\<lambda>kc.
      ret \<lparr> ko_ID = kr_ID rec, ko_ClusterID = kr_ClusterID rec, ko_UserID = userID, ko_ProjectID = projectID,
            ko_Namespace = kr_Namespace rec, ko_ServiceAccount = kr_ServiceAccount rec,
            ko_SecretName = kr_SecretName rec, ko_KubeconfigB64 = toB64 kc \<rparr>)"

text \<open>A record that is missing, or has no kubeconfig, is renewed once and read again.\<close>

definition renewedRecord :: "KubeconfigRecord handler \<Rightarrow> string handler \<Rightarrow> KubeconfigRecord handler" where
  "renewedRecord lookup renew =
    bindS (tryS lookup (\<lambda>r. case r of
        Inr rec \<Rightarrow> ret rec
      | Inl e \<Rightarrow> if e = NoRows then bindS renew (\<lambda>_. lookup) else fail e)) (\<lambda>rec.
    if kr_Kubeconfig rec = [] then bindS renew (\<lambda>_. lookup) else ret rec)"

definition ensureUserKubeconfig :: "cp_env \<Rightarrow> KubeconfigEnsureInput \<Rightarrow> KubeconfigEnsureOutput handler" where
  "ensureUserKubeconfig env inp =
    (let userID = ke_UserID inp; clusterID = ke_ClusterID inp;
         provision = bindS (provisionUserSpace env userID clusterID) (\<lambda>_. GetUserSpace env userID clusterID)
     in
     bindS (tryS (GetUserSpace env userID clusterID) (\<lambda>r. case r of
         Inr us \<Rightarrow> if us_Kubeconfig us = [] then provision else ret us
       | Inl _ \<Rightarrow> provision)) (\<lambda>us.
     bindS (if us_Kubeconfig us = [] then bindS (RenewUserKubeconfig env userID clusterID) (\<lambda>_. ret ()) else ret ()) (\<lambda>_.
     bindS (renewedRecord (GetKubeconfigByUserScope env clusterID (us_Namespace us) userID)
              (RenewUserKubeconfig env userID clusterID)) (\<lambda>rec.
       ensureOutput env userID [] rec))))"

definition ensureProjectKubeconfig :: "cp_env \<Rightarrow> KubeconfigEnsureInput \<Rightarrow> KubeconfigEnsureOutput handler" where
  "ensureProjectKubeconfig env inp =
    bindS (GetProject env (ke_ProjectID inp)) (\<lambda>p.
      unless (p_UserID p = [] \<or> p_UserID p = ke_UserID inp) NotPermitted
        (bindS (renewedRecord (GetKubeconfigByProject env (ke_ProjectID inp))
                 (RenewProjectKubeconfig env (ke_ProjectID inp))) (\<lambda>rec.
           ensureOutput env (p_UserID p) (p_ID p) rec)))"

definition EnsureKubeconfigBinding :: "cp_env \<Rightarrow> KubeconfigEnsureInput \<Rightarrow> KubeconfigEnsureOutput handler" where
  "EnsureKubeconfigBinding env inp =
    unless (ke_UserID inp \<noteq> []) InvalidInput
      (unless (ke_ProjectID inp \<noteq> [] \<or> ke_ClusterID inp \<noteq> []) InvalidInput
        (if ke_ProjectID inp \<noteq> [] then ensureProjectKubeconfig env inp else ensureUserKubeconfig env inp))"

section \<open>Rotating and deleting\<close>

definition ignoreNotFound :: "unit handler \<Rightarrow> unit handler" where
  "ignoreNotFound m = tryS m (\<lambda>r. case r of
     Inr _ \<Rightarrow> ret () | Inl e \<Rightarrow> if e = KubeNotFound then ret () else fail e)"

definition deleteSecret :: "cp_env \<Rightarrow> string \<Rightarrow> string \<Rightarrow> string \<Rightarrow> unit handler" where
  "deleteSecret env clusterID namespace name =
    unless (namespace \<noteq> [] \<and> name \<noteq> []) InvalidInput
      (bindS (clusterClient env clusterID) (\<lambda>_.
        ignoreNotFound (kubeDelete env (clusterID, ''Secret'', namespace, name))))"

definition deleteServiceAccount :: "cp_env \<Rightarrow> string \<Rightarrow> string \<Rightarrow> string \<Rightarrow> unit handler" where
  "deleteServiceAccount env clusterID namespace saName =
    bindS (clusterClient env clusterID) (\<lambda>_.
      ignoreNotFound (kubeDelete env (clusterID, ''ServiceAccount'', namespace, saName)))"

definition RotateKubeconfigByID :: "cp_env \<Rightarrow> string \<Rightarrow> (string \<times> string \<times> string) handler" where
  "RotateKubeconfigByID env ident =
    bindS (GetKubeconfigByID env ident) (\<lambda>rec.
    bindS (case kr_ProjectID rec of
             Some projectID \<Rightarrow> RenewProjectKubeconfig env projectID
           | None \<Rightarrow> RenewUserKubeconfig env (kr_UserID rec) (kr_ClusterID rec)) (\<lambda>out.
      tryS (deleteSecret env (kr_ClusterID rec) (kr_Namespace rec) (kr_SecretName rec)) (\<lambda>_.
      bindS (GetKubeconfigByID env ident) (\<lambda>updated.
        ret (kr_ID updated, kr_SecretName updated, out)))))"

definition DeleteKubeconfigBinding :: "cp_env \<Rightarrow> string \<Rightarrow> unit handler" where
  "DeleteKubeconfigBinding env ident =
    bindS (GetKubeconfigByID env ident) (\<lambda>rec.
    bindS (deleteSecret env (kr_ClusterID rec) (kr_Namespace rec) (kr_SecretName rec)) (\<lambda>_.
    bindS (case kr_ProjectID rec of
             Some projectID \<Rightarrow> UpdateProjectKubeconfig env projectID []
           | None \<Rightarrow> tryS (GetUserSpace env (kr_UserID rec) (kr_ClusterID rec)) (\<lambda>r. case r of
               Inr us \<Rightarrow> UpdateUserSpaceKubeconfig env (us_ID us) [] | Inl _ \<Rightarrow> ret ())) (\<lambda>_.
    bindS (DeleteKubeconfigRecord env ident) (\<lambda>_.
      tryS (CountKubeconfigsByServiceAccount env (kr_Namespace rec) (kr_ServiceAccount rec)) (\<lambda>r. case r of
          Inr n \<Rightarrow> if n = 0
            then tryS (deleteServiceAccount env (kr_ClusterID rec) (kr_Namespace rec) (kr_ServiceAccount rec)) (\<lambda>_. ret ())
            else ret ()
        | Inl _ \<Rightarrow> ret ())))))"

section \<open>Preparing the log files at start\<close>

text \<open>
  The loop reads pages of a hundred projects until a page is short. It has no bound of its own, so that
  not returning is the value \<open>None\<close>. Preparing the directories of a project is an external call.
\<close>

definition ensureProjectDirs :: "cp_env \<Rightarrow> Project \<Rightarrow> unit handler" where
  "ensureProjectDirs env p = bindS (ListAppsByProject env (p_ID p)) (\<lambda>_. call env (ret ()))"

definition logPage :: "cp_env \<Rightarrow> nat \<Rightarrow> Project list handler" where
  "logPage env offset =
    bindS (ListProjects env 100 (int offset)) (\<lambda>projects.
      bindS (forEach (ensureProjectDirs env) projects) (\<lambda>_. ret projects))"

partial_function (option) ensureLogsLoop :: "cp_env \<Rightarrow> nat \<Rightarrow> world \<Rightarrow> (world \<times> (cp_error + unit)) option" where
  "ensureLogsLoop env offset w =
    (case logPage env offset w of
       (w', Inl e) \<Rightarrow> Some (w', Inl e)
     | (w', Inr projects) \<Rightarrow>
         if length projects < 100 then Some (w', Inr ())
         else ensureLogsLoop env (offset + length projects) w')"

text \<open>\<open>files\<close> tells whether the process has a file manager for its logs (\<open>logging.Files\<close>).\<close>

definition EnsureProjectLogs :: "cp_env \<Rightarrow> bool \<Rightarrow> world \<Rightarrow> (world \<times> (cp_error + unit)) option" where
  "EnsureProjectLogs env files w =
    (if \<not> files then Some (w, Inr ())
     else case call env (ret ()) w of
       (w', Inl e) \<Rightarrow> Some (w', Inl e)
     | (w', Inr _) \<Rightarrow> ensureLogsLoop env 0 w')"

end
