(* ===== verification/Credentials.thy ===== *)
theory Credentials
  imports KubeconfigOps
begin

text \<open>
  Git and registry credentials: \<open>internal/service/credentials.go\<close>, \<open>internal/store/credentials.go\<close> with
  the constraints of migration 16, and \<open>registryCredentialAuth\<close> of \<open>internal/service/apps.go\<close>. The two
  tables have the same columns but for the registry, which is empty in a row of \<open>git_credentials\<close>; the
  statements on them are written once over the table they act on.
\<close>

section \<open>The tables\<close>

definition credentialClash :: "Credential \<Rightarrow> Credential \<Rightarrow> bool" where
  "credentialClash c r \<longleftrightarrow>
    cr_ID r = cr_ID c
    \<or> (cr_UserID c \<noteq> None \<and> cr_UserID r = cr_UserID c \<and> cr_Name r = cr_Name c)
    \<or> (cr_ProjectID c \<noteq> None \<and> cr_ProjectID r = cr_ProjectID c \<and> cr_Name r = cr_Name c)"

text \<open>The \<open>CHECK\<close> constraints and foreign keys: one owner, which has a row.\<close>

definition credentialOwned :: "world \<Rightarrow> Credential \<Rightarrow> bool" where
  "credentialOwned w c \<longleftrightarrow>
    (case (cr_UserID c, cr_ProjectID c) of
       (Some u, None) \<Rightarrow> list_ex (\<lambda>r. u_ID r = u) (w_Users w)
     | (None, Some p) \<Rightarrow> list_ex (\<lambda>r. p_ID r = p) (w_Projects w)
     | _ \<Rightarrow> False)"

type_synonym cred_rows = "world \<Rightarrow> Credential list"
type_synonym cred_setter = "Credential list \<Rightarrow> world \<Rightarrow> world"

definition insertCredential :: "cred_rows \<Rightarrow> cred_setter \<Rightarrow> string list \<Rightarrow> cp_env \<Rightarrow> Credential \<Rightarrow> Credential handler" where
  "insertCredential rows setRows authTypes env c = call env (\<lambda>w.
    if list_ex (credentialClash c) (rows w) \<or> \<not> credentialOwned w c \<or> cr_AuthType c \<notin> set authTypes
    then (w, Inl ConstraintViolated)
    else let c' = c\<lparr> cr_CreatedAt := ce_clock env (w_Calls w), cr_UpdatedAt := ce_clock env (w_Calls w) \<rparr>
         in (setRows (rows w @ [c']) w, Inr c'))"

definition selectCredential :: "cred_rows \<Rightarrow> cp_env \<Rightarrow> string \<Rightarrow> Credential handler" where
  "selectCredential rows env ident = call env (bindS (getS (\<lambda>w. filter (\<lambda>c. cr_ID c = ident) (rows w))) firstRow)"

definition listCredentials :: "cred_rows \<Rightarrow> cp_env \<Rightarrow> string \<Rightarrow> string \<Rightarrow> Credential list handler" where
  "listCredentials rows env userID projectID = call env (getS (\<lambda>w.
    sort_key (\<lambda>c. - cr_CreatedAt c)
      (if userID \<noteq> [] then filter (\<lambda>c. cr_UserID c = Some userID) (rows w)
       else if projectID \<noteq> [] then filter (\<lambda>c. cr_ProjectID c = Some projectID) (rows w)
       else rows w)))"

definition removeCredential :: "cred_rows \<Rightarrow> cred_setter \<Rightarrow> cp_env \<Rightarrow> string \<Rightarrow> unit handler" where
  "removeCredential rows setRows env ident = call env (\<lambda>w.
    if list_ex (\<lambda>c. cr_ID c = ident) (rows w) then (setRows (filter (\<lambda>c. cr_ID c \<noteq> ident) (rows w)) w, Inr ())
    else (w, Inl NoRows))"

definition setGitCreds :: cred_setter where "setGitCreds rows w = w\<lparr> w_GitCreds := rows \<rparr>"
definition setRegistryCreds :: cred_setter where "setRegistryCreds rows w = w\<lparr> w_RegistryCreds := rows \<rparr>"

definition Store_CreateGitCredential :: "cp_env \<Rightarrow> Credential \<Rightarrow> Credential handler" where
  "Store_CreateGitCredential = insertCredential w_GitCreds setGitCreds [''TOKEN'', ''BASIC'', ''SSH'']"

definition Store_GetGitCredential :: "cp_env \<Rightarrow> string \<Rightarrow> Credential handler" where
  "Store_GetGitCredential = selectCredential w_GitCreds"

definition Store_ListGitCredentials :: "cp_env \<Rightarrow> string \<Rightarrow> string \<Rightarrow> Credential list handler" where
  "Store_ListGitCredentials = listCredentials w_GitCreds"

definition Store_DeleteGitCredential :: "cp_env \<Rightarrow> string \<Rightarrow> unit handler" where
  "Store_DeleteGitCredential = removeCredential w_GitCreds setGitCreds"

definition Store_CreateRegistryCredential :: "cp_env \<Rightarrow> Credential \<Rightarrow> Credential handler" where
  "Store_CreateRegistryCredential = insertCredential w_RegistryCreds setRegistryCreds [''TOKEN'', ''BASIC'']"

definition Store_GetRegistryCredential :: "cp_env \<Rightarrow> string \<Rightarrow> Credential handler" where
  "Store_GetRegistryCredential = selectCredential w_RegistryCreds"

definition Store_ListRegistryCredentials :: "cp_env \<Rightarrow> string \<Rightarrow> string \<Rightarrow> Credential list handler" where
  "Store_ListRegistryCredentials = listCredentials w_RegistryCreds"

definition Store_DeleteRegistryCredential :: "cp_env \<Rightarrow> string \<Rightarrow> unit handler" where
  "Store_DeleteRegistryCredential = removeCredential w_RegistryCreds setRegistryCreds"

section \<open>Scopes and payloads\<close>

datatype credential_scope = ScopeUser | ScopeProject | NoScope

record CredentialScopeInput =
  si_Type :: string
  si_ID :: string

definition resolveCredentialScope ::
  "cp_env \<Rightarrow> CredentialScopeInput \<Rightarrow> (string option \<times> string option \<times> credential_scope \<times> string) handler" where
  "resolveCredentialScope env scope =
    (let scopeType = ToUpper (TrimSpace (si_Type scope)); scopeID = TrimSpace (si_ID scope) in
     unless (scopeID \<noteq> []) InvalidInput
       (if scopeType = ''USER'' then bindS (GetUser env scopeID) (\<lambda>_. ret (Some scopeID, None, ScopeUser, scopeID))
        else if scopeType = ''PROJECT''
        then bindS (GetProject env scopeID) (\<lambda>_. ret (None, Some scopeID, ScopeProject, scopeID))
        else fail InvalidInput))"

definition mapCredentialScope :: "string option \<Rightarrow> string option \<Rightarrow> credential_scope \<times> string" where
  "mapCredentialScope userID projectID =
    (case userID of
       Some u \<Rightarrow> (ScopeUser, u)
     | None \<Rightarrow> (case projectID of Some p \<Rightarrow> (ScopeProject, p) | None \<Rightarrow> (NoScope, [])))"

text \<open>The secret part of a credential and its document; empty fields are left out.\<close>

record CredentialSecret =
  se_Token :: string
  se_Password :: string
  se_PrivateKey :: string
  se_Passphrase :: string

definition noSecret :: CredentialSecret where
  "noSecret = \<lparr> se_Token = [], se_Password = [], se_PrivateKey = [], se_Passphrase = [] \<rparr>"

definition omitEmpty :: "string \<Rightarrow> string \<Rightarrow> (string \<times> string) list" where
  "omitEmpty key v = (if v = [] then [] else [(key, v)])"

definition secretEntries :: "CredentialSecret \<Rightarrow> (string \<times> string) list" where
  "secretEntries s = omitEmpty ''token'' (se_Token s) @ omitEmpty ''password'' (se_Password s)
     @ omitEmpty ''privateKey'' (se_PrivateKey s) @ omitEmpty ''passphrase'' (se_Passphrase s)"

definition encryptCredentialPayload :: "cp_env \<Rightarrow> CredentialSecret \<Rightarrow> byte list handler" where
  "encryptCredentialPayload env s = encrypt env (jsonText (jMap (secretEntries s)))"

text \<open>
  \<open>json.Unmarshal\<close> into a struct of strings: a key names a field whatever its case, a later entry replaces
  an earlier one, and a value that is neither a text nor \<open>null\<close> is an error.
\<close>

fun decodeField :: "string \<Rightarrow> string \<Rightarrow> jobject \<Rightarrow> string option" where
  "decodeField key acc [] = Some acc"
| "decodeField key acc ((k, v) # m) =
    (if EqualFold k key then
       (case v of JStr s \<Rightarrow> decodeField key s m | JNull \<Rightarrow> decodeField key acc m | _ \<Rightarrow> None)
     else decodeField key acc m)"

definition decodeFields :: "string \<Rightarrow> jobject option" where
  "decodeFields text =
    (case parseJson text of Some (JObj m) \<Rightarrow> Some m | Some JNull \<Rightarrow> Some [] | _ \<Rightarrow> None)"

definition decodeGitSecret :: "string \<Rightarrow> CredentialSecret option" where
  "decodeGitSecret text =
    Option.bind (decodeFields text) (\<lambda>m.
      case (decodeField ''token'' [] m, decodeField ''password'' [] m, decodeField ''privateKey'' [] m,
            decodeField ''passphrase'' [] m) of
        (Some t, Some p, Some k, Some pp) \<Rightarrow>
          Some \<lparr> se_Token = t, se_Password = p, se_PrivateKey = k, se_Passphrase = pp \<rparr>
      | _ \<Rightarrow> None)"

definition decodeRegistrySecret :: "string \<Rightarrow> CredentialSecret option" where
  "decodeRegistrySecret text =
    Option.bind (decodeFields text) (\<lambda>m.
      case (decodeField ''token'' [] m, decodeField ''password'' [] m) of
        (Some t, Some p) \<Rightarrow> Some (noSecret\<lparr> se_Token := t, se_Password := p \<rparr>)
      | _ \<Rightarrow> None)"

section \<open>The handlers\<close>

record CredentialCreateInput =
  ci_Name :: string
  ci_Registry :: string
  ci_Scope :: CredentialScopeInput
  ci_AuthType :: string
  ci_Username :: string
  ci_Token :: string
  ci_Password :: string
  ci_PrivateKey :: string
  ci_Passphrase :: string

record CredentialOutput =
  co_ID :: string
  co_Name :: string
  co_Registry :: string
  co_ScopeType :: credential_scope
  co_ScopeID :: string
  co_AuthType :: string
  co_Username :: string
  co_CreatedAt :: int
  co_UpdatedAt :: int

definition credentialOutput :: "Credential \<Rightarrow> CredentialOutput" where
  "credentialOutput c =
    (case mapCredentialScope (cr_UserID c) (cr_ProjectID c) of (scopeType, scopeID) \<Rightarrow>
      \<lparr> co_ID = cr_ID c, co_Name = cr_Name c, co_Registry = cr_Registry c, co_ScopeType = scopeType,
        co_ScopeID = scopeID, co_AuthType = cr_AuthType c, co_Username = cr_Username c,
        co_CreatedAt = cr_CreatedAt c, co_UpdatedAt = cr_UpdatedAt c \<rparr>)"

text \<open>What each kind of authentication needs, and the secret it stores; \<open>None\<close> refuses the input.\<close>

definition tokenSecret :: "CredentialCreateInput \<Rightarrow> CredentialSecret option" where
  "tokenSecret inp =
    (if TrimSpace (ci_Token inp) = [] then None else Some (noSecret\<lparr> se_Token := TrimSpace (ci_Token inp) \<rparr>))"

definition basicSecret :: "CredentialCreateInput \<Rightarrow> CredentialSecret option" where
  "basicSecret inp =
    (if TrimSpace (ci_Username inp) = [] \<or> TrimSpace (ci_Password inp) = [] then None
     else Some (noSecret\<lparr> se_Password := TrimSpace (ci_Password inp) \<rparr>))"

definition gitPayload :: "string \<Rightarrow> CredentialCreateInput \<Rightarrow> CredentialSecret option" where
  "gitPayload authType inp =
    (if authType = ''TOKEN'' then tokenSecret inp
     else if authType = ''BASIC'' then basicSecret inp
     else if authType = ''SSH'' then
       (if TrimSpace (ci_PrivateKey inp) = [] then None
        else Some (noSecret\<lparr> se_PrivateKey := TrimSpace (ci_PrivateKey inp),
                             se_Passphrase := TrimSpace (ci_Passphrase inp) \<rparr>))
     else None)"

definition registryPayload :: "string \<Rightarrow> CredentialCreateInput \<Rightarrow> CredentialSecret option" where
  "registryPayload authType inp =
    (if authType = ''TOKEN'' then tokenSecret inp
     else if authType = ''BASIC'' then basicSecret inp
     else None)"

text \<open>The common end of both creations: the scope, the sealed payload and the row.\<close>

definition storeCredential ::
  "cp_env \<Rightarrow> (cp_env \<Rightarrow> Credential \<Rightarrow> Credential handler) \<Rightarrow> CredentialCreateInput \<Rightarrow> string \<Rightarrow> CredentialSecret
    \<Rightarrow> CredentialOutput handler" where
  "storeCredential env create inp registry payload =
    bindS (resolveCredentialScope env (ci_Scope inp)) (\<lambda>(userID, projectID, scopeType, scopeID).
    bindS (encryptCredentialPayload env payload) (\<lambda>enc.
    bindS (newUUID env) (\<lambda>ident.
    bindS (create env \<lparr> cr_ID = ident, cr_Name = TrimSpace (ci_Name inp), cr_Registry = registry, cr_UserID = userID,
             cr_ProjectID = projectID, cr_AuthType = ToUpper (TrimSpace (ci_AuthType inp)),
             cr_Username = TrimSpace (ci_Username inp), cr_CreatedAt = 0, cr_UpdatedAt = 0, cr_Secret = enc \<rparr>) (\<lambda>created.
      ret \<lparr> co_ID = cr_ID created, co_Name = cr_Name created, co_Registry = cr_Registry created,
            co_ScopeType = scopeType, co_ScopeID = scopeID, co_AuthType = cr_AuthType created,
            co_Username = cr_Username created, co_CreatedAt = cr_CreatedAt created,
            co_UpdatedAt = cr_UpdatedAt created \<rparr>))))"

definition CreateGitCredential :: "cp_env \<Rightarrow> CredentialCreateInput \<Rightarrow> CredentialOutput handler" where
  "CreateGitCredential env inp =
    unless (TrimSpace (ci_Name inp) \<noteq> []) InvalidInput
      (case gitPayload (ToUpper (TrimSpace (ci_AuthType inp))) inp of
         None \<Rightarrow> fail InvalidInput
       | Some payload \<Rightarrow> storeCredential env Store_CreateGitCredential inp [] payload)"

definition CreateRegistryCredential :: "cp_env \<Rightarrow> CredentialCreateInput \<Rightarrow> CredentialOutput handler" where
  "CreateRegistryCredential env inp =
    unless (TrimSpace (ci_Name inp) \<noteq> [] \<and> TrimSpace (ci_Registry inp) \<noteq> []) InvalidInput
      (case registryPayload (ToUpper (TrimSpace (ci_AuthType inp))) inp of
         None \<Rightarrow> fail InvalidInput
       | Some payload \<Rightarrow>
           storeCredential env Store_CreateRegistryCredential inp (TrimSpace (ci_Registry inp)) payload)"

definition ListGitCredentials :: "cp_env \<Rightarrow> string \<Rightarrow> string \<Rightarrow> CredentialOutput list handler" where
  "ListGitCredentials env userID projectID =
    unless (userID = [] \<or> projectID = []) InvalidInput
      (bindS (Store_ListGitCredentials env (TrimSpace userID) (TrimSpace projectID)) (\<lambda>cs.
        ret (map credentialOutput cs)))"

definition ListRegistryCredentials :: "cp_env \<Rightarrow> string \<Rightarrow> string \<Rightarrow> CredentialOutput list handler" where
  "ListRegistryCredentials env userID projectID =
    unless (userID = [] \<or> projectID = []) InvalidInput
      (bindS (Store_ListRegistryCredentials env (TrimSpace userID) (TrimSpace projectID)) (\<lambda>cs.
        ret (map credentialOutput cs)))"

definition openCredential ::
  "cp_env \<Rightarrow> (string \<Rightarrow> CredentialSecret option) \<Rightarrow> Credential \<Rightarrow> (CredentialOutput \<times> CredentialSecret) handler" where
  "openCredential env decode row =
    bindS (decrypt env (cr_Secret row)) (\<lambda>raw.
      case decode raw of None \<Rightarrow> fail BadDocument | Some secret \<Rightarrow> ret (credentialOutput row, secret))"

definition GetGitCredential :: "cp_env \<Rightarrow> string \<Rightarrow> (CredentialOutput \<times> CredentialSecret) handler" where
  "GetGitCredential env ident =
    unless (TrimSpace ident \<noteq> []) InvalidInput
      (bindS (Store_GetGitCredential env (TrimSpace ident)) (openCredential env decodeGitSecret))"

definition GetRegistryCredential :: "cp_env \<Rightarrow> string \<Rightarrow> (CredentialOutput \<times> CredentialSecret) handler" where
  "GetRegistryCredential env ident =
    unless (TrimSpace ident \<noteq> []) InvalidInput
      (bindS (Store_GetRegistryCredential env (TrimSpace ident)) (openCredential env decodeRegistrySecret))"

definition DeleteGitCredential :: "cp_env \<Rightarrow> string \<Rightarrow> unit handler" where
  "DeleteGitCredential env ident =
    unless (TrimSpace ident \<noteq> []) InvalidInput
      (bindS (Store_GetGitCredential env (TrimSpace ident)) (\<lambda>_. Store_DeleteGitCredential env (TrimSpace ident)))"

definition DeleteRegistryCredential :: "cp_env \<Rightarrow> string \<Rightarrow> unit handler" where
  "DeleteRegistryCredential env ident =
    unless (TrimSpace ident \<noteq> []) InvalidInput
      (bindS (Store_GetRegistryCredential env (TrimSpace ident)) (\<lambda>_. Store_DeleteRegistryCredential env (TrimSpace ident)))"

section \<open>Credentials of a registry for a chart\<close>

definition registryHostFromValue :: "string \<Rightarrow> string" where
  "registryHostFromValue raw =
    (let raw = TrimSpace raw in
     if raw = [] then []
     else let raw = (if Contains raw ''://'' then raw else ''https://'' @ raw) in
       case ParseURL raw of None \<Rightarrow> [] | Some u \<Rightarrow> TrimSpace (Hostname u))"

record helmOCIAuth =
  ha_Username :: string
  ha_Password :: string

definition authFromSecret :: "CredentialOutput \<Rightarrow> CredentialSecret \<Rightarrow> helmOCIAuth option" where
  "authFromSecret out secret =
    (let authType = ToUpper (TrimSpace (co_AuthType out)) in
     if authType = ''TOKEN'' then
       (let token = TrimSpace (se_Token secret) in
        if token = [] then None else Some \<lparr> ha_Username = [], ha_Password = token \<rparr>)
     else if authType = ''BASIC'' then
       (let username = TrimSpace (co_Username out); password = TrimSpace (se_Password secret) in
        if username = [] \<or> password = [] then None
        else Some \<lparr> ha_Username = username, ha_Password = password \<rparr>)
     else None)"

text \<open>The test both users of credentials make: the credential is the project's or its user's.\<close>

definition scopeAllows :: "Project \<Rightarrow> CredentialOutput \<Rightarrow> bool" where
  "scopeAllows project out =
    (case co_ScopeType out of
       ScopeProject \<Rightarrow> co_ScopeID out = p_ID project
     | ScopeUser \<Rightarrow> co_ScopeID out = p_UserID project
     | NoScope \<Rightarrow> False)"

definition registryCredentialAuth :: "cp_env \<Rightarrow> Project \<Rightarrow> string \<Rightarrow> string \<Rightarrow> helmOCIAuth handler" where
  "registryCredentialAuth env project credentialID registryHost =
    bindS (GetRegistryCredential env credentialID) (\<lambda>(out, secret).
      unless (scopeAllows project out) NotPermitted
        (let host = registryHostFromValue (co_Registry out) in
         unless (host = [] \<or> EqualFold host registryHost) NotPermitted
           (case authFromSecret out secret of None \<Rightarrow> fail InvalidInput | Some auth \<Rightarrow> ret auth)))"

end
