(* ===== verification/Delivery.thy ===== *)
theory Delivery
  imports Credentials
begin

text \<open>
  Sources of manifests: \<open>internal/service/git_source.go\<close>, \<open>internal/service/oci_bundle.go\<close> and the package
  \<open>internal/delivery\<close>. Cloning a repository, building a kustomization, parsing a private key and pulling an
  image belong to libraries and are parameters. The file system of a checkout is a record of functions,
  with the tree that \<open>fs.WalkDir\<close> visits; a tar archive is the sequence of what its reader gives.
\<close>

section \<open>Git specifications\<close>

record AppGitSpec =
  gs_URL :: string
  gs_Ref :: string
  gs_Path :: string
  gs_Mode :: string
  gs_CredentialID :: string
  gs_InsecureSkipTLS :: bool

definition isHexHash :: "string \<Rightarrow> bool" where
  "isHexHash ref \<longleftrightarrow> length ref = 40 \<and> list_all ishex ref"

definition validateGitURL :: "bool \<Rightarrow> string \<Rightarrow> bool" where
  "validateGitURL allowFile raw =
    (if HasPrefix raw ''git@'' then True
     else case ParseURL raw of
       None \<Rightarrow> False
     | Some parsed \<Rightarrow>
         let scheme = ToLower (Scheme parsed) in
         if scheme \<in> {''https'', ''ssh'', ''git+ssh''} then True
         else if scheme = ''file'' then allowFile \<and> Path parsed \<noteq> []
         else False)"

text \<open>The path of the manifests inside the repository; \<open>None\<close> refuses it.\<close>

definition gitPath :: "string \<Rightarrow> string option" where
  "gitPath raw =
    (let path = TrimSpace raw in
     if path = [] then Some []
     else let clean = TrimPrefix (Clean path) ''/'';
              clean = (if clean = ''.'' then [] else clean)
          in if clean \<noteq> [] \<and> (HasPrefix clean ''..'' \<or> Contains clean ''../'') then None else Some clean)"

definition prepareGitPlan :: "bool \<Rightarrow> AppGitSpec \<Rightarrow> gitSourcePlan option" where
  "prepareGitPlan allowFile spec =
    (let urlStr = TrimSpace (gs_URL spec);
         ref = TrimSpace (gs_Ref spec);
         ref = (if ref = [] then ''refs/heads/main'' else ref);
         isRef = HasPrefix ref ''refs/'';
         mode = ToLower (TrimSpace (gs_Mode spec));
         mode = (if mode = [] then ''manifests'' else mode)
     in if urlStr = [] \<or> \<not> validateGitURL allowFile urlStr then None
        else if mode \<notin> {''manifests'', ''kustomize''} then None
        else map_option (\<lambda>path.
          \<lparr> gp_URL = urlStr, gp_Ref = ref, gp_Path = path, gp_Mode = mode,
            gp_CredentialID = TrimSpace (gs_CredentialID spec), gp_InsecureSkipTLS = gs_InsecureSkipTLS spec,
            gp_Commit = [],
            gp_referenceName = (if isRef then ref else if isHexHash ref then [] else ''refs/heads/'' @ ref),
            gp_checkoutHash = (if \<not> isRef \<and> isHexHash ref then ref else []) \<rparr>)
          (gitPath (gs_Path spec)))"

section \<open>Reading a checkout\<close>

datatype dir_entry =
    FileEntry (entryName: string)
  | DirEntry (entryName: string) "dir_entry list option"

record filesystem =
  fs_eval :: "string \<Rightarrow> string option"
  fs_lstat :: "string \<Rightarrow> file_mode option"
  fs_stat :: "string \<Rightarrow> file_mode option"
  fs_read :: "string \<Rightarrow> string option"
  fs_tree :: "string \<Rightarrow> dir_entry option"

text \<open>\<open>filepath.Ext\<close>: from the last dot of the last element.\<close>

definition Ext :: "string \<Rightarrow> string" where
  "Ext path =
    (let base = (case CutLast path (CHR ''/'') of None \<Rightarrow> path | Some (_, b) \<Rightarrow> b) in
     case CutLast base (CHR ''.'') of None \<Rightarrow> [] | Some (_, e) \<Rightarrow> CHR ''.'' # e)"

definition isYAML :: "string \<Rightarrow> bool" where
  "isYAML path \<longleftrightarrow> ToLower (Ext path) \<in> {''.yaml'', ''.yml''}"

datatype walk_step = Continue | SkipDir | Stop

text \<open>The function the walk calls on an entry, with the files found so far.\<close>

definition visitEntry ::
  "filesystem \<Rightarrow> string \<Rightarrow> string \<Rightarrow> bool \<Rightarrow> string \<Rightarrow> string list \<Rightarrow> walk_step \<times> string list" where
  "visitEntry fs root path isDir name files =
    (if path = ''.'' then (Continue, files)
     else case WithinRepo (fs_eval fs) root path of
       Inl e \<Rightarrow> if e = ErrPathEscape then (if isDir then SkipDir else Continue, files) else (Stop, files)
     | Inr resolved \<Rightarrow>
         (case fs_stat fs resolved of
            None \<Rightarrow> (Stop, files)
          | Some info \<Rightarrow>
              if ModeDir info then (if name = ''.git'' then SkipDir else Continue, files)
              else if \<not> isYAML resolved then (Continue, files)
              else if EnsureRegularFile (Some info) \<noteq> None then (Stop, files)
              else (Continue, files @ [resolved])))"

fun walkEntry :: "filesystem \<Rightarrow> string \<Rightarrow> string \<Rightarrow> dir_entry \<Rightarrow> string list \<Rightarrow> walk_step \<times> string list"
  and walkEntries :: "filesystem \<Rightarrow> string \<Rightarrow> string \<Rightarrow> dir_entry list \<Rightarrow> string list \<Rightarrow> walk_step \<times> string list" where
  "walkEntry fs root path (FileEntry name) files = visitEntry fs root path False name files"
| "walkEntry fs root path (DirEntry name None) files =
    (case visitEntry fs root path True name files of
       (Continue, found) \<Rightarrow> (Stop, found)
     | (SkipDir, found) \<Rightarrow> (Continue, found)
     | (Stop, found) \<Rightarrow> (Stop, found))"
| "walkEntry fs root path (DirEntry name (Some entries)) files =
    (case visitEntry fs root path True name files of
       (Continue, found) \<Rightarrow> walkEntries fs root path entries found
     | (SkipDir, found) \<Rightarrow> (Continue, found)
     | (Stop, found) \<Rightarrow> (Stop, found))"
| "walkEntries fs root path [] files = (Continue, files)"
| "walkEntries fs root path (e # es) files =
    (case walkEntry fs root (filepathJoin path (entryName e)) e files of
       (Continue, found) \<Rightarrow> walkEntries fs root path es found
     | (SkipDir, found) \<Rightarrow> (Continue, found)
     | (Stop, found) \<Rightarrow> (Stop, found))"

fun readAll :: "filesystem \<Rightarrow> string \<Rightarrow> string list \<Rightarrow> string list option" where
  "readAll fs root [] = Some []"
| "readAll fs root (file # files) =
    (case WithinRepo (fs_eval fs) root file of
       Inl _ \<Rightarrow> None
     | Inr resolved \<Rightarrow>
         (case (fs_read fs resolved, readAll fs root files) of
            (Some doc, Some docs) \<Rightarrow> Some (doc # docs)
          | _ \<Rightarrow> None))"

text \<open>A base that is a symbolic link is resolved once more before it is inspected.\<close>

definition resolveBase :: "filesystem \<Rightarrow> string \<Rightarrow> string \<Rightarrow> file_mode option \<Rightarrow> (string \<times> file_mode) option" where
  "resolveBase fs root base info =
    (case info of
       None \<Rightarrow> None
     | Some m \<Rightarrow>
         if ModeSymlink m then
           (case WithinRepo (fs_eval fs) root base of
              Inl _ \<Rightarrow> None
            | Inr resolved \<Rightarrow> map_option (Pair resolved) (fs_stat fs resolved))
         else Some (base, m))"

definition manifestFiles :: "filesystem \<Rightarrow> string \<Rightarrow> string \<Rightarrow> file_mode \<Rightarrow> string list option" where
  "manifestFiles fs root base info =
    (if ModeDir info then
       (case Rel root base of
          None \<Rightarrow> None
        | Some rel \<Rightarrow>
            let start = (if rel = [] then ''.'' else rel) in
            case fs_tree fs start of
              None \<Rightarrow> None
            | Some tree \<Rightarrow>
                (case walkEntry fs root start tree [] of
                   (Stop, _) \<Rightarrow> None
                 | (_, files) \<Rightarrow> Some (Strings files)))
     else if \<not> isYAML base \<or> EnsureRegularFile (Some info) \<noteq> None then None
     else Some [base])"

definition LoadManifests :: "filesystem \<Rightarrow> string \<Rightarrow> string \<Rightarrow> file_mode option \<Rightarrow> string list option" where
  "LoadManifests fs root base info =
    (case CleanRoot (fs_eval fs) root of
       Inl _ \<Rightarrow> None
     | Inr cleanRoot \<Rightarrow>
         (case WithinRepo (fs_eval fs) cleanRoot base of
            Inl _ \<Rightarrow> None
          | Inr cleanBase \<Rightarrow>
              let info = (if info = None \<or> cleanBase \<noteq> base then fs_lstat fs cleanBase else info) in
              case resolveBase fs cleanRoot cleanBase info of
                None \<Rightarrow> None
              | Some (base', m) \<Rightarrow>
                  Option.bind (manifestFiles fs cleanRoot base' m) (readAll fs cleanRoot)))"

section \<open>Checking out\<close>

datatype git_auth = BasicAuth string string | PublicKeys string string string

record git_library =
  gl_clone :: "string \<Rightarrow> string \<Rightarrow> string \<Rightarrow> git_auth option \<Rightarrow> bool \<Rightarrow> (string \<times> string) option"
  gl_files :: filesystem
  gl_kustomize :: "string \<Rightarrow> string option"
  gl_keyOK :: "string \<Rightarrow> string \<Rightarrow> bool"

record GitCheckoutResult =
  gc_RepoRoot :: string
  gc_BasePath :: string
  gc_Info :: file_mode
  gc_Commit :: string

definition ValidateCheckoutPath :: "string \<Rightarrow> path_error + string" where
  "ValidateCheckoutPath path = NormalizeRepoPath path"

definition CheckoutGit :: "git_library \<Rightarrow> gitSourcePlan \<Rightarrow> git_auth option \<Rightarrow> GitCheckoutResult option" where
  "CheckoutGit lib plan auth =
    (let fs = gl_files lib in
     case ValidateCheckoutPath (gp_Path plan) of
       Inl _ \<Rightarrow> None
     | Inr path \<Rightarrow>
         (case gl_clone lib (gp_URL plan) (gp_referenceName plan) (gp_checkoutHash plan) auth (gp_InsecureSkipTLS plan) of
            None \<Rightarrow> None
          | Some (dir, commit) \<Rightarrow>
              (case CleanRoot (fs_eval fs) dir of
                 Inl _ \<Rightarrow> None
               | Inr root \<Rightarrow>
                   (case (if path = [] then Inr root else WithinRepo (fs_eval fs) root path) of
                      Inl _ \<Rightarrow> None
                    | Inr base \<Rightarrow>
                        (case resolveBase fs root base (fs_lstat fs base) of
                           None \<Rightarrow> None
                         | Some (base', m) \<Rightarrow>
                             if \<not> ModeDir m \<and> EnsureRegularFile (Some m) \<noteq> None then None
                             else Some \<lparr> gc_RepoRoot = root, gc_BasePath = base', gc_Info = m, gc_Commit = commit \<rparr>)))))"

definition gitCredentialAuth :: "cp_env \<Rightarrow> git_library \<Rightarrow> Project \<Rightarrow> string \<Rightarrow> git_auth handler" where
  "gitCredentialAuth env lib project credentialID =
    bindS (GetGitCredential env credentialID) (\<lambda>(out, secret).
      unless (scopeAllows project out) NotPermitted
        (let authType = ToUpper (TrimSpace (co_AuthType out));
             username = TrimSpace (co_Username out);
             user = (if username = [] then ''git'' else username);
             token = TrimSpace (se_Token secret);
             password = TrimSpace (se_Password secret);
             key = TrimSpace (se_PrivateKey secret);
             passphrase = TrimSpace (se_Passphrase secret)
         in if authType = ''TOKEN'' then unless (token \<noteq> []) InvalidInput (ret (BasicAuth user token))
            else if authType = ''BASIC'' then
              unless (username \<noteq> [] \<and> password \<noteq> []) InvalidInput (ret (BasicAuth username password))
            else if authType = ''SSH'' then
              unless (key \<noteq> [] \<and> gl_keyOK lib key passphrase) InvalidInput (ret (PublicKeys user key passphrase))
            else fail InvalidInput))"

text \<open>The documents of a checkout, by the mode of the plan.\<close>

definition checkoutDocuments :: "git_library \<Rightarrow> gitSourcePlan \<Rightarrow> GitCheckoutResult \<Rightarrow> string list option" where
  "checkoutDocuments lib plan c =
    (if gp_Mode plan = ''kustomize'' then
       (case gl_kustomize lib (gc_BasePath c) of
          None \<Rightarrow> None
        | Some rendered \<Rightarrow> if TrimSpace rendered = [] then None else Some [rendered])
     else
       (case LoadManifests (gl_files lib) (gc_RepoRoot c) (gc_BasePath c) (Some (gc_Info c)) of
          None \<Rightarrow> None
        | Some docs \<Rightarrow> if docs = [] then None else Some docs))"

definition renderGitSource :: "cp_env \<Rightarrow> git_library \<Rightarrow> Project \<Rightarrow> gitSourcePlan \<Rightarrow> (string list \<times> string) handler" where
  "renderGitSource env lib project plan =
    bindS (if gp_CredentialID plan = [] then ret None
           else bindS (gitCredentialAuth env lib project (gp_CredentialID plan)) (\<lambda>auth. ret (Some auth))) (\<lambda>auth.
    call env
      (case CheckoutGit lib plan auth of
         None \<Rightarrow> fail InvalidInput
       | Some c \<Rightarrow>
           (case checkoutDocuments lib plan c of
              None \<Rightarrow> fail InvalidInput
            | Some docs \<Rightarrow> ret (docs, gc_Commit c))))"

section \<open>Bundles in a registry\<close>

text \<open>What \<open>tar.Reader\<close> gives: entries with the test for a regular file, their name and content, or an error.\<close>

datatype tar_step = TarEntry bool string string | TarError

definition invalidBundlePath :: "string \<Rightarrow> bool" where
  "invalidBundlePath clean \<longleftrightarrow> HasPrefix clean ''..'' \<or> Contains clean ''../'' \<or> HasPrefix clean ''/''"

definition isManifestName :: "string \<Rightarrow> bool" where
  "isManifestName clean \<longleftrightarrow> ToLower (Ext clean) \<in> {''.yaml'', ''.yml'', ''.json''}"

fun extractLoop :: "int \<Rightarrow> int \<Rightarrow> string list \<Rightarrow> tar_step list \<Rightarrow> string list option" where
  "extractLoop maxBytes used docs [] = (if docs = [] then None else Some docs)"
| "extractLoop maxBytes used docs (TarError # rest) = None"
| "extractLoop maxBytes used docs (TarEntry regular name content # rest) =
    (let clean = Clean name; remaining = maxBytes - used in
     if \<not> regular \<or> clean = ''.'' \<or> clean = ''/'' then extractLoop maxBytes used docs rest
     else if invalidBundlePath clean then None
     else if \<not> isManifestName clean then extractLoop maxBytes used docs rest
     else if remaining \<le> 0 \<or> int (length content) > remaining then None
     else extractLoop maxBytes (used + int (length content))
            (if TrimSpace content = [] then docs else docs @ [TrimSpace content]) rest)"

definition extractOCIBundleDocuments :: "tar_step list \<Rightarrow> int \<Rightarrow> string list option" where
  "extractOCIBundleDocuments steps maxBytes = (if maxBytes \<le> 0 then None else extractLoop maxBytes 0 [] steps)"

definition ociBundleMaxManifestBytes :: int where
  "ociBundleMaxManifestBytes = 8 * 1024 * 1024"

definition isSupportedOCIBundleLayer :: "string \<Rightarrow> bool" where
  "isSupportedOCIBundleLayer mediaType \<longleftrightarrow> mediaType \<in>
    {''application/vnd.kubeop.bundle.v1+tar'', ''application/vnd.kubeop.bundle.v1+tar+gzip'',
     ''application/vnd.oci.image.layer.v1.tar'', ''application/vnd.oci.image.layer.v1.tar+gzip''}"

text \<open>The first layer of a supported type decides.\<close>

fun bundleLayers :: "(string \<times> tar_step list) list \<Rightarrow> (string list \<times> string) option" where
  "bundleLayers [] = None"
| "bundleLayers ((mediaType, steps) # layers) =
    (if \<not> isSupportedOCIBundleLayer mediaType then bundleLayers layers
     else map_option (\<lambda>docs. (docs, mediaType)) (extractOCIBundleDocuments steps ociBundleMaxManifestBytes))"

record ociBundleFetchResult =
  ob_Documents :: "string list"
  ob_Digest :: string
  ob_MediaType :: string

text \<open>The registry library: the digest and the layers of an image, pulled over the given addresses.\<close>

type_synonym oci_registry =
  "string \<Rightarrow> bool \<Rightarrow> helmOCIAuth option \<Rightarrow> addr list \<Rightarrow> (string \<times> (string \<times> tar_step list) list) option"

definition defaultOCIBundleFetcher ::
  "resolver \<Rightarrow> oci_registry \<Rightarrow> string \<Rightarrow> bool \<Rightarrow> helmOCIAuth option \<Rightarrow> ociBundleFetchResult option" where
  "defaultOCIBundleFetcher resolver registry ref insecure auth =
    (case ociTarget resolver ref of
       Inl _ \<Rightarrow> None
     | Inr (host, addrs) \<Rightarrow>
         let auth = (case auth of
               Some a \<Rightarrow> if ha_Username a \<noteq> [] \<or> ha_Password a \<noteq> [] then Some a else None
             | None \<Rightarrow> None)
         in case registry (TrimPrefix ref ''oci://'') insecure auth addrs of
              None \<Rightarrow> None
            | Some (digest, layers) \<Rightarrow>
                map_option (\<lambda>(docs, mediaType).
                  \<lparr> ob_Documents = docs, ob_Digest = digest, ob_MediaType = mediaType \<rparr>) (bundleLayers layers))"

text \<open>The \<open>DialContext\<close> of \<open>newOCIRegistryTransport\<close>.\<close>

definition ociRegistryDial :: "addr list \<Rightarrow> dialer \<Rightarrow> string \<Rightarrow> string \<Rightarrow> net_event list \<times> (helm_error + string)" where
  "ociRegistryDial addrs dial network address =
    (let allowed = map addrString addrs in
     case SplitHostPort address of None \<Rightarrow> ([], Inl HelmDial)
     | Some (hostPart, port) \<Rightarrow>
         (case ParseIP hostPart of None \<Rightarrow> ([], Inl HelmNonIP)
          | Some a \<Rightarrow>
              (case ensureHelmChartAddrAllowed a of Some e \<Rightarrow> ([], Inl e)
               | None \<Rightarrow>
                   if addrString a \<notin> set allowed then ([], Inl HelmNotInTargets)
                   else if port \<noteq> ''80'' \<and> port \<noteq> ''443'' then ([], Inl HelmDial)
                   else let target = JoinHostPort (addrString a) port in
                        ([Dialled target],
                         case dial network target of Inl e \<Rightarrow> Inl (HelmURL e) | Inr c \<Rightarrow> Inr c))))"

section \<open>Digests and signatures\<close>

fun manifestHashes :: "nat \<Rightarrow> string list \<Rightarrow> json list" where
  "manifestHashes idx [] = []"
| "manifestHashes idx (doc # docs) =
    jMap [(''index'', decString (int idx)), (''sha256'', sha256Hex doc)] # manifestHashes (Suc idx) docs"

definition BuildSBOM :: "string \<Rightarrow> string list \<Rightarrow> (string \<times> string) list \<Rightarrow> jobject" where
  "BuildSBOM sourceType manifests extras =
    (let out = (if TrimSpace sourceType = [] then [] else [(''sourceType'', JStr (TrimSpace sourceType))]);
         out = (if manifests = [] then out
                else out @ [(''manifests'', JArr (manifestHashes 0 manifests)),
                            (''aggregateDigest'', JStr (sha256Hex (concat manifests)))])
     in sortEntries (foldl (\<lambda>out (k, v).
          if TrimSpace k = [] \<or> TrimSpace v = [] then out else AList.update (TrimSpace k) (JStr v) out) out extras))"

definition hmacBlock :: "byte list \<Rightarrow> byte list" where
  "hmacBlock key = (let k = (if length key > 64 then sha256Sum key else key) in k @ replicate (64 - length k) 0)"

definition hmacSHA256 :: "byte list \<Rightarrow> byte list \<Rightarrow> byte list" where
  "hmacSHA256 key msg =
    (let k = hmacBlock key in
     sha256Sum (map (xor 0x5C) k @ sha256Sum (map (xor 0x36) k @ msg)))"

definition VerifyHMACSHA256 :: "string \<Rightarrow> string \<Rightarrow> string \<Rightarrow> bool" where
  "VerifyHMACSHA256 body secret signature =
    (let secret = TrimSpace secret; sig = TrimSpace signature in
     if body = [] \<or> secret = [] \<or> sig = [] then False
     else let sig = (if HasPrefix (ToLower sig) ''sha256='' then drop 7 sig else sig) in
       case hexDecode sig of
         None \<Rightarrow> False
       | Some expected \<Rightarrow> hmacSHA256 (bytesOf secret) (bytesOf body) = expected)"

end
