(* ===== verification/AppOps.thy ===== *)
theory AppOps
  imports Delivery
begin

text \<open>
  Operations on deployed applications: attaching and detaching configuration, config maps and secrets
  (\<open>internal/service/configs.go\<close>), scaling, changing the image, restarting, and the copy of \<open>App\<close> objects
  the store keeps (\<open>internal/store/crds.go\<close>), all in \<open>internal/service/apps.go\<close>.

  Where a manifest of a tenant made an object, reading it into a Go type is a parameter. So are the
  resource versions, identities and documents the API server reports for an \<open>App\<close>. The API server refuses
  a Deployment without a selector or without containers that have a name and an image.
\<close>

section \<open>Environment of a container\<close>

fun normalizeKeys :: "string list \<Rightarrow> string list \<Rightarrow> string list" where
  "normalizeKeys seen [] = []"
| "normalizeKeys seen (k # ks) =
    (let k = TrimSpace k in
     if k = [] \<or> k \<in> set seen then normalizeKeys seen ks else k # normalizeKeys (k # seen) ks)"

definition normalizeAttachmentKeys :: "string list \<Rightarrow> string list" where
  "normalizeAttachmentKeys keys = normalizeKeys [] keys"

text \<open>The first variable of a name is replaced; without one the variable is appended.\<close>

fun setEnv :: "env_var \<Rightarrow> env_var list \<Rightarrow> env_var list" where
  "setEnv ev [] = [ev]"
| "setEnv ev (x # xs) = (if e_Name x = e_Name ev then ev # xs else x # setEnv ev xs)"

definition attachEnv ::
  "(string \<Rightarrow> env_from) \<Rightarrow> (string \<Rightarrow> string \<Rightarrow> env_source) \<Rightarrow> container \<Rightarrow> string \<Rightarrow> string list \<Rightarrow> string \<Rightarrow> container" where
  "attachEnv all one ctn name keys prfx =
    (let prfx = TrimSpace prfx; keys = normalizeAttachmentKeys keys in
     if keys = [] then
       (if all name \<in> set (ct_EnvFrom ctn) then ctn
        else ctn\<lparr> ct_EnvFrom := ct_EnvFrom ctn @ [all name] \<rparr>)
     else ctn\<lparr> ct_Env := foldl (\<lambda>env key. setEnv \<lparr> e_Name = prfx @ key, e_Source = one name key \<rparr> env)
                 (ct_Env ctn) keys \<rparr>)"

definition detachEnv :: "(string \<Rightarrow> env_from) \<Rightarrow> (env_source \<Rightarrow> string option) \<Rightarrow> container \<Rightarrow> string \<Rightarrow> container" where
  "detachEnv all refName ctn name = ctn\<lparr>
     ct_EnvFrom := filter (\<lambda>src. src \<noteq> all name) (ct_EnvFrom ctn),
     ct_Env := filter (\<lambda>ev. refName (e_Source ev) \<noteq> Some name) (ct_Env ctn) \<rparr>"

fun configMapRef :: "env_source \<Rightarrow> string option" where
  "configMapRef (FromConfigMap n k) = Some n"
| "configMapRef _ = None"

fun secretRef :: "env_source \<Rightarrow> string option" where
  "secretRef (FromSecret n k) = Some n"
| "secretRef _ = None"

definition AttachConfigMapEnv :: "container \<Rightarrow> string \<Rightarrow> string list \<Rightarrow> string \<Rightarrow> container" where
  "AttachConfigMapEnv = attachEnv AllOfConfigMap FromConfigMap"

definition DetachConfigMapEnv :: "container \<Rightarrow> string \<Rightarrow> container" where
  "DetachConfigMapEnv = detachEnv AllOfConfigMap configMapRef"

definition AttachSecretEnv :: "container \<Rightarrow> string \<Rightarrow> string list \<Rightarrow> string \<Rightarrow> container" where
  "AttachSecretEnv = attachEnv AllOfSecret FromSecret"

definition DetachSecretEnv :: "container \<Rightarrow> string \<Rightarrow> container" where
  "DetachSecretEnv = detachEnv AllOfSecret secretRef"

section \<open>Config maps and secrets of a project\<close>

definition projectClient :: "cp_env \<Rightarrow> string \<Rightarrow> Project handler" where
  "projectClient env projectID =
    bindS (GetProject env projectID) (\<lambda>p. bindS (clusterClient env (p_ClusterID p)) (\<lambda>_. ret p))"

definition CreateConfigMap :: "cp_env \<Rightarrow> string \<Rightarrow> string \<Rightarrow> (string \<times> string) list \<Rightarrow> unit handler" where
  "CreateConfigMap env projectID name entries =
    bindS (projectClient env projectID) (\<lambda>p.
      kubeApply env (p_ClusterID p, ''ConfigMap'', p_Namespace p, name)
        (KConfigMap [''kubeop.project-id'' \<mapsto> projectID] entries))"

definition ListConfigMaps :: "cp_env \<Rightarrow> string \<Rightarrow> string list handler" where
  "ListConfigMaps env projectID =
    bindS (projectClient env projectID) (\<lambda>p.
      bindS (kubeList env (p_ClusterID p) ''ConfigMap'' (p_Namespace p)) (\<lambda>items. ret (map fst items)))"

definition DeleteConfigMap :: "cp_env \<Rightarrow> string \<Rightarrow> string \<Rightarrow> unit handler" where
  "DeleteConfigMap env projectID name =
    bindS (projectClient env projectID) (\<lambda>p. kubeDelete env (p_ClusterID p, ''ConfigMap'', p_Namespace p, name))"

definition CreateSecret :: "cp_env \<Rightarrow> string \<Rightarrow> string \<Rightarrow> string \<Rightarrow> (string \<times> string) list \<Rightarrow> unit handler" where
  "CreateSecret env projectID name typ entries =
    bindS (projectClient env projectID) (\<lambda>p.
      kubeApply env (p_ClusterID p, ''Secret'', p_Namespace p, name)
        (KSecret [''kubeop.project-id'' \<mapsto> projectID] typ entries))"

text \<open>A secret without a type is \<open>Opaque\<close>.\<close>

definition secretTypeOf :: "kobj \<Rightarrow> string" where
  "secretTypeOf obj =
    (let typ = (case obj of
           KSecret _ t _ \<Rightarrow> t
         | KToken _ \<Rightarrow> ''kubernetes.io/service-account-token''
         | KManifest _ doc \<Rightarrow> getMapString doc [''type'']
         | _ \<Rightarrow> [])
     in if typ = [] then ''Opaque'' else typ)"

definition ListSecrets :: "cp_env \<Rightarrow> string \<Rightarrow> (string \<times> string) list handler" where
  "ListSecrets env projectID =
    bindS (projectClient env projectID) (\<lambda>p.
      bindS (kubeList env (p_ClusterID p) ''Secret'' (p_Namespace p)) (\<lambda>items.
        ret (map (\<lambda>(name, obj). (name, secretTypeOf obj)) items)))"

definition DeleteSecret :: "cp_env \<Rightarrow> string \<Rightarrow> string \<Rightarrow> unit handler" where
  "DeleteSecret env projectID name =
    bindS (projectClient env projectID) (\<lambda>p. kubeDelete env (p_ClusterID p, ''Secret'', p_Namespace p, name))"

section \<open>Copies of App objects\<close>

definition UpsertK8sCRD :: "cp_env \<Rightarrow> K8sCRD \<Rightarrow> K8sCRD handler" where
  "UpsertK8sCRD env inp =
    unless (list_all (\<lambda>s. TrimSpace s \<noteq> []) [kc_ClusterID inp, kc_ProjectID inp, kc_Kind inp, kc_Namespace inp, kc_Name inp])
      InvalidInput
    (unless (list_all (\<lambda>s. TrimSpace s \<noteq> []) [kc_UID inp, kc_ResourceVersion inp, kc_SpecHash inp]) InvalidInput
      (bindS (if TrimSpace (kc_ID inp) = [] then newUUID env else ret (TrimSpace (kc_ID inp))) (\<lambda>ident.
        call env (\<lambda>w.
          let at = ce_clock env (w_Calls w);
              same = (\<lambda>r. kc_ClusterID r = kc_ClusterID inp \<and> kc_Kind r = kc_Kind inp
                         \<and> kc_Namespace r = kc_Namespace inp \<and> kc_Name r = kc_Name inp)
          in if \<not> list_ex (\<lambda>c. c_ID c = kc_ClusterID inp) (w_Clusters w)
                \<or> \<not> list_ex (\<lambda>p. p_ID p = kc_ProjectID inp) (w_Projects w)
             then (w, Inl ConstraintViolated)
             else case filter same (w_Crds w) of
               r # _ \<Rightarrow>
                 let r' = r\<lparr> kc_UID := kc_UID inp, kc_ResourceVersion := kc_ResourceVersion inp,
                            kc_SpecHash := kc_SpecHash inp, kc_Spec := kc_Spec inp, kc_Status := kc_Status inp,
                            kc_DeletedAt := kc_DeletedAt inp, kc_UpdatedAt := at \<rparr>
                 in (w\<lparr> w_Crds := map (\<lambda>x. if same x then r' else x) (w_Crds w) \<rparr>, Inr r')
             | [] \<Rightarrow>
                 let r' = inp\<lparr> kc_ID := ident, kc_CreatedAt := at, kc_UpdatedAt := at \<rparr>
                 in (w\<lparr> w_Crds := w_Crds w @ [r'] \<rparr>, Inr r')))))"

definition MarkK8sCRDDeleted :: "cp_env \<Rightarrow> string \<Rightarrow> string \<Rightarrow> string \<Rightarrow> string \<Rightarrow> int \<Rightarrow> unit handler" where
  "MarkK8sCRDDeleted env clusterID kind namespace name at =
    call env (putS (\<lambda>w. w\<lparr> w_Crds :=
      map (\<lambda>r. if kc_ClusterID r = clusterID \<and> kc_Kind r = kind \<and> kc_Namespace r = namespace \<and> kc_Name r = name
               then r\<lparr> kc_DeletedAt := Some at, kc_UpdatedAt := ce_clock env (w_Calls w) \<rparr> else r) (w_Crds w) \<rparr>))"

section \<open>What the libraries and the API server provide\<close>

text \<open>A condition of a certificate; a field may be missing.\<close>

record cert_condition =
  cc_Type :: "string option"
  cc_Status :: "string option"
  cc_Reason :: "string option"
  cc_Message :: "string option"

text \<open>A condition in the status of an \<open>App\<close>.\<close>

record crd_condition =
  ac_Type :: string
  ac_Status :: string
  ac_Reason :: string
  ac_Message :: string
  ac_ObservedGeneration :: int

record app_env =
  ae_git :: git_library
  ae_registry :: oci_registry
  ae_resolver :: resolver
  ae_chartURL :: "string \<Rightarrow> string \<Rightarrow> string \<Rightarrow> jobject \<Rightarrow> string option"
  ae_chartOCI :: "string \<Rightarrow> bool \<Rightarrow> helmOCIAuth option \<Rightarrow> string \<Rightarrow> string \<Rightarrow> jobject \<Rightarrow> string option"
  ae_namespaced :: "string \<Rightarrow> bool"
  ae_yaml :: "string \<Rightarrow> jobject option"
  ae_deployment :: "json \<Rightarrow> deployment"
  ae_app :: "json \<Rightarrow> app_object"
  ae_version :: "nat \<Rightarrow> string"
  ae_view :: "app_object \<Rightarrow> string \<times> jobject \<times> jobject"
  ae_dnsServer :: dns_server
  ae_balancerIPs :: "nat \<Rightarrow> string list"
  ae_conditions :: "nat \<Rightarrow> cp_error + cert_condition option list option"
  ae_readiness :: "nat \<Rightarrow> int \<times> int"
  ae_pods :: "nat \<Rightarrow> (string \<times> string \<times> bool list) list"
  ae_appStatus :: "app_object \<Rightarrow> int \<times> int \<times> crd_condition list"
  ae_ingressHosts :: "json \<Rightarrow> string list"
  ae_servicePorts :: "json \<Rightarrow> int list"
  ae_errorText :: "cp_error \<Rightarrow> string"

text \<open>\<open>mirrorAppCRD\<close>: the copy is best effort.\<close>

definition mirrorAppCRD :: "cp_env \<Rightarrow> app_env \<Rightarrow> Project \<Rightarrow> string \<Rightarrow> app_object \<Rightarrow> unit handler" where
  "mirrorAppCRD env ae p name crd =
    (case ae_view ae crd of (uid, spec, status) \<Rightarrow>
      tryS (UpsertK8sCRD env \<lparr> kc_ID = [], kc_ClusterID = p_ClusterID p, kc_ProjectID = p_ID p, kc_Kind = ''App'',
              kc_Namespace = p_Namespace p, kc_Name = name, kc_UID = uid,
              kc_ResourceVersion = ao_ResourceVersion crd, kc_SpecHash = sha256Hex (jsonText (JObj spec)),
              kc_Spec = spec, kc_Status = status, kc_DeletedAt = None, kc_CreatedAt = 0, kc_UpdatedAt = 0 \<rparr>)
        (\<lambda>_. ret ()))"

text \<open>\<open>appKubeName\<close> of a stored application.\<close>

definition kubeNameOf :: "App \<Rightarrow> string" where
  "kubeNameOf a =
    appKubeName (case map_of (a_Source a) ''kubeName'' of Some (JStr s) \<Rightarrow> Some s | _ \<Rightarrow> None) (a_Name a)"

definition appKey :: "Project \<Rightarrow> string \<Rightarrow> string \<Rightarrow> kube_key" where
  "appKey p kind name = (p_ClusterID p, kind, p_Namespace p, name)"

definition loadAppCRD :: "cp_env \<Rightarrow> app_env \<Rightarrow> Project \<Rightarrow> string \<Rightarrow> app_object handler" where
  "loadAppCRD env ae p name =
    bindS (kubeGet env (appKey p ''App'' name)) (\<lambda>obj.
      case obj of KApp crd \<Rightarrow> ret crd | KManifest _ doc \<Rightarrow> ret (ae_app ae doc) | _ \<Rightarrow> fail KubeNotFound)"

text \<open>A write of an \<open>App\<close> gives it the next resource version.\<close>

definition writeApp :: "cp_env \<Rightarrow> app_env \<Rightarrow> Project \<Rightarrow> string \<Rightarrow> app_object \<Rightarrow> app_object handler" where
  "writeApp env ae p name crd =
    bindS (getS w_Calls) (\<lambda>n.
      let crd' = crd\<lparr> ao_ResourceVersion := ae_version ae n \<rparr> in
      bindS (kubeApply env (appKey p ''App'' name) (KApp crd')) (\<lambda>_. ret crd'))"

section \<open>Updating the deployment of an application\<close>

definition emptyDeployment :: deployment where
  "emptyDeployment = \<lparr> dp_Labels = Map.empty, dp_Annotations = Map.empty, dp_Replicas = None, dp_Selector = Map.empty,
     dp_TemplateLabels = Map.empty, dp_Containers = [] \<rparr>"

definition validDeployment :: "deployment \<Rightarrow> bool" where
  "validDeployment d \<longleftrightarrow> dp_Selector d \<noteq> Map.empty \<and> dp_Containers d \<noteq> []
     \<and> list_all (\<lambda>c. ct_Name c \<noteq> [] \<and> ct_Image c \<noteq> []) (dp_Containers d)"

definition applyDeployment :: "cp_env \<Rightarrow> kube_key \<Rightarrow> deployment \<Rightarrow> unit handler" where
  "applyDeployment env key d =
    (if validDeployment d then kubeApply env key (KDeployment d) else call env (fail InvalidInput))"

definition deploymentOf :: "app_env \<Rightarrow> kobj \<Rightarrow> deployment" where
  "deploymentOf ae obj =
    (case obj of KDeployment d \<Rightarrow> d | KManifest _ doc \<Rightarrow> ae_deployment ae doc | _ \<Rightarrow> emptyDeployment)"

text \<open>A deployment that does not exist is taken for an empty one.\<close>

definition getDeployment :: "cp_env \<Rightarrow> app_env \<Rightarrow> kube_key \<Rightarrow> deployment handler" where
  "getDeployment env ae key =
    tryS (kubeGet env key) (\<lambda>r. case r of
        Inr obj \<Rightarrow> ret (deploymentOf ae obj)
      | Inl e \<Rightarrow> if e = KubeNotFound then ret emptyDeployment else fail e)"

definition ownedApp :: "cp_env \<Rightarrow> string \<Rightarrow> string \<Rightarrow> App handler" where
  "ownedApp env projectID appID =
    bindS (GetApp env appID) (\<lambda>a. unless (a_ProjectID a = projectID) NotPermitted (ret a))"

definition updateAppDeployment ::
  "cp_env \<Rightarrow> app_env \<Rightarrow> string \<Rightarrow> string \<Rightarrow> (deployment \<Rightarrow> cp_error + deployment) \<Rightarrow> (Project \<times> App) handler" where
  "updateAppDeployment env ae projectID appID mutate =
    bindS (GetProject env projectID) (\<lambda>p.
    bindS (ownedApp env projectID appID) (\<lambda>a.
    bindS (clusterClient env (p_ClusterID p)) (\<lambda>_.
    bindS (getDeployment env ae (appKey p ''Deployment'' (kubeNameOf a))) (\<lambda>dep.
    bindS (liftR id (mutate dep)) (\<lambda>dep'.
    bindS (applyDeployment env (appKey p ''Deployment'' (kubeNameOf a)) dep') (\<lambda>_.
      ret (p, a)))))))"

text \<open>
  The common course of scaling and changing the image: an application with an \<open>App\<close> object is changed
  there, which needs its current resource version; without one its deployment is changed.
\<close>

definition changeApp ::
  "cp_env \<Rightarrow> app_env \<Rightarrow> string \<Rightarrow> string \<Rightarrow> string \<Rightarrow> (app_object \<Rightarrow> app_object) \<Rightarrow> (deployment \<Rightarrow> cp_error + deployment)
    \<Rightarrow> (Project \<times> App) handler" where
  "changeApp env ae projectID appID resourceVersion change mutate =
    bindS (GetProject env projectID) (\<lambda>p.
    bindS (ownedApp env projectID appID) (\<lambda>a.
    bindS (clusterClient env (p_ClusterID p)) (\<lambda>_.
      tryS (loadAppCRD env ae p (kubeNameOf a)) (\<lambda>r. case r of
          Inr crd \<Rightarrow>
            unless (TrimSpace resourceVersion \<noteq> [] \<and> resourceVersion = ao_ResourceVersion crd) InvalidInput
              (bindS (writeApp env ae p (kubeNameOf a) (change crd)) (\<lambda>crd'.
                bindS (mirrorAppCRD env ae p (kubeNameOf a) crd') (\<lambda>_. ret (p, a))))
        | Inl e \<Rightarrow>
            if e = KubeNotFound then updateAppDeployment env ae projectID appID mutate else fail e))))"

definition ScaleApp :: "cp_env \<Rightarrow> app_env \<Rightarrow> string \<Rightarrow> string \<Rightarrow> string \<Rightarrow> int \<Rightarrow> unit handler" where
  "ScaleApp env ae projectID appID resourceVersion replicas =
    bindS (ensureMaintenanceAllows env) (\<lambda>_.
    bindS (changeApp env ae projectID appID resourceVersion
             (\<lambda>crd. crd\<lparr> ao_Replicas := Some replicas \<rparr>) (\<lambda>dep. Inr (dep\<lparr> dp_Replicas := Some replicas \<rparr>))) (\<lambda>(p, a).
      appendEvent env projectID appID ''app_scaled'' ''INFO'' (''scaled app '' @ a_Name a)
        [(''app_name'', JStr (a_Name a)), (''cluster_id'', JStr (p_ClusterID p)),
         (''namespace'', JStr (p_Namespace p)), (''replicas'', JNum replicas)]))"

definition setImage :: "string \<Rightarrow> deployment \<Rightarrow> cp_error + deployment" where
  "setImage img dep =
    Inr (dep\<lparr> dp_Containers := (case dp_Containers dep of
      [] \<Rightarrow> [\<lparr> ct_Name = ''app'', ct_Image = img, ct_Env = [], ct_EnvFrom = [], ct_Ports = [], ct_Requests = [],
               ct_Limits = [], ct_Security = None \<rparr>]
    | c # cs \<Rightarrow> c\<lparr> ct_Image := img \<rparr> # cs) \<rparr>)"

definition UpdateAppImage :: "cp_env \<Rightarrow> app_env \<Rightarrow> string \<Rightarrow> string \<Rightarrow> string \<Rightarrow> string \<Rightarrow> unit handler" where
  "UpdateAppImage env ae projectID appID resourceVersion inImage =
    bindS (ensureMaintenanceAllows env) (\<lambda>_.
      let img = TrimSpace inImage in
      unless (img \<noteq> []) InvalidInput
        (bindS (changeApp env ae projectID appID resourceVersion (\<lambda>crd. crd\<lparr> ao_Image := img \<rparr>) (setImage img)) (\<lambda>(p, a).
          appendEvent env projectID appID ''app_image_updated'' ''INFO'' (''updated image for '' @ a_Name a)
            [(''app_name'', JStr (a_Name a)), (''cluster_id'', JStr (p_ClusterID p)), (''image'', JStr img),
             (''namespace'', JStr (p_Namespace p))])))"

definition RolloutRestartApp :: "cp_env \<Rightarrow> app_env \<Rightarrow> string \<Rightarrow> string \<Rightarrow> unit handler" where
  "RolloutRestartApp env ae projectID appID =
    bindS (ensureMaintenanceAllows env) (\<lambda>_.
    bindS (timeNow env) (\<lambda>now.
      let ts = formatRFC3339 now in
      bindS (updateAppDeployment env ae projectID appID
               (\<lambda>dep. Inr (dep\<lparr> dp_Annotations := (dp_Annotations dep)(''kubeop.io/redeploy'' \<mapsto> ts) \<rparr>))) (\<lambda>(p, a).
        appendEvent env projectID appID ''app_rollout_restarted'' ''INFO'' (''rollout restarted for '' @ a_Name a)
          [(''app_name'', JStr (a_Name a)), (''cluster_id'', JStr (p_ClusterID p)),
           (''namespace'', JStr (p_Namespace p)), (''redeploy_at'', JStr ts)])))"

section \<open>Attaching and detaching\<close>

definition onFirstContainer :: "(container \<Rightarrow> container) \<Rightarrow> deployment \<Rightarrow> cp_error + deployment" where
  "onFirstContainer f dep =
    (case dp_Containers dep of
       [] \<Rightarrow> Inl InvalidInput
     | c # cs \<Rightarrow> Inr (dep\<lparr> dp_Containers := f c # cs \<rparr>))"

definition attachMeta :: "string \<Rightarrow> string \<Rightarrow> string list \<Rightarrow> string \<Rightarrow> Project \<Rightarrow> App \<Rightarrow> jobject" where
  "attachMeta what name keys prfx p a =
    sortEntries [(what, JStr name), (''mode'', JStr (if keys = [] then ''envFrom'' else ''keys'')), (''keys'', jList keys),
      (''prefix'', JStr prfx), (''cluster_id'', JStr (p_ClusterID p)), (''namespace'', JStr (p_Namespace p)),
      (''app_name'', JStr (a_Name a))]"

definition detachMeta :: "string \<Rightarrow> string \<Rightarrow> Project \<Rightarrow> App \<Rightarrow> jobject" where
  "detachMeta what name p a =
    sortEntries [(what, JStr name), (''cluster_id'', JStr (p_ClusterID p)), (''namespace'', JStr (p_Namespace p)),
      (''app_name'', JStr (a_Name a))]"

definition attachToApp ::
  "(container \<Rightarrow> string \<Rightarrow> string list \<Rightarrow> string \<Rightarrow> container) \<Rightarrow> string \<Rightarrow> cp_env \<Rightarrow> app_env \<Rightarrow> string \<Rightarrow> string \<Rightarrow> string
    \<Rightarrow> string list \<Rightarrow> string \<Rightarrow> unit handler" where
  "attachToApp attach what env ae projectID appID inName inKeys inPrefix =
    (let name = TrimSpace inName; keys = normalizeAttachmentKeys inKeys; prfx = TrimSpace inPrefix in
     unless (name \<noteq> []) InvalidInput
       (bindS (updateAppDeployment env ae projectID appID (onFirstContainer (\<lambda>c. attach c name keys prfx))) (\<lambda>(p, a).
         appendEvent env projectID appID (''app_'' @ what @ ''_attached'') ''INFO'' (what @ '' '' @ name @ '' attached'')
           (attachMeta what name keys prfx p a))))"

definition detachFromApp ::
  "(container \<Rightarrow> string \<Rightarrow> container) \<Rightarrow> string \<Rightarrow> cp_env \<Rightarrow> app_env \<Rightarrow> string \<Rightarrow> string \<Rightarrow> string \<Rightarrow> unit handler" where
  "detachFromApp detach what env ae projectID appID inName =
    (let name = TrimSpace inName in
     unless (name \<noteq> []) InvalidInput
       (bindS (updateAppDeployment env ae projectID appID (onFirstContainer (\<lambda>c. detach c name))) (\<lambda>(p, a).
         appendEvent env projectID appID (''app_'' @ what @ ''_detached'') ''INFO'' (what @ '' '' @ name @ '' detached'')
           (detachMeta what name p a))))"

definition AttachConfigMapToApp ::
  "cp_env \<Rightarrow> app_env \<Rightarrow> string \<Rightarrow> string \<Rightarrow> string \<Rightarrow> string list \<Rightarrow> string \<Rightarrow> unit handler" where
  "AttachConfigMapToApp = attachToApp AttachConfigMapEnv ''configmap''"

definition DetachConfigMapFromApp :: "cp_env \<Rightarrow> app_env \<Rightarrow> string \<Rightarrow> string \<Rightarrow> string \<Rightarrow> unit handler" where
  "DetachConfigMapFromApp = detachFromApp DetachConfigMapEnv ''configmap''"

definition AttachSecretToApp ::
  "cp_env \<Rightarrow> app_env \<Rightarrow> string \<Rightarrow> string \<Rightarrow> string \<Rightarrow> string list \<Rightarrow> string \<Rightarrow> unit handler" where
  "AttachSecretToApp = attachToApp AttachSecretEnv ''secret''"

definition DetachSecretFromApp :: "cp_env \<Rightarrow> app_env \<Rightarrow> string \<Rightarrow> string \<Rightarrow> string \<Rightarrow> unit handler" where
  "DetachSecretFromApp = detachFromApp DetachSecretEnv ''secret''"

end
