(* ===== verification/AppDeploy.thy ===== *)
theory AppDeploy
  imports AppOps
begin

text \<open>
  Deploying and deleting applications (\<open>internal/service/apps.go\<close>): the flavours, the manifests a source
  gives, the plan of a deployment, \<open>DeployApp\<close>, \<open>ValidateApp\<close>, \<open>DeleteApp\<close>, the git webhook and the status
  of domains. The Helm engine, the YAML parser, the registry and git libraries and the cluster's table
  of resource kinds are parameters; a failing external call is decided by the environment.
\<close>

section \<open>Input\<close>

record Flavor =
  fl_CPU :: string
  fl_Memory :: string
  fl_Replicas :: int
  fl_PVCSize :: string

definition builtinFlavors :: "(string \<times> Flavor) list" where
  "builtinFlavors =
    [(''f1-small'', \<lparr> fl_CPU = ''200m'', fl_Memory = ''256Mi'', fl_Replicas = 1, fl_PVCSize = [] \<rparr>),
     (''f2-medium'', \<lparr> fl_CPU = ''500m'', fl_Memory = ''512Mi'', fl_Replicas = 2, fl_PVCSize = [] \<rparr>),
     (''f3-large'', \<lparr> fl_CPU = ''1'', fl_Memory = ''1Gi'', fl_Replicas = 2, fl_PVCSize = ''5Gi'' \<rparr>)]"

record AppOCIBundleSpec =
  os_Ref :: string
  os_CredentialID :: string
  os_Insecure :: bool

record AppDeployInput =
  ai_ProjectID :: string
  ai_Name :: string
  ai_Flavor :: string
  ai_Resources :: "(string \<times> string) list"
  ai_Replicas :: "int option"
  ai_Env :: "(string \<times> string) list"
  ai_Secrets :: "string list"
  ai_Ports :: "AppPort list"
  ai_Domain :: string
  ai_Repo :: string
  ai_WebhookSecret :: string
  ai_Image :: string
  ai_Helm :: "jobject option"
  ai_Manifests :: "string list"
  ai_Git :: "AppGitSpec option"
  ai_OciBundle :: "AppOCIBundleSpec option"

definition countSources :: "AppDeployInput \<Rightarrow> nat" where
  "countSources inp = length (filter (\<lambda>b. b)
    [TrimSpace (ai_Image inp) \<noteq> [], ai_Manifests inp \<noteq> [], ai_Helm inp \<noteq> None, ai_Git inp \<noteq> None,
     ai_OciBundle inp \<noteq> None])"

section \<open>Manifests\<close>

fun splitDocs :: "string list \<Rightarrow> string list \<Rightarrow> string list \<Rightarrow> string list" where
  "splitDocs docs cur [] = (if cur = [] then docs else docs @ [Join cur newline])"
| "splitDocs docs cur (ln # lns) =
    (if TrimSpace ln = ''---'' then splitDocs (docs @ [Join cur newline]) [] lns
     else splitDocs docs (cur @ [ln]) lns)"

definition splitYAMLDocs :: "string \<Rightarrow> string list" where
  "splitYAMLDocs s = splitDocs [] [] (Split s (CHR 0x0A))"

definition decodeManifestDocuments :: "app_env \<Rightarrow> string \<Rightarrow> jobject list option" where
  "decodeManifestDocuments ae raw =
    traverse (ae_yaml ae) (filter (\<lambda>doc. TrimSpace doc \<noteq> []) (splitYAMLDocs raw))"

definition isNamespacedKind :: "string \<Rightarrow> bool" where
  "isNamespacedKind kind \<longleftrightarrow> kind \<in> set [''Deployment'', ''StatefulSet'', ''DaemonSet'', ''Service'', ''ConfigMap'',
     ''Secret'', ''Ingress'', ''Job'', ''CronJob'', ''PersistentVolumeClaim'', ''ServiceAccount'', ''Role'', ''RoleBinding'']"

definition metaString :: "jobject \<Rightarrow> string \<Rightarrow> string" where
  "metaString obj key = getMapString (JObj obj) [''metadata'', key]"

definition objectNamespace :: "string \<Rightarrow> jobject \<Rightarrow> string" where
  "objectNamespace namespace obj =
    (if isNamespacedKind (getString obj ''kind'') \<and> metaString obj ''namespace'' = [] then namespace
     else metaString obj ''namespace'')"

definition objectSummary :: "string \<Rightarrow> jobject \<Rightarrow> RenderedObjectSummary" where
  "objectSummary namespace obj =
    (let name = TrimSpace (metaString obj ''name'') in
     \<lparr> ro_Kind = getString obj ''kind'',
       ro_Name = (if name = [] then TrimSpace (metaString obj ''generateName'') else name),
       ro_Namespace = objectNamespace namespace obj \<rparr>)"

definition summariseObjects :: "jobject list \<Rightarrow> string \<Rightarrow> RenderedObjectSummary list \<times> string list" where
  "summariseObjects objs namespace =
    (let sums = map (objectSummary namespace) objs in
     (sums, map (\<lambda>r. ''object kind '' @ ro_Kind r @ '' is missing name'') (filter (\<lambda>r. ro_Name r = []) sums)))"

fun summariseDocs :: "app_env \<Rightarrow> string \<Rightarrow> string list \<Rightarrow> (RenderedObjectSummary list \<times> string list) option" where
  "summariseDocs ae namespace [] = Some ([], [])"
| "summariseDocs ae namespace (doc # docs) =
    (case (decodeManifestDocuments ae doc, summariseDocs ae namespace docs) of
       (Some objs, Some (sums, warns)) \<Rightarrow>
         (case summariseObjects objs namespace of (s, w) \<Rightarrow> Some (s @ sums, w @ warns))
     | _ \<Rightarrow> None)"

text \<open>\<open>GetLabels\<close>: a map with a value that is not a text counts as none.\<close>

definition objectLabels :: "jobject \<Rightarrow> gomap" where
  "objectLabels obj =
    (case map_of obj ''metadata'' of
       Some (JObj m) \<Rightarrow>
         (case map_of m ''labels'' of
            Some (JObj ls) \<Rightarrow>
              if list_all (\<lambda>(k, v). case v of JStr _ \<Rightarrow> True | _ \<Rightarrow> False) ls
              then (\<lambda>k. case map_of ls k of Some (JStr s) \<Rightarrow> Some s | _ \<Rightarrow> None) else Map.empty
          | _ \<Rightarrow> Map.empty)
     | _ \<Rightarrow> Map.empty)"

text \<open>
  The object is written with the credentials of the control plane. The API server wants a name, and a
  namespace for the kinds that live in one; the namespace of other kinds is ignored.
\<close>

definition applyObject :: "cp_env \<Rightarrow> app_env \<Rightarrow> string \<Rightarrow> string \<Rightarrow> gomap \<Rightarrow> jobject \<Rightarrow> unit handler" where
  "applyObject env ae clusterID namespace labels obj =
    (let kind = getString obj ''kind''; name = metaString obj ''name'';
         ns = (if ae_namespaced ae kind then objectNamespace namespace obj else [])
     in if name = [] \<or> (ae_namespaced ae kind \<and> ns = []) then call env (fail InvalidInput)
        else kubeApply env (clusterID, kind, ns, name) (KManifest (objectLabels obj ++ labels) (JObj obj)))"

definition applyRawManifest :: "cp_env \<Rightarrow> app_env \<Rightarrow> string \<Rightarrow> string \<Rightarrow> gomap \<Rightarrow> string \<Rightarrow> unit handler" where
  "applyRawManifest env ae clusterID namespace labels raw =
    (case decodeManifestDocuments ae raw of
       None \<Rightarrow> fail BadDocument
     | Some objs \<Rightarrow>
         if objs = [] then ret ()
         else bindS (clusterClient env clusterID) (\<lambda>_. forEach (applyObject env ae clusterID namespace labels) objs))"

section \<open>The plan\<close>

text \<open>\<open>parseInt\<close>: the number at the start of the text, whatever follows it.\<close>

definition parseInt :: "string \<Rightarrow> int option" where
  "parseInt s =
    (let s = TrimSpace s;
         neg = HasPrefix s ''-'';
         digits = takeWhile is_digit (if neg \<or> HasPrefix s ''+'' then tl s else s);
         n = (if neg then - digitsVal digits else digitsVal digits)
     in if digits = [] \<or> n < - (2 ^ 63) \<or> n \<ge> 2 ^ 63 then None else Some n)"

definition planSizing :: "AppDeployInput \<Rightarrow> (int \<times> (string \<times> string) list) option" where
  "planSizing inp =
    (let replicas = (case ai_Replicas inp of None \<Rightarrow> 1 | Some n \<Rightarrow> n); flavor = TrimSpace (ai_Flavor inp) in
     if flavor = [] then Some (replicas, sortEntries (ai_Resources inp))
     else case map_of builtinFlavors flavor of
       None \<Rightarrow> None
     | Some f \<Rightarrow>
         Some (if ai_Replicas inp = None then fl_Replicas f else replicas,
               sortEntries (foldl (\<lambda>res (k, v). if map_of res k = None then res @ [(k, v)] else res) (ai_Resources inp)
                 [(''requests.cpu'', fl_CPU f), (''requests.memory'', fl_Memory f), (''limits.cpu'', fl_CPU f),
                  (''limits.memory'', fl_Memory f)])))"

definition loadBalancerPorts :: "AppPort list \<Rightarrow> int" where
  "loadBalancerPorts ports = int (length (filter (\<lambda>p. EqualFold (po_ServiceType p) ''LoadBalancer'') ports))"

definition planLoadBalancers ::
  "cp_env \<Rightarrow> app_env \<Rightarrow> Project \<Rightarrow> (string \<times> string) list \<Rightarrow> AppPort list \<Rightarrow> (LoadBalancerSummary \<times> string list) handler" where
  "planLoadBalancers env ae p overrides ports =
    (let requested = loadBalancerPorts ports in
     bindS (if requested = 0 then ret (0, [])
            else tryS (kubeList env (p_ClusterID p) ''Service'' (p_Namespace p)) (\<lambda>r. case r of
                Inl e \<Rightarrow> ret (0, [''failed to inspect existing services: '' @ ae_errorText ae e])
              | Inr svcs \<Rightarrow> ret (countLoadBalancers svcs, []))) (\<lambda>(existing, warns).
       let maxLB = (case Option.bind (map_of overrides ''services.loadbalancers'') parseInt of
             None \<Rightarrow> MaxLoadBalancersPerProject (cfgIngress (ce_cfg env)) | Some n \<Rightarrow> n)
       in unless (requested = 0 \<or> existing + requested \<le> maxLB) NotPermitted
            (ret (\<lparr> lb_Requested = requested, lb_Existing = existing, lb_Limit = maxLB \<rparr>, warns))))"

definition planClusterName :: "cp_env \<Rightarrow> app_env \<Rightarrow> Project \<Rightarrow> (string \<times> string list) handler" where
  "planClusterName env ae p =
    tryS (Store_GetCluster env (p_ClusterID p)) (\<lambda>r. case r of
        Inr c \<Rightarrow> ret (if TrimSpace (c_Name c) \<noteq> [] then c_Name c else p_ClusterID p, [])
      | Inl e \<Rightarrow> ret (p_ClusterID p, [''cluster lookup failed: '' @ ae_errorText ae e]))"

definition orSlug :: "string \<Rightarrow> string \<Rightarrow> string" where
  "orSlug a b = (if Slugify a = [] then Slugify b else Slugify a)"

definition computeIngressHost :: "ingressConfig \<Rightarrow> string \<Rightarrow> Project \<Rightarrow> string \<Rightarrow> string \<Rightarrow> string" where
  "computeIngressHost cfg domain project clusterName app =
    (if domain \<noteq> [] then domain
     else if \<not> PaaSWildcardEnabled cfg \<or> PaaSDomain cfg = [] \<or> app = [] then []
     else let projectSegment = orSlug (p_Name project) (p_Namespace project);
              clusterSegment = orSlug clusterName (p_ClusterID project)
          in if projectSegment = [] \<or> clusterSegment = [] then []
             else app @ ''.'' @ projectSegment @ ''.'' @ clusterSegment @ ''.'' @ PaaSDomain cfg)"

definition planSkeleton :: "AppDeployInput \<Rightarrow> string \<Rightarrow> gitSourcePlan option \<Rightarrow> Project \<Rightarrow> appDeploymentPlan" where
  "planSkeleton inp appID git p =
    \<lparr> pl_AppID = appID, pl_Name = TrimSpace (ai_Name inp), pl_ProjectID = p_ID p, pl_Namespace = p_Namespace p,
      pl_KubeName = deriveKubeName (ai_Name inp) appID, pl_Replicas = 0, pl_Resources = [], pl_Ports = ai_Ports inp,
      pl_Env = ai_Env inp, pl_Secrets = ai_Secrets inp, pl_Flavor = TrimSpace (ai_Flavor inp),
      pl_Repo = TrimSpace (ai_Repo inp), pl_WebhookSecret = TrimSpace (ai_WebhookSecret inp),
      pl_Domain = TrimSpace (ai_Domain inp), pl_Host = [], pl_SourceType = [], pl_Image = TrimSpace (ai_Image inp),
      pl_Manifests = ai_Manifests inp, pl_HelmSpec = (case ai_Helm inp of None \<Rightarrow> [] | Some m \<Rightarrow> m), pl_HelmValues = [],
      pl_HelmChart = [], pl_HelmRendered = [], pl_Git = git,
      pl_OciBundle = map_option (\<lambda>b. \<lparr> op_Ref = TrimSpace (os_Ref b), op_CredentialID = TrimSpace (os_CredentialID b),
        op_Insecure = os_Insecure b, op_Digest = [], op_MediaType = [] \<rparr>) (ai_OciBundle inp),
      pl_RenderedObjs = [], pl_LBSummary = \<lparr> lb_Requested = 0, lb_Existing = 0, lb_Limit = 0 \<rparr>, pl_Warnings = [],
      pl_SBOM = [] \<rparr>"

definition imageObjects :: "cp_env \<Rightarrow> appDeploymentPlan \<Rightarrow> RenderedObjectSummary list" where
  "imageObjects env plan =
    (let obj = (\<lambda>kind name. \<lparr> ro_Kind = kind, ro_Name = name, ro_Namespace = pl_Namespace plan \<rparr>); kube = pl_KubeName plan in
     obj ''Deployment'' kube
     # (if pl_Ports plan = [] then [] else [obj ''Service'' kube])
     @ (if pl_Host plan = [] \<or> pl_Ports plan = [] then []
        else obj ''Ingress'' kube
             # (if EnableCertManager (cfgIngress (ce_cfg env)) then [obj ''Certificate'' (kube @ ''-cert'')] else [])))"

text \<open>The documents of a source are decoded and summarised before anything is written.\<close>

definition withDocuments :: "app_env \<Rightarrow> string list \<Rightarrow> appDeploymentPlan \<Rightarrow> appDeploymentPlan handler" where
  "withDocuments ae docs plan =
    (case summariseDocs ae (pl_Namespace plan) docs of
       None \<Rightarrow> fail BadDocument
     | Some (sums, warns) \<Rightarrow>
         ret (plan\<lparr> pl_RenderedObjs := pl_RenderedObjs plan @ sums, pl_Warnings := pl_Warnings plan @ warns \<rparr>))"

definition registryAuthFor :: "cp_env \<Rightarrow> Project \<Rightarrow> string \<Rightarrow> string \<Rightarrow> helmOCIAuth option handler" where
  "registryAuthFor env p credentialID ref =
    (if credentialID = [] then ret None
     else case parseOCIReference ref of
       Inl _ \<Rightarrow> fail InvalidInput
     | Inr (host, _) \<Rightarrow> bindS (registryCredentialAuth env p credentialID host) (\<lambda>auth. ret (Some auth)))"

definition orFail :: "cp_env \<Rightarrow> 'a option \<Rightarrow> 'a handler" where
  "orFail env r = call env (case r of None \<Rightarrow> fail InvalidInput | Some x \<Rightarrow> ret x)"

definition planBundle :: "cp_env \<Rightarrow> app_env \<Rightarrow> Project \<Rightarrow> ociBundlePlan \<Rightarrow> appDeploymentPlan \<Rightarrow> appDeploymentPlan handler" where
  "planBundle env ae p b plan =
    (let ref = op_Ref b in
     unless (ref \<noteq> [] \<and> isOk (parseOCIReference ref)) InvalidInput
       (bindS (registryAuthFor env p (op_CredentialID b) ref) (\<lambda>auth.
        bindS (orFail env (defaultOCIBundleFetcher (ae_resolver ae) (ae_registry ae) ref (op_Insecure b) auth)) (\<lambda>res.
          withDocuments ae (ob_Documents res)
            (plan\<lparr> pl_SourceType := ''ociBundle'', pl_Manifests := ob_Documents res,
                   pl_OciBundle := Some (b\<lparr> op_Digest := ob_Digest res, op_MediaType := ob_MediaType res \<rparr>),
                   pl_Repo := (if pl_Repo plan = [] then ref else pl_Repo plan) \<rparr>)))))"

definition planGit :: "cp_env \<Rightarrow> app_env \<Rightarrow> Project \<Rightarrow> gitSourcePlan \<Rightarrow> appDeploymentPlan \<Rightarrow> appDeploymentPlan handler" where
  "planGit env ae p g plan =
    bindS (renderGitSource env (ae_git ae) p g) (\<lambda>(docs, commit).
      withDocuments ae docs
        (plan\<lparr> pl_SourceType := ''git:'' @ gp_Mode g, pl_Manifests := docs, pl_Git := Some (g\<lparr> gp_Commit := commit \<rparr>),
               pl_Repo := (if pl_Repo plan = [] then gp_URL g else pl_Repo plan) \<rparr>))"

definition helmHosts :: "cp_env \<Rightarrow> string list" where
  "helmHosts env = normalizeHelmAllowedHosts (HelmChartAllowedHosts (cfgApp (ce_cfg env)))"

definition renderHelmChartFromURL :: "cp_env \<Rightarrow> app_env \<Rightarrow> string \<Rightarrow> string \<Rightarrow> string \<Rightarrow> jobject \<Rightarrow> string handler" where
  "renderHelmChartFromURL env ae chart release namespace values =
    orFail env (if isOk (ParseHelmChartURL (helmHosts env) (ae_resolver ae) chart)
                then ae_chartURL ae chart release namespace values else None)"

definition renderHelmChartFromOCI ::
  "cp_env \<Rightarrow> app_env \<Rightarrow> string \<Rightarrow> bool \<Rightarrow> helmOCIAuth option \<Rightarrow> string \<Rightarrow> string \<Rightarrow> jobject \<Rightarrow> string handler" where
  "renderHelmChartFromOCI env ae ref insecure auth release namespace values =
    orFail env (if isOk (ociTarget (ae_resolver ae) ref)
                then ae_chartOCI ae ref insecure auth release namespace values else None)"

definition planHelm :: "cp_env \<Rightarrow> app_env \<Rightarrow> Project \<Rightarrow> jobject \<Rightarrow> appDeploymentPlan \<Rightarrow> appDeploymentPlan handler" where
  "planHelm env ae p spec plan =
    (let chart = TrimSpace (getString spec ''chart'');
         values = (case map_of spec ''values'' of Some (JObj m) \<Rightarrow> m | _ \<Rightarrow> []);
         finish = (\<lambda>source rendered. withDocuments ae [rendered]
           (plan\<lparr> pl_SourceType := ''helm'', pl_HelmValues := values, pl_HelmChart := source, pl_HelmRendered := rendered \<rparr>))
     in case map_of spec ''oci'' of
          None \<Rightarrow>
            unless (chart \<noteq> []) InvalidInput
              (bindS (renderHelmChartFromURL env ae chart (pl_KubeName plan) (pl_Namespace plan) values) (finish chart))
        | Some (JObj oci) \<Rightarrow>
            let ref = TrimSpace (getString oci ''ref'') in
            unless (chart = [] \<and> ref \<noteq> []) InvalidInput
              (bindS (registryAuthFor env p (TrimSpace (getString oci ''registryCredentialId'')) ref) (\<lambda>auth.
               bindS (renderHelmChartFromOCI env ae ref (map_of oci ''insecure'' = Some (JBool True)) auth
                       (pl_KubeName plan) (pl_Namespace plan) values) (finish ref)))
        | Some _ \<Rightarrow> fail InvalidInput)"

definition planSource :: "cp_env \<Rightarrow> app_env \<Rightarrow> Project \<Rightarrow> AppDeployInput \<Rightarrow> appDeploymentPlan \<Rightarrow> appDeploymentPlan handler" where
  "planSource env ae p inp plan =
    (if pl_Image plan \<noteq> [] then ret (plan\<lparr> pl_SourceType := ''image'', pl_RenderedObjs := imageObjects env plan \<rparr>)
     else case pl_OciBundle plan of
       Some b \<Rightarrow> planBundle env ae p b plan
     | None \<Rightarrow>
         if pl_Manifests plan \<noteq> [] then withDocuments ae (pl_Manifests plan) (plan\<lparr> pl_SourceType := ''manifests'' \<rparr>)
         else case pl_Git plan of
           Some g \<Rightarrow> planGit env ae p g plan
         | None \<Rightarrow> (case ai_Helm inp of Some spec \<Rightarrow> planHelm env ae p spec plan | None \<Rightarrow> ret plan))"

definition sbomExtras :: "appDeploymentPlan \<Rightarrow> (string \<times> string) list" where
  "sbomExtras plan =
    omitEmpty ''image'' (pl_Image plan)
    @ (case pl_Git plan of None \<Rightarrow> []
       | Some g \<Rightarrow> omitEmpty ''gitCommit'' (gp_Commit g) @ omitEmpty ''gitRef'' (gp_Ref g) @ omitEmpty ''gitPath'' (gp_Path g))
    @ (case pl_OciBundle plan of None \<Rightarrow> []
       | Some b \<Rightarrow> omitEmpty ''ociDigest'' (op_Digest b) @ [(''ociRef'', op_Ref b)])
    @ omitEmpty ''helmChart'' (pl_HelmChart plan)"

definition planAppDeployment :: "cp_env \<Rightarrow> app_env \<Rightarrow> AppDeployInput \<Rightarrow> string \<Rightarrow> (appDeploymentPlan \<times> Project) handler" where
  "planAppDeployment env ae inp appID =
    unless (TrimSpace (ai_ProjectID inp) \<noteq> [] \<and> TrimSpace (ai_Name inp) \<noteq> []) InvalidInput
    (unless (countSources inp = 1) InvalidInput
    (bindS (case ai_Git inp of
              None \<Rightarrow> ret None
            | Some spec \<Rightarrow>
                (case prepareGitPlan (AllowGitFileProtocol (cfgApp (ce_cfg env))) spec of
                   None \<Rightarrow> fail InvalidInput | Some g \<Rightarrow> ret (Some g))) (\<lambda>git.
     bindS (GetProject env (ai_ProjectID inp)) (\<lambda>p.
     bindS (decodeOverrides p) (\<lambda>overrides.
     bindS (clusterClient env (p_ClusterID p)) (\<lambda>_.
       case planSizing inp of
         None \<Rightarrow> fail InvalidInput
       | Some (replicas, resources) \<Rightarrow>
           bindS (planLoadBalancers env ae p overrides (ai_Ports inp)) (\<lambda>(lbs, lbWarns).
           bindS (planClusterName env ae p) (\<lambda>(clusterName, clusterWarns).
             let plan = planSkeleton inp appID git p;
                 plan = plan\<lparr> pl_Replicas := replicas, pl_Resources := resources, pl_LBSummary := lbs,
                   pl_Warnings := lbWarns @ clusterWarns,
                   pl_Host := computeIngressHost (cfgIngress (ce_cfg env)) (pl_Domain plan) p clusterName (pl_KubeName plan) \<rparr>
             in bindS (planSource env ae p inp plan) (\<lambda>plan.
                  ret (plan\<lparr> pl_SBOM := BuildSBOM (pl_SourceType plan) (pl_Manifests plan) (sbomExtras plan) \<rparr>, p))))))))))"

text \<open>The dry run returns what the plan found and writes nothing.\<close>

record AppValidationOutput =
  vo_ProjectID :: string
  vo_ProjectNamespace :: string
  vo_ClusterID :: string
  vo_Source :: string
  vo_Flavor :: string
  vo_KubeName :: string
  vo_Replicas :: int
  vo_Resources :: "(string \<times> string) list"
  vo_Ports :: "AppPort list"
  vo_Domain :: string
  vo_LoadBalancers :: LoadBalancerSummary
  vo_RenderedObjects :: "RenderedObjectSummary list"
  vo_HelmChart :: string
  vo_HelmValues :: jobject
  vo_Git :: "(string \<times> string \<times> string \<times> string \<times> string) option"
  vo_OciBundle :: "(string \<times> string) option"
  vo_Warnings :: "string list"
  vo_SBOM :: jobject

definition ValidateApp :: "cp_env \<Rightarrow> app_env \<Rightarrow> AppDeployInput \<Rightarrow> AppValidationOutput handler" where
  "ValidateApp env ae inp =
    bindS (planAppDeployment env ae inp []) (\<lambda>(plan, p).
      ret \<lparr> vo_ProjectID = p_ID p, vo_ProjectNamespace = p_Namespace p, vo_ClusterID = p_ClusterID p,
            vo_Source = pl_SourceType plan, vo_Flavor = pl_Flavor plan, vo_KubeName = pl_KubeName plan,
            vo_Replicas = pl_Replicas plan, vo_Resources = pl_Resources plan, vo_Ports = pl_Ports plan,
            vo_Domain = pl_Host plan, vo_LoadBalancers = pl_LBSummary plan, vo_RenderedObjects = pl_RenderedObjs plan,
            vo_HelmChart = pl_HelmChart plan, vo_HelmValues = pl_HelmValues plan,
            vo_Git = map_option (\<lambda>g. (gp_URL g, gp_Ref g, gp_Commit g, gp_Path g, gp_Mode g)) (pl_Git plan),
            vo_OciBundle = map_option (\<lambda>b. (op_Ref b, op_Digest b)) (pl_OciBundle plan),
            vo_Warnings = pl_Warnings plan, vo_SBOM = pl_SBOM plan \<rparr>)"

section \<open>DNS records of a service\<close>

definition collectLoadBalancerAddrs :: "string list \<Rightarrow> addr list" where
  "collectLoadBalancerAddrs ips =
    List.map_filter (\<lambda>s. let ip = TrimSpace s in if ip \<noteq> [] then ParseAddr ip else None) ips"

definition dnsCall :: "'a dns_action \<Rightarrow> 'a handler" where
  "dnsCall act w =
    (case act (w_Dns w) of
       (h, r) \<Rightarrow> (w\<lparr> w_Dns := h \<rparr>, case r of Inl e \<Rightarrow> Inl (DnsFailed e) | Inr x \<Rightarrow> Inr x))"

text \<open>Without an address yet, a background job is left waiting for one.\<close>

definition ensureDNSForService :: "cp_env \<Rightarrow> app_env \<Rightarrow> string \<Rightarrow> string \<Rightarrow> string \<Rightarrow> string \<Rightarrow> unit handler" where
  "ensureDNSForService env ae clusterID namespace serviceName host =
    (if host = [] then ret ()
     else case NewProvider (cfgDNS (ce_cfg env)) of
       None \<Rightarrow> ret ()
     | Some prov \<Rightarrow>
         bindS (clusterClient env clusterID) (\<lambda>_.
         bindS (getS w_Calls) (\<lambda>n.
         bindS (kubeGet env (clusterID, ''Service'', namespace, serviceName)) (\<lambda>svc.
           if serviceTypeOf svc \<noteq> ''LoadBalancer'' then ret ()
           else let addrs = collectLoadBalancerAddrs (ae_balancerIPs ae n) in
             if addrs \<noteq> [] then
               dnsCall (EnsureRecords (ae_dnsServer ae) prov host addrs (DNSRecordTTL (cfgDNS (ce_cfg env))))
             else putS (\<lambda>w. w\<lparr> w_Waiting := w_Waiting w @ [(clusterID, namespace, serviceName, host)] \<rparr>)))))"

text \<open>
  The loop polls the service until it has an address, a poll fails, or the context ends; \<open>reads n\<close> is what
  the \<open>n\<close>-th poll reports and \<open>ended n\<close> says that the context ends before the next tick.
\<close>

partial_function (option) waitForLoadBalancerAddrs ::
  "(nat \<Rightarrow> cp_error + string list) \<Rightarrow> (nat \<Rightarrow> bool) \<Rightarrow> nat \<Rightarrow> (cp_error + addr list) option" where
  "waitForLoadBalancerAddrs reads ended n =
    (case reads n of
       Inl e \<Rightarrow> Some (Inl e)
     | Inr ips \<Rightarrow>
         if collectLoadBalancerAddrs ips \<noteq> [] then Some (Inr (collectLoadBalancerAddrs ips))
         else if ended n then Some (Inl TokenTimeout)
         else waitForLoadBalancerAddrs reads ended (Suc n))"

definition waitForServiceDNS ::
  "cp_env \<Rightarrow> app_env \<Rightarrow> (nat \<Rightarrow> cp_error + string list) \<Rightarrow> (nat \<Rightarrow> bool) \<Rightarrow> string \<Rightarrow> string \<Rightarrow> world \<Rightarrow> world option" where
  "waitForServiceDNS env ae reads ended clusterID host w =
    (case NewProvider (cfgDNS (ce_cfg env)) of
       None \<Rightarrow> Some w
     | Some prov \<Rightarrow>
         (case clusterClient env clusterID w of
            (w', Inl _) \<Rightarrow> Some w'
          | (w', Inr _) \<Rightarrow>
              (case waitForLoadBalancerAddrs reads ended 0 of
                 None \<Rightarrow> None
               | Some (Inl _) \<Rightarrow> Some w'
               | Some (Inr addrs) \<Rightarrow>
                   Some (fst (dnsCall (EnsureRecords (ae_dnsServer ae) prov host addrs (DNSRecordTTL (cfgDNS (ce_cfg env)))) w')))))"

section \<open>The objects of an image\<close>

definition DefaultContainerSecurityContext :: "string \<Rightarrow> security_context" where
  "DefaultContainerSecurityContext level =
    (let restricted = (ToLower (TrimSpace level) = ''restricted'') in
     \<lparr> sc_AllowPrivilegeEscalation = False, sc_SeccompProfile = ''RuntimeDefault'',
       sc_RunAsNonRoot = (if restricted then Some True else None),
       sc_ReadOnlyRootFilesystem = (if restricted then Some True else None),
       sc_DropCapabilities = (if restricted then [''ALL''] else []) \<rparr>)"

definition lbServiceAnnotations :: "ingressConfig \<Rightarrow> gomap" where
  "lbServiceAnnotations cfg =
    (if EqualFold (LBDriver cfg) ''metallb'' \<and> LBMetallbPool cfg \<noteq> []
     then [''metallb.universe.tf/address-pool'' \<mapsto> LBMetallbPool cfg] else Map.empty)"

definition labelsOf :: "Project \<Rightarrow> label_project" where
  "labelsOf p = \<lparr> lp_ID = p_ID p, lp_Name = p_Name p, lp_Namespace = p_Namespace p, lp_ClusterID = p_ClusterID p,
     lp_UserID = p_UserID p \<rparr>"

definition planLabels :: "Project \<Rightarrow> appDeploymentPlan \<Rightarrow> gomap" where
  "planLabels p plan = CanonicalAppLabels (labelsOf p) (pl_Name plan) (pl_KubeName plan) (pl_AppID plan)"

text \<open>\<open>resourceMustParse\<close>: a quantity that does not parse panics.\<close>

definition mustQuantities :: "quantities \<Rightarrow> (string \<times> string) list \<Rightarrow> string \<Rightarrow> resource_list option" where
  "mustQuantities parse resources prfx =
    map_option concat (traverse (\<lambda>name.
      case map_of resources (prfx @ name) of
        None \<Rightarrow> Some []
      | Some v \<Rightarrow> if v = [] then Some [] else map_option (\<lambda>q. [(name, q)]) (parse v)) [''cpu'', ''memory''])"

definition imageContainer :: "cp_env \<Rightarrow> appDeploymentPlan \<Rightarrow> container handler" where
  "imageContainer env plan =
    bindS (orPanic (mustQuantities (ce_parse env) (pl_Resources plan) ''requests.'')) (\<lambda>requests.
    bindS (orPanic (mustQuantities (ce_parse env) (pl_Resources plan) ''limits.'')) (\<lambda>limits.
      ret \<lparr> ct_Name = ''app'', ct_Image = pl_Image plan,
            ct_Env = map (\<lambda>(k, v). \<lparr> e_Name = k, e_Source = Literal v \<rparr>) (pl_Env plan), ct_EnvFrom = [],
            ct_Ports = filter (\<lambda>n. n > 0) (map po_ContainerPort (pl_Ports plan)), ct_Requests = requests,
            ct_Limits = limits,
            ct_Security = Some (DefaultContainerSecurityContext (PodSecurityLevel (cfgTenancy (ce_cfg env)))) \<rparr>))"

definition imageDeployment :: "Project \<Rightarrow> appDeploymentPlan \<Rightarrow> container \<Rightarrow> deployment" where
  "imageDeployment p plan ctn =
    (let labels = (planLabels p plan)(''app.kubernetes.io/name'' \<mapsto> pl_KubeName plan) in
     \<lparr> dp_Labels = labels, dp_Annotations = Map.empty, dp_Replicas = Some (pl_Replicas plan),
       dp_Selector = [''kubeop.app.id'' \<mapsto> pl_AppID plan], dp_TemplateLabels = labels, dp_Containers = [ctn] \<rparr>)"

definition applyDeploymentOf :: "cp_env \<Rightarrow> Project \<Rightarrow> appDeploymentPlan \<Rightarrow> unit handler" where
  "applyDeploymentOf env p plan =
    bindS (imageContainer env plan) (\<lambda>ctn.
      let key = appKey p ''Deployment'' (pl_KubeName plan) in
      bindS (applyDeployment env key (imageDeployment p plan ctn)) (\<lambda>_.
        if pl_Secrets plan = [] then ret ()
        else applyDeployment env key (imageDeployment p plan (ctn\<lparr> ct_EnvFrom := map AllOfSecret (pl_Secrets plan) \<rparr>))))"

definition imageService :: "cp_env \<Rightarrow> Project \<Rightarrow> appDeploymentPlan \<Rightarrow> service_object" where
  "imageService env p plan =
    (let ports = filter (\<lambda>pr. po_ServicePort pr > 0) (pl_Ports plan) in
     \<lparr> sv_Labels = planLabels p plan, sv_Annotations = lbServiceAnnotations (cfgIngress (ce_cfg env)),
       sv_Type = (if list_ex (\<lambda>pr. EqualFold (po_ServiceType pr) ''LoadBalancer'') ports then ''LoadBalancer'' else ''ClusterIP''),
       sv_Ports = map (\<lambda>pr. (po_ServicePort pr, po_ContainerPort pr, if EqualFold (po_Protocol pr) ''UDP'' then ''UDP'' else [])) ports,
       sv_Selector = [''kubeop.app.id'' \<mapsto> pl_AppID plan] \<rparr>)"

text \<open>
  The API server refuses a service without ports, and one with several ports unless each has a name; the
  code names none.
\<close>

definition validService :: "service_object \<Rightarrow> bool" where
  "validService sv \<longleftrightarrow> length (sv_Ports sv) = 1"

definition applyServiceOf :: "cp_env \<Rightarrow> Project \<Rightarrow> appDeploymentPlan \<Rightarrow> string handler" where
  "applyServiceOf env p plan =
    (if pl_Ports plan = [] then ret []
     else let svc = imageService env p plan in
       bindS (if validService svc then kubeApply env (appKey p ''Service'' (pl_KubeName plan)) (KService svc)
              else call env (fail InvalidInput)) (\<lambda>_. ret (pl_KubeName plan)))"

definition httpPortOf :: "AppPort list \<Rightarrow> int" where
  "httpPortOf ports =
    (case filter (\<lambda>n. n = 80 \<or> n = 8080) (map po_ServicePort ports) of [] \<Rightarrow> 80 | n # _ \<Rightarrow> n)"

definition imageIngress :: "cp_env \<Rightarrow> Project \<Rightarrow> appDeploymentPlan \<Rightarrow> ingress_object" where
  "imageIngress env p plan =
    (let tls = EnableCertManager (cfgIngress (ce_cfg env)) in
     \<lparr> ig_Labels = planLabels p plan,
       ig_Annotations = (if tls then [''cert-manager.io/cluster-issuer'' \<mapsto> ''letsencrypt-prod'', ''kubernetes.io/tls-acme'' \<mapsto> ''true'']
                         else Map.empty),
       ig_Hosts = [pl_Host plan], ig_Backend = (pl_KubeName plan, httpPortOf (pl_Ports plan)),
       ig_TLS = (if tls then Some (pl_KubeName plan @ ''-tls'') else None) \<rparr>)"

definition applyIngressOf :: "cp_env \<Rightarrow> app_env \<Rightarrow> Project \<Rightarrow> appDeploymentPlan \<Rightarrow> string \<Rightarrow> string handler" where
  "applyIngressOf env ae p plan svcName =
    (if pl_Host plan = [] \<or> pl_Ports plan = [] then ret []
     else tryS (if EnableCertManager (cfgIngress (ce_cfg env))
                then kubeApply env (appKey p ''Certificate'' (pl_KubeName plan @ ''-cert''))
                       (KCertificate (pl_Host plan) (pl_KubeName plan @ ''-tls''))
                else ret ()) (\<lambda>_.
       bindS (kubeApply env (appKey p ''Ingress'' (pl_KubeName plan)) (KIngress (imageIngress env p plan))) (\<lambda>_.
       tryS (UpsertAppDomain env (pl_AppID plan) (pl_Host plan) ''pending'') (\<lambda>_.
       tryS (ensureDNSForService env ae (p_ClusterID p) (p_Namespace p) svcName (pl_Host plan)) (\<lambda>_.
         ret (pl_KubeName plan))))))"

definition applyImage :: "cp_env \<Rightarrow> app_env \<Rightarrow> Project \<Rightarrow> appDeploymentPlan \<Rightarrow> (string \<times> string) handler" where
  "applyImage env ae p plan =
    bindS (applyDeploymentOf env p plan) (\<lambda>_.
    bindS (applyServiceOf env p plan) (\<lambda>svcName.
    bindS (applyIngressOf env ae p plan svcName) (\<lambda>ingName. ret (svcName, ingName))))"

definition applySource :: "cp_env \<Rightarrow> app_env \<Rightarrow> Project \<Rightarrow> appDeploymentPlan \<Rightarrow> (string \<times> string) handler" where
  "applySource env ae p plan =
    (let raw = (\<lambda>docs. bindS (forEach (applyRawManifest env ae (p_ClusterID p) (p_Namespace p) (planLabels p plan)) docs)
           (\<lambda>_. ret ([], [])));
         source = pl_SourceType plan
     in if source = ''image'' then applyImage env ae p plan
        else if source = ''manifests'' \<or> source = ''ociBundle'' then raw (pl_Manifests plan)
        else if source = ''helm'' then
          unless (TrimSpace (pl_HelmRendered plan) \<noteq> []) InvalidInput (raw [pl_HelmRendered plan])
        else if HasPrefix source ''git:'' then raw (pl_Manifests plan)
        else fail InvalidInput)"

section \<open>Deploying\<close>

definition jPorts :: "AppPort list \<Rightarrow> json" where
  "jPorts ports = (if ports = [] then JNull else JArr (map (JObj \<circ> encodePort) ports))"

definition gitMeta :: "gitSourcePlan \<Rightarrow> jobject" where
  "gitMeta g =
    sortEntries ([(''url'', JStr (gp_URL g)), (''ref'', JStr (gp_Ref g)), (''path'', JStr (gp_Path g)), (''mode'', JStr (gp_Mode g))]
      @ omitStr ''commit'' (gp_Commit g) @ omitStr ''credentialId'' (gp_CredentialID g))"

definition bundleMeta :: "ociBundlePlan \<Rightarrow> jobject" where
  "bundleMeta b =
    sortEntries ([(''ref'', JStr (op_Ref b))] @ omitStr ''digest'' (op_Digest b) @ omitStr ''credentialId'' (op_CredentialID b)
      @ (if op_Insecure b then [(''insecure'', JBool True)] else []) @ omitStr ''mediaType'' (op_MediaType b))"

definition originMeta :: "appDeploymentPlan \<Rightarrow> jobject" where
  "originMeta plan =
    (case pl_Git plan of None \<Rightarrow> [] | Some g \<Rightarrow> [(''git'', JObj (gitMeta g))])
    @ (case pl_OciBundle plan of None \<Rightarrow> [] | Some b \<Rightarrow> [(''ociBundle'', JObj (bundleMeta b))])"

definition sourceMeta :: "appDeploymentPlan \<Rightarrow> jobject option \<Rightarrow> jobject" where
  "sourceMeta plan helm =
    sortEntries ([(''image'', JStr (pl_Image plan)), (''ports'', jPorts (pl_Ports plan)),
      (''env'', if pl_Env plan = [] then JNull else jMap (sortEntries (pl_Env plan))),
      (''helm'', case helm of None \<Rightarrow> JNull | Some m \<Rightarrow> JObj m), (''kubeName'', JStr (pl_KubeName plan))] @ originMeta plan)"

definition deliveryMeta :: "appDeploymentPlan \<Rightarrow> jobject" where
  "deliveryMeta plan =
    sortEntries ([(''type'', JStr (pl_SourceType plan)), (''sbom'', JObj (pl_SBOM plan))] @ originMeta plan)"

definition externalRefOf :: "appDeploymentPlan \<Rightarrow> string" where
  "externalRefOf plan =
    (case pl_Git plan of
       Some g \<Rightarrow> gp_Commit g
     | None \<Rightarrow> (case pl_OciBundle plan of Some b \<Rightarrow> op_Digest b | None \<Rightarrow> []))"

text \<open>\<open>recordRelease\<close> on the tables of the world.\<close>

definition storeRelease :: "cp_env \<Rightarrow> appDeploymentPlan \<Rightarrow> string \<Rightarrow> string handler" where
  "storeRelease env plan name = call env (\<lambda>w.
    case recordRelease \<lparr> re_newID = ce_uuid env, re_clock = ce_clock env \<rparr> plan name
           \<lparr> rt_Rows = w_Releases w, rt_Apps = map (\<lambda>a. (a_ID a, a_ProjectID a)) (liveApps w),
              rt_DeletedApps = map (\<lambda>a. (a_ID a, a_ProjectID a)) (filter a_Deleted (w_Apps w)), rt_Count = w_Calls w \<rparr> of
      (st, r) \<Rightarrow> (w\<lparr> w_Releases := rt_Rows st, w_Calls := rt_Count st \<rparr>,
                  case r of Inl e \<Rightarrow> Inl (ReleaseFailed e) | Inr ident \<Rightarrow> Inr ident))"

definition planApp :: "Project \<Rightarrow> appDeploymentPlan \<Rightarrow> app_object" where
  "planApp p plan =
    \<lparr> ao_Labels = (planLabels p plan)(''app.kubernetes.io/name'' \<mapsto> pl_KubeName plan, ''kubeop.io/app-id'' \<mapsto> pl_AppID plan,
        ''kubeop.io/project-id'' \<mapsto> p_ID p, ''kubeop.io/managed'' \<mapsto> ''true''),
      ao_Image = pl_Image plan, ao_Replicas = Some (pl_Replicas plan),
      ao_Hosts = (if TrimSpace (pl_Host plan) = [] then [] else [TrimSpace (pl_Host plan)]), ao_ResourceVersion = [] \<rparr>"

definition ensureAppCRDForPlan :: "cp_env \<Rightarrow> app_env \<Rightarrow> Project \<Rightarrow> appDeploymentPlan \<Rightarrow> unit handler" where
  "ensureAppCRDForPlan env ae p plan =
    (if pl_SourceType plan \<noteq> ''image'' then ret ()
     else unless (TrimSpace (pl_Image plan) \<noteq> []) InvalidInput
       (bindS (writeApp env ae p (pl_KubeName plan) (planApp p plan)) (\<lambda>_.
        bindS (loadAppCRD env ae p (pl_KubeName plan)) (\<lambda>crd.
          mirrorAppCRD env ae p (pl_KubeName plan) crd))))"

record AppDeployOutput =
  do_AppID :: string
  do_Name :: string
  do_Service :: string
  do_Ingress :: string

definition deployMeta :: "Project \<Rightarrow> appDeploymentPlan \<Rightarrow> string \<Rightarrow> string \<Rightarrow> string \<Rightarrow> string \<Rightarrow> jobject" where
  "deployMeta p plan name releaseID svcName ingName =
    sortEntries ([(''app_id'', JStr (pl_AppID plan)), (''app_name'', JStr name), (''kube_name'', JStr (pl_KubeName plan)),
      (''cluster_id'', JStr (p_ClusterID p)), (''namespace'', JStr (p_Namespace p)), (''source'', JStr (pl_SourceType plan)),
      (''release_id'', JStr releaseID)] @ omitStr ''service_name'' svcName @ omitStr ''ingress_name'' ingName)"

definition DeployApp :: "cp_env \<Rightarrow> app_env \<Rightarrow> AppDeployInput \<Rightarrow> AppDeployOutput handler" where
  "DeployApp env ae inp =
    bindS (ensureMaintenanceAllows env) (\<lambda>_.
    unless (TrimSpace (ai_ProjectID inp) \<noteq> [] \<and> TrimSpace (ai_Name inp) \<noteq> []) InvalidInput
    (bindS (newUUID env) (\<lambda>appID.
     bindS (planAppDeployment env ae inp appID) (\<lambda>(plan, p).
     bindS (call env (ret ())) (\<lambda>_.
     bindS (applySource env ae p plan) (\<lambda>(svcName, ingName).
     bindS (CreateApp env appID (p_ID p) (ai_Name inp) ''deployed'' (pl_Repo plan) (pl_WebhookSecret plan)
              (externalRefOf plan) (sourceMeta plan (ai_Helm inp)) (deliveryMeta plan)) (\<lambda>_.
     bindS (storeRelease env plan (ai_Name inp)) (\<lambda>releaseID.
     tryS (ensureAppCRDForPlan env ae p plan) (\<lambda>_.
     bindS (appendEvent env (p_ID p) appID ''app_deployed'' ''INFO'' (''app '' @ ai_Name inp @ '' deployed'')
              (deployMeta p plan (ai_Name inp) releaseID svcName ingName)) (\<lambda>_.
       ret \<lparr> do_AppID = appID, do_Name = ai_Name inp, do_Service = svcName, do_Ingress = ingName \<rparr>))))))))))"

section \<open>Deleting\<close>

fun kobjLabels :: "kobj \<Rightarrow> gomap" where
  "kobjLabels (KNamespace l) = l"
| "kobjLabels (KConfigMap l d) = l"
| "kobjLabels (KSecret l t d) = l"
| "kobjLabels (KDeployment d) = dp_Labels d"
| "kobjLabels (KService s) = sv_Labels s"
| "kobjLabels (KIngress i) = ig_Labels i"
| "kobjLabels (KApp a) = ao_Labels a"
| "kobjLabels (KManifest l d) = l"
| "kobjLabels _ = Map.empty"

definition ofApp :: "string \<Rightarrow> kobj \<Rightarrow> bool" where
  "ofApp appID obj \<longleftrightarrow> kobjLabels obj ''kubeop.app.id'' = Some appID"

definition listOfApp :: "cp_env \<Rightarrow> Project \<Rightarrow> string \<Rightarrow> string \<Rightarrow> (string \<times> kobj) list handler" where
  "listOfApp env p appID kind =
    bindS (kubeList env (p_ClusterID p) kind (p_Namespace p)) (\<lambda>items. ret (filter (\<lambda>(_, obj). ofApp appID obj) items))"

text \<open>One block of \<open>DeleteApp\<close>: list the objects of a kind by label and delete each, ignoring failures.\<close>

definition deleteKind :: "cp_env \<Rightarrow> Project \<Rightarrow> string \<Rightarrow> string \<Rightarrow> kobj list handler" where
  "deleteKind env p appID kind =
    tryS (listOfApp env p appID kind) (\<lambda>r. case r of
        Inl _ \<Rightarrow> ret []
      | Inr items \<Rightarrow>
          bindS (forEach (\<lambda>(name, _). tryS (kubeDelete env (appKey p kind name)) (\<lambda>_. ret ())) items) (\<lambda>_.
            ret (map snd items)))"

definition ingressHosts :: "app_env \<Rightarrow> kobj \<Rightarrow> string list" where
  "ingressHosts ae obj =
    filter (\<lambda>h. h \<noteq> []) (case obj of KIngress i \<Rightarrow> ig_Hosts i | KManifest _ doc \<Rightarrow> ae_ingressHosts ae doc | _ \<Rightarrow> [])"

definition deleteWorkloads :: "cp_env \<Rightarrow> app_env \<Rightarrow> Project \<Rightarrow> string \<Rightarrow> string list handler" where
  "deleteWorkloads env ae p appID =
    bindS (forEach (\<lambda>kind. bindS (deleteKind env p appID kind) (\<lambda>_. ret ()))
             [''Deployment'', ''StatefulSet'', ''DaemonSet'', ''Service'']) (\<lambda>_.
    bindS (deleteKind env p appID ''Ingress'') (\<lambda>ingresses.
    bindS (forEach (\<lambda>kind. bindS (deleteKind env p appID kind) (\<lambda>_. ret ()))
             [''Job'', ''CronJob'', ''ConfigMap'', ''Secret'', ''PersistentVolumeClaim'']) (\<lambda>_.
      ret (concat (map (ingressHosts ae) ingresses)))))"

definition deleteCertificate :: "cp_env \<Rightarrow> Project \<Rightarrow> string \<Rightarrow> unit handler" where
  "deleteCertificate env p slug =
    (if EnableCertManager (cfgIngress (ce_cfg env)) \<and> slug \<noteq> [] then
       tryS (kubeDelete env (appKey p ''Secret'' (slug @ ''-tls''))) (\<lambda>_.
       tryS (kubeDelete env (appKey p ''Certificate'' (slug @ ''-cert''))) (\<lambda>_. ret ()))
     else ret ())"

definition deleteHosts :: "cp_env \<Rightarrow> app_env \<Rightarrow> string list \<Rightarrow> unit handler" where
  "deleteHosts env ae hosts =
    (case NewProvider (cfgDNS (ce_cfg env)) of
       None \<Rightarrow> ret ()
     | Some prov \<Rightarrow> forEach (\<lambda>h. tryS (dnsCall (DeleteRecords (ae_dnsServer ae) prov h)) (\<lambda>_. ret ())) hosts)"

definition DeleteApp :: "cp_env \<Rightarrow> app_env \<Rightarrow> string \<Rightarrow> string \<Rightarrow> unit handler" where
  "DeleteApp env ae projectID appID =
    bindS (ensureMaintenanceAllows env) (\<lambda>_.
    bindS (ownedApp env projectID appID) (\<lambda>a.
    bindS (GetProject env projectID) (\<lambda>p.
    bindS (clusterClient env (p_ClusterID p)) (\<lambda>_.
    bindS (deleteWorkloads env ae p appID) (\<lambda>hosts.
    bindS (deleteCertificate env p (kubeNameOf a)) (\<lambda>_.
    bindS (deleteHosts env ae hosts) (\<lambda>_.
    tryS (DeleteAppDomains env appID) (\<lambda>_.
    bindS (timeNow env) (\<lambda>now.
    tryS (MarkK8sCRDDeleted env (p_ClusterID p) ''App'' (p_Namespace p) (kubeNameOf a) now) (\<lambda>_.
    tryS (SoftDeleteApp env appID) (\<lambda>_.
      appendEvent env projectID appID ''app_deleted'' ''WARN'' (''app '' @ a_Name a @ '' deleted'')
        [(''app_name'', JStr (a_Name a)), (''cluster_id'', JStr (p_ClusterID p)),
         (''ingress_hosts'', if hosts = [] then JNull else jList hosts), (''ingress_hosts_removed'', JNum (int (length hosts))),
         (''namespace'', JStr (p_Namespace p))])))))))))))"

section \<open>The git webhook\<close>

definition webhookSecretFor :: "cp_env \<Rightarrow> App \<Rightarrow> string" where
  "webhookSecretFor env a =
    (case a_WebhookSecret a of Some s \<Rightarrow> s | None \<Rightarrow> GitWebhookSecret (cfgIngress (ce_cfg env)))"

text \<open>A deployment that cannot be read is taken for an empty one, and the failure to write it is ignored.\<close>

definition redeploy :: "cp_env \<Rightarrow> app_env \<Rightarrow> App \<Rightarrow> unit handler" where
  "redeploy env ae a =
    tryS (projectClient env (a_ProjectID a)) (\<lambda>r. case r of
        Inl _ \<Rightarrow> ret ()
      | Inr p \<Rightarrow>
          let key = appKey p ''Deployment'' (Slugify (a_Name a)) in
          tryS (kubeGet env key) (\<lambda>got.
            let dep = (case got of Inr obj \<Rightarrow> deploymentOf ae obj | Inl _ \<Rightarrow> emptyDeployment) in
            bindS (timeNow env) (\<lambda>now.
              tryS (applyDeployment env key
                      (dep\<lparr> dp_Annotations := (dp_Annotations dep)(''kubeop.io/redeploy'' \<mapsto> formatRFC3339 now) \<rparr>)) (\<lambda>_. ret ()))))"

definition HandleGitWebhook :: "cp_env \<Rightarrow> app_env \<Rightarrow> jobject \<Rightarrow> string \<Rightarrow> string \<Rightarrow> unit handler" where
  "HandleGitWebhook env ae payload raw signature =
    (let full = getMapString (JObj payload) [''repository'', ''full_name''];
         repo = (if full = [] then getMapString (JObj payload) [''repository'', ''clone_url''] else full);
         ref = getString payload ''ref''
     in unless (repo \<noteq> [] \<and> ref \<noteq> []) InvalidInput
          (bindS (FindAppsByRepo env repo) (\<lambda>apps.
            forEach (\<lambda>a.
              let secret = webhookSecretFor env a in
              if secret \<noteq> [] \<and> \<not> VerifyHMACSHA256 raw secret signature then ret () else redeploy env ae a) apps)))"

section \<open>Status\<close>

text \<open>\<open>fmt.Sprint\<close> writes a missing field as \<open><nil>\<close>.\<close>

definition sprintField :: "string option \<Rightarrow> string" where
  "sprintField v = (case v of None \<Rightarrow> ''<nil>'' | Some s \<Rightarrow> s)"

definition readyStatus :: "cert_condition \<Rightarrow> string" where
  "readyStatus c =
    (let reason = TrimSpace (sprintField (cc_Reason c)); message = TrimSpace (sprintField (cc_Message c)) in
     if ToLower (sprintField (cc_Status c)) = ''true'' then ''issued''
     else if reason = [] \<and> message = [] then ''pending''
     else if reason \<noteq> [] \<and> message \<noteq> [] then ''error: '' @ ToLower reason @ '' ('' @ message @ '')''
     else if reason \<noteq> [] then ''error: '' @ ToLower reason else ''error: '' @ message)"

fun certificateStatus :: "cert_condition option list \<Rightarrow> string" where
  "certificateStatus [] = ''pending''"
| "certificateStatus (None # cs) = certificateStatus cs"
| "certificateStatus (Some c # cs) =
    (if EqualFold (sprintField (cc_Type c)) ''Ready'' then readyStatus c else certificateStatus cs)"

definition lookupCertificateStatus :: "cp_env \<Rightarrow> app_env \<Rightarrow> Project \<Rightarrow> string \<Rightarrow> string handler" where
  "lookupCertificateStatus env ae p certName =
    bindS (getS w_Calls) (\<lambda>n.
    tryS (kubeGet env (appKey p ''Certificate'' certName)) (\<lambda>r. case r of
        Inl e \<Rightarrow> if e = KubeNotFound then ret ''pending'' else fail e
      | Inr _ \<Rightarrow>
          (case ae_conditions ae n of
             Inl e \<Rightarrow> fail e
           | Inr None \<Rightarrow> ret ''pending''
           | Inr (Some conds) \<Rightarrow> ret (certificateStatus conds))))"

fun mapS :: "('a \<Rightarrow> 'b handler) \<Rightarrow> 'a list \<Rightarrow> 'b list handler" where
  "mapS f [] = ret []"
| "mapS f (x # xs) = bindS (f x) (\<lambda>y. bindS (mapS f xs) (\<lambda>ys. ret (y # ys)))"

definition domainStatus :: "cp_env \<Rightarrow> string \<Rightarrow> AppDomain \<Rightarrow> (string \<times> string) handler" where
  "domainStatus env desired d =
    (let status = (if desired \<noteq> [] then desired else ad_CertStatus d);
         status = (if status = [] then ''pending'' else status)
     in if status \<noteq> ad_CertStatus d
        then tryS (UpsertAppDomain env (ad_AppID d) (ad_FQDN d) status) (\<lambda>_. ret (ad_FQDN d, status))
        else ret (ad_FQDN d, status))"

definition domainStatuses :: "cp_env \<Rightarrow> app_env \<Rightarrow> Project \<Rightarrow> App \<Rightarrow> (string \<times> string) list handler" where
  "domainStatuses env ae p a =
    tryS (ListAppDomains env (a_ID a)) (\<lambda>r. case r of
        Inl _ \<Rightarrow> ret []
      | Inr domains \<Rightarrow>
          if domains = [] then ret []
          else bindS (if EnableCertManager (cfgIngress (ce_cfg env))
                      then tryS (lookupCertificateStatus env ae p (kubeNameOf a @ ''-cert''))
                             (\<lambda>found. ret (case found of Inl _ \<Rightarrow> [] | Inr status \<Rightarrow> status))
                      else ret []) (\<lambda>desired. mapS (domainStatus env desired) domains))"

record ServiceSummary =
  ss_Name :: string
  ss_Type :: string
  ss_Ports :: "int list"

record ServiceAppStatus =
  as_AppID :: string
  as_Name :: string
  as_Desired :: int
  as_Ready :: int
  as_Available :: int
  as_ResourceVersion :: string
  as_UID :: string
  as_ObservedGeneration :: int
  as_Service :: "ServiceSummary option"
  as_IngressHosts :: "string list"
  as_Pods :: "(string \<times> string \<times> bool) list"
  as_Domains :: "(string \<times> string) list"
  as_Conditions :: "crd_condition list"

definition emptyStatus :: "App \<Rightarrow> ServiceAppStatus" where
  "emptyStatus a = \<lparr> as_AppID = a_ID a, as_Name = a_Name a, as_Desired = 0, as_Ready = 0, as_Available = 0,
     as_ResourceVersion = [], as_UID = [], as_ObservedGeneration = 0, as_Service = None, as_IngressHosts = [], as_Pods = [],
     as_Domains = [], as_Conditions = [] \<rparr>"

text \<open>A request whose failure leaves a default in place.\<close>

definition orElse :: "'a \<Rightarrow> 'a handler \<Rightarrow> 'a handler" where
  "orElse dflt m = tryS m (\<lambda>r. ret (case r of Inl _ \<Rightarrow> dflt | Inr x \<Rightarrow> x))"

definition withApp :: "app_env \<Rightarrow> app_object \<Rightarrow> ServiceAppStatus \<Rightarrow> ServiceAppStatus" where
  "withApp ae crd st =
    (case (ae_view ae crd, ae_appStatus ae crd) of ((uid, _, _), (generation, _, conds)) \<Rightarrow>
      st\<lparr> as_ResourceVersion := ao_ResourceVersion crd, as_UID := uid, as_ObservedGeneration := generation,
          as_Conditions := conds \<rparr>)"

definition withDeployment :: "deployment \<times> int \<times> int \<Rightarrow> ServiceAppStatus \<Rightarrow> ServiceAppStatus" where
  "withDeployment d st =
    (case d of (dep, ready, available) \<Rightarrow>
      st\<lparr> as_Desired := (case dp_Replicas dep of None \<Rightarrow> as_Desired st | Some n \<Rightarrow> n), as_Ready := ready,
          as_Available := available \<rparr>)"

text \<open>What the \<open>App\<close> object reports replaces what the deployment does.\<close>

definition overrideByApp :: "app_env \<Rightarrow> app_object \<Rightarrow> ServiceAppStatus \<Rightarrow> ServiceAppStatus" where
  "overrideByApp ae crd st =
    (case ae_appStatus ae crd of (_, available, conds) \<Rightarrow>
      let ready = (case filter (\<lambda>c. ac_Type c = ''Ready'') conds of
            c # _ \<Rightarrow> if ac_Status c = ''True'' then (case ao_Replicas crd of Some n \<Rightarrow> n | None \<Rightarrow> available) else available
          | [] \<Rightarrow> available)
      in st\<lparr> as_Desired := (case ao_Replicas crd of Some n \<Rightarrow> n | None \<Rightarrow> as_Desired st), as_Available := available,
             as_Ready := ready \<rparr>)"

definition summariseService :: "app_env \<Rightarrow> string \<times> kobj \<Rightarrow> ServiceSummary" where
  "summariseService ae svc =
    (case svc of (name, obj) \<Rightarrow>
      \<lparr> ss_Name = name, ss_Type = serviceTypeOf obj,
        ss_Ports = (case obj of KService s \<Rightarrow> map fst (sv_Ports s) | KManifest _ doc \<Rightarrow> ae_servicePorts ae doc | _ \<Rightarrow> []) \<rparr>)"

definition CollectAppStatus :: "cp_env \<Rightarrow> app_env \<Rightarrow> Project \<Rightarrow> App \<Rightarrow> ServiceAppStatus handler" where
  "CollectAppStatus env ae p a =
    bindS (orElse None (bindS (loadAppCRD env ae p (kubeNameOf a)) (\<lambda>crd. ret (Some crd)))) (\<lambda>crd.
    bindS (getS w_Calls) (\<lambda>n.
    bindS (orElse None (bindS (kubeGet env (appKey p ''Deployment'' (kubeNameOf a))) (\<lambda>obj. ret (Some (deploymentOf ae obj))))) (\<lambda>dep.
    bindS (orElse [] (listOfApp env p (a_ID a) ''Service'')) (\<lambda>svcs.
    bindS (orElse [] (listOfApp env p (a_ID a) ''Ingress'')) (\<lambda>ings.
    bindS (orElse [] (call env (getS (\<lambda>w. ae_pods ae (w_Calls w))))) (\<lambda>pods.
      let st = emptyStatus a;
          st = (case crd of None \<Rightarrow> st | Some c \<Rightarrow> withApp ae c st);
          st = (case dep of None \<Rightarrow> st | Some d \<Rightarrow> withDeployment (d, ae_readiness ae n) st);
          st = st\<lparr> as_Service := (case svcs of [] \<Rightarrow> None | svc # _ \<Rightarrow> Some (summariseService ae svc)),
                   as_IngressHosts := concat (map (ingressHosts ae \<circ> snd) ings),
                   as_Pods := map (\<lambda>(name, phase, containers). (name, phase, True \<in> set containers)) pods \<rparr>
      in ret (case crd of None \<Rightarrow> st | Some c \<Rightarrow> overrideByApp ae c st)))))))"

definition appStatus :: "cp_env \<Rightarrow> app_env \<Rightarrow> Project \<Rightarrow> App \<Rightarrow> ServiceAppStatus handler" where
  "appStatus env ae p a =
    bindS (CollectAppStatus env ae p a) (\<lambda>st.
    bindS (if as_ResourceVersion st = [] then ret ()
           else tryS (loadAppCRD env ae p (kubeNameOf a)) (\<lambda>r. case r of
               Inl _ \<Rightarrow> ret () | Inr crd \<Rightarrow> mirrorAppCRD env ae p (kubeNameOf a) crd)) (\<lambda>_.
    bindS (domainStatuses env ae p a) (\<lambda>domains. ret (st\<lparr> as_Domains := domains \<rparr>))))"

definition ListProjectAppsStatus :: "cp_env \<Rightarrow> app_env \<Rightarrow> string \<Rightarrow> ServiceAppStatus list handler" where
  "ListProjectAppsStatus env ae projectID =
    bindS (projectClient env projectID) (\<lambda>p.
    bindS (ListAppsByProject env projectID) (\<lambda>apps. mapS (appStatus env ae p) apps))"

definition GetAppStatus :: "cp_env \<Rightarrow> app_env \<Rightarrow> string \<Rightarrow> string \<Rightarrow> ServiceAppStatus handler" where
  "GetAppStatus env ae projectID appID =
    bindS (projectClient env projectID) (\<lambda>p.
    bindS (ownedApp env projectID appID) (\<lambda>a. appStatus env ae p a))"

text \<open>Source, delivery and bill of materials of an application.\<close>

definition GetAppDelivery :: "cp_env \<Rightarrow> string \<Rightarrow> string \<Rightarrow> (App \<times> jobject) handler" where
  "GetAppDelivery env projectID appID =
    unless (TrimSpace projectID \<noteq> [] \<and> TrimSpace appID \<noteq> []) InvalidInput
      (bindS (ownedApp env projectID appID) (\<lambda>a.
        ret (a, case map_of (a_Delivery a) ''sbom'' of
                  Some (JObj m) \<Rightarrow> m | Some (JArr docs) \<Rightarrow> [(''documents'', JArr docs)] | _ \<Rightarrow> [])))"

end
