(* ===== verification/Frames.thy ===== *)
theory Frames
  imports AppDeploy
begin

text \<open>
  What handlers leave alone. A view of the world is a part of it, such as a group of tables. The locales
  below say what a view does not look at; inside them it is proved, handler by handler, that the handlers
  that only write there leave the view as it is.
\<close>

definition leaves :: "(world \<Rightarrow> 'v) \<Rightarrow> 'a handler \<Rightarrow> bool" where
  "leaves v m \<longleftrightarrow> (\<forall>w. v (fst (m w)) = v w)"

named_theorems frame_rules

lemma leavesD: "leaves v m \<Longrightarrow> v (fst (m w)) = v w"
  by (simp add: leaves_def)

lemma leaves_keeps: "leaves v m \<Longrightarrow> (\<And>w w'. v w' = v w \<Longrightarrow> I w' = I w) \<Longrightarrow> keeps I m"
  unfolding leaves_def yields_def by metis

lemma bindS_tryS: "bindS m f = tryS m (\<lambda>r. case r of Inl e \<Rightarrow> fail e | Inr x \<Rightarrow> f x)"
  by (rule ext) (simp add: bindS_def tryS_def fail_def split: prod.split sum.split)

lemma leaves_return [frame_rules]:
  "leaves v (ret x)" "leaves v (fail e)" "leaves v (getS f)" "leaves v (liftR err r)" "leaves v (orPanic o')"
  "leaves v (firstRow rows)"
  by (simp_all add: leaves_def ret_def fail_def getS_def liftR_def orPanic_def firstRow_def
      split: sum.split option.split list.split)

lemma leaves_tryS [frame_rules]:
  assumes "leaves v m" "\<And>x. leaves v (f x)"
  shows "leaves v (tryS m f)"
  unfolding leaves_def
proof
  fix w
  obtain w' r where m: "m w = (w', r)" by fastforce
  have "v (fst (f r w')) = v w'" using assms(2) by (simp add: leaves_def)
  also have "\<dots> = v w" using assms(1) m by (metis fst_conv leaves_def)
  finally show "v (fst (tryS m f w)) = v w" by (simp add: tryS_def m)
qed

lemma leaves_bindS [frame_rules]: "leaves v m \<Longrightarrow> (\<And>x. leaves v (f x)) \<Longrightarrow> leaves v (bindS m f)"
  unfolding bindS_tryS by (rule leaves_tryS) (simp_all add: leaves_return split: sum.split)

lemma leaves_unless [frame_rules]: "leaves v m \<Longrightarrow> leaves v (unless b e m)"
  by (simp add: unless_def leaves_return)

lemma leaves_if [frame_rules]: "leaves v m \<Longrightarrow> leaves v n \<Longrightarrow> leaves v (if b then m else n)"
  by simp

lemma leaves_sum [frame_rules]:
  "(\<And>e. leaves v (f e)) \<Longrightarrow> (\<And>x. leaves v (g x)) \<Longrightarrow> leaves v (case r of Inl e \<Rightarrow> f e | Inr x \<Rightarrow> g x)"
  by (cases r) simp_all

lemma leaves_prod [frame_rules]: "(\<And>a b. leaves v (f a b)) \<Longrightarrow> leaves v (case p of (a, b) \<Rightarrow> f a b)"
  by (cases p) simp_all

lemma leaves_prod_app [frame_rules]: "(\<And>a b. leaves v (f a b c)) \<Longrightarrow> leaves v ((case p of (a, b) \<Rightarrow> f a b) c)"
  by (cases p) simp_all

lemma leaves_option [frame_rules]:
  "leaves v m \<Longrightarrow> (\<And>x. leaves v (f x)) \<Longrightarrow> leaves v (case r of None \<Rightarrow> m | Some x \<Rightarrow> f x)"
  by (cases r) simp_all

lemma leaves_kobj [frame_rules]:
  "(\<And>c. leaves v (f c)) \<Longrightarrow> (\<And>l d. leaves v (g l d)) \<Longrightarrow> leaves v m
    \<Longrightarrow> leaves v (case obj of KApp c \<Rightarrow> f c | KManifest l d \<Rightarrow> g l d | _ \<Rightarrow> m)"
  by (cases obj) simp_all

lemma leaves_json: "leaves v m \<Longrightarrow> (\<And>o'. leaves v (f o')) \<Longrightarrow> leaves v n
    \<Longrightarrow> leaves v (case r of None \<Rightarrow> m | Some (JObj o') \<Rightarrow> f o' | Some _ \<Rightarrow> n)"
  by (auto split: option.split json.split)

lemma leaves_forEach [frame_rules]: "(\<And>x. leaves v (f x)) \<Longrightarrow> leaves v (forEach f xs)"
  by (induction xs) (simp_all add: leaves_return leaves_bindS)

lemma leaves_mapS [frame_rules]: "(\<And>x. leaves v (f x)) \<Longrightarrow> leaves v (mapS f xs)"
  by (induction xs) (simp_all add: leaves_return leaves_bindS)

lemma leaves_putS: "(\<And>w. v (f w) = v w) \<Longrightarrow> leaves v (putS f)"
  by (simp add: leaves_def putS_def)

section \<open>Views that do not count calls\<close>

locale frame =
  fixes v :: "world \<Rightarrow> 'v"
  assumes v_calls [simp]: "v (w\<lparr> w_Calls := n \<rparr>) = v w"
begin

lemma v_tick [simp]: "v (tick w) = v w"
  by (simp add: tick_def)

lemma leaves_call [frame_rules]: "leaves v m \<Longrightarrow> leaves v (call env m)"
  by (simp add: leaves_def call_def)

lemma leaves_supplies [frame_rules]: "leaves v (newUUID env)" "leaves v (timeNow env)"
  by (simp_all add: leaves_def newUUID_def timeNow_def)

lemma leaves_encrypt [frame_rules]: "leaves v (encrypt env pt)"
  by (simp add: leaves_def encrypt_def liftR_def fail_def ret_def split: sum.split)

lemma leaves_decrypt [frame_rules]: "leaves v (decrypt env enc)"
  unfolding decrypt_def by (intro frame_rules)

lemma leaves_kube_reads [frame_rules]: "leaves v (kubeGet env key)" "leaves v (kubeList env c k n)"
  unfolding kubeGet_def kubeList_def by (intro leaves_call; simp add: leaves_def split: option.split)+

lemma leaves_user_reads [frame_rules]:
  "leaves v (GetUser env i)" "leaves v (GetUserByEmail env m)" "leaves v (GetUserSpace env u c)"
  "leaves v (ListUserSpacesByUser env u)" "leaves v (GetProject env i)" "leaves v (ListProjects env l o')"
  unfolding GetUser_def GetUserByEmail_def GetUserSpace_def ListUserSpacesByUser_def GetProject_def ListProjects_def
  by (intro frame_rules)+

lemma leaves_cluster_reads [frame_rules]:
  "leaves v (Store_GetCluster env i)" "leaves v (Store_ListClusters env)" "leaves v (GetClusterKubeconfigEnc env i)"
  "leaves v (DecryptClusterKubeconfig env i)" "leaves v (clusterNameOf env i)" "leaves v (clusterLabel env i)"
  "leaves v (kubeconfigUserLabel env i)"
  unfolding Store_GetCluster_def Store_ListClusters_def GetClusterKubeconfigEnc_def DecryptClusterKubeconfig_def
    clusterNameOf_def clusterLabel_def kubeconfigUserLabel_def
  by (intro frame_rules)+

lemma leaves_kubeconfig_reads [frame_rules]:
  "leaves v (findKubeconfig env P)" "leaves v (GetKubeconfigByID env i)" "leaves v (GetKubeconfigByProject env i)"
  "leaves v (GetKubeconfigByUserScope env c n u)" "leaves v (CountKubeconfigsByServiceAccount env n s)"
  "leaves v (scopedKubeconfig a b c d e f)"
  unfolding findKubeconfig_def GetKubeconfigByID_def GetKubeconfigByProject_def GetKubeconfigByUserScope_def
    CountKubeconfigsByServiceAccount_def scopedKubeconfig_def
  by (intro frame_rules)+

lemma leaves_app_reads [frame_rules]:
  "leaves v (GetApp env i)" "leaves v (ListAppsByProject env i)" "leaves v (FindAppsByRepo env repo)"
  "leaves v (ListAppDomains env i)" "leaves v (ownedApp env p i)" "leaves v (decodeOverrides pr)"
  unfolding GetApp_def ListAppsByProject_def FindAppsByRepo_def ListAppDomains_def ownedApp_def decodeOverrides_def
  by (intro frame_rules)+

lemma leaves_credential_reads [frame_rules]:
  "leaves v (GetGitCredential env i)" "leaves v (GetRegistryCredential env i)"
  "leaves v (registryCredentialAuth env p c h)" "leaves v (gitCredentialAuth env lib p c)"
  unfolding GetGitCredential_def GetRegistryCredential_def registryCredentialAuth_def gitCredentialAuth_def
    openCredential_def Store_GetGitCredential_def Store_GetRegistryCredential_def selectCredential_def
    Let_def
  by (intro frame_rules)+

lemma leaves_awaitToken [frame_rules]: "leaves v (awaitToken n env key)"
proof (induction n)
  case (Suc n)
  then show ?case unfolding awaitToken.simps by (intro frame_rules)
qed (simp add: leaves_return)

end

section \<open>Views of the main tables\<close>

text \<open>
  A view that does not look at the clusters, the caches, the maintenance row, the events, DNS, or the tables
  of domains, mirrored objects and releases.
\<close>

locale side_frame = frame v for v :: "world \<Rightarrow> 'v" +
  assumes v_kube [simp]: "v (w\<lparr> w_Kube := k \<rparr>) = v w"
    and v_clients [simp]: "v (w\<lparr> w_Clients := cl \<rparr>) = v w"
    and v_maintenance [simp]: "v (w\<lparr> w_Maintenance := ms \<rparr>) = v w"
    and v_events [simp]: "v (w\<lparr> w_Events := ev \<rparr>) = v w"
    and v_dns [simp]: "v (w\<lparr> w_Dns := h \<rparr>) = v w"
    and v_waiting [simp]: "v (w\<lparr> w_Waiting := jobs \<rparr>) = v w"
    and v_domains [simp]: "v (w\<lparr> w_Domains := ds \<rparr>) = v w"
    and v_crds [simp]: "v (w\<lparr> w_Crds := cs \<rparr>) = v w"
    and v_releases [simp]: "v (w\<lparr> w_Releases := rs \<rparr>) = v w"
begin

lemma leaves_kube_writes [frame_rules]:
  "leaves v (kubeApply env key obj)" "leaves v (kubeCreate env key obj)" "leaves v (kubeDelete env key)"
  unfolding kubeApply_def kubeCreate_def kubeDelete_def
  by (intro leaves_call; simp add: leaves_def split: option.split prod.split)+

lemma leaves_appendEvent [frame_rules]: "leaves v (appendEvent env p a k s m meta)"
  unfolding appendEvent_def Let_def
  by (intro leaves_if leaves_call; simp add: leaves_def split: prod.split)

lemma leaves_maintenance [frame_rules]:
  "leaves v (ensureMaintenanceRow env)" "leaves v (Store_GetMaintenanceState env)" "leaves v (ensureMaintenanceAllows env)"
proof -
  show row: "leaves v (ensureMaintenanceRow env)"
    unfolding ensureMaintenanceRow_def by (intro leaves_call) (simp add: leaves_def split: option.split)
  show state: "leaves v (Store_GetMaintenanceState env)"
    unfolding Store_GetMaintenanceState_def
    by (intro leaves_bindS row leaves_call) (simp add: leaves_def split: option.split)
  show "leaves v (ensureMaintenanceAllows env)"
    unfolding ensureMaintenanceAllows_def by (intro leaves_bindS state leaves_if leaves_return)
qed

lemma leaves_Store_UpdateMaintenanceState [frame_rules]: "leaves v (Store_UpdateMaintenanceState fuel env b m a)"
proof (induction fuel)
  case (Suc fuel)
  have st: "leaves v (\<lambda>w. case w_Maintenance w of None \<Rightarrow> (w, Inl NoRows)
      | Some x \<Rightarrow> let st = row w in (w\<lparr> w_Maintenance := Some st \<rparr>, Inr st))" for row
    by (simp add: leaves_def Let_def split: option.split)
  show ?case unfolding Store_UpdateMaintenanceState.simps by (intro frame_rules Suc.IH st)
qed (simp add: leaves_return)

lemma leaves_UpdateMaintenanceState [frame_rules]: "leaves v (UpdateMaintenanceState env b m)"
  unfolding UpdateMaintenanceState_def Let_def by (intro frame_rules)

lemma leaves_clients [frame_rules]:
  "leaves v loader \<Longrightarrow> leaves v (getOrCreate env i loader)" "leaves v (clusterClient env i)" "leaves v (projectClient env i)"
proof -
  have get: "leaves v loader \<Longrightarrow> leaves v (getOrCreate env i loader)" for i loader
    unfolding getOrCreate_def by (intro frame_rules leaves_putS) simp_all
  then show "leaves v loader \<Longrightarrow> leaves v (getOrCreate env i loader)" .
  have client: "leaves v (clusterClient env i)" for i
    unfolding clusterClient_def by (intro get frame_rules)
  then show "leaves v (clusterClient env i)" .
  show "leaves v (projectClient env i)"
    unfolding projectClient_def by (intro frame_rules client)
qed

lemma leaves_equip [frame_rules]:
  "leaves v (mintServiceAccountSecret env c n s)" "leaves v (applyNamespace env c n)"
  "leaves v (applyNamespaceLimitObjects env c n q l)" "leaves v (limitPolicy env n ov)"
  "leaves v (ensureNamespaceLimitPolicy env c n ov)" "leaves v (applyNetworkPolicies env c n)"
  "leaves v (applyRBAC env c n a b d)" "leaves v (suspendedQuota env q)" "leaves v (equipSharedProject env c n nm)"
  unfolding mintServiceAccountSecret_def applyNamespace_def applyNamespaceLimitObjects_def limitPolicy_def
    ensureNamespaceLimitPolicy_def applyNetworkPolicies_def applyRBAC_def suspendedQuota_def equipSharedProject_def Let_def
  by (intro frame_rules)+

lemma leaves_operator [frame_rules]:
  "leaves v (createOrUpdate env key obj)" "leaves v (ensureOperatorDeployment env c kc)"
  unfolding createOrUpdate_def ensureOperatorDeployment_def by (intro frame_rules)+

lemma leaves_drop [frame_rules]:
  "leaves v (dropNamespace env us)" "leaves v (deleteSecret env c n s)" "leaves v (deleteServiceAccount env c n s)"
  unfolding dropNamespace_def deleteSecret_def deleteServiceAccount_def ignoreNotFound_def by (intro frame_rules)+

lemma leaves_domains [frame_rules]:
  "leaves v (UpsertAppDomain env i h s)" "leaves v (DeleteAppDomains env i)"
  unfolding UpsertAppDomain_def DeleteAppDomains_def Let_def
  by (intro frame_rules leaves_putS; simp add: leaves_def split: list.split)+

lemma leaves_crds [frame_rules]:
  "leaves v (UpsertK8sCRD env row)" "leaves v (MarkK8sCRDDeleted env c k n nm at)"
  unfolding UpsertK8sCRD_def MarkK8sCRDDeleted_def Let_def
  by (intro frame_rules leaves_putS; simp add: leaves_def split: list.split)+

lemma leaves_app_objects [frame_rules]:
  "leaves v (mirrorAppCRD env ae p n crd)" "leaves v (loadAppCRD env ae p n)" "leaves v (writeApp env ae p n crd)"
  "leaves v (applyDeployment env key d)" "leaves v (getDeployment env ae key)"
  unfolding mirrorAppCRD_def loadAppCRD_def writeApp_def applyDeployment_def getDeployment_def Let_def
  by (intro frame_rules)+

lemma leaves_app_updates [frame_rules]:
  "leaves v (updateAppDeployment env ae p a mutate)" "leaves v (changeApp env ae p a rv change mutate)"
  unfolding updateAppDeployment_def changeApp_def by (intro frame_rules)+

lemma leaves_app_handlers [frame_rules]:
  "leaves v (ScaleApp env ae p a rv n)" "leaves v (UpdateAppImage env ae p a rv im)" "leaves v (RolloutRestartApp env ae p a)"
  "leaves v (attachToApp attach what env ae p a nm ks pr)" "leaves v (detachFromApp detach what env ae p a nm)"
  unfolding ScaleApp_def UpdateAppImage_def RolloutRestartApp_def attachToApp_def detachFromApp_def Let_def
  by (intro frame_rules)+

lemma leaves_dnsCall [frame_rules]: "leaves v (dnsCall act)"
  by (simp add: leaves_def dnsCall_def split: prod.split)

lemma leaves_ensureDNS [frame_rules]: "leaves v (ensureDNSForService env ae c n s h)"
  unfolding ensureDNSForService_def Let_def by (intro frame_rules leaves_putS) simp

lemma leaves_plan_parts [frame_rules]:
  "leaves v (planLoadBalancers env ae p ov ports)" "leaves v (planClusterName env ae p)" "leaves v (withDocuments ae docs plan)"
  "leaves v (registryAuthFor env p c r)" "leaves v (orFail env r')" "leaves v (renderGitSource env lib p g)"
  unfolding planLoadBalancers_def planClusterName_def withDocuments_def registryAuthFor_def orFail_def
    renderGitSource_def Let_def
  by (intro frame_rules)+

lemma leaves_plan_sources [frame_rules]:
  "leaves v (planBundle env ae p b plan)" "leaves v (planGit env ae p g plan)"
  "leaves v (renderHelmChartFromURL env ae ch r n vs)" "leaves v (renderHelmChartFromOCI env ae ref ins auth r n vs)"
  unfolding planBundle_def planGit_def renderHelmChartFromURL_def renderHelmChartFromOCI_def Let_def
  by (intro frame_rules)+

lemma leaves_planHelm [frame_rules]: "leaves v (planHelm env ae p spec plan)"
  unfolding planHelm_def Let_def by (intro frame_rules leaves_json)

lemma leaves_plan [frame_rules]:
  "leaves v (planSource env ae p inp plan)" "leaves v (planAppDeployment env ae inp i)" "leaves v (ValidateApp env ae inp)"
  unfolding planSource_def planAppDeployment_def ValidateApp_def Let_def by (intro frame_rules)+

lemma leaves_manifests [frame_rules]:
  "leaves v (applyObject env ae c n l obj)" "leaves v (applyRawManifest env ae c n l raw)"
  unfolding applyObject_def applyRawManifest_def Let_def by (intro frame_rules)+

lemma leaves_image [frame_rules]:
  "leaves v (imageContainer env plan)" "leaves v (applyDeploymentOf env p plan)" "leaves v (applyServiceOf env p plan)"
  "leaves v (applyIngressOf env ae p plan s)" "leaves v (applyImage env ae p plan)" "leaves v (applySource env ae p plan)"
  unfolding imageContainer_def applyDeploymentOf_def applyServiceOf_def applyIngressOf_def applyImage_def applySource_def Let_def
  by (intro frame_rules)+

lemma leaves_records [frame_rules]:
  "leaves v (storeRelease env plan n)" "leaves v (ensureAppCRDForPlan env ae p plan)"
  unfolding storeRelease_def ensureAppCRDForPlan_def
  by (intro frame_rules; simp add: leaves_def split: prod.split)+

lemma leaves_removal [frame_rules]:
  "leaves v (listOfApp env p i k)" "leaves v (deleteKind env p i k)" "leaves v (deleteWorkloads env ae p i)"
  "leaves v (deleteCertificate env p s)" "leaves v (deleteHosts env ae hs)"
  unfolding listOfApp_def deleteKind_def deleteWorkloads_def deleteCertificate_def deleteHosts_def
  by (intro frame_rules)+

lemma leaves_webhook [frame_rules]: "leaves v (redeploy env ae a)" "leaves v (HandleGitWebhook env ae payload raw sig)"
  unfolding redeploy_def HandleGitWebhook_def Let_def by (intro frame_rules)+

lemma leaves_status [frame_rules]:
  "leaves v (lookupCertificateStatus env ae p c)" "leaves v (domainStatus env d row)" "leaves v (domainStatuses env ae p a)"
  "leaves v m \<Longrightarrow> leaves v (orElse x m)"
  unfolding lookupCertificateStatus_def domainStatus_def domainStatuses_def orElse_def Let_def
  by (intro frame_rules)+

lemma leaves_collect [frame_rules]:
  "leaves v (CollectAppStatus env ae p a)" "leaves v (appStatus env ae p a)"
  unfolding CollectAppStatus_def appStatus_def Let_def by (intro frame_rules)+

lemma leaves_views [frame_rules]:
  "leaves v (ListProjectAppsStatus env ae i)" "leaves v (GetAppStatus env ae i j)" "leaves v (GetAppDelivery env i j)"
  "leaves v (CreateConfigMap env i n es)" "leaves v (ListConfigMaps env i)" "leaves v (DeleteConfigMap env i n)"
  "leaves v (CreateSecret env i n t es)" "leaves v (ListSecrets env i)" "leaves v (DeleteSecret env i n)"
  unfolding ListProjectAppsStatus_def GetAppStatus_def GetAppDelivery_def CreateConfigMap_def ListConfigMaps_def
    DeleteConfigMap_def CreateSecret_def ListSecrets_def DeleteSecret_def
  by (intro frame_rules)+

lemma leaves_statusDetails [frame_rules]: "leaves v (statusDetails env ks)"
  by (induction ks) (auto intro!: frame_rules)

lemma leaves_project_views [frame_rules]:
  "leaves v (GetProjectStatus env i)"
  unfolding GetProjectStatus_def by (intro frame_rules)

end

section \<open>Views of the tables of tenants\<close>

text \<open>A view that does not look at the tables of applications and credentials either.\<close>

locale tenancy_frame = side_frame v for v :: "world \<Rightarrow> 'v" +
  assumes v_apps [simp]: "v (w\<lparr> w_Apps := as \<rparr>) = v w"
    and v_gitCreds [simp]: "v (w\<lparr> w_GitCreds := gs \<rparr>) = v w"
    and v_registryCreds [simp]: "v (w\<lparr> w_RegistryCreds := rs \<rparr>) = v w"
begin

lemma leaves_app_rows [frame_rules]:
  "leaves v (SoftDeleteApp env i)" "leaves v (SoftDeleteAppsByProject env i)" "leaves v (SoftDeleteAppsByUser env i)"
  "leaves v (CreateApp env i p n st r wh ref src del)"
  unfolding SoftDeleteApp_def SoftDeleteAppsByProject_def SoftDeleteAppsByUser_def softDeleteApps_def CreateApp_def
  by (intro leaves_call leaves_putS; simp add: leaves_def)+

lemma leaves_deployments [frame_rules]:
  "leaves v (DeployApp env ae inp)" "leaves v (DeleteApp env ae p i)"
  unfolding DeployApp_def DeleteApp_def by (intro frame_rules)+

lemma leaves_credential_rows [frame_rules]:
  "leaves v (Store_CreateGitCredential env row)" "leaves v (Store_CreateRegistryCredential env row)"
  "leaves v (Store_DeleteGitCredential env i)" "leaves v (Store_DeleteRegistryCredential env i)"
  unfolding Store_CreateGitCredential_def Store_CreateRegistryCredential_def Store_DeleteGitCredential_def
    Store_DeleteRegistryCredential_def insertCredential_def removeCredential_def setGitCreds_def setRegistryCreds_def
  by (intro leaves_call; simp add: leaves_def Let_def)+

lemma leaves_credentials [frame_rules]:
  "leaves v (CreateGitCredential env inp)" "leaves v (CreateRegistryCredential env inp)"
  "leaves v (DeleteGitCredential env i)" "leaves v (DeleteRegistryCredential env i)"
  unfolding CreateGitCredential_def CreateRegistryCredential_def DeleteGitCredential_def DeleteRegistryCredential_def
    storeCredential_def resolveCredentialScope_def encryptCredentialPayload_def Let_def
    Store_GetGitCredential_def Store_GetRegistryCredential_def selectCredential_def
  by (intro frame_rules)+

end

end
