(* ===== verification/TenancyInv.thy ===== *)
theory TenancyInv
  imports Frames
begin

text \<open>
  The invariant of the tenancy tables. Whatever calls fail, every handler keeps the keys of the tables
  unique, and every kubeconfig that is stored is sealed: it is a ciphertext under the configured key.
\<close>

section \<open>The invariant\<close>

definition sealed :: "cp_env \<Rightarrow> byte list \<Rightarrow> bool" where
  "sealed env enc \<longleftrightarrow> enc = [] \<or> isOk (DecryptAESGCM (ce_aead env) enc (encKey env))"

definition allSealed :: "cp_env \<Rightarrow> world \<Rightarrow> bool" where
  "allSealed env w \<longleftrightarrow>
    list_all (\<lambda>c. sealed env (c_Kubeconfig c)) (w_Clusters w)
    \<and> list_all (\<lambda>p. sealed env (p_Kubeconfig p)) (w_Projects w)
    \<and> list_all (\<lambda>us. sealed env (us_Kubeconfig us)) (w_Spaces w)
    \<and> list_all (\<lambda>r. sealed env (kr_Kubeconfig r)) (w_Kubeconfigs w)"

definition projectPlace :: "Project \<Rightarrow> string \<times> string" where
  "projectPlace p = (p_ClusterID p, p_Namespace p)"

definition spaceKey :: "UserSpace \<Rightarrow> string \<times> string" where
  "spaceKey us = (us_UserID us, us_ClusterID us)"

definition keysUnique :: "world \<Rightarrow> bool" where
  "keysUnique w \<longleftrightarrow>
    distinct (map u_ID (w_Users w)) \<and> distinct (map u_Email (w_Users w))
    \<and> distinct (map c_ID (w_Clusters w)) \<and> distinct (map c_Name (w_Clusters w))
    \<and> distinct (map p_ID (w_Projects w)) \<and> distinct (map projectPlace (liveProjects w))
    \<and> distinct (map us_ID (w_Spaces w)) \<and> distinct (map spaceKey (w_Spaces w))
    \<and> pairwise (\<lambda>r s. \<not> kubeconfigClash r s) (set (w_Kubeconfigs w)) \<and> distinct (map kr_ID (w_Kubeconfigs w))"

definition tenancyInv :: "cp_env \<Rightarrow> world \<Rightarrow> bool" where
  "tenancyInv env w \<longleftrightarrow> allSealed env w \<and> keysUnique w"

definition noncesOK :: "cp_env \<Rightarrow> bool" where
  "noncesOK env \<longleftrightarrow> aeadOK (ce_aead env) \<and> (\<forall>n nonce. ce_nonce env n = Some nonce \<longrightarrow> length nonce = nonceSize)"

text \<open>The tables the invariant reads.\<close>

definition tenancyTables :: "world \<Rightarrow> User list \<times> Cluster list \<times> Project list \<times> UserSpace list \<times> KubeconfigRecord list" where
  "tenancyTables w = (w_Users w, w_Clusters w, w_Projects w, w_Spaces w, w_Kubeconfigs w)"

lemma tenancyInv_tables: "tenancyTables w' = tenancyTables w \<Longrightarrow> tenancyInv env w' = tenancyInv env w"
  by (simp add: tenancyTables_def tenancyInv_def allSealed_def keysUnique_def liveProjects_def)

lemma tick_tables [simp]: "tenancyTables (tick w) = tenancyTables w"
  by (simp add: tick_def tenancyTables_def)

lemma tenancyInv_stable [simp, intro]: "callStable (tenancyInv env)"
  unfolding callStable_def by (intro allI tenancyInv_tables tick_tables)

section \<open>Handlers that leave the tables alone\<close>

interpretation tenancy: tenancy_frame tenancyTables
  by unfold_locales (simp_all add: tenancyTables_def)

lemma quiet_keeps: "leaves tenancyTables m \<Longrightarrow> keeps (tenancyInv env) m"
  by (erule leaves_keeps) (rule tenancyInv_tables)

named_theorems inv_rules

lemma keeps_basic [inv_rules]: "keeps I (ret x)" "keeps I (fail e)" "keeps I (getS f)"
  by (simp_all add: yields_ret yields_fail yields_getS)

lemma keeps_bindS [inv_rules]: "keeps I m \<Longrightarrow> (\<And>x. keeps I (f x)) \<Longrightarrow> keeps I (bindS m f)"
  by (rule yields_bindS) auto

lemma keeps_tryS [inv_rules]: "keeps I m \<Longrightarrow> (\<And>x. keeps I (f x)) \<Longrightarrow> keeps I (tryS m f)"
  by (rule yields_tryS) auto

lemma keeps_unless [inv_rules]: "keeps I m \<Longrightarrow> keeps I (unless b e m)"
  by (rule yields_unless)

lemma keeps_if [inv_rules]: "keeps I m \<Longrightarrow> keeps I n \<Longrightarrow> keeps I (if b then m else n)"
  by simp

lemma keeps_sum [inv_rules]:
  "(\<And>e. keeps I (f e)) \<Longrightarrow> (\<And>x. keeps I (g x)) \<Longrightarrow> keeps I (case r of Inl e \<Rightarrow> f e | Inr x \<Rightarrow> g x)"
  by (cases r) simp_all

lemma keeps_prod [inv_rules]: "(\<And>a b. keeps I (f a b)) \<Longrightarrow> keeps I (case p of (a, b) \<Rightarrow> f a b)"
  by (cases p) simp_all

lemma keeps_option [inv_rules]:
  "keeps I m \<Longrightarrow> (\<And>x. keeps I (f x)) \<Longrightarrow> keeps I (case r of None \<Rightarrow> m | Some x \<Rightarrow> f x)"
  by (cases r) simp_all

text \<open>What is encrypted can be decrypted.\<close>

lemma encrypt_sealed:
  assumes "noncesOK env" "snd (encrypt env pt w) = Inr enc"
  shows "sealed env enc"
proof -
  have e: "EncryptAESGCM (ce_aead env) (ce_nonce env (w_Calls w)) (bytesOf pt) (encKey env) = Inr enc"
    using assms(2) by (simp add: encrypt_def liftR_def fail_def ret_def split: sum.splits)
  then obtain nonce where n: "ce_nonce env (w_Calls w) = Some nonce"
    by (auto simp: EncryptAESGCM_def split: if_splits option.splits)
  with assms(1) have "length nonce = nonceSize" "aeadOK (ce_aead env)" by (auto simp: noncesOK_def)
  with decrypt_encrypt e n show ?thesis by (simp add: sealed_def)
qed

lemma keeps_encrypted:
  assumes "noncesOK env" "\<And>enc. sealed env enc \<Longrightarrow> keeps (tenancyInv env) (f enc)"
  shows "keeps (tenancyInv env) (bindS (encrypt env pt) f)"
proof (rule yields_bindS)
  have "keeps (tenancyInv env) (encrypt env pt)" by (intro quiet_keeps frame_rules)
  then show "yields (tenancyInv env) (encrypt env pt) (sealed env)"
    using encrypt_sealed [OF assms(1)] by (auto simp: yields_def)
qed (rule assms(2))

section \<open>Statements that change the tables\<close>

lemma keeps_call [inv_rules]: "keeps (tenancyInv env) m \<Longrightarrow> keeps (tenancyInv env) (call env m)"
  by (rule yields_call) simp_all

lemma keeps_put: "(\<And>w. tenancyInv env w \<Longrightarrow> tenancyInv env (f w)) \<Longrightarrow> keeps (tenancyInv env) (call env (putS f))"
  by (intro keeps_call yields_putS)

lemma keeps_insert:
  assumes "\<And>w. tenancyInv env w \<Longrightarrow> \<not> clash w \<Longrightarrow> tenancyInv env (add w)"
  shows "keeps (tenancyInv env) (call env (\<lambda>w. if clash w then (w, Inl e) else (add w, Inr (row w))))"
  by (rule keeps_call) (auto simp: yields_def assms)

lemma distinct_update: "(\<And>x. key (f x) = key x) \<Longrightarrow> map key (map f xs) = map key xs"
  by simp

lemma keeps_CreateUser [inv_rules]: "keeps (tenancyInv env) (CreateUser env i n m)"
  unfolding CreateUser_def Let_def
  by (rule keeps_insert) (auto simp: tenancyInv_def allSealed_def keysUnique_def liveProjects_def list_ex_iff)

lemma keeps_SoftDeleteUser [inv_rules]: "keeps (tenancyInv env) (SoftDeleteUser env i)"
  unfolding SoftDeleteUser_def
  by (rule keeps_put) (simp add: tenancyInv_def allSealed_def keysUnique_def liveProjects_def comp_def if_distrib cong: if_cong)

lemma keeps_CreateUserSpace:
  "sealed env enc \<Longrightarrow> keeps (tenancyInv env) (CreateUserSpace env i u c n enc)"
  unfolding CreateUserSpace_def Let_def
  by (rule keeps_insert)
    (auto simp: tenancyInv_def allSealed_def keysUnique_def liveProjects_def list_ex_iff spaceKey_def)

lemma keeps_UpdateUserSpaceKubeconfig:
  "sealed env enc \<Longrightarrow> keeps (tenancyInv env) (UpdateUserSpaceKubeconfig env i enc)"
  unfolding UpdateUserSpaceKubeconfig_def
  by (rule keeps_put)
    (auto simp: tenancyInv_def allSealed_def keysUnique_def liveProjects_def comp_def spaceKey_def [abs_def] list_all_iff if_distrib cong: if_cong)

lemma keeps_Store_CreateProject:
  assumes "sealed env enc"
  shows "keeps (tenancyInv env) (Store_CreateProject env i u c n ns b q enc)"
proof -
  have "keeps (tenancyInv env) (call env (\<lambda>w. if list_ex (projectClash i c ns) (w_Projects w) then (w, Inl ConstraintViolated)
     else (w\<lparr> w_Projects := w_Projects w @ [row w] \<rparr>, Inr (row w))))"
    if "\<And>w. p_ID (row w) = i \<and> projectPlace (row w) = (c, ns) \<and> sealed env (p_Kubeconfig (row w)) \<and> \<not> p_Deleted (row w)" for row
    using that
    by (intro keeps_insert)
      (auto simp: tenancyInv_def allSealed_def keysUnique_def liveProjects_def list_ex_iff projectClash_def projectPlace_def)
  with assms show ?thesis
    unfolding Store_CreateProject_def Let_def
    by (cases "jsonColumn q") (auto simp: projectPlace_def intro!: keeps_call, simp add: yields_def)
qed

lemma live_update:
  assumes "\<And>p. projectPlace (g p) = projectPlace p \<and> (p_Deleted p \<longrightarrow> p_Deleted (g p))"
    "distinct (map projectPlace (filter (\<lambda>p. \<not> p_Deleted p) ps))"
  shows "distinct (map projectPlace (filter (\<lambda>p. \<not> p_Deleted p) (map g ps)))
    \<and> set (map projectPlace (filter (\<lambda>p. \<not> p_Deleted p) (map g ps))) \<subseteq> set (map projectPlace (filter (\<lambda>p. \<not> p_Deleted p) ps))"
  using assms(2)
proof (induction ps)
  case (Cons p ps)
  have g: "projectPlace (g p) = projectPlace p" "p_Deleted p \<longrightarrow> p_Deleted (g p)" using assms(1) by auto
  show ?case
  proof (cases "p_Deleted p")
    case True
    with Cons g show ?thesis by simp
  next
    case False
    with Cons have "projectPlace p \<notin> set (map projectPlace (filter (\<lambda>p. \<not> p_Deleted p) ps))" by simp
    moreover have ih: "distinct (map projectPlace (filter (\<lambda>p. \<not> p_Deleted p) (map g ps)))"
      "set (map projectPlace (filter (\<lambda>p. \<not> p_Deleted p) (map g ps))) \<subseteq> set (map projectPlace (filter (\<lambda>p. \<not> p_Deleted p) ps))"
      using Cons False by simp_all
    ultimately have "projectPlace p \<notin> set (map projectPlace (filter (\<lambda>p. \<not> p_Deleted p) (map g ps)))" by blast
    with ih False g show ?thesis by auto
  qed
qed simp

definition rowUpdate :: "cp_env \<Rightarrow> (Project \<Rightarrow> Project) \<Rightarrow> bool" where
  "rowUpdate env g \<longleftrightarrow> (\<forall>p. p_ID (g p) = p_ID p \<and> projectPlace (g p) = projectPlace p \<and> (p_Deleted p \<longrightarrow> p_Deleted (g p))
      \<and> (sealed env (p_Kubeconfig p) \<longrightarrow> sealed env (p_Kubeconfig (g p))))"

lemma tenancyInv_projects:
  assumes "rowUpdate env g" "tenancyInv env w"
  shows "tenancyInv env (w\<lparr> w_Projects := map g (w_Projects w) \<rparr>)"
proof -
  have "map p_ID (map g (w_Projects w)) = map p_ID (w_Projects w)"
    using assms(1) by (simp add: rowUpdate_def)
  moreover have "distinct (map projectPlace (filter (\<lambda>p. \<not> p_Deleted p) (map g (w_Projects w))))"
    using live_update [of g "w_Projects w"] assms
    by (simp add: rowUpdate_def tenancyInv_def keysUnique_def liveProjects_def)
  ultimately show ?thesis
    using assms unfolding tenancyInv_def allSealed_def keysUnique_def liveProjects_def rowUpdate_def
    by (simp add: list_all_iff del: map_map)
qed

lemma keeps_updateProject:
  "rowUpdate env f \<Longrightarrow> keeps (tenancyInv env) (updateProject env i f)"
  unfolding updateProject_def
  by (intro keeps_put tenancyInv_projects) (auto simp: rowUpdate_def)

lemma keeps_project_rows [inv_rules]:
  "keeps (tenancyInv env) (UpdateProjectSuspended env i b)" "keeps (tenancyInv env) (UpdateProjectQuotaOverrides env i q)"
  "keeps (tenancyInv env) (SoftDeleteProject env i)" "keeps (tenancyInv env) (SoftDeleteProjectsByUser env i)"
  unfolding UpdateProjectSuspended_def UpdateProjectQuotaOverrides_def SoftDeleteProject_def SoftDeleteProjectsByUser_def
  by (intro keeps_updateProject keeps_option keeps_call keeps_put tenancyInv_projects keeps_basic;
      simp add: rowUpdate_def projectPlace_def)+

lemma keeps_UpdateProjectKubeconfig:
  "sealed env enc \<Longrightarrow> keeps (tenancyInv env) (UpdateProjectKubeconfig env i enc)"
  unfolding UpdateProjectKubeconfig_def
  by (rule keeps_updateProject) (simp add: rowUpdate_def projectPlace_def)

text \<open>The columns of a cluster that the invariant reads.\<close>

definition clusterColumns :: "Cluster \<Rightarrow> string \<times> string \<times> byte list" where
  "clusterColumns c = (c_ID c, c_Name c, c_Kubeconfig c)"

lemma tenancyInv_clusters:
  assumes "map clusterColumns cs = map clusterColumns (w_Clusters w)" "tenancyInv env w"
  shows "tenancyInv env (w\<lparr> w_Clusters := cs \<rparr>)" "tenancyInv env (w\<lparr> w_Statuses := ss, w_Clusters := cs \<rparr>)"
proof -
  have "map (fst \<circ> clusterColumns) cs = map (fst \<circ> clusterColumns) (w_Clusters w)"
    "map (fst \<circ> snd \<circ> clusterColumns) cs = map (fst \<circ> snd \<circ> clusterColumns) (w_Clusters w)"
    "map (snd \<circ> snd \<circ> clusterColumns) cs = map (snd \<circ> snd \<circ> clusterColumns) (w_Clusters w)"
    by (simp_all only: map_map [symmetric] assms(1))
  then have c: "map c_ID cs = map c_ID (w_Clusters w)" "map c_Name cs = map c_Name (w_Clusters w)"
    "map c_Kubeconfig cs = map c_Kubeconfig (w_Clusters w)"
    by (simp_all add: clusterColumns_def comp_def)
  have "list_all (sealed env) (map c_Kubeconfig cs) = list_all (sealed env) (map c_Kubeconfig (w_Clusters w))"
    by (simp only: c)
  then have "list_all (\<lambda>c. sealed env (c_Kubeconfig c)) cs = list_all (\<lambda>c. sealed env (c_Kubeconfig c)) (w_Clusters w)"
    by (simp add: list.pred_map comp_def)
  with c assms(2) show "tenancyInv env (w\<lparr> w_Clusters := cs \<rparr>)" "tenancyInv env (w\<lparr> w_Statuses := ss, w_Clusters := cs \<rparr>)"
    by (simp_all add: tenancyInv_def allSealed_def keysUnique_def liveProjects_def)
qed

lemma keeps_Store_CreateCluster:
  "sealed env enc \<Longrightarrow> keeps (tenancyInv env) (Store_CreateCluster env c enc)"
  unfolding Store_CreateCluster_def Let_def
  by (rule keeps_insert)
    (auto simp: tenancyInv_def allSealed_def keysUnique_def liveProjects_def list_ex_iff metadataColumns_def)

lemma keeps_DeleteCluster [inv_rules]: "keeps (tenancyInv env) (DeleteCluster env i)"
  unfolding DeleteCluster_def
  by (rule keeps_put)
    (auto simp: tenancyInv_def allSealed_def keysUnique_def liveProjects_def list_all_iff distinct_map_filter)

lemma keeps_cluster_rows [inv_rules]:
  "keeps (tenancyInv env) (Store_UpdateClusterMetadata env c)" "keeps (tenancyInv env) (InsertClusterStatus env st)"
proof -
  have "keeps (tenancyInv env) (Store_GetCluster env i)" for i by (intro quiet_keeps frame_rules)
  then show "keeps (tenancyInv env) (Store_UpdateClusterMetadata env c)"
    unfolding Store_UpdateClusterMetadata_def
    by (intro keeps_bindS keeps_call)
      (auto simp: yields_def intro!: tenancyInv_clusters simp: clusterColumns_def metadataColumns_def)
  show "keeps (tenancyInv env) (InsertClusterStatus env st)"
    unfolding InsertClusterStatus_def
    by (intro keeps_call) (auto simp: yields_def clusterColumns_def intro!: tenancyInv_clusters)
qed

lemma clash_symmetric: "kubeconfigClash r s = kubeconfigClash s r"
  by (auto simp: kubeconfigClash_def split: option.splits)

lemma keeps_CreateKubeconfigRecord:
  assumes "sealed env (kr_Kubeconfig rec)"
  shows "keeps (tenancyInv env) (CreateKubeconfigRecord env rec)"
  unfolding CreateKubeconfigRecord_def
proof (rule keeps_insert)
  fix w assume i: "tenancyInv env w" and n: "\<not> list_ex (kubeconfigClash rec) (w_Kubeconfigs w)"
  then have "pairwise (\<lambda>r s. \<not> kubeconfigClash r s) (set (w_Kubeconfigs w @ [rec]))"
    using clash_symmetric [of rec] by (simp add: tenancyInv_def keysUnique_def pairwise_insert list_ex_iff)
  moreover have "kr_ID rec \<notin> set (map kr_ID (w_Kubeconfigs w))"
    using n by (auto simp: list_ex_iff kubeconfigClash_def)
  ultimately show "tenancyInv env (w\<lparr> w_Kubeconfigs := w_Kubeconfigs w @ [rec] \<rparr>)"
    using i assms by (auto simp: tenancyInv_def allSealed_def keysUnique_def liveProjects_def)
qed

lemma pairwise_map:
  "(\<And>r s. R (g r) (g s) = R r s) \<Longrightarrow> pairwise R S \<Longrightarrow> pairwise R (g ` S)"
  unfolding pairwise_def by (metis imageE)

lemma keeps_UpdateKubeconfigRecord:
  assumes "sealed env enc"
  shows "keeps (tenancyInv env) (UpdateKubeconfigRecord env i sn sa enc)"
proof -
  define g where "g r = (if kr_ID r = i then r\<lparr> kr_SecretName := sn, kr_ServiceAccount := sa, kr_Kubeconfig := enc \<rparr> else r)"
    for r :: KubeconfigRecord
  have ids: "kr_ID (g r) = kr_ID r" and place: "kr_ClusterID (g r) = kr_ClusterID r" "kr_Namespace (g r) = kr_Namespace r"
    "kr_UserID (g r) = kr_UserID r" "kr_ProjectID (g r) = kr_ProjectID r" for r by (simp_all add: g_def)
  have clash: "kubeconfigClash (g r) (g s) = kubeconfigClash r s" for r s
    by (simp add: kubeconfigClash_def ids place split: option.split)
  have "tenancyInv env (w\<lparr> w_Kubeconfigs := map g (w_Kubeconfigs w) \<rparr>)" if inv: "tenancyInv env w" for w
  proof -
    have "pairwise (\<lambda>r s. \<not> kubeconfigClash r s) (set (map g (w_Kubeconfigs w)))"
      unfolding set_map using inv
      by (intro pairwise_map) (simp_all add: tenancyInv_def keysUnique_def clash)
    moreover have "map kr_ID (map g (w_Kubeconfigs w)) = map kr_ID (w_Kubeconfigs w)" by (simp add: ids)
    moreover have "list_all (\<lambda>r. sealed env (kr_Kubeconfig r)) (map g (w_Kubeconfigs w))"
      using inv assms by (auto simp: tenancyInv_def allSealed_def list_all_iff g_def)
    ultimately show ?thesis
      using inv by (simp add: tenancyInv_def allSealed_def keysUnique_def liveProjects_def del: map_map set_map)
  qed
  then show ?thesis unfolding UpdateKubeconfigRecord_def g_def by (rule keeps_put)
qed

lemma keeps_DeleteKubeconfigRecord [inv_rules]: "keeps (tenancyInv env) (DeleteKubeconfigRecord env i)"
  unfolding DeleteKubeconfigRecord_def
  by (rule keeps_put)
    (auto simp: tenancyInv_def allSealed_def keysUnique_def liveProjects_def list_all_iff distinct_map_filter
      intro: pairwise_subset)

section \<open>Handlers\<close>

lemmas quiet_leaves [inv_rules] =
  tenancy.leaves_supplies [THEN quiet_keeps] tenancy.leaves_decrypt [THEN quiet_keeps]
  tenancy.leaves_kube_reads [THEN quiet_keeps] tenancy.leaves_kube_writes [THEN quiet_keeps]
  tenancy.leaves_user_reads [THEN quiet_keeps] tenancy.leaves_cluster_reads [THEN quiet_keeps]
  tenancy.leaves_kubeconfig_reads [THEN quiet_keeps] tenancy.leaves_app_reads [THEN quiet_keeps]
  tenancy.leaves_appendEvent [THEN quiet_keeps] tenancy.leaves_maintenance [THEN quiet_keeps]
  tenancy.leaves_clients(2) [THEN quiet_keeps] tenancy.leaves_equip [THEN quiet_keeps]
  tenancy.leaves_operator [THEN quiet_keeps] tenancy.leaves_drop [THEN quiet_keeps]
  tenancy.leaves_app_rows [THEN quiet_keeps] leaves_return [THEN quiet_keeps]

lemma keeps_each [inv_rules]: "(\<And>x. keeps I (f x)) \<Longrightarrow> keeps I (forEach f xs)"
  by (rule keeps_forEach)

lemma keeps_saveKubeconfig:
  assumes "keeps (tenancyInv env) lookup" "sealed env enc" "\<And>i. kr_Kubeconfig (fresh i) = enc"
    "\<And>e. keeps (tenancyInv env) (otherwise e)"
  shows "keeps (tenancyInv env) (saveKubeconfig env lookup fresh sn sa enc otherwise)"
  unfolding saveKubeconfig_def using assms
  by (intro inv_rules keeps_UpdateKubeconfigRecord keeps_CreateKubeconfigRecord) simp_all

lemma fresh_record [simp]: "kr_Kubeconfig (kubeconfigRecord c n u p sa sn enc i) = enc"
  by (simp add: kubeconfigRecord_def)

lemma keeps_storeUserSpace: "sealed env enc \<Longrightarrow> keeps (tenancyInv env) (storeUserSpace env u c n enc)"
  unfolding storeUserSpace_def
  by (intro inv_rules keeps_CreateUserSpace keeps_UpdateUserSpaceKubeconfig)

lemmas sealed_rules = keeps_saveKubeconfig keeps_storeUserSpace keeps_UpdateUserSpaceKubeconfig
  keeps_UpdateProjectKubeconfig keeps_Store_CreateCluster keeps_Store_CreateProject

lemma keeps_provisionUserSpace:
  "noncesOK env \<Longrightarrow> keeps (tenancyInv env) (provisionUserSpace env u c)"
  unfolding provisionUserSpace_def Let_def
  by (assumption | rule keeps_encrypted sealed_rules fresh_record | rule inv_rules)+

lemma keeps_renew:
  "noncesOK env \<Longrightarrow> keeps (tenancyInv env) (RenewUserKubeconfig env u c)"
  "noncesOK env \<Longrightarrow> keeps (tenancyInv env) (RenewProjectKubeconfig env i)"
  unfolding RenewUserKubeconfig_def RenewProjectKubeconfig_def
  by (assumption | rule keeps_encrypted sealed_rules fresh_record | rule inv_rules)+

lemma keeps_resolveUser [inv_rules]: "keeps (tenancyInv env) (resolveUser env inp)"
  unfolding resolveUser_def by (rule inv_rules)+

lemma keeps_BootstrapUser: "noncesOK env \<Longrightarrow> keeps (tenancyInv env) (BootstrapUser env inp)"
  unfolding BootstrapUser_def Let_def
  by (assumption | rule keeps_provisionUserSpace | rule inv_rules)+

lemma keeps_DeleteUser [inv_rules]: "keeps (tenancyInv env) (DeleteUser env i)"
  unfolding DeleteUser_def by (rule inv_rules)+

lemma keeps_projectOwner [inv_rules]: "keeps (tenancyInv env) (projectOwner env inp)"
  unfolding projectOwner_def Let_def by (rule inv_rules)+

lemma keeps_projectNamespace: "noncesOK env \<Longrightarrow> keeps (tenancyInv env) (projectNamespace env u c n)"
  unfolding projectNamespace_def by (assumption | rule keeps_provisionUserSpace | rule inv_rules)+

text \<open>A new project gets a kubeconfig of its own, sealed, or none in a shared namespace.\<close>

lemma yields_equipOwnProject:
  assumes "noncesOK env"
  shows "yields (tenancyInv env) (equipOwnProject env p u c n ov) (\<lambda>(kc, enc). sealed env enc)"
proof -
  have enc: "yields (tenancyInv env) (encrypt env kc) (sealed env)" for kc
    using encrypt_sealed [OF assms] tenancy.leaves_encrypt [THEN quiet_keeps] by (auto simp: yields_def)
  show ?thesis
    unfolding equipOwnProject_def
    by (rule yields_bindS [OF enc] | rule yields_ret | rule yields_bindS [where P = "\<lambda>_. True"] keeps_saveKubeconfig fresh_record
        | assumption | rule inv_rules | simp only: case_prod_conv split_paired_all)+
qed

lemma yields_equip:
  assumes "noncesOK env"
  shows "yields (tenancyInv env)
    (if sharedNamespaces env then bindS (equipSharedProject env c n nm) (\<lambda>_. ret ([], []))
     else equipOwnProject env p u c n ov) (\<lambda>(kc, enc). sealed env enc)"
proof (rule yields_if)
  show "yields (tenancyInv env) (bindS (equipSharedProject env c n nm) (\<lambda>_. ret ([], []))) (\<lambda>(kc, enc). sealed env enc)"
    by (rule yields_bindS [where P = "\<lambda>_. True"]) (rule inv_rules, rule yields_ret, simp add: sealed_def)
qed (rule yields_equipOwnProject [OF assms])

lemma keeps_equipped:
  "noncesOK env \<Longrightarrow> (\<And>kc enc. sealed env enc \<Longrightarrow> keeps (tenancyInv env) (f kc enc))
    \<Longrightarrow> keeps (tenancyInv env) (bindS (if sharedNamespaces env then bindS (equipSharedProject env c n nm) (\<lambda>_. ret ([], []))
     else equipOwnProject env p u c n ov) (\<lambda>(kc, enc). f kc enc))"
  by (rule yields_bindS [OF yields_equip]) auto

lemma keeps_CreateProject: "noncesOK env \<Longrightarrow> keeps (tenancyInv env) (CreateProject env inp)"
  unfolding CreateProject_def Let_def
  by (assumption | rule keeps_projectNamespace keeps_equipped keeps_Store_CreateProject | rule inv_rules)+

lemma keeps_clusters:
  "noncesOK env \<Longrightarrow> keeps (tenancyInv env) (RegisterCluster env n kc m)"
  "keeps (tenancyInv env) (UpdateClusterMetadata env i m)"
  unfolding RegisterCluster_def UpdateClusterMetadata_def Let_def
  by (assumption | rule keeps_encrypted sealed_rules | rule inv_rules)+

lemma keeps_health [inv_rules]: "keeps (tenancyInv env) (CheckCluster env texts i)"
  unfolding CheckCluster_def persistClusterStatus_def Let_def by (rule inv_rules)+

lemma keeps_checkEach [inv_rules]: "keeps (tenancyInv env) (checkEach env texts cs)"
proof (induction cs)
  case (Cons c cs)
  show ?case unfolding checkEach.simps by (rule Cons.IH | rule inv_rules)+
qed (simp add: yields_ret)

lemma keeps_project_handlers:
  "keeps (tenancyInv env) (SetProjectSuspended env i b)" "keeps (tenancyInv env) (UpdateProjectQuota env i ov)"
  "keeps (tenancyInv env) (DeleteProject env i)" "keeps (tenancyInv env) (TickWithSummary env texts)"
  unfolding SetProjectSuspended_def UpdateProjectQuota_def DeleteProject_def TickWithSummary_def
  by (rule inv_rules)+

lemma keeps_renewedRecord:
  "keeps I lookup \<Longrightarrow> keeps I renew \<Longrightarrow> keeps I (renewedRecord lookup renew)"
  unfolding renewedRecord_def by (assumption | rule inv_rules)+

lemma keeps_EnsureKubeconfigBinding:
  "noncesOK env \<Longrightarrow> keeps (tenancyInv env) (EnsureKubeconfigBinding env inp)"
  unfolding EnsureKubeconfigBinding_def ensureProjectKubeconfig_def ensureUserKubeconfig_def ensureOutput_def Let_def
  by (assumption | rule keeps_renewedRecord keeps_renew keeps_provisionUserSpace | rule inv_rules)+

lemma sealed_empty [simp]: "sealed env []"
  by (simp add: sealed_def)

lemma keeps_bindings:
  "noncesOK env \<Longrightarrow> keeps (tenancyInv env) (RotateKubeconfigByID env i)"
  "keeps (tenancyInv env) (DeleteKubeconfigBinding env i)"
  unfolding RotateKubeconfigByID_def DeleteKubeconfigBinding_def
  by (assumption | rule keeps_renew keeps_UpdateProjectKubeconfig keeps_UpdateUserSpaceKubeconfig sealed_empty | rule inv_rules)+

end
