(* ===== verification/TenancyProps.thy ===== *)
theory TenancyProps
  imports TenancyInv
begin

text \<open>
  The start-up loop over the pages of projects ends, with the number of calls it makes.
\<close>

section \<open>The start-up loop ends\<close>

text \<open>The world without its counter of calls.\<close>

definition contents :: "world \<Rightarrow> world" where
  "contents w = w\<lparr> w_Calls := 0 \<rparr>"

interpretation all_tables: frame contents
  by unfold_locales (simp add: contents_def)

lemma contents_live: "contents w' = contents w \<Longrightarrow> liveProjects w' = liveProjects w"
  by (drule arg_cong [where f = w_Projects]) (simp add: contents_def liveProjects_def)

text \<open>
  A reading handler, the value it reads and the number of calls it makes; it fails only when one of its
  calls does.
\<close>

definition readsIn :: "cp_env \<Rightarrow> (world \<Rightarrow> nat) \<Rightarrow> (world \<Rightarrow> 'a) \<Rightarrow> 'a handler \<Rightarrow> bool" where
  "readsIn env n f m \<longleftrightarrow> (\<forall>w. contents (fst (m w)) = contents w \<and> (case snd (m w) of
     Inl e \<Rightarrow> e = Unavailable \<and> (\<exists>k. ce_fails env k)
   | Inr x \<Rightarrow> x = f (contents w) \<and> w_Calls (fst (m w)) = w_Calls w + n (contents w)))"

lemma contents_tick [simp]: "contents (tick w) = contents w"
  by (simp add: contents_def tick_def)

lemma reads_call:
  assumes "\<And>w. m w = (w, Inr (f (contents w)))"
  shows "readsIn env (\<lambda>_. 1) f (call env m)"
  by (auto simp: readsIn_def call_def assms) (simp add: tick_def)

lemma reads_ret: "readsIn env (\<lambda>_. 0) (\<lambda>_. x) (ret x)"
  by (simp add: readsIn_def ret_def)

lemma reads_bind:
  assumes "readsIn env n f m" "\<And>x. readsIn env (k x) (h x) (g x)"
  shows "readsIn env (\<lambda>w. n w + k (f w) w) (\<lambda>w. h (f w) w) (bindS m g)"
  unfolding readsIn_def
proof
  fix w
  obtain w1 r where m: "m w = (w1, r)" by fastforce
  have 1: "contents w1 = contents w \<and> (case r of Inl e \<Rightarrow> e = Unavailable \<and> (\<exists>k. ce_fails env k)
      | Inr x \<Rightarrow> x = f (contents w) \<and> w_Calls w1 = w_Calls w + n (contents w))"
    using assms(1) m unfolding readsIn_def by (metis fst_conv snd_conv)
  have 2: "contents (fst (g x w1)) = contents w1 \<and> (case snd (g x w1) of Inl e \<Rightarrow> e = Unavailable \<and> (\<exists>k. ce_fails env k)
      | Inr y \<Rightarrow> y = h x (contents w1) \<and> w_Calls (fst (g x w1)) = w_Calls w1 + k x (contents w1))" for x
    using assms(2) by (simp add: readsIn_def)
  show "contents (fst (bindS m g w)) = contents w \<and> (case snd (bindS m g w) of
     Inl e \<Rightarrow> e = Unavailable \<and> (\<exists>k. ce_fails env k)
   | Inr x \<Rightarrow> x = h (f (contents w)) (contents w)
       \<and> w_Calls (fst (bindS m g w)) = w_Calls w + (n (contents w) + k (f (contents w)) (contents w)))"
  proof (cases r)
    case (Inl e)
    with 1 m show ?thesis by (simp add: bindS_def)
  next
    case (Inr x)
    with 1 2 [of x] m show ?thesis by (simp add: bindS_def split: sum.splits)
  qed
qed

lemma reads_each:
  assumes "\<And>x. readsIn env (\<lambda>_. k) (\<lambda>_. ()) (g x)"
  shows "readsIn env (\<lambda>_. k * length xs) (\<lambda>_. ()) (forEach g xs)"
proof (induction xs)
  case (Cons x xs)
  show ?case using reads_bind [OF assms Cons.IH] by simp
qed (simp add: reads_ret)

lemma reads_dirs: "readsIn env (\<lambda>_. 2) (\<lambda>_. ()) (ensureProjectDirs env p)"
proof -
  let ?f = "\<lambda>w. sort_key (\<lambda>a. - a_UpdatedAt a) (filter (\<lambda>a. a_ProjectID a = p_ID p) (liveApps w))"
  have "readsIn env (\<lambda>_. 1) ?f (ListAppsByProject env (p_ID p))"
    unfolding ListAppsByProject_def by (rule reads_call) (simp add: getS_def contents_def liveApps_def)
  from reads_bind [OF this reads_call, of "\<lambda>_. ret ()" "\<lambda>_ _. ()"] show ?thesis
    unfolding ensureProjectDirs_def by (simp add: ret_def numeral_2_eq_2)
qed

definition logRows :: "nat \<Rightarrow> world \<Rightarrow> Project list" where
  "logRows offset w = take 100 (drop offset (newestFirst (liveProjects w)))"

lemma reads_page: "readsIn env (\<lambda>w. 1 + 2 * length (logRows offset w)) (logRows offset) (logPage env offset)"
proof -
  have "readsIn env (\<lambda>_. 1) (logRows offset) (ListProjects env 100 (int offset))"
    unfolding ListProjects_def
    by (rule reads_call)
      (simp add: getS_def contents_def liveProjects_def logRows_def pageRows_def pageSizeOf_def pageStart_def)
  from reads_bind [OF this reads_bind [OF reads_each [OF reads_dirs] reads_ret]] show ?thesis
    unfolding logPage_def by simp
qed

lemma loop_ends:
  assumes "offset + m = length (liveProjects w)"
  shows "\<exists>w' r. ensureLogsLoop env offset w = Some (w', r) \<and> contents w' = contents w \<and> (case r of
      Inl e \<Rightarrow> e = Unavailable \<and> (\<exists>k. ce_fails env k)
    | Inr _ \<Rightarrow> w_Calls w' = w_Calls w + 1 + m div 100 + 2 * m)"
  using assms
proof (induction m arbitrary: offset w rule: less_induct)
  case (less m)
  obtain w1 r where page: "logPage env offset w = (w1, r)" by fastforce
  have 1: "contents w1 = contents w \<and> (case r of Inl e \<Rightarrow> e = Unavailable \<and> (\<exists>k. ce_fails env k)
      | Inr ps \<Rightarrow> ps = logRows offset (contents w) \<and> w_Calls w1 = w_Calls w + (1 + 2 * length (logRows offset (contents w))))"
    using reads_page [of env offset] page unfolding readsIn_def by (metis fst_conv snd_conv)
  have len: "length (logRows offset (contents w)) = min 100 m"
    using less.prems by (simp add: logRows_def newestFirst_def contents_def liveProjects_def)
  show ?case
  proof (cases r)
    case (Inl e)
    with page 1 show ?thesis by (subst ensureLogsLoop.simps) simp
  next
    case (Inr ps)
    then have ps: "length ps = min 100 m" "w_Calls w1 = w_Calls w + (1 + 2 * min 100 m)" using 1 len by simp_all
    show ?thesis
    proof (cases "m < 100")
      case True
      with page Inr ps 1 show ?thesis by (subst ensureLogsLoop.simps) simp
    next
      case False
      have "liveProjects w1 = liveProjects w" using 1 contents_live by blast
      then have "offset + 100 + (m - 100) = length (liveProjects w1)" using less.prems False by simp
      from less.IH [OF _ this] False obtain w2 r2 where 2: "ensureLogsLoop env (offset + 100) w1 = Some (w2, r2)"
        "contents w2 = contents w1" "case r2 of Inl e \<Rightarrow> e = Unavailable \<and> (\<exists>k. ce_fails env k)
          | Inr _ \<Rightarrow> w_Calls w2 = w_Calls w1 + 1 + (m - 100) div 100 + 2 * (m - 100)"
        by auto
      have "m div 100 = Suc ((m - 100) div 100)" using False by (simp add: le_div_geq)
      with 2 False ps have calls: "case r2 of Inl e \<Rightarrow> e = Unavailable \<and> (\<exists>k. ce_fails env k)
          | Inr _ \<Rightarrow> w_Calls w2 = w_Calls w + 1 + m div 100 + 2 * m"
        by (cases r2) auto
      have "ensureLogsLoop env offset w = Some (w2, r2)"
        using page Inr ps False 2(1) by (subst ensureLogsLoop.simps) simp
      with calls 1 2(2) show ?thesis by auto
    qed
  qed
qed

text \<open>
  (C39) Preparing the log files at start always ends, although the loop has no bound of its own: it
  returns, it changes nothing in the database or the clusters, and when it succeeds it has read every
  live project exactly once. With \<open>n\<close> live projects that is one call for the base directory, one page of
  a hundred more than there are full pages, and two calls for each project. It fails only when one of
  these calls does. Without a file manager for logs it makes no call.
\<close>

theorem log_preparation_ends:
  "\<exists>w' r. EnsureProjectLogs env files w = Some (w', r) \<and> contents w' = contents w \<and> (case r of
      Inl e \<Rightarrow> e = Unavailable \<and> (\<exists>k. ce_fails env k)
    | Inr _ \<Rightarrow> w_Calls w' =
        (if files then w_Calls w + 2 + length (liveProjects w) div 100 + 2 * length (liveProjects w) else w_Calls w))"
proof (cases "ce_fails env (w_Calls w)")
  case True
  then show ?thesis by (auto simp: EnsureProjectLogs_def call_def)
next
  case False
  then have "call env (ret ()) w = (tick w, Inr ())" by (simp add: call_def ret_def)
  moreover have "liveProjects (tick w) = liveProjects w" by (simp add: tick_def liveProjects_def)
  ultimately show ?thesis
    using loop_ends [of 0 "length (liveProjects w)" "tick w" env]
    by (auto simp: EnsureProjectLogs_def tick_def split: sum.splits)
qed

end
