(* ===== verification/ProjectTable.thy ===== *)
theory ProjectTable
  imports StoreOps
begin

text \<open>
  The table of projects as what it promises to the service: a finite map from identifiers to live projects
  and a set of identifiers that are taken. The statements on projects of \<open>internal/store/projects.go\<close>
  implement the operations of the map, with rows that are marked as deleted and constraints that are
  checked over all rows.
\<close>

section \<open>The specification\<close>

record project_map =
  pm_live :: "string \<Rightarrow> Project option"
  pm_taken :: "string set"

datatype project_op =
    PCreate string string string string string bool "string option" "byte list"
  | PSuspend string bool
  | PQuota string "string option"
  | PKubeconfig string "byte list"
  | PDelete string
  | PDeleteByUser string
  | PGet string

definition onLive :: "string \<Rightarrow> (Project \<Rightarrow> Project) \<Rightarrow> project_map \<Rightarrow> project_map" where
  "onLive ident f m = m\<lparr> pm_live := (pm_live m)(ident := map_option f (pm_live m ident)) \<rparr>"

definition occupied :: "project_map \<Rightarrow> string \<Rightarrow> string \<Rightarrow> bool" where
  "occupied m clusterID namespace \<longleftrightarrow>
    (\<exists>k p. pm_live m k = Some p \<and> p_ClusterID p = clusterID \<and> p_Namespace p = namespace)"

definition newProject ::
  "int \<Rightarrow> string \<Rightarrow> string \<Rightarrow> string \<Rightarrow> string \<Rightarrow> string \<Rightarrow> bool \<Rightarrow> json option \<Rightarrow> byte list \<Rightarrow> Project" where
  "newProject at ident userID clusterID name namespace suspended col enc =
    \<lparr> p_ID = ident, p_UserID = userID, p_ClusterID = clusterID, p_Name = name, p_Namespace = namespace,
      p_Suspended = suspended, p_CreatedAt = at, p_Quota = col, p_Kubeconfig = enc, p_Deleted = False \<rparr>"

fun specStep :: "int \<Rightarrow> project_op \<Rightarrow> project_map \<Rightarrow> project_map \<times> (cp_error + Project option)" where
  "specStep at (PCreate ident userID clusterID name namespace suspended quota enc) m =
    (case jsonColumn quota of
       None \<Rightarrow> (m, Inl BadDocument)
     | Some col \<Rightarrow>
         if ident \<in> pm_taken m \<or> occupied m clusterID namespace then (m, Inl ConstraintViolated)
         else let p = newProject at ident userID clusterID name namespace suspended col enc
              in (\<lparr> pm_live = (pm_live m)(ident \<mapsto> p), pm_taken = insert ident (pm_taken m) \<rparr>, Inr (Some p)))"
| "specStep at (PSuspend ident b) m = (onLive ident (\<lambda>p. p\<lparr> p_Suspended := b \<rparr>) m, Inr None)"
| "specStep at (PQuota ident quota) m =
    (case jsonColumn quota of
       None \<Rightarrow> (m, Inl BadDocument)
     | Some col \<Rightarrow> (onLive ident (\<lambda>p. p\<lparr> p_Quota := col \<rparr>) m, Inr None))"
| "specStep at (PKubeconfig ident enc) m = (onLive ident (\<lambda>p. p\<lparr> p_Kubeconfig := enc \<rparr>) m, Inr None)"
| "specStep at (PDelete ident) m = (m\<lparr> pm_live := (pm_live m)(ident := None) \<rparr>, Inr None)"
| "specStep at (PDeleteByUser userID) m =
    (m\<lparr> pm_live := (\<lambda>k. case pm_live m k of Some p \<Rightarrow> if p_UserID p = userID then None else Some p | None \<Rightarrow> None) \<rparr>, Inr None)"
| "specStep at (PGet ident) m = (m, case pm_live m ident of None \<Rightarrow> Inl NoRows | Some p \<Rightarrow> Inr (Some p))"

text \<open>A run of the map; an operation without a time did not reach the table.\<close>

fun specRun :: "(project_op \<times> int option) list \<Rightarrow> project_map \<Rightarrow> project_map \<times> (cp_error + Project option) list" where
  "specRun [] m = (m, [])"
| "specRun ((op, None) # rest) m = (case specRun rest m of (m', rs) \<Rightarrow> (m', Inl Unavailable # rs))"
| "specRun ((op, Some at) # rest) m =
    (case specStep at op m of (m1, r) \<Rightarrow> case specRun rest m1 of (m', rs) \<Rightarrow> (m', r # rs))"

section \<open>The interface\<close>

fun runOps :: "(project_op \<Rightarrow> 's \<Rightarrow> 's \<times> 'r) \<Rightarrow> project_op list \<Rightarrow> 's \<Rightarrow> 's \<times> 'r list" where
  "runOps step [] s = (s, [])"
| "runOps step (op # ops) s = (case step op s of (s1, r) \<Rightarrow> case runOps step ops s1 of (s', rs) \<Rightarrow> (s', r # rs))"

locale project_table =
  fixes view :: "'s \<Rightarrow> project_map"
    and ok :: "'s \<Rightarrow> bool"
    and step :: "project_op \<Rightarrow> 's \<Rightarrow> 's \<times> (cp_error + Project option)"
    and reaches :: "'s \<Rightarrow> bool"
  assumes step_ok: "ok s \<Longrightarrow> ok (fst (step op s))"
    and step_unreached: "ok s \<Longrightarrow> \<not> reaches s \<Longrightarrow> view (fst (step op s)) = view s \<and> snd (step op s) = Inl Unavailable"
    and step_refines: "ok s \<Longrightarrow> reaches s \<Longrightarrow> \<exists>at. (view (fst (step op s)), snd (step op s)) = specStep at op (view s)"
begin

lemma run_refines:
  assumes "ok s"
  shows "\<exists>ats. length ats = length ops
    \<and> (view (fst (runOps step ops s)), snd (runOps step ops s)) = specRun (zip ops ats) (view s)
    \<and> ((\<forall>s. reaches s) \<longrightarrow> None \<notin> set ats)"
  using assms
proof (induction ops arbitrary: s)
  case (Cons op ops)
  obtain s1 r where s1: "step op s = (s1, r)" by fastforce
  with step_ok [OF Cons.prems, of op] have "ok s1" by simp
  from Cons.IH [OF this] obtain ats where ats: "length ats = length ops"
    "(view (fst (runOps step ops s1)), snd (runOps step ops s1)) = specRun (zip ops ats) (view s1)"
    "(\<forall>s. reaches s) \<longrightarrow> None \<notin> set ats" by blast
  show ?case
  proof (cases "reaches s")
    case True
    from step_refines [OF Cons.prems True, of op] s1 obtain at where "(view s1, r) = specStep at op (view s)" by auto
    with ats s1 show ?thesis by (intro exI [of _ "Some at # ats"]) (auto split: prod.splits)
  next
    case False
    from step_unreached [OF Cons.prems False, of op] s1 have "view s1 = view s" "r = Inl Unavailable" by simp_all
    with ats s1 False show ?thesis by (intro exI [of _ "None # ats"]) (auto split: prod.splits)
  qed
qed simp

end

section \<open>The table\<close>

text \<open>The database after its migrations, before the first request.\<close>

definition freshWorld :: world where
  "freshWorld = \<lparr> w_Users = [], w_Clusters = [], w_Statuses = [], w_Projects = [], w_Spaces = [], w_Kubeconfigs = [],
    w_Maintenance = None, w_Apps = [], w_Domains = [], w_GitCreds = [], w_RegistryCreds = [], w_Releases = [],
    w_Crds = [], w_Events = \<lparr> es_Rows = [], es_Count = 0, es_Log = [] \<rparr>, w_Dns = [], w_Waiting = [], w_Kube = [],
    w_Clients = [], w_Calls = 0 \<rparr>"

definition findLive :: "Project list \<Rightarrow> string \<Rightarrow> Project option" where
  "findLive ps ident = List.find (\<lambda>p. p_ID p = ident \<and> \<not> p_Deleted p) ps"

definition absProjects :: "world \<Rightarrow> project_map" where
  "absProjects w = \<lparr> pm_live = findLive (w_Projects w), pm_taken = p_ID ` set (w_Projects w) \<rparr>"

definition asUnit :: "unit handler \<Rightarrow> Project option handler" where
  "asUnit m = bindS m (\<lambda>_. ret None)"

definition asRow :: "Project handler \<Rightarrow> Project option handler" where
  "asRow m = bindS m (\<lambda>p. ret (Some p))"

fun storeStep :: "cp_env \<Rightarrow> project_op \<Rightarrow> Project option handler" where
  "storeStep env (PCreate ident userID clusterID name namespace suspended quota enc) =
    asRow (Store_CreateProject env ident userID clusterID name namespace suspended quota enc)"
| "storeStep env (PSuspend ident b) = asUnit (UpdateProjectSuspended env ident b)"
| "storeStep env (PQuota ident quota) = asUnit (UpdateProjectQuotaOverrides env ident quota)"
| "storeStep env (PKubeconfig ident enc) = asUnit (UpdateProjectKubeconfig env ident enc)"
| "storeStep env (PDelete ident) = asUnit (SoftDeleteProject env ident)"
| "storeStep env (PDeleteByUser userID) = asUnit (SoftDeleteProjectsByUser env userID)"
| "storeStep env (PGet ident) = asRow (GetProject env ident)"

definition idsUnique :: "world \<Rightarrow> bool" where
  "idsUnique w \<longleftrightarrow> distinct (map p_ID (w_Projects w))"

definition reached :: "cp_env \<Rightarrow> world \<Rightarrow> bool" where
  "reached env w \<longleftrightarrow> \<not> ce_fails env (w_Calls w)"

lemma findLive_update:
  assumes "\<And>p. p_ID (f p) = p_ID p \<and> p_Deleted (f p) = p_Deleted p"
  shows "findLive (map (\<lambda>p. if p_ID p = ident then f p else p) ps) = (findLive ps)(ident := map_option f (findLive ps ident))"
proof
  fix k
  show "findLive (map (\<lambda>p. if p_ID p = ident then f p else p) ps) k
      = ((findLive ps)(ident := map_option f (findLive ps ident))) k"
    using assms by (induction ps) (auto simp: findLive_def)
qed

lemma findLive_delete:
  "findLive (map (\<lambda>p. if p_ID p = ident then p\<lparr> p_Deleted := True \<rparr> else p) ps) = (findLive ps)(ident := None)"
proof
  fix k
  show "findLive (map (\<lambda>p. if p_ID p = ident then p\<lparr> p_Deleted := True \<rparr> else p) ps) k = ((findLive ps)(ident := None)) k"
    by (induction ps) (auto simp: findLive_def)
qed

lemma findLive_absent: "k \<notin> p_ID ` set ps \<Longrightarrow> findLive ps k = None"
  by (auto simp: findLive_def find_None_iff)

lemma findLive_deleteByUser:
  assumes "distinct (map p_ID ps)"
  shows "findLive (map (\<lambda>p. if p_UserID p = u then p\<lparr> p_Deleted := True \<rparr> else p) ps) k
    = (case findLive ps k of Some p \<Rightarrow> if p_UserID p = u then None else Some p | None \<Rightarrow> None)"
  using assms
proof (induction ps)
  case (Cons p ps)
  then show ?case using findLive_absent [of k ps] by (auto simp: findLive_def image_iff split: option.splits)
qed (simp add: findLive_def)

lemma findLive_member:
  assumes "distinct (map p_ID ps)" "p \<in> set ps" "\<not> p_Deleted p"
  shows "findLive ps (p_ID p) = Some p"
  using assms by (induction ps) (auto simp: findLive_def image_iff)

lemma findLive_Some: "findLive ps k = Some p \<Longrightarrow> p \<in> set ps \<and> p_ID p = k \<and> \<not> p_Deleted p"
  by (auto simp: findLive_def find_Some_iff)

lemma clash_in_map:
  assumes "idsUnique w"
  shows "list_ex (projectClash ident clusterID namespace) (w_Projects w)
    \<longleftrightarrow> ident \<in> pm_taken (absProjects w) \<or> occupied (absProjects w) clusterID namespace"
proof -
  have "occupied (absProjects w) clusterID namespace
    \<longleftrightarrow> (\<exists>p \<in> set (w_Projects w). \<not> p_Deleted p \<and> p_ClusterID p = clusterID \<and> p_Namespace p = namespace)"
    using assms findLive_member [of "w_Projects w"] findLive_Some [of "w_Projects w"]
    unfolding occupied_def absProjects_def idsUnique_def by (simp, metis)
  moreover have "ident \<in> pm_taken (absProjects w) \<longleftrightarrow> (\<exists>p \<in> set (w_Projects w). p_ID p = ident)"
    by (auto simp: absProjects_def)
  ultimately show ?thesis by (auto simp: list_ex_iff projectClash_def)
qed

lemma first_live: "List.find (\<lambda>p. p_ID p = ident \<and> \<not> p_Deleted p) ps
    = (case filter (\<lambda>p. p_ID p = ident) (filter (\<lambda>p. \<not> p_Deleted p) ps) of [] \<Rightarrow> None | p # _ \<Rightarrow> Some p)"
  by (induction ps) auto

lemmas handler_defs = bindS_def getS_def putS_def ret_def fail_def firstRow_def

lemma ticked [simp]: "w_Projects (tick w) = w_Projects w" "absProjects (tick w) = absProjects w" "idsUnique (tick w) = idsUnique w"
  by (simp_all add: tick_def absProjects_def idsUnique_def)

lemma mapped_rows:
  assumes "\<And>p. p_ID (g p) = p_ID p"
  shows "idsUnique (w\<lparr> w_Projects := map g ps \<rparr>) = distinct (map p_ID ps)"
    and "absProjects (w\<lparr> w_Projects := map g ps \<rparr>) = \<lparr> pm_live = findLive (map g ps), pm_taken = p_ID ` set ps \<rparr>"
  using assms by (simp_all add: idsUnique_def absProjects_def image_image comp_def)

lemma unreached_step:
  "ce_fails env (w_Calls w) \<Longrightarrow> storeStep env op w = (tick w, Inl Unavailable)"
  by (cases op) (auto simp: asUnit_def asRow_def bindS_def call_def updateProject_def Store_CreateProject_def
      UpdateProjectSuspended_def UpdateProjectQuotaOverrides_def UpdateProjectKubeconfig_def SoftDeleteProject_def
      SoftDeleteProjectsByUser_def GetProject_def split: option.split)

lemma update_step:
  assumes "\<And>p. p_ID (f p) = p_ID p \<and> p_Deleted (f p) = p_Deleted p" "idsUnique w" "\<not> ce_fails env (w_Calls w)"
    "asUnit (updateProject env ident f) w = (w', r)"
  shows "idsUnique w' \<and> (absProjects w', r) = (onLive ident f (absProjects w), Inr None)"
proof -
  have "p_ID (if p_ID p = ident then f p else p) = p_ID p" for p using assms(1) by simp
  note rows = mapped_rows [OF this]
  show ?thesis
    using assms(2-) findLive_update [OF assms(1)]
    by (auto simp: asUnit_def updateProject_def call_def handler_defs onLive_def rows)
      (simp_all add: idsUnique_def absProjects_def)
qed

lemma delete_step:
  assumes "idsUnique w" "\<not> ce_fails env (w_Calls w)" "storeStep env (PDelete ident) w = (w', r)"
  shows "idsUnique w' \<and> (absProjects w', r) = specStep at (PDelete ident) (absProjects w)"
proof -
  have "p_ID (if p_ID p = ident then p\<lparr> p_Deleted := True \<rparr> else p) = p_ID p" for p by simp
  note rows = mapped_rows [OF this]
  show ?thesis
    using assms by (auto simp: asUnit_def SoftDeleteProject_def updateProject_def call_def handler_defs rows findLive_delete)
      (simp_all add: idsUnique_def absProjects_def)
qed

lemma deleteByUser_step:
  assumes "idsUnique w" "\<not> ce_fails env (w_Calls w)" "storeStep env (PDeleteByUser u) w = (w', r)"
  shows "idsUnique w' \<and> (absProjects w', r) = specStep at (PDeleteByUser u) (absProjects w)"
proof -
  have "p_ID (if p_UserID p = u then p\<lparr> p_Deleted := True \<rparr> else p) = p_ID p" for p by simp
  note rows = mapped_rows [OF this]
  show ?thesis
    using assms findLive_deleteByUser [of "w_Projects w" u]
    by (auto simp: asUnit_def SoftDeleteProjectsByUser_def call_def handler_defs rows)
      (simp_all add: idsUnique_def absProjects_def fun_eq_iff)
qed

lemma findLive_append:
  "p_ID p \<notin> p_ID ` set ps \<Longrightarrow> \<not> p_Deleted p \<Longrightarrow> findLive (ps @ [p]) = (findLive ps)(p_ID p \<mapsto> p)"
proof
  fix k
  assume "p_ID p \<notin> p_ID ` set ps" "\<not> p_Deleted p"
  then show "findLive (ps @ [p]) k = ((findLive ps)(p_ID p \<mapsto> p)) k"
    by (induction ps) (auto simp: findLive_def)
qed

lemma appended_row:
  assumes "idsUnique w" "p_ID p \<notin> p_ID ` set (w_Projects w)" "\<not> p_Deleted p"
  shows "idsUnique ((tick w)\<lparr> w_Projects := w_Projects w @ [p] \<rparr>)"
    and "absProjects ((tick w)\<lparr> w_Projects := w_Projects w @ [p] \<rparr>)
      = \<lparr> pm_live = (pm_live (absProjects w))(p_ID p \<mapsto> p), pm_taken = insert (p_ID p) (pm_taken (absProjects w)) \<rparr>"
  using assms by (auto simp: idsUnique_def absProjects_def findLive_append)

lemma create_step:
  assumes "idsUnique w" "\<not> ce_fails env (w_Calls w)" "storeStep env (PCreate i u c n ns b q enc) w = (w', r)"
  shows "idsUnique w' \<and> (absProjects w', r)
      = specStep (ce_clock env (w_Calls (tick w))) (PCreate i u c n ns b q enc) (absProjects w)"
proof (cases "jsonColumn q")
  case None
  then show ?thesis using assms by (auto simp: asRow_def Store_CreateProject_def call_def handler_defs)
next
  case (Some col)
  let ?p = "newProject (ce_clock env (w_Calls (tick w))) i u c n ns b col enc"
  have row: "p_ID ?p = i" "\<not> p_Deleted ?p" by (simp_all add: newProject_def)
  show ?thesis
  proof (cases "list_ex (projectClash i c ns) (w_Projects w)")
    case True
    with Some assms clash_in_map [OF assms(1), of i c ns] show ?thesis
      by (auto simp: asRow_def Store_CreateProject_def call_def handler_defs)
  next
    case False
    then have "i \<notin> p_ID ` set (w_Projects w)" by (auto simp: list_ex_iff projectClash_def)
    with appended_row [OF assms(1), of ?p] row
    have "idsUnique ((tick w)\<lparr> w_Projects := w_Projects w @ [?p] \<rparr>)"
      "absProjects ((tick w)\<lparr> w_Projects := w_Projects w @ [?p] \<rparr>)
        = \<lparr> pm_live = (pm_live (absProjects w))(i \<mapsto> ?p), pm_taken = insert i (pm_taken (absProjects w)) \<rparr>" by simp_all
    moreover have "(w', r) = ((tick w)\<lparr> w_Projects := w_Projects w @ [?p] \<rparr>, Inr (Some ?p))"
      using False Some assms(2,3) by (simp add: asRow_def Store_CreateProject_def call_def handler_defs Let_def newProject_def)
    ultimately show ?thesis using False Some clash_in_map [OF assms(1), of i c ns] by (simp add: Let_def)
  qed
qed

lemma get_step:
  assumes "idsUnique w" "\<not> ce_fails env (w_Calls w)" "storeStep env (PGet ident) w = (w', r)"
  shows "idsUnique w' \<and> (absProjects w', r) = specStep at (PGet ident) (absProjects w)"
proof -
  let ?rows = "filter (\<lambda>p. p_ID p = ident) (liveProjects w)"
  have "liveProjects (tick w) = liveProjects w" by (simp add: liveProjects_def)
  then have "storeStep env (PGet ident) w = (tick w, case ?rows of [] \<Rightarrow> Inl NoRows | p # _ \<Rightarrow> Inr (Some p))"
    using assms(2) by (simp add: asRow_def GetProject_def call_def handler_defs split: list.split)
  moreover have "pm_live (absProjects w) ident = (case ?rows of [] \<Rightarrow> None | p # _ \<Rightarrow> Some p)"
    by (simp add: absProjects_def findLive_def first_live liveProjects_def)
  ultimately show ?thesis using assms(1,3) by (cases ?rows) auto
qed

lemma quota_step:
  assumes "idsUnique w" "\<not> ce_fails env (w_Calls w)" "storeStep env (PQuota ident q) w = (w', r)"
  shows "idsUnique w' \<and> (absProjects w', r) = specStep at (PQuota ident q) (absProjects w)"
proof (cases "jsonColumn q")
  case None
  then show ?thesis using assms by (auto simp: asUnit_def UpdateProjectQuotaOverrides_def call_def handler_defs)
next
  case (Some col)
  with assms update_step [of "\<lambda>p. p\<lparr> p_Quota := col \<rparr>" w env ident w' r] show ?thesis
    by (simp add: UpdateProjectQuotaOverrides_def)
qed

lemma reached_step:
  assumes "idsUnique w" "\<not> ce_fails env (w_Calls w)" "storeStep env op w = (w', r)"
  shows "idsUnique w' \<and> (\<exists>at. (absProjects w', r) = specStep at op (absProjects w))"
proof (cases op)
  case PCreate
  with create_step [OF assms(1,2)] assms(3) show ?thesis by blast
next
  case (PSuspend i b)
  with update_step [of "\<lambda>p. p\<lparr> p_Suspended := b \<rparr>" w env i w' r] assms show ?thesis
    by (simp add: UpdateProjectSuspended_def)
next
  case PQuota
  with quota_step [OF assms(1,2)] assms(3) show ?thesis by blast
next
  case (PKubeconfig i enc)
  with update_step [of "\<lambda>p. p\<lparr> p_Kubeconfig := enc \<rparr>" w env i w' r] assms show ?thesis
    by (simp add: UpdateProjectKubeconfig_def)
next
  case PDelete
  with delete_step [OF assms(1,2)] assms(3) show ?thesis by blast
next
  case PDeleteByUser
  with deleteByUser_step [OF assms(1,2)] assms(3) show ?thesis by blast
next
  case PGet
  with get_step [OF assms(1,2)] assms(3) show ?thesis by blast
qed

lemma step_ids: "idsUnique w \<Longrightarrow> idsUnique (fst (storeStep env op w))"
  using reached_step [of w env op "fst (storeStep env op w)" "snd (storeStep env op w)"] unreached_step [of env w op]
  by (cases "ce_fails env (w_Calls w)") simp_all

lemma step_stutters:
  "\<not> reached env w \<Longrightarrow> absProjects (fst (storeStep env op w)) = absProjects w \<and> snd (storeStep env op w) = Inl Unavailable"
  by (simp add: reached_def unreached_step)

lemma step_simulates:
  assumes "idsUnique w" "reached env w"
  shows "\<exists>at. (absProjects (fst (storeStep env op w)), snd (storeStep env op w)) = specStep at op (absProjects w)"
  using reached_step [of w env op "fst (storeStep env op w)" "snd (storeStep env op w)"] assms by (simp add: reached_def)

interpretation project_rows: project_table absProjects idsUnique "storeStep env" "reached env"
  by unfold_locales (rule step_ids step_stutters step_simulates; assumption)+

text \<open>
  (C40) The statements on the table of projects refine a map from identifiers to live projects: for every
  sequence of statements, what the service gets back and the live projects afterwards are those of the same
  run of the map, in which a statement that does not reach the database changes nothing. An identifier
  stays taken after its project was deleted, while its namespace becomes free.
\<close>

theorem project_table_refines_map:
  assumes "idsUnique w"
  shows "\<exists>ats. length ats = length ops
    \<and> (absProjects (fst (runOps (storeStep env) ops w)), snd (runOps (storeStep env) ops w))
      = specRun (zip ops ats) (absProjects w)
    \<and> ((\<forall>k. \<not> ce_fails env k) \<longrightarrow> None \<notin> set ats)"
  using project_rows.run_refines [where ops = ops and env = env, OF assms] by (auto simp: reached_def)

definition exTable :: world where
  "exTable = freshWorld\<lparr> w_Projects := [newProject 5 ''p1'' ''u1'' ''c1'' ''shop'' ''user-u1-shop'' False None [1, 2]] \<rparr>"

definition exOps :: "project_op list" where
  "exOps = [PCreate ''p1'' ''u2'' ''c1'' ''other'' ''other'' False None [], PDelete ''p1'', PGet ''p1'',
    PCreate ''p2'' ''u2'' ''c1'' ''shop'' ''user-u1-shop'' True None [3]]"

theorem project_table_refines_map_witness:
  "\<forall>env. \<exists>ats. length ats = 4
    \<and> (absProjects (fst (runOps (storeStep env) exOps exTable)), snd (runOps (storeStep env) exOps exTable))
      = specRun (zip exOps ats) (absProjects exTable)"
proof
  fix env
  have "idsUnique exTable" by (simp add: idsUnique_def exTable_def)
  moreover have "length exOps = 4" by (simp add: exOps_def)
  ultimately show "\<exists>ats. length ats = 4
    \<and> (absProjects (fst (runOps (storeStep env) exOps exTable)), snd (runOps (storeStep env) exOps exTable))
      = specRun (zip exOps ats) (absProjects exTable)"
    using project_table_refines_map [of exTable exOps env] by metis
qed

end
