(* ===== verification/ServiceRuns.thy ===== *)
theory ServiceRuns
  imports TenancyProps ProjectTable
begin

text \<open>
  The service as a whole: one request per operation of \<open>internal/service\<close> that the API calls, and the worlds
  that sequences of requests reach. The invariant of the tenancy tables holds in all of them. Two properties
  are about single requests: maintenance stops the operations that ask for it, and a second application
  without a git or OCI source is refused.
\<close>

section \<open>Requests\<close>

datatype (plugins only: code size) service_request =
    RBootstrapUser UserBootstrapInput
  | RDeleteUser string
  | RRenewUserKubeconfig string string
  | RRenewProjectKubeconfig string
  | RCreateProject ProjectCreateInput
  | RSetProjectSuspended string bool
  | RUpdateProjectQuota string "(string \<times> string) list"
  | RDeleteProject string
  | RGetProjectStatus string
  | RRegisterCluster string string ClusterMetadataInput
  | RUpdateClusterMetadata string ClusterMetadataInput
  | RCheckCluster string
  | RTick
  | REnsureKubeconfig KubeconfigEnsureInput
  | RRotateKubeconfig string
  | RDeleteKubeconfig string
  | RMaintenance bool string
  | RDeployApp AppDeployInput
  | RValidateApp AppDeployInput
  | RDeleteApp string string
  | RScaleApp string string string int
  | RUpdateAppImage string string string string
  | RRestartApp string string
  | RAttachConfigMap string string string "string list" string
  | RDetachConfigMap string string string
  | RAttachSecret string string string "string list" string
  | RDetachSecret string string string
  | RGitWebhook jobject string string
  | RListApps string
  | RGetApp string string
  | RGetDelivery string string
  | RCreateConfigMap string string "(string \<times> string) list"
  | RListConfigMaps string
  | RDeleteConfigMap string string
  | RCreateSecret string string string "(string \<times> string) list"
  | RListSecrets string
  | RDeleteSecret string string
  | RCreateGitCredential CredentialCreateInput
  | RDeleteGitCredential string
  | RCreateRegistryCredential CredentialCreateInput
  | RDeleteRegistryCredential string

definition answer :: "'a handler \<Rightarrow> unit handler" where
  "answer m = bindS m (\<lambda>_. ret ())"

primrec serve :: "cp_env \<Rightarrow> app_env \<Rightarrow> probe_texts \<Rightarrow> service_request \<Rightarrow> unit handler" where
  "serve env ae texts (RBootstrapUser inp) = answer (BootstrapUser env inp)"
| "serve env ae texts (RDeleteUser i) = answer (DeleteUser env i)"
| "serve env ae texts (RRenewUserKubeconfig u c) = answer (RenewUserKubeconfig env u c)"
| "serve env ae texts (RRenewProjectKubeconfig i) = answer (RenewProjectKubeconfig env i)"
| "serve env ae texts (RCreateProject inp) = answer (CreateProject env inp)"
| "serve env ae texts (RSetProjectSuspended i b) = answer (SetProjectSuspended env i b)"
| "serve env ae texts (RUpdateProjectQuota i ov) = answer (UpdateProjectQuota env i ov)"
| "serve env ae texts (RDeleteProject i) = answer (DeleteProject env i)"
| "serve env ae texts (RGetProjectStatus i) = answer (GetProjectStatus env i)"
| "serve env ae texts (RRegisterCluster n kc m) = answer (RegisterCluster env n kc m)"
| "serve env ae texts (RUpdateClusterMetadata i m) = answer (UpdateClusterMetadata env i m)"
| "serve env ae texts (RCheckCluster i) = answer (CheckCluster env texts i)"
| "serve env ae texts RTick = answer (TickWithSummary env texts)"
| "serve env ae texts (REnsureKubeconfig inp) = answer (EnsureKubeconfigBinding env inp)"
| "serve env ae texts (RRotateKubeconfig i) = answer (RotateKubeconfigByID env i)"
| "serve env ae texts (RDeleteKubeconfig i) = answer (DeleteKubeconfigBinding env i)"
| "serve env ae texts (RMaintenance b m) = answer (UpdateMaintenanceState env b m)"
| "serve env ae texts (RDeployApp inp) = answer (DeployApp env ae inp)"
| "serve env ae texts (RValidateApp inp) = answer (ValidateApp env ae inp)"
| "serve env ae texts (RDeleteApp p a) = answer (DeleteApp env ae p a)"
| "serve env ae texts (RScaleApp p a rv n) = answer (ScaleApp env ae p a rv n)"
| "serve env ae texts (RUpdateAppImage p a rv im) = answer (UpdateAppImage env ae p a rv im)"
| "serve env ae texts (RRestartApp p a) = answer (RolloutRestartApp env ae p a)"
| "serve env ae texts (RAttachConfigMap p a n ks pr) = answer (AttachConfigMapToApp env ae p a n ks pr)"
| "serve env ae texts (RDetachConfigMap p a n) = answer (DetachConfigMapFromApp env ae p a n)"
| "serve env ae texts (RAttachSecret p a n ks pr) = answer (AttachSecretToApp env ae p a n ks pr)"
| "serve env ae texts (RDetachSecret p a n) = answer (DetachSecretFromApp env ae p a n)"
| "serve env ae texts (RGitWebhook payload raw sig) = answer (HandleGitWebhook env ae payload raw sig)"
| "serve env ae texts (RListApps i) = answer (ListProjectAppsStatus env ae i)"
| "serve env ae texts (RGetApp i j) = answer (GetAppStatus env ae i j)"
| "serve env ae texts (RGetDelivery i j) = answer (GetAppDelivery env i j)"
| "serve env ae texts (RCreateConfigMap i n es) = answer (CreateConfigMap env i n es)"
| "serve env ae texts (RListConfigMaps i) = answer (ListConfigMaps env i)"
| "serve env ae texts (RDeleteConfigMap i n) = answer (DeleteConfigMap env i n)"
| "serve env ae texts (RCreateSecret i n t es) = answer (CreateSecret env i n t es)"
| "serve env ae texts (RListSecrets i) = answer (ListSecrets env i)"
| "serve env ae texts (RDeleteSecret i n) = answer (DeleteSecret env i n)"
| "serve env ae texts (RCreateGitCredential inp) = answer (CreateGitCredential env inp)"
| "serve env ae texts (RDeleteGitCredential i) = answer (DeleteGitCredential env i)"
| "serve env ae texts (RCreateRegistryCredential inp) = answer (CreateRegistryCredential env inp)"
| "serve env ae texts (RDeleteRegistryCredential i) = answer (DeleteRegistryCredential env i)"

text \<open>Each request carries the actor that the API took from its token.\<close>

inductive served :: "cp_env \<Rightarrow> app_env \<Rightarrow> probe_texts \<Rightarrow> world \<Rightarrow> world \<Rightarrow> bool" for env ae texts where
  served_none: "served env ae texts w w"
| served_more: "served env ae texts w w' \<Longrightarrow>
    served env ae texts w (fst (serve (env\<lparr> ce_actor := actor \<rparr>) ae texts req w'))"

section \<open>The invariant of the tables\<close>

lemma leaves_attachments:
  assumes "side_frame v"
  shows "leaves v (AttachConfigMapToApp env ae p a n ks pr)" "leaves v (DetachConfigMapFromApp env ae p a n)"
    "leaves v (AttachSecretToApp env ae p a n ks pr)" "leaves v (DetachSecretFromApp env ae p a n)"
  unfolding AttachConfigMapToApp_def DetachConfigMapFromApp_def AttachSecretToApp_def DetachSecretFromApp_def
  by (rule side_frame.leaves_app_handlers [OF assms])+

lemma keeps_answer: "keeps I m \<Longrightarrow> keeps I (answer m)"
  unfolding answer_def by (rule keeps_bindS) (simp_all add: keeps_basic)

lemmas tenancy_quiet =
  tenancy.leaves_project_views tenancy.leaves_UpdateMaintenanceState tenancy.leaves_deployments tenancy.leaves_plan
  tenancy.leaves_app_handlers tenancy.leaves_webhook tenancy.leaves_views tenancy.leaves_credentials
  leaves_attachments [OF tenancy.side_frame_axioms]

lemma serve_keeps:
  assumes "noncesOK env"
  shows "keeps (tenancyInv env) (serve env ae texts req)"
  by (cases req) (simp_all only: serve.simps, (rule keeps_answer, (rule keeps_BootstrapUser [OF assms] keeps_DeleteUser
    keeps_renew [OF assms] keeps_CreateProject [OF assms] keeps_project_handlers keeps_clusters(1) [OF assms] keeps_clusters(2)
    keeps_health keeps_EnsureKubeconfigBinding [OF assms] keeps_bindings(1) [OF assms] keeps_bindings(2)
    | rule quiet_keeps, rule tenancy_quiet))+)

lemma actor_irrelevant [simp]:
  "tenancyInv (env\<lparr> ce_actor := actor \<rparr>) = tenancyInv env" "noncesOK (env\<lparr> ce_actor := actor \<rparr>) = noncesOK env"
  by (simp_all add: fun_eq_iff tenancyInv_def allSealed_def sealed_def encKey_def noncesOK_def)

lemma fresh_tables: "tenancyInv env freshWorld"
  by (simp add: tenancyInv_def allSealed_def keysUnique_def freshWorld_def liveProjects_def)

text \<open>
  (C6) Whatever requests the service has served, by whatever actors and with whatever calls failing on the
  way, every kubeconfig in the tables of clusters, projects, user spaces and bindings is empty or decrypts
  under the configured key, and the keys of the tables are unique: identifiers, e-mail addresses, cluster
  names, the namespaces of live projects, the spaces of a user and the scopes of kubeconfig bindings.
\<close>

theorem tables_stay_sealed_and_unique:
  assumes "noncesOK env" "served env ae texts freshWorld w"
  shows "tenancyInv env w"
  using assms(2)
proof (induction "freshWorld" w rule: served.induct)
  case served_none
  show ?case by (rule fresh_tables)
next
  case (served_more w' actor req)
  from assms(1) have "keeps (tenancyInv env) (serve (env\<lparr> ce_actor := actor \<rparr>) ae texts req)"
    using serve_keeps [of "env\<lparr> ce_actor := actor \<rparr>"] by simp
  with served_more.hyps(2) show ?case by (simp add: yields_def)
qed

definition exSealing :: "cp_env \<Rightarrow> cp_env" where
  "exSealing env = env\<lparr> ce_aead := exAead, ce_nonce := \<lambda>_. Some (replicate 12 0) \<rparr>"

theorem tables_stay_sealed_and_unique_witness:
  "\<forall>env ae texts meta inp. tenancyInv (exSealing env)
    (fst (serve (exSealing env\<lparr> ce_actor := ''ops'' \<rparr>) ae texts (RCreateProject inp)
      (fst (serve (exSealing env\<lparr> ce_actor := ''admin'' \<rparr>) ae texts (RRegisterCluster ''edge'' ''apiVersion: v1'' meta) freshWorld))))"
proof (intro allI)
  fix env ae texts meta inp
  have "noncesOK (exSealing env)"
    using exAead_OK by (simp add: noncesOK_def exSealing_def nonceSize_def)
  then show "tenancyInv (exSealing env)
    (fst (serve (exSealing env\<lparr> ce_actor := ''ops'' \<rparr>) ae texts (RCreateProject inp)
      (fst (serve (exSealing env\<lparr> ce_actor := ''admin'' \<rparr>) ae texts (RRegisterCluster ''edge'' ''apiVersion: v1'' meta) freshWorld))))"
    by (rule tables_stay_sealed_and_unique [where ae = ae and texts = texts]) (rule served_more served_none)+
qed

section \<open>Maintenance\<close>

fun guarded :: "service_request \<Rightarrow> bool" where
  "guarded (RRegisterCluster _ _ _) = True"
| "guarded (RUpdateClusterMetadata _ _) = True"
| "guarded (RCreateProject _) = True"
| "guarded (RSetProjectSuspended _ _) = True"
| "guarded (RUpdateProjectQuota _ _) = True"
| "guarded (RDeleteProject _) = True"
| "guarded (RDeployApp _) = True"
| "guarded (RDeleteApp _ _) = True"
| "guarded (RScaleApp _ _ _ _) = True"
| "guarded (RUpdateAppImage _ _ _ _) = True"
| "guarded (RRestartApp _ _) = True"
| "guarded _ = False"

definition stopped :: "cp_env \<Rightarrow> MaintenanceState \<Rightarrow> world \<Rightarrow> world \<times> (cp_error + 'a) \<Rightarrow> bool" where
  "stopped env state w out \<longleftrightarrow> contents (fst out) = contents w
    \<and> (snd out = Inl (MaintenanceEnabled (ms_Message state))
       \<or> snd out = Inl Unavailable \<and> (ce_fails env (w_Calls w) \<or> ce_fails env (Suc (w_Calls w))))"

lemma maintenance_stops:
  assumes "w_Maintenance w = Some state" "ms_Enabled state"
  shows "stopped env state w (bindS (ensureMaintenanceAllows env) f w)"
  using assms by (simp add: stopped_def ensureMaintenanceAllows_def Store_GetMaintenanceState_def ensureMaintenanceRow_def
      bindS_def call_def tick_def fail_def contents_def)

lemma answer_bind: "answer (bindS m f) = bindS m (\<lambda>x. answer (f x))"
  by (rule ext) (simp add: answer_def bindS_def split: prod.split sum.split)

text \<open>
  (C7) While maintenance is on, registering or changing a cluster, creating, suspending, resizing or deleting
  a project and deploying, scaling, updating, restarting or deleting an application change nothing, in the
  database, in the clusters and at the DNS provider, and are answered with the message of the maintenance,
  unless one of the two statements that read the state fails.
\<close>

theorem maintenance_stops_guarded_requests:
  assumes "w_Maintenance w = Some state" "ms_Enabled state" "guarded req"
  shows "contents (fst (serve env ae texts req w)) = contents w
    \<and> (snd (serve env ae texts req w) = Inl (MaintenanceEnabled (ms_Message state))
       \<or> snd (serve env ae texts req w) = Inl Unavailable \<and> (ce_fails env (w_Calls w) \<or> ce_fails env (Suc (w_Calls w))))"
proof -
  note stop = maintenance_stops [OF assms(1,2), of env]
  from assms(3) have "stopped env state w (serve env ae texts req w)"
    by (cases req) (simp_all add: RegisterCluster_def UpdateClusterMetadata_def CreateProject_def SetProjectSuspended_def
        UpdateProjectQuota_def DeleteProject_def DeployApp_def DeleteApp_def ScaleApp_def UpdateAppImage_def
        RolloutRestartApp_def answer_bind stop)
  then show ?thesis by (simp add: stopped_def)
qed

definition exPaused :: world where
  "exPaused = exTable\<lparr> w_Maintenance := Some \<lparr> ms_Enabled = True, ms_Message = ''upgrade'', ms_UpdatedAt = 7, ms_UpdatedBy = ''admin'' \<rparr> \<rparr>"

theorem maintenance_stops_guarded_requests_witness:
  "\<forall>env ae texts. contents (fst (serve env ae texts (RDeleteProject ''p1'') exPaused)) = contents exPaused
    \<and> (snd (serve env ae texts (RDeleteProject ''p1'') exPaused) = Inl (MaintenanceEnabled ''upgrade'')
       \<or> snd (serve env ae texts (RDeleteProject ''p1'') exPaused) = Inl Unavailable \<and> (ce_fails env 0 \<or> ce_fails env 1))"
proof (intro allI)
  fix env ae texts
  have "w_Maintenance exPaused = Some \<lparr> ms_Enabled = True, ms_Message = ''upgrade'', ms_UpdatedAt = 7, ms_UpdatedBy = ''admin'' \<rparr>"
    "w_Calls exPaused = 0" by (simp_all add: exPaused_def exTable_def freshWorld_def)
  with maintenance_stops_guarded_requests [of exPaused _ "RDeleteProject ''p1''" env ae texts]
  show "contents (fst (serve env ae texts (RDeleteProject ''p1'') exPaused)) = contents exPaused
    \<and> (snd (serve env ae texts (RDeleteProject ''p1'') exPaused) = Inl (MaintenanceEnabled ''upgrade'')
       \<or> snd (serve env ae texts (RDeleteProject ''p1'') exPaused) = Inl Unavailable \<and> (ce_fails env 0 \<or> ce_fails env 1))"
    by (simp del: serve.simps)
qed

section \<open>Applications without a reference\<close>

text \<open>A plan that names neither a commit nor a digest.\<close>

definition plain :: "appDeploymentPlan \<Rightarrow> bool" where
  "plain plan \<longleftrightarrow> pl_Git plan = None \<and> pl_OciBundle plan = None"

lemma plain_reference: "plain plan \<Longrightarrow> externalRefOf plan = []"
  by (simp add: plain_def externalRefOf_def)

interpretation app_rows: side_frame w_Apps
  by unfold_locales simp_all

abbreviation appRows :: "App list \<Rightarrow> world \<Rightarrow> bool" where
  "appRows rows w \<equiv> w_Apps w = rows"

lemma rows_kept: "leaves w_Apps m \<Longrightarrow> keeps (appRows rows) m"
  by (erule leaves_keeps) simp

lemma after: "leaves w_Apps m \<Longrightarrow> (\<And>x. yields (appRows rows) (f x) Q) \<Longrightarrow> yields (appRows rows) (bindS m f) Q"
  by (rule yields_bindS [OF rows_kept]) auto

lemma plain_ret: "plain plan \<Longrightarrow> yields I (ret plan) plain"
  by (rule yields_ret)

lemma plain_documents: "plain plan \<Longrightarrow> yields I (withDocuments ae docs plan) plain"
  by (auto simp: withDocuments_def plain_def yields_ret yields_fail split: option.split)

lemma plain_helm: "plain plan \<Longrightarrow> yields (appRows rows) (planHelm env ae p spec plan) plain"
  unfolding planHelm_def Let_def
  by (auto intro!: yields_unless after plain_documents app_rows.leaves_plan_parts app_rows.leaves_plan_sources yields_fail
      simp: plain_def split: option.split json.split)

lemma plain_source:
  assumes "plain plan"
  shows "yields (appRows rows) (planSource env ae p inp plan) plain"
proof -
  have "plain (plan\<lparr> pl_SourceType := ''image'', pl_RenderedObjs := objs \<rparr>)" "plain (plan\<lparr> pl_SourceType := t \<rparr>)" for objs t
    using assms by (simp_all add: plain_def)
  note this [THEN plain_ret] this(2) [THEN plain_documents] plain_helm [OF assms] plain_ret [OF assms]
  moreover have "pl_Git plan = None" "pl_OciBundle plan = None" using assms by (simp_all add: plain_def)
  ultimately show ?thesis unfolding planSource_def by (simp split: option.split)
qed

lemma bindS_ret: "bindS (ret x) f = f x"
  by (rule ext) (simp add: bindS_def ret_def)

lemma yields_option:
  "yields I m Q \<Longrightarrow> (\<And>x. yields I (f x) Q) \<Longrightarrow> yields I (case r of None \<Rightarrow> m | Some x \<Rightarrow> f x) Q"
  by (cases r) simp_all

lemma yields_prod: "(\<And>a b. yields I (f a b) Q) \<Longrightarrow> yields I (case r of (a, b) \<Rightarrow> f a b) Q"
  by (cases r) simp

lemma plain_plan:
  assumes "ai_Git inp = None" "ai_OciBundle inp = None"
  shows "yields (appRows rows) (planAppDeployment env ae inp i) (\<lambda>(plan, p). plain plan)"
proof -
  have "plain (planSkeleton inp i None p\<lparr> pl_Replicas := a, pl_Resources := b, pl_LBSummary := c, pl_Warnings := d, pl_Host := e \<rparr>)"
    for p a b c d e using assms(2) by (simp add: plain_def planSkeleton_def)
  note source = yields_bindS [OF plain_source [OF this]]
  have sbom: "plain plan \<Longrightarrow> yields (appRows rows) (ret (plan\<lparr> pl_SBOM := b \<rparr>, p)) (\<lambda>(plan, p). plain plan)" for plan b p
    by (simp add: plain_def yields_ret)
  show ?thesis
    unfolding planAppDeployment_def Let_def assms(1) option.case bindS_ret
    by (rule source | rule sbom, assumption | rule yields_unless yields_option yields_prod yields_fail
        | rule after, rule app_rows.leaves_plan_parts app_rows.leaves_user_reads app_rows.leaves_app_reads app_rows.leaves_clients)+
qed

lemma clashing_app:
  assumes "a \<in> set rows" "\<not> a_Deleted a" "a_ExternalRef a = Some ref"
  shows "yields (appRows rows) (CreateApp env i p n st r wh ref src del) (\<lambda>_. False)"
  using assms by (auto simp: yields_def CreateApp_def call_def tick_def list_ex_iff appClash_def)

text \<open>
  (C8) Only one application without a reference can be live on the whole platform. Applications from an image,
  from manifests or from a chart are stored with the empty text as their external reference, and the unique
  index on that column counts the empty text as a value. While one of them is live, deploying another one,
  in any project and on any cluster, never succeeds and stores no application.
\<close>

theorem second_plain_app_is_refused:
  assumes "a \<in> set (w_Apps w)" "\<not> a_Deleted a" "a_ExternalRef a = Some []"
    "ai_Git inp = None" "ai_OciBundle inp = None"
  shows "(\<exists>e. snd (DeployApp env ae inp w) = Inl e) \<and> w_Apps (fst (DeployApp env ae inp w)) = w_Apps w"
proof -
  have create: "yields (appRows (w_Apps w)) (bindS (CreateApp env i p n st r wh (externalRefOf plan) src del) f) Q"
    if "plain plan" for i p n st r wh plan src del and f :: "unit \<Rightarrow> AppDeployOutput handler" and Q
    using clashing_app [OF assms(1-3)] unfolding plain_reference [OF that] by (rule yields_bindS) simp
  have planned: "yields (appRows (w_Apps w)) (bindS (planAppDeployment env ae inp i) (\<lambda>(plan, p). f plan p)) Q"
    if "\<And>plan p. plain plan \<Longrightarrow> yields (appRows (w_Apps w)) (f plan p) Q"
    for i and f :: "_ \<Rightarrow> _ \<Rightarrow> AppDeployOutput handler" and Q
    using that by (intro yields_bindS [OF plain_plan [OF assms(4,5)]]) auto
  have "yields (appRows (w_Apps w)) (DeployApp env ae inp) (\<lambda>_. False)"
    unfolding DeployApp_def
    by (rule planned create | assumption | rule yields_unless yields_prod | rule after, rule app_rows.leaves_maintenance
        app_rows.leaves_supplies app_rows.leaves_image app_rows.leaves_call leaves_return | rule leaves_return)+
  then show ?thesis unfolding yields_def by (cases "snd (DeployApp env ae inp w)") auto
qed

definition exOneApp :: world where
  "exOneApp = exTable\<lparr> w_Apps := [\<lparr> a_ID = ''a1'', a_ProjectID = ''p1'', a_Name = ''web'', a_Status = ''deployed'', a_Repo = Some [],
    a_WebhookSecret = Some [], a_ExternalRef = Some [], a_Source = [], a_Delivery = [], a_UpdatedAt = 9, a_Deleted = False \<rparr>] \<rparr>"

definition exImageInput :: AppDeployInput where
  "exImageInput = \<lparr> ai_ProjectID = ''p1'', ai_Name = ''api'', ai_Flavor = [], ai_Resources = [], ai_Replicas = None, ai_Env = [],
    ai_Secrets = [], ai_Ports = [], ai_Domain = [], ai_Repo = [], ai_WebhookSecret = [], ai_Image = ''nginx:1.27'',
    ai_Helm = None, ai_Manifests = [], ai_Git = None, ai_OciBundle = None \<rparr>"

theorem second_plain_app_is_refused_witness:
  "\<forall>env ae. (\<exists>e. snd (DeployApp env ae exImageInput exOneApp) = Inl e)
    \<and> w_Apps (fst (DeployApp env ae exImageInput exOneApp)) = w_Apps exOneApp"
proof (intro allI)
  fix env ae
  have "w_Apps exOneApp \<noteq> []" "\<not> a_Deleted (hd (w_Apps exOneApp))" "a_ExternalRef (hd (w_Apps exOneApp)) = Some []"
    "ai_Git exImageInput = None" "ai_OciBundle exImageInput = None"
    by (simp_all add: exOneApp_def exImageInput_def)
  then show "(\<exists>e. snd (DeployApp env ae exImageInput exOneApp) = Inl e)
    \<and> w_Apps (fst (DeployApp env ae exImageInput exOneApp)) = w_Apps exOneApp"
    by (intro second_plain_app_is_refused [of "hd (w_Apps exOneApp)"]) simp_all
qed

end
