(* ===== verification/Spec2Isabelle.thy ===== *)
theory Spec2Isabelle
  imports WebhookProperties HelmFetch UsageProps ControllerProps EventProps ReleaseProps Crypto Config ServiceRuns
begin

text \<open>
  A verification of kubeOP, a multi-tenant platform on Kubernetes.

  \<^bold>\<open>The program.\<close>  kubeOP has two halves.  The \<^emph>\<open>operator\<close> (\<open>kubeop-operator/\<close>) runs in each
  cluster: admission webhooks decide which objects of tenants may be stored, and controllers
  turn stored Apps into Deployments, Tenants into role bindings and metered samples into
  billing records.  The \<^emph>\<open>control plane\<close> (\<open>internal/\<close>, \<open>pkg/\<close>) serves an HTTP API: it fetches
  charts, renders and deploys applications, records releases and events in a database, and
  names the objects it creates.  The two meet in the stored objects: what the webhooks accept
  is what the controllers run.

  \<^bold>\<open>Foundations.\<close>
  \<^item> \<open>GoPrelude\<close>: Go strings, maps, errors and the functions of \<open>strings\<close>.
  \<^item> \<open>GoNet\<close>: \<open>net/url\<close>, \<open>path\<close>, \<open>net\<close> and \<open>net/netip\<close>.
  \<^item> \<open>GoCodec\<close>: \<open>strconv\<close>, \<open>hex\<close>, \<open>base32\<close>, \<open>base64\<close>, SHA-1, SHA-256 and time formats.
  \<^item> \<open>Json\<close>: documents and the text \<open>encoding/json\<close> writes.
  \<^item> \<open>Paging\<close>: keyset pages; its locale \<open>paged_listing\<close> is the contract of a listing
    operation, and its client, the loop that follows cursors, is proved complete once.
  \<^item> \<open>HostRules\<close>: the locale of the host patterns shared by the registry policy and the
    outbound allowlist.

  \<^bold>\<open>Operator.\<close>
  \<^item> \<open>ApiTypes\<close>: the objects (\<open>apis/paas/v1alpha1\<close>).
  \<^item> \<open>RegistryPolicy\<close>: \<open>internal/policy/registry.go\<close>; parsing gives a normal form that decides
    as the text does.
  \<^item> \<open>Webhooks\<close>: every validator and handler of \<open>internal/webhooks/webhooks.go\<close>.
    \<open>TenantGuard\<close> states the contract they share as a locale, interpreted for all seven.
    \<open>Admission\<close> makes the API requests a step relation on the stored objects and proves, by
    rule induction, that references stay within a tenant and that labels and tenants are kept;
    \<open>WebhookProperties\<close> says which Apps, releases and Jobs are accepted.
  \<^item> \<open>Controllers\<close>, \<open>ControllerProps\<close>: \<open>controllers/app_controller.go\<close> and
    \<open>tenant_controller.go\<close> on a record of stored objects, each API call with its failure.
  \<^item> \<open>Usage\<close>, \<open>UsageProps\<close>: \<open>controllers/usagewriter_controller.go\<close>; usage is counted exactly
    once at each level and written exactly, unless two subjects share a record name.

  \<^bold>\<open>Control plane.\<close>
  \<^item> \<open>NetSecurity\<close>, \<open>NetSecurityProps\<close>: \<open>pkg/security\<close>; what an accepted URL, path, address and
    connection satisfies.
  \<^item> \<open>HelmFetch\<close>: the chart and registry clients of \<open>internal/service/apps.go\<close>.
  \<^item> \<open>Naming\<close>: slugs, derived names and labels (\<open>internal/util\<close>, \<open>app_names.go\<close>, \<open>labels.go\<close>,
    \<open>app_labels.go\<close>); names are DNS labels.
  \<^item> \<open>Events\<close>, \<open>EventProps\<close>: \<open>internal/service/events.go\<close> on \<open>internal/store/events.go\<close>;
    ingestion accounts for every event and redaction follows the nested maps of the metadata.
  \<^item> \<open>Releases\<close>, \<open>ReleaseProps\<close>: \<open>internal/service/releases.go\<close> on \<open>internal/store/releases.go\<close>;
    a recorded release reads back as planned and its listing is complete.
  \<^item> \<open>JsonParse\<close>, \<open>Crypto\<close>: the parser of \<open>encoding/json\<close> and \<open>internal/crypto/crypto.go\<close>; what is
    encrypted under a configured key decrypts to itself.
  \<^item> \<open>Config\<close>: \<open>internal/config/config.go\<close>, every field with its default, override and check;
    settings follow the precedence of environment, file and default.
  \<^item> \<open>QuotaPolicy\<close>: the quota and limit objects of \<open>internal/service/service.go\<close> and \<open>quota.go\<close>.
  \<^item> \<open>Dns\<close>: the three providers of \<open>internal/dns/providers.go\<close> over the history of requests.
  \<^item> \<open>ControlPlane\<close>: the state the handlers share (\<open>world\<close>: the tables, the objects of the clusters,
    the requests to the DNS provider), the errors, and the composition of handlers.
  \<^item> \<open>StoreOps\<close>: the statements of \<open>internal/store\<close> with the keys of its migrations; \<open>ProjectTable\<close>
    proves that those on projects refine a map of live projects (locale \<open>project_table\<close>).
  \<^item> \<open>ClusterOps\<close>, \<open>Tenancy\<close>, \<open>KubeconfigOps\<close>: clusters, maintenance, health, the operator's installation,
    users, projects, quotas and kubeconfig bindings (\<open>service.go\<close>, \<open>user_bootstrap.go\<close>,
    \<open>maintenance.go\<close>, \<open>operator.go\<close>, \<open>healthscheduler.go\<close>, \<open>kubeconfigs.go\<close>).
  \<^item> \<open>Credentials\<close>, \<open>Delivery\<close>: credentials, config maps, secrets, git checkouts, OCI bundles, bills of
    materials and signatures (\<open>credentials.go\<close>, \<open>configs.go\<close>, \<open>git_source.go\<close>, \<open>oci_bundle.go\<close>,
    \<open>internal/delivery\<close>).
  \<^item> \<open>AppOps\<close>, \<open>AppDeploy\<close>: the operations on applications of \<open>internal/service/apps.go\<close>, from the
    plan to the deployment, status and deletion.
  \<^item> \<open>Frames\<close>: the locales \<open>frame\<close>, \<open>side_frame\<close> and \<open>tenancy_frame\<close> say which tables a view ignores;
    in them every handler that only writes there is shown to leave the view as it is.
    \<open>TenancyInv\<close> interprets them on the tables of tenants and shows that every handler keeps these
    tables sealed and their keys unique, \<open>TenancyProps\<close> that the start-up loop ends, and
    \<open>ServiceRuns\<close> puts the handlers together to one service: the invariant holds after every
    sequence of requests, maintenance stops what it guards, and only one application without a
    commit or digest can be live.

  \<^bold>\<open>This theory\<close> composes admission with reconciliation.

  \<^bold>\<open>Conventions.\<close>  A handler is a function of the state it reads to the state it leaves and its
  result or error.  The Kubernetes API server and the database are records of rows; whether a
  call fails is part of the environment, so every error path is a branch.  Code outside the
  repository (image references, semantic versions, server-side apply, the ciphers, clocks,
  identifiers) is a field of an environment record; what is relied on is a hypothesis of the
  theorems that need it.  Times are integers; text is ASCII.

  \<^bold>\<open>Bounds.\<close>  Loops over data are structural recursions.  The number printers carry a digit
  count that covers 64 bits (\<open>natDigits\<close>), and the loop that follows cursors a page count, for
  which \<open>release_pages_are_complete\<close> shows that one page per row is enough.  Waiting for a token
  tries as often as the code does (\<open>awaitToken\<close>), and the update of the maintenance row twice: after
  the first attempt the row exists.  The loops without a bound of their own, over the pages of
  projects at start-up and until a load balancer has an address, are partial functions; the first
  is shown to return.

  \<^bold>\<open>Not modelled.\<close>  Deep copies and scheme registration (generated); HTTP decoding, tokens and
  routing (\<open>internal/api\<close>); templates (a schema validator and a template engine of libraries, with
  single-row statements); the Helm engine, YAML, kustomize, the git client and the registry client,
  which are parameters; log files and metrics; process wiring and the bootstrap command line; timing
  and requests that interleave.
\<close>

section \<open>Admission and reconciliation together\<close>

text \<open>An App with the address of its source replaced.\<close>

definition withSourceURL :: "string \<Rightarrow> ApiTypes.App \<Rightarrow> ApiTypes.App" where
  "withSourceURL url app = app\<lparr>AppSpecOf := (AppSpecOf app)
     \<lparr>Source := map_option (\<lambda>src. src\<lparr>SourceURL := url\<rparr>) (Source (AppSpecOf app))\<rparr>\<rparr>"

lemma withSourceURL_fields [simp]:
  "AppMeta (withSourceURL url app) = AppMeta app"
  "Source (AppSpecOf (withSourceURL url app)) = map_option (\<lambda>src. src\<lparr>SourceURL := url\<rparr>) (Source (AppSpecOf app))"
  "AppType (AppSpecOf (withSourceURL url app)) = AppType (AppSpecOf app)"
  "AppVersion (AppSpecOf (withSourceURL url app)) = AppVersion (AppSpecOf app)"
  "VersionRange (AppSpecOf (withSourceURL url app)) = VersionRange (AppSpecOf app)"
  "Image (AppSpecOf (withSourceURL url app)) = Image (AppSpecOf app)"
  "ValuesRefs (AppSpecOf (withSourceURL url app)) = ValuesRefs (AppSpecOf app)"
  "SecretsRefs (AppSpecOf (withSourceURL url app)) = SecretsRefs (AppSpecOf app)"
  "IngressRefs (AppSpecOf (withSourceURL url app)) = IngressRefs (AppSpecOf app)"
  "ServiceProfile (AppSpecOf (withSourceURL url app)) = ServiceProfile (AppSpecOf app)"
  by (simp_all add: withSourceURL_def)

definition plainSource :: "ApiTypes.App \<Rightarrow> bool" where
  "plainSource app \<longleftrightarrow> AppType (AppSpecOf app) \<notin> {''helmRepo'', ''helmOCI''}"

lemma sourceErrors_plain: "plainSource app \<Longrightarrow> sourceErrors pol (AppSpecOf app) = []"
  by (simp add: plainSource_def sourceErrors_def registryInfoFromSource_def Let_def split: option.splits)

lemma validateApp_withSourceURL:
  assumes "plainSource app"
  shows "validateApp env loader old (withSourceURL url app) = validateApp env loader old app"
proof -
  have p: "plainSource (withSourceURL url app)" using assms by (simp add: plainSource_def)
  have "validateAppVersion ps (Some (withSourceURL url app)) = validateAppVersion ps (Some app)"
    "imageErrors ps pol (AppSpecOf (withSourceURL url app)) = imageErrors ps pol (AppSpecOf app)"
    "projectForApp cl (withSourceURL url app) tenant = projectForApp cl app tenant"
    "validateServicePolicy cl (withSourceURL url app) pr = validateServicePolicy cl app pr"
    "validateConfigRefs cl (withSourceURL url app) tenant = validateConfigRefs cl app tenant"
    "validateSecretRefs cl (withSourceURL url app) tenant = validateSecretRefs cl app tenant"
    "validateIngressRefs cl (withSourceURL url app) tenant = validateIngressRefs cl app tenant" for ps pol cl tenant pr
    by (simp_all add: validateAppVersion_def imageErrors_def projectForApp_def validateServicePolicy_def
        validateConfigRefs_def validateSecretRefs_def validateIngressRefs_def Let_def cong: option.case_cong)
  moreover from this have "validateRegistryPolicy ps loader (withSourceURL url app) = validateRegistryPolicy ps loader app" for ps
    by (simp add: validateRegistryPolicy_def sourceErrors_plain [OF p] sourceErrors_plain [OF assms]
        cong: option.case_cong sum.case_cong)
  ultimately show ?thesis by (simp add: validateApp_def Let_def split: prod.splits option.splits)
qed

text \<open>
  (C19) The registry policy does not reach what the operator runs.  For an App that is not a
  Helm App the webhooks give the same verdict whatever address its source has, and the
  controller then runs a container from exactly that address: an accepted App can run an
  image of any registry, whatever the registry policy of its namespace allows.
\<close>

theorem policy_misses_the_image_run:
  assumes "plainSource app" "Source (AppSpecOf app) = Some src" "url \<noteq> []"
    and "snd (validateApp wenv (Some (PolicyFor (client wenv))) old app) = []"
    and "quietEnv env" "appliesFields env" "distinct (map fst (cs_Deployments st))"
    and "cs_Apps st req = Some obj" "ao_App obj = withSourceURL url app" "appKeyOf app = req"
  shows "snd (validateApp wenv (Some (PolicyFor (client wenv))) old (ao_App obj)) = []
    \<and> (\<exists>st' d. App_Reconcile env req st = (st', None) \<and> map_of (cs_Deployments st') req = Some d
         \<and> d_Image d = (if SourceRef src = [] then url else url @ '':'' @ SourceRef src))"
proof -
  have "appKeyOf (ao_App obj) = req" using assms(9,10) by (simp add: appKeyOf_def)
  then obtain st' where st': "App_Reconcile env req st = (st', None)"
    "map_of (cs_Deployments st') req =
      Some (ce_Merge env (map_of (cs_Deployments st) req) (desiredDeployment (ao_App obj)))"
    by (rule App_Reconcile_quiet [OF assms(5,8) _ assms(7)])
  have "d_Image (ce_Merge env (map_of (cs_Deployments st) req) (desiredDeployment (ao_App obj)))
      = resolveAppImage (Some (withSourceURL url app))"
    using assms(6,9) by (simp add: appliesFields_def Let_def desiredDeployment_fields)
  then show ?thesis
    using st' assms(2,3,4,9) validateApp_withSourceURL [OF assms(1)] by (simp add: resolveAppImage_def Let_def)
qed

definition exRawApp :: ApiTypes.App where
  "exRawApp = \<lparr> AppMeta = meta3 ''shop'' ''acme'', AppSpecOf = exAppSpec\<lparr> Image := ''ghcr.acme.io/web'',
     Source := Some \<lparr>SourceURL = ''ghcr.acme.io/web'', SourceChart = [], SourceRef = ''1.0''\<rparr> \<rparr> \<rparr>"

definition exRawObject :: "unit Controllers.app_object" where
  "exRawObject = \<lparr>ao_App = withSourceURL ''evil.example/miner'' exRawApp, ao_Generation = 1,
     ao_Status = \<lparr>st_Revision = [], st_Sync = [], st_URLs = [], st_AvailableReplicas = 0, st_ObservedGeneration = 0,
       st_Conditions = ()\<rparr>\<rparr>"

theorem policy_misses_the_image_run_witness:
  "snd (validateApp exPolicyEnv (Some (PolicyFor (client exPolicyEnv))) None (ao_App exRawObject)) = []
    \<and> PolicyFor (client exPolicyEnv) (Namespace (AppMeta exRawApp)) = Inr (Some exPolicy)
    \<and> \<not> AllowsRegistry (Some exPolicy) ''evil.example''
    \<and> (\<exists>st' d. App_Reconcile exCtlEnv (appKeyOf exRawApp) \<lparr>cs_Apps = [appKeyOf exRawApp \<mapsto> exRawObject], cs_Deployments = []\<rparr> = (st', None)
         \<and> map_of (cs_Deployments st') (appKeyOf exRawApp) = Some d \<and> d_Image d = ''evil.example/miner:1.0'')"
proof -
  have a: "snd (validateApp exPolicyEnv (Some (PolicyFor (client exPolicyEnv))) None exRawApp) = []"
    "PolicyFor (client exPolicyEnv) (Namespace (AppMeta exRawApp)) = Inr (Some exPolicy)"
    "\<not> AllowsRegistry (Some exPolicy) ''evil.example''" "plainSource exRawApp"
    by code_simp+
  have s: "Source (AppSpecOf exRawApp) = Some \<lparr>SourceURL = ''ghcr.acme.io/web'', SourceChart = [], SourceRef = ''1.0''\<rparr>"
    by (simp add: exRawApp_def)
  let ?st = "\<lparr>cs_Apps = [appKeyOf exRawApp \<mapsto> exRawObject], cs_Deployments = []\<rparr>"
  have o: "cs_Apps ?st (appKeyOf exRawApp) = Some exRawObject" "distinct (map fst (cs_Deployments ?st))"
    "ao_App exRawObject = withSourceURL ''evil.example/miner'' exRawApp" by (simp_all add: exRawObject_def)
  show ?thesis
    using policy_misses_the_image_run [OF a(4) s _ a(1) exCtl_facts(1,2) o(2,1,3) refl] a(2,3) by simp
qed

end
